(* ===== verification/Prelude.thy ===== *)
theory Prelude
  imports Main "HOL-Library.AList" "HOL-Library.Sublist"
begin

section \<open>Shared vocabulary of the development\<close>

text \<open>
  What every component uses: Python's insertion-ordered dictionaries, results of code that
  may raise, and runs of a machine that keeps an invariant.

  A Python \<open>dict\<close> is an association list. Storing to a present key keeps the entry's
  position and storing to a new key appends it, which is what \<^const>\<open>AList.update\<close> does, so
  the iteration order of \<open>d.values()\<close> and \<open>d.items()\<close> is the order of the list.
  The locale \<open>dictionary\<close> is the interface the stateful components (task table, receipt
  ledger, pairing table, nonce cache, process table, rate limiter) rely on; its only
  interpretation is the association list the model really uses.
\<close>

named_theorems evaluate \<open>equations that compute the concrete runs of the witnesses\<close>
named_theorems dict_laws \<open>lookup after an insertion or a removal\<close>
named_theorems valid_intro \<open>constructors of values that pass the declared field validation\<close>

subsection \<open>Python dictionaries\<close>

type_synonym ('k, 'v) dict = "('k \<times> 'v) list"

definition dget :: "('k, 'v) dict \<Rightarrow> 'k \<Rightarrow> 'v option" where
  "dget d k = map_of d k"

definition dput :: "'k \<Rightarrow> 'v \<Rightarrow> ('k, 'v) dict \<Rightarrow> ('k, 'v) dict" where
  "dput k v d = AList.update k v d"

definition ddel :: "'k \<Rightarrow> ('k, 'v) dict \<Rightarrow> ('k, 'v) dict" where
  "ddel k d = AList.delete k d"

definition dkeys :: "('k, 'v) dict \<Rightarrow> 'k list" where
  "dkeys d = map fst d"

definition dvals :: "('k, 'v) dict \<Rightarrow> 'v list" where
  "dvals d = map snd d"

locale dictionary =
  fixes get :: "'m \<Rightarrow> 'k \<Rightarrow> 'v option"
    and put :: "'k \<Rightarrow> 'v \<Rightarrow> 'm \<Rightarrow> 'm"
    and del :: "'k \<Rightarrow> 'm \<Rightarrow> 'm"
    and emp :: 'm
  assumes get_emp: "get emp k = None"
    and get_put: "get (put k v m) k' = (if k' = k then Some v else get m k')"
    and get_del: "get (del k m) k' = (if k' = k then None else get m k')"
begin

lemma get_put_same: "get (put k v m) k = Some v"
  by (simp add: get_put)

lemma get_put_other: "k' \<noteq> k \<Longrightarrow> get (put k v m) k' = get m k'"
  by (simp add: get_put)

lemma get_del_other: "k' \<noteq> k \<Longrightarrow> get (del k m) k' = get m k'"
  by (simp add: get_del)

lemma get_del_SomeD: "get (del k m) k' = Some v \<Longrightarrow> get m k' = Some v"
  by (simp add: get_del split: if_splits)

lemma all_put:
  assumes "\<And>k' v'. get m k' = Some v' \<Longrightarrow> Q k' v'" and "Q k v"
    and "get (put k v m) k' = Some v'"
  shows "Q k' v'"
  using assms by (auto simp: get_put split: if_splits)

lemma all_del:
  assumes "\<And>k' v'. get m k' = Some v' \<Longrightarrow> Q k' v'" and "get (del k m) k' = Some v'"
  shows "Q k' v'"
  using assms by (auto simp: get_del split: if_splits)

lemma put_get_id: "get m k = Some v \<Longrightarrow> get (put k v m) k' = get m k'"
  by (simp add: get_put)

end

interpretation pydict: dictionary dget dput ddel "[]"
  by unfold_locales (simp_all add: dget_def dput_def ddel_def update_conv' delete_conv')

lemmas [dict_laws] = pydict.get_emp pydict.get_put pydict.get_del

lemma distinct_dkeys_dput [simp]: "distinct (dkeys d) \<Longrightarrow> distinct (dkeys (dput k v d))"
  by (simp add: dkeys_def dput_def distinct_update)

lemma distinct_dkeys_ddel [simp]: "distinct (dkeys d) \<Longrightarrow> distinct (dkeys (ddel k d))"
  by (simp add: dkeys_def ddel_def distinct_delete)

lemma in_dvals_iff: "distinct (dkeys d) \<Longrightarrow> v \<in> set (dvals d) \<longleftrightarrow> (\<exists>k. dget d k = Some v)"
  by (force simp: dvals_def dget_def dkeys_def dest: map_of_SomeD)

lemma dget_Some_in: "dget d k = Some v \<Longrightarrow> (k, v) \<in> set d"
  by (simp add: dget_def map_of_SomeD)

lemma in_dget_iff: "distinct (dkeys d) \<Longrightarrow> (k, v) \<in> set d \<longleftrightarrow> dget d k = Some v"
  by (simp add: dget_def dkeys_def)

lemma dget_None_iff: "dget d k = None \<longleftrightarrow> k \<notin> set (dkeys d)"
  by (simp add: dget_def dkeys_def map_of_eq_None_iff)

text \<open>The comprehension \<open>{f(x): x for x in xs}\<close>: with distinct keys, an index of \<open>xs\<close>.\<close>

definition dict_by :: "('v \<Rightarrow> 'k) \<Rightarrow> 'v list \<Rightarrow> ('k, 'v) dict" where
  "dict_by f xs = foldl (\<lambda>d x. dput (f x) x d) [] xs"

lemma dict_by_iff:
  "distinct (map f xs) \<Longrightarrow> dget (dict_by f xs) k = Some x \<longleftrightarrow> x \<in> set xs \<and> f x = k"
proof (induction xs rule: rev_induct)
  case (snoc y ys)
  then have "f y \<notin> f ` set ys" by simp
  then have "f x \<noteq> f y" if "x \<in> set ys" using that by (metis imageI)
  with snoc show ?case by (auto simp: dict_by_def dict_laws)
qed (simp add: dict_by_def dict_laws)

subsection \<open>Results of code that may raise\<close>

text \<open>A call either raises (\<^const>\<open>Inl\<close>, with the exception) or returns (\<^const>\<open>Inr\<close>).\<close>

definition rbind :: "'e + 'a \<Rightarrow> ('a \<Rightarrow> 'e + 'b) \<Rightarrow> 'e + 'b" where
  "rbind r f = (case r of Inl e \<Rightarrow> Inl e | Inr x \<Rightarrow> f x)"

lemma rbind_simps [simp]:
  "rbind (Inl e) f = Inl e"
  "rbind (Inr x) f = f x"
  by (simp_all add: rbind_def)

lemma rbind_Inr_iff: "rbind r f = Inr y \<longleftrightarrow> (\<exists>x. r = Inr x \<and> f x = Inr y)"
  by (cases r) simp_all

lemma rbind_Inl_iff: "rbind r f = Inl e \<longleftrightarrow> r = Inl e \<or> (\<exists>x. r = Inr x \<and> f x = Inl e)"
  by (cases r) auto

definition guard :: "bool \<Rightarrow> 'e \<Rightarrow> 'e + unit" where
  "guard b e = (if b then Inr () else Inl e)"

lemma guard_simps [simp]:
  "guard True e = Inr ()"
  "guard False e = Inl e"
  by (simp_all add: guard_def)

lemma guard_Inr_iff: "guard b e = Inr u \<longleftrightarrow> b"
  by (simp add: guard_def)

subsection \<open>Machines and their runs\<close>

text \<open>
  Several components are machines: a state and a total step function over a type of
  operations. The contract is that each step keeps the invariant and that it only moves the
  state along a given preorder (histories only grow, consumed codes stay consumed); the
  client lemmas say the same of every run.
\<close>

locale invariant_machine =
  fixes step :: "'s \<Rightarrow> 'o \<Rightarrow> 's"
    and inv :: "'s \<Rightarrow> bool"
    and le :: "'s \<Rightarrow> 's \<Rightarrow> bool"
  assumes step_inv: "inv s \<Longrightarrow> inv (step s x)"
    and step_le: "inv s \<Longrightarrow> le s (step s x)"
    and le_refl: "le s s"
    and le_trans: "le s t \<Longrightarrow> le t u \<Longrightarrow> le s u"
begin

lemma run_inv: "inv s \<Longrightarrow> inv (foldl step s xs)"
  by (induction xs arbitrary: s) (simp_all add: step_inv)

lemma run_le: "inv s \<Longrightarrow> le s (foldl step s xs)"
proof (induction xs arbitrary: s)
  case Nil
  then show ?case by (simp add: le_refl)
next
  case (Cons x xs)
  then have "le (step s x) (foldl step (step s x) xs)" by (simp add: step_inv)
  with step_le [OF Cons.prems] show ?case by (auto intro: le_trans)
qed

lemma run_split_le:
  assumes "inv s"
  shows "le (foldl step s xs) (foldl step s (xs @ ys))"
  using run_le [OF run_inv [OF assms]] by simp

end

subsection \<open>Lists\<close>

lemma successively_snoc:
  "successively R (xs @ [x]) \<longleftrightarrow> successively R xs \<and> (xs = [] \<or> R (last xs) x)"
  by (auto simp: successively_append_iff)

lemma map_upt_snoc: "map f [0..<Suc n] = map f [0..<n] @ [f n]"
  by simp

lemma foldl_prefix_stable:
  assumes "\<And>s x. f s = f (step s x)"
  shows "f (foldl step s xs) = f s"
  using assms by (induction xs arbitrary: s) simp_all

end
