(* ===== verification/PyText.thy ===== *)
theory PyText
  imports Prelude "HOL-Library.Word"
begin

section \<open>Python text, bytes and UUIDs\<close>

text \<open>
  A Python \<open>str\<close> is a sequence of Unicode code points, so the model of one is a list of
  natural numbers and \<^const>\<open>length\<close> counts what \<open>len\<close> counts. A literal of the source is
  written \<open>str ''...''\<close>. This theory holds the string operations the program uses
  (\<open>split\<close>, \<open>strip\<close>, \<open>in\<close>, \<open>replace\<close>, \<open>join\<close>, \<open>encode\<close>, decimal
  printing) and the canonical text form of a UUID, all computed exactly.

  The tables of the Unicode database and the cryptographic digests are data of the
  interpreter, not of this program: they are the fields of the record \<open>platform\<close>, a
  parameter of every definition that uses one.
\<close>

type_synonym ustr = "nat list"
type_synonym byte = "8 word"
type_synonym uuid = "128 word"
type_synonym time = int \<comment> \<open>an aware \<open>datetime\<close>, in microseconds of UTC\<close>

definition str :: "string \<Rightarrow> ustr" where
  "str s = map of_char s"

lemma str_eq_iff [simp]: "str a = str b \<longleftrightarrow> a = b"
  by (simp add: str_def inj_map_eq_map inj_on_def)

lemma str_append: "str (a @ b) = str a @ str b"
  by (simp add: str_def)

lemma str_Nil [simp]: "str [] = []"
  by (simp add: str_def)

lemma str_eq_Nil_iff [simp]: "str a = [] \<longleftrightarrow> a = []"
  by (simp add: str_def)

lemma length_str [simp]: "length (str a) = length a"
  by (simp add: str_def)

record platform =
  pf_uuid5 :: "ustr \<Rightarrow> uuid"
  pf_sha256 :: "byte list \<Rightarrow> ustr"
  pf_hmac_sha256 :: "byte list \<Rightarrow> byte list \<Rightarrow> ustr"
  pf_isoformat :: "time \<Rightarrow> ustr"
  pf_json_time :: "time \<Rightarrow> ustr"
  pf_casefold :: "nat \<Rightarrow> ustr"
  pf_upper :: "nat \<Rightarrow> ustr"
  pf_isalnum :: "nat \<Rightarrow> bool"
  pf_nfkc :: "ustr \<Rightarrow> ustr"

text \<open>
  \<open>pf_uuid5\<close> is \<open>uuid5(NAMESPACE_URL, name)\<close>, \<open>pf_sha256\<close> and \<open>pf_hmac_sha256\<close> give
  hexadecimal digests, \<open>pf_casefold\<close> and \<open>pf_upper\<close> are the full case mappings of one code
  point, \<open>pf_isoformat\<close> is \<open>datetime.isoformat\<close>, \<open>pf_json_time\<close> is the text pydantic writes
  for a \<open>datetime\<close> in JSON, \<open>pf_nfkc\<close> is \<open>unicodedata.normalize("NFKC", \<dots>)\<close>.
\<close>

text \<open>
  What the program relies on: the digests are 64 lower-case hexadecimal digits.
\<close>

definition hex64 :: "ustr \<Rightarrow> bool" where
  "hex64 s \<longleftrightarrow> length s = 64 \<and> list_all (\<lambda>c. 48 \<le> c \<and> c \<le> 57 \<or> 97 \<le> c \<and> c \<le> 102) s"

definition digests_ok :: "platform \<Rightarrow> bool" where
  "digests_ok P \<longleftrightarrow> (\<forall>b. hex64 (pf_sha256 P b)) \<and> (\<forall>k b. hex64 (pf_hmac_sha256 P k b))"

subsection \<open>White space and stripping\<close>

text \<open>The 29 code points for which \<open>str.isspace\<close> (and \<open>\s\<close> of a \<open>str\<close> pattern) holds.\<close>

definition is_space :: "nat \<Rightarrow> bool" where
  "is_space c \<longleftrightarrow>
     9 \<le> c \<and> c \<le> 13 \<or> 28 \<le> c \<and> c \<le> 32 \<or> c = 133 \<or> c = 160 \<or> c = 5760 \<or>
     8192 \<le> c \<and> c \<le> 8202 \<or> c = 8232 \<or> c = 8233 \<or> c = 8239 \<or> c = 8287 \<or> c = 12288"

definition lstrip_by :: "(nat \<Rightarrow> bool) \<Rightarrow> ustr \<Rightarrow> ustr" where
  "lstrip_by p s = dropWhile p s"

definition rstrip_by :: "(nat \<Rightarrow> bool) \<Rightarrow> ustr \<Rightarrow> ustr" where
  "rstrip_by p s = rev (dropWhile p (rev s))"

definition strip_by :: "(nat \<Rightarrow> bool) \<Rightarrow> ustr \<Rightarrow> ustr" where
  "strip_by p s = rstrip_by p (lstrip_by p s)"

abbreviation strip :: "ustr \<Rightarrow> ustr" where
  "strip \<equiv> strip_by is_space"

abbreviation rstrip :: "ustr \<Rightarrow> ustr" where
  "rstrip \<equiv> rstrip_by is_space"

abbreviation strip_chars :: "string \<Rightarrow> ustr \<Rightarrow> ustr" where
  "strip_chars cs \<equiv> strip_by (\<lambda>c. c \<in> set (str cs))"

abbreviation rstrip_chars :: "string \<Rightarrow> ustr \<Rightarrow> ustr" where
  "rstrip_chars cs \<equiv> rstrip_by (\<lambda>c. c \<in> set (str cs))"

lemma set_rstrip_by: "set (rstrip_by p s) \<subseteq> set s"
  by (auto simp: rstrip_by_def dest: set_dropWhileD)

lemma set_strip_by: "set (strip_by p s) \<subseteq> set s"
  unfolding strip_by_def lstrip_by_def
  by (meson set_rstrip_by subset_iff set_dropWhileD)

lemma length_rstrip_by: "length (rstrip_by p s) \<le> length s"
  by (simp add: rstrip_by_def) (metis length_dropWhile_le length_rev)

lemma length_strip_by: "length (strip_by p s) \<le> length s"
  unfolding strip_by_def lstrip_by_def
  by (meson length_rstrip_by length_dropWhile_le order_trans)

lemma last_rstrip_by: "rstrip_by p s \<noteq> [] \<Longrightarrow> \<not> p (last (rstrip_by p s))"
  by (simp add: rstrip_by_def last_rev hd_dropWhile)

lemma rstrip_by_prefix: "\<exists>t. s = rstrip_by p s @ t \<and> (\<forall>c\<in>set t. p c)"
proof -
  have "rev s = takeWhile p (rev s) @ dropWhile p (rev s)" by simp
  then have "s = rev (dropWhile p (rev s)) @ rev (takeWhile p (rev s))"
    by (metis rev_append rev_rev_ident)
  moreover have "\<forall>c\<in>set (rev (takeWhile p (rev s))). p c"
    by (auto dest: set_takeWhileD)
  ultimately show ?thesis unfolding rstrip_by_def by blast
qed

lemma hd_strip_by: "strip_by p s \<noteq> [] \<Longrightarrow> \<not> p (hd (strip_by p s))"
proof -
  assume ne: "strip_by p s \<noteq> []"
  obtain t where t: "dropWhile p s = rstrip_by p (dropWhile p s) @ t"
    using rstrip_by_prefix by blast
  then have "hd (dropWhile p s) = hd (strip_by p s)"
    using ne by (metis hd_append2 lstrip_by_def strip_by_def)
  moreover have "dropWhile p s \<noteq> []"
    using ne by (cases "dropWhile p s = []") (simp_all add: strip_by_def lstrip_by_def rstrip_by_def)
  ultimately show ?thesis by (metis hd_dropWhile)
qed

lemma last_strip_by: "strip_by p s \<noteq> [] \<Longrightarrow> \<not> p (last (strip_by p s))"
  by (simp add: strip_by_def last_rstrip_by)

lemma strip_by_eq_self:
  assumes "s \<noteq> []" "\<not> p (hd s)" "\<not> p (last s)"
  shows "strip_by p s = s"
proof -
  have "dropWhile p s = s" using assms by (cases s) auto
  moreover have "dropWhile p (rev s) = rev s" using assms by (cases s rule: rev_cases) auto
  ultimately show ?thesis by (simp add: strip_by_def lstrip_by_def rstrip_by_def)
qed

lemma strip_by_eq_Nil_iff: "strip_by p s = [] \<longleftrightarrow> (\<forall>c\<in>set s. p c)"
proof
  assume "strip_by p s = []"
  then have "rstrip_by p (dropWhile p s) = []" by (simp only: strip_by_def lstrip_by_def)
  moreover obtain t where "dropWhile p s = rstrip_by p (dropWhile p s) @ t" "\<forall>c\<in>set t. p c"
    using rstrip_by_prefix by blast
  ultimately have "\<forall>c\<in>set (dropWhile p s). p c" by (metis append_Nil)
  then have "dropWhile p s = []" by (metis hd_dropWhile hd_in_set)
  then show "\<forall>c\<in>set s. p c" by (simp only: dropWhile_eq_Nil_conv)
next
  assume "\<forall>c\<in>set s. p c"
  then have "dropWhile p s = []" by (simp only: dropWhile_eq_Nil_conv)
  then show "strip_by p s = []"
    by (simp only: strip_by_def lstrip_by_def rstrip_by_def rev.simps dropWhile.simps)
qed

subsection \<open>Searching, splitting, joining, replacing\<close>

fun startswith :: "ustr \<Rightarrow> ustr \<Rightarrow> bool" where
  "startswith [] s = True"
| "startswith (p # ps) [] = False"
| "startswith (p # ps) (c # cs) = (p = c \<and> startswith ps cs)"

fun contains :: "ustr \<Rightarrow> ustr \<Rightarrow> bool" where
  "contains p [] = (p = [])"
| "contains p (c # cs) = (startswith p (c # cs) \<or> contains p cs)"

definition endswith :: "ustr \<Rightarrow> ustr \<Rightarrow> bool" where
  "endswith p s = startswith (rev p) (rev s)"

lemma startswith_iff: "startswith p s \<longleftrightarrow> (\<exists>t. s = p @ t)"
  by (induction p s rule: startswith.induct) auto

lemma contains_iff: "contains p s \<longleftrightarrow> (\<exists>a b. s = a @ p @ b)"
proof (induction p s rule: contains.induct)
  case (2 p c cs)
  have "(\<exists>a b. c # cs = a @ p @ b) \<longleftrightarrow> (\<exists>b. c # cs = p @ b) \<or> (\<exists>a b. cs = a @ p @ b)"
    by (metis append_Cons append_Nil list.sel(3) neq_Nil_conv)
  then show ?case by (simp add: 2 startswith_iff)
qed auto

lemma contains_single [simp]: "contains [c] s \<longleftrightarrow> c \<in> set s"
  by (auto simp: contains_iff in_set_conv_decomp)

lemma endswith_iff: "endswith p s \<longleftrightarrow> (\<exists>t. s = t @ p)"
  by (simp add: endswith_def startswith_iff) (metis rev_append rev_rev_ident)

text \<open>\<open>s.split()\<close>: the maximal runs of non-space code points.\<close>

fun split_ws_aux :: "ustr \<Rightarrow> ustr \<Rightarrow> ustr list" where
  "split_ws_aux w [] = (if w = [] then [] else [w])"
| "split_ws_aux w (c # cs) =
     (if is_space c then (if w = [] then split_ws_aux [] cs else w # split_ws_aux [] cs)
      else split_ws_aux (w @ [c]) cs)"

definition split_ws :: "ustr \<Rightarrow> ustr list" where
  "split_ws s = split_ws_aux [] s"

text \<open>\<open>s.split(c)\<close> for a separator of one code point.\<close>

fun split_on_aux :: "nat \<Rightarrow> ustr \<Rightarrow> ustr \<Rightarrow> ustr list" where
  "split_on_aux d w [] = [w]"
| "split_on_aux d w (c # cs) =
     (if c = d then w # split_on_aux d [] cs else split_on_aux d (w @ [c]) cs)"

definition split_on :: "nat \<Rightarrow> ustr \<Rightarrow> ustr list" where
  "split_on d s = split_on_aux d [] s"

fun joinw :: "ustr \<Rightarrow> ustr list \<Rightarrow> ustr" where
  "joinw sep [] = []"
| "joinw sep [x] = x"
| "joinw sep (x # y # zs) = x @ sep @ joinw sep (y # zs)"

lemma split_on_aux_no_sep: "d \<notin> set s \<Longrightarrow> split_on_aux d w s = [w @ s]"
  by (induction s arbitrary: w) auto

lemma split_on_no_sep: "d \<notin> set s \<Longrightarrow> split_on d s = [s]"
  by (simp add: split_on_def split_on_aux_no_sep)

text \<open>
  \<open>s.replace(old, new)\<close> for a non-empty \<open>old\<close>, the only use in the program: the leftmost
  occurrence is replaced and the scan goes on after it.
\<close>

function replace_all :: "ustr \<Rightarrow> ustr \<Rightarrow> ustr \<Rightarrow> ustr" where
  "replace_all old new s =
     (case s of
        [] \<Rightarrow> []
      | c # cs \<Rightarrow>
          if old \<noteq> [] \<and> startswith old s then new @ replace_all old new (drop (length old) s)
          else c # replace_all old new cs)"
  by pat_completeness auto
termination
  by (relation "measure (\<lambda>(old, new, s). length s)") auto

declare replace_all.simps [simp del]

lemma replace_all_Nil [simp]: "replace_all old new [] = []"
  by (simp add: replace_all.simps)

lemma replace_all_Cons:
  "replace_all old new (c # cs) =
     (if old \<noteq> [] \<and> startswith old (c # cs)
      then new @ replace_all old new (drop (length old) (c # cs))
      else c # replace_all old new cs)"
  by (simp add: replace_all.simps [of old new "c # cs"])

lemma replace_single_notin: "x \<notin> set new \<Longrightarrow> x \<notin> set (replace_all [x] new s)"
  by (induction s) (auto simp: replace_all_Cons startswith_iff)

lemma set_replace_all: "set (replace_all old new s) \<subseteq> set new \<union> set s"
proof (induction old new s rule: replace_all.induct)
  case (1 old new s)
  show ?case
  proof (cases s)
    case (Cons c cs)
    show ?thesis
    proof (cases "old \<noteq> [] \<and> startswith old s")
      case True
      have "set (drop (length old) s) \<subseteq> set s" by (rule set_drop_subset)
      with "1"(1) [OF Cons] True Cons show ?thesis by (auto simp: replace_all_Cons)
    next
      case False
      with "1"(2) [OF Cons] Cons show ?thesis by (auto simp: replace_all_Cons)
    qed
  qed simp
qed

subsection \<open>Case mappings over a string\<close>

definition casefold :: "platform \<Rightarrow> ustr \<Rightarrow> ustr" where
  "casefold P s = concat (map (pf_casefold P) s)"

definition upper :: "platform \<Rightarrow> ustr \<Rightarrow> ustr" where
  "upper P s = concat (map (pf_upper P) s)"

subsection \<open>Decimal and hexadecimal printing\<close>

definition hex_digit :: "nat \<Rightarrow> nat" where
  "hex_digit d = (if d < 10 then 48 + d else 87 + d)"

fun dec_nat :: "nat \<Rightarrow> ustr" where
  "dec_nat n = (if n < 10 then [48 + n] else dec_nat (n div 10) @ [48 + n mod 10])"

declare dec_nat.simps [simp del]

definition dec_int :: "int \<Rightarrow> ustr" where
  "dec_int i = (if i < 0 then 45 # dec_nat (nat (- i)) else dec_nat (nat i))"

text \<open>The last \<open>k\<close> hexadecimal digits of \<open>n\<close>, most significant first.\<close>

fun hex_fixed :: "nat \<Rightarrow> nat \<Rightarrow> ustr" where
  "hex_fixed 0 n = []"
| "hex_fixed (Suc k) n = hex_fixed k (n div 16) @ [hex_digit (n mod 16)]"

definition hex_value :: "nat \<Rightarrow> nat option" where
  "hex_value c =
     (if 48 \<le> c \<and> c \<le> 57 then Some (c - 48)
      else if 97 \<le> c \<and> c \<le> 102 then Some (c - 87)
      else if 65 \<le> c \<and> c \<le> 70 then Some (c - 55)
      else None)"

fun hex_read :: "nat \<Rightarrow> ustr \<Rightarrow> nat option" where
  "hex_read acc [] = Some acc"
| "hex_read acc (c # cs) =
     (case hex_value c of None \<Rightarrow> None | Some d \<Rightarrow> hex_read (16 * acc + d) cs)"

lemma hex_value_digit: "d < 16 \<Longrightarrow> hex_value (hex_digit d) = Some d"
  by (auto simp: hex_value_def hex_digit_def)

lemma length_hex_fixed [simp]: "length (hex_fixed k n) = k"
  by (induction k arbitrary: n) simp_all

lemma hex_read_append: "hex_read acc (a @ b) = Option.bind (hex_read acc a) (\<lambda>m. hex_read m b)"
  by (induction a arbitrary: acc) (simp_all split: option.splits)

lemma hex_read_fixed: "hex_read acc (hex_fixed k n) = Some (acc * 16 ^ k + n mod 16 ^ k)"
proof (induction k arbitrary: n)
  case (Suc k)
  have "n mod 16 ^ Suc k = 16 * (n div 16 mod 16 ^ k) + n mod 16"
    by (simp add: mod_mult2_eq)
  then show ?case
    by (simp add: Suc hex_read_append hex_value_digit algebra_simps)
qed simp

lemma hex_fixed_digits: "c \<in> set (hex_fixed k n) \<Longrightarrow> 48 \<le> c \<and> c \<le> 57 \<or> 97 \<le> c \<and> c \<le> 102"
proof (induction k arbitrary: n)
  case (Suc k)
  have "d < 16 \<Longrightarrow> 48 \<le> hex_digit d \<and> hex_digit d \<le> 57 \<or> 97 \<le> hex_digit d \<and> hex_digit d \<le> 102" for d
    by (simp add: hex_digit_def)
  from this [of "n mod 16"] Suc show ?case by auto
qed simp

lemma dec_nat_digits: "c \<in> set (dec_nat n) \<Longrightarrow> 48 \<le> c \<and> c \<le> 57"
proof (induction n rule: dec_nat.induct)
  case (1 n)
  then show ?case by (cases "n < 10") (auto simp: dec_nat.simps [of n])
qed

fun dec_read :: "nat \<Rightarrow> ustr \<Rightarrow> nat" where
  "dec_read acc [] = acc"
| "dec_read acc (c # cs) = dec_read (10 * acc + (c - 48)) cs"

lemma dec_read_append: "dec_read acc (a @ b) = dec_read (dec_read acc a) b"
  by (induction a arbitrary: acc) simp_all

lemma dec_read_dec_nat: "dec_read 0 (dec_nat n) = n"
proof (induction n rule: dec_nat.induct)
  case (1 n)
  then show ?case
    by (cases "n < 10") (simp_all add: dec_nat.simps [of n] dec_read_append)
qed

lemma dec_nat_inject [simp]: "dec_nat m = dec_nat n \<longleftrightarrow> m = n"
  by (metis dec_read_dec_nat)

lemma dec_nat_ne_Nil [simp]: "dec_nat n \<noteq> []"
  by (subst dec_nat.simps) simp

subsection \<open>UUIDs\<close>

text \<open>
  \<open>str(uuid)\<close>: 32 lower-case hexadecimal digits in groups of 8, 4, 4, 4 and 12.
  \<open>uuid_parse\<close> is \<open>UUID(text)\<close>: the \<open>urn:\<close> and \<open>uuid:\<close> prefixes, the braces and the hyphens
  are dropped, and what is left must be 32 hexadecimal digits (the exotic numerals that
  \<open>int(text, 16)\<close> also reads, with underscores, signs or non-ASCII digits, are rejected here).
\<close>

definition uuid_str :: "uuid \<Rightarrow> ustr" where
  "uuid_str u =
     (let h = hex_fixed 32 (unat u)
      in take 8 h @ 45 # take 4 (drop 8 h) @ 45 # take 4 (drop 12 h) @ 45 # take 4 (drop 16 h)
         @ 45 # drop 20 h)"

definition uuid_parse :: "ustr \<Rightarrow> uuid option" where
  "uuid_parse s =
     (let h = replace_all (str ''-'') []
                (strip_chars ''{}'' (replace_all (str ''uuid:'') [] (replace_all (str ''urn:'') [] s)))
      in if length h = 32 then map_option of_nat (hex_read 0 h) else None)"

lemma replace_all_id:
  assumes "\<not> contains old s" "old \<noteq> []"
  shows "replace_all old new s = s"
  using assms by (induction s) (auto simp: replace_all_Cons)

lemma contains_subset: "contains p s \<Longrightarrow> set p \<subseteq> set s"
  by (auto simp: contains_iff)

lemma replace_single_filter: "replace_all [x] [] s = filter (\<lambda>c. c \<noteq> x) s"
  by (induction s) (auto simp: replace_all_Cons startswith_iff)

lemma filter_hyphen_hex: "(\<And>c. c \<in> set h \<Longrightarrow> c \<noteq> 45) \<Longrightarrow> filter (\<lambda>c. c \<noteq> (45::nat)) h = h"
  by (simp add: filter_id_conv)

lemma uuid_str_chars:
  "c \<in> set (uuid_str u) \<Longrightarrow> c = 45 \<or> 48 \<le> c \<and> c \<le> 57 \<or> 97 \<le> c \<and> c \<le> 102"
  by (auto simp: uuid_str_def Let_def dest!: in_set_takeD in_set_dropD hex_fixed_digits)

lemma uuid_groups:
  "take 8 h @ take 4 (drop 8 h) @ take 4 (drop 12 h) @ take 4 (drop 16 h) @ drop 20 h = h"
proof -
  have "take 4 (drop 16 h) @ drop 20 h = drop 16 h"
    using append_take_drop_id [of 4 "drop 16 h"] by (simp only: drop_drop) simp
  moreover have "take 4 (drop 12 h) @ drop 16 h = drop 12 h"
    using append_take_drop_id [of 4 "drop 12 h"] by (simp only: drop_drop) simp
  moreover have "take 4 (drop 8 h) @ drop 12 h = drop 8 h"
    using append_take_drop_id [of 4 "drop 8 h"] by (simp only: drop_drop) simp
  ultimately show ?thesis by (simp only: append_take_drop_id)
qed

lemma uuid_str_filter: "filter (\<lambda>c. c \<noteq> 45) (uuid_str u) = hex_fixed 32 (unat u)"
proof -
  define h where "h = hex_fixed 32 (unat u)"
  have all: "\<And>c. c \<in> set h \<Longrightarrow> c \<noteq> 45" using hex_fixed_digits unfolding h_def by fastforce
  have f: "filter (\<lambda>c. c \<noteq> 45) (take a (drop b h)) = take a (drop b h)" for a b
    by (intro filter_hyphen_hex all) (meson in_set_dropD in_set_takeD)
  have f0: "filter (\<lambda>c. c \<noteq> 45) (take a h) = take a h"
    and f1: "filter (\<lambda>c. c \<noteq> 45) (drop a h) = drop a h" for a
    using f [of a 0] f [of "length h" a] by simp_all
  show ?thesis
    by (simp add: uuid_str_def Let_def f f0 f1 uuid_groups flip: h_def)
qed

lemma length_uuid_str: "length (uuid_str u) = 36"
  by (simp add: uuid_str_def Let_def)

lemma uuid_roundtrip: "uuid_parse (uuid_str u) = Some u"
proof -
  let ?s = "uuid_str u"
  have chars: "\<And>c. c \<in> set ?s \<Longrightarrow> c = 45 \<or> 48 \<le> c \<and> c \<le> 57 \<or> 97 \<le> c \<and> c \<le> 102"
    by (rule uuid_str_chars)
  have n1: "\<not> contains (str ''urn:'') ?s" and n2: "\<not> contains (str ''uuid:'') ?s"
    using chars [of 58] contains_subset by (fastforce simp: str_def)+
  have ne: "?s \<noteq> []" using length_uuid_str [of u] by auto
  have "strip_chars ''{}'' ?s = ?s"
    using ne chars [OF hd_in_set [OF ne]] chars [OF last_in_set [OF ne]]
    by (intro strip_by_eq_self) (auto simp: str_def)
  then have "replace_all (str ''-'') [] (strip_chars ''{}'' (replace_all (str ''uuid:'') []
      (replace_all (str ''urn:'') [] ?s))) = hex_fixed 32 (unat u)"
    by (simp add: replace_all_id n1 n2) (simp add: str_def replace_single_filter uuid_str_filter)
  moreover have "unat u < 2 ^ LENGTH(128)" by (rule unsigned_less)
  ultimately show ?thesis
    by (simp add: uuid_parse_def hex_read_fixed)
qed

lemma uuid_str_inject [simp]: "uuid_str a = uuid_str b \<longleftrightarrow> a = b"
  by (metis option.inject uuid_roundtrip)
subsection \<open>A concrete platform\<close>

text \<open>
  An instance of the parameters for evaluating the model: the Unicode tables restricted to
  ASCII, and a polynomial checksum in the place of the digests.
\<close>

definition checksum :: "nat list \<Rightarrow> nat" where
  "checksum s = foldl (\<lambda>a c. (a * 257 + c + 1) mod 2 ^ 61) 7 s"

definition ascii_platform :: platform where
  "ascii_platform =
     \<lparr>pf_uuid5 = (\<lambda>s. of_nat (checksum s)),
      pf_sha256 = (\<lambda>b. hex_fixed 64 (checksum (map unat b))),
      pf_hmac_sha256 = (\<lambda>k b. hex_fixed 64 (checksum (map unat k @ map unat b))),
      pf_isoformat = dec_int,
      pf_json_time = dec_int,
      pf_casefold = (\<lambda>c. [if 65 \<le> c \<and> c \<le> 90 then c + 32 else c]),
      pf_upper = (\<lambda>c. [if 97 \<le> c \<and> c \<le> 122 then c - 32 else c]),
      pf_isalnum = (\<lambda>c. 48 \<le> c \<and> c \<le> 57 \<or> 65 \<le> c \<and> c \<le> 90 \<or> 97 \<le> c \<and> c \<le> 122),
      pf_nfkc = (\<lambda>s. s)\<rparr>"

lemma hex64_fixed: "hex64 (hex_fixed 64 n)"
  using hex_fixed_digits by (auto simp: hex64_def list_all_iff)

lemma ascii_platform_digests: "digests_ok ascii_platform"
  by (simp add: digests_ok_def ascii_platform_def hex64_fixed)

text \<open>The equations by which the concrete runs of the witnesses are computed; the digests of
  \<open>ascii_platform\<close> are not among them, they stay symbolic.\<close>

lemma ascii_platform_tables:
  "pf_casefold ascii_platform c = [if 65 \<le> c \<and> c \<le> 90 then c + 32 else c]"
  "pf_upper ascii_platform c = [if 97 \<le> c \<and> c \<le> 122 then c - 32 else c]"
  "pf_isalnum ascii_platform c \<longleftrightarrow> 48 \<le> c \<and> c \<le> 57 \<or> 65 \<le> c \<and> c \<le> 90 \<or> 97 \<le> c \<and> c \<le> 122"
  "pf_nfkc ascii_platform s = s"
  by (simp_all add: ascii_platform_def)

lemmas evaluate_text [evaluate] =
  str_def strip_by_def rstrip_by_def lstrip_by_def is_space_def casefold_def upper_def
  split_ws_def split_on_def endswith_def replace_all_Cons ascii_platform_tables

end
