(* ===== verification/PyJson.thy ===== *)
theory PyJson
  imports PyText "HOL-Library.List_Lexorder"
begin

section \<open>Values, UTF-8 and canonical JSON\<close>

text \<open>
  The dynamically typed values the program puts into step parameters and evidence
  attributes, \<open>str(\<dots>)\<close> of such a value, \<open>text.encode("utf-8")\<close>, and
  \<open>json.dumps(value, sort_keys=True, separators=(",", ":"), ensure_ascii=False)\<close>, the canonical
  text that approval hashes and device signatures are computed over.

  The lemmas show that both encodings lose nothing: UTF-8 is injective, and two values
  have the same canonical text exactly when they agree up to the order of dictionary keys.
\<close>

subsection \<open>UTF-8\<close>

text \<open>\<^const>\<open>None\<close> is the \<open>UnicodeEncodeError\<close> of a lone surrogate.\<close>

definition utf8_char :: "nat \<Rightarrow> nat list option" where
  "utf8_char c =
     (if c < 128 then Some [c]
      else if c < 2048 then Some [192 + c div 64, 128 + c mod 64]
      else if 55296 \<le> c \<and> c < 57344 then None
      else if c < 65536 then Some [224 + c div 4096, 128 + c div 64 mod 64, 128 + c mod 64]
      else if c < 1114112 then
        Some [240 + c div 262144, 128 + c div 4096 mod 64, 128 + c div 64 mod 64, 128 + c mod 64]
      else None)"

fun utf8_nats :: "ustr \<Rightarrow> nat list option" where
  "utf8_nats [] = Some []"
| "utf8_nats (c # cs) =
     (case utf8_char c of None \<Rightarrow> None
      | Some bs \<Rightarrow> (case utf8_nats cs of None \<Rightarrow> None | Some rest \<Rightarrow> Some (bs @ rest)))"

definition utf8 :: "ustr \<Rightarrow> byte list option" where
  "utf8 s = map_option (map of_nat) (utf8_nats s)"

lemma utf8_char_bytes: "utf8_char c = Some bs \<Longrightarrow> b \<in> set bs \<Longrightarrow> b < 256"
proof -
  assume u: "utf8_char c = Some bs" "b \<in> set bs"
  have m: "x mod 64 < 64" for x :: nat by simp
  show ?thesis
    using u m [of c] m [of "c div 64"] m [of "c div 4096"]
    by (auto simp: utf8_char_def split: if_splits)
qed

lemma utf8_char_ne_Nil: "utf8_char c = Some bs \<Longrightarrow> bs \<noteq> []"
  by (auto simp: utf8_char_def split: if_splits)

lemma split64: "(c::nat) div 64 = d div 64 \<Longrightarrow> c mod 64 = d mod 64 \<Longrightarrow> c = d"
  by (metis div_mult_mod_eq)

lemma div4096: "(c::nat) div 4096 = c div 64 div 64"
  by (simp add: div_mult2_eq [symmetric])

lemma div262144: "(c::nat) div 262144 = c div 64 div 64 div 64"
  by (simp add: div_mult2_eq [symmetric])

lemma utf8_char_prefix_free:
  assumes "utf8_char c = Some a" "utf8_char d = Some b" "a @ x = b @ y"
  shows "c = d \<and> x = y"
proof -
  have sm: "c < 2048 \<Longrightarrow> c div 64 < 32" "d < 2048 \<Longrightarrow> d div 64 < 32"
    "c < 65536 \<Longrightarrow> c div 4096 < 16" "d < 65536 \<Longrightarrow> d div 4096 < 16"
    by (simp_all add: less_mult_imp_div_less)
  have "c = d"
    using assms sm
    by (auto simp: utf8_char_def div4096 div262144 split: if_splits
        intro!: split64 [of c d] split64 [of "c div 64" "d div 64"]
          split64 [of "c div 64 div 64" "d div 64 div 64"])
  with assms show ?thesis by simp
qed

lemma utf8_nats_bytes: "utf8_nats s = Some bs \<Longrightarrow> b \<in> set bs \<Longrightarrow> b < 256"
  by (induction s arbitrary: bs) (auto split: option.splits dest: utf8_char_bytes)

lemma utf8_nats_inject:
  "utf8_nats s = Some a \<Longrightarrow> utf8_nats t = Some a \<Longrightarrow> s = t"
proof (induction s arbitrary: t a)
  case Nil
  then show ?case by (cases t) (auto split: option.splits dest: utf8_char_ne_Nil)
next
  case (Cons c cs)
  then obtain bs r where r: "utf8_char c = Some bs" "utf8_nats cs = Some r" "a = bs @ r"
    by (auto split: option.splits)
  then have "a \<noteq> []" using utf8_char_ne_Nil by auto
  with Cons.prems(2) obtain d ds where t: "t = d # ds" by (cases t) auto
  with Cons.prems(2) obtain bs' r' where r': "utf8_char d = Some bs'" "utf8_nats ds = Some r'"
    "a = bs' @ r'"
    by (auto split: option.splits)
  have "c = d \<and> r = r'" using utf8_char_prefix_free r r' by metis
  with Cons.IH r r' t show ?case by auto
qed

lemma utf8_inject:
  assumes "utf8 s = Some a" "utf8 t = Some a"
  shows "s = t"
proof -
  from assms obtain m n where m: "utf8_nats s = Some m" "a = map of_nat m"
    and n: "utf8_nats t = Some n" "a = map of_nat n"
    by (auto simp: utf8_def)
  have eq: "(of_nat x :: byte) = of_nat y \<longleftrightarrow> x = y" if "x < 256" "y < 256" for x y
    using that by (simp add: word_of_nat_eq_iff take_bit_nat_eq_self)
  have "m = n"
  proof (rule nth_equalityI)
    show "length m = length n" using m n by (metis length_map)
    fix i assume i: "i < length m"
    then have "(of_nat (m ! i) :: byte) = of_nat (n ! i)"
      using m n by (metis length_map nth_map)
    moreover have "m ! i < 256" "n ! i < 256"
      using i m n \<open>length m = length n\<close> by (auto intro: utf8_nats_bytes)
    ultimately show "m ! i = n ! i" by (simp add: eq)
  qed
  with m n show ?thesis by (auto intro: utf8_nats_inject)
qed

lemma utf8_ascii:
  "\<forall>c\<in>set s. c < 128 \<Longrightarrow> utf8 s = Some (map of_nat s)"
proof -
  assume "\<forall>c\<in>set s. c < 128"
  then have "utf8_nats s = Some s"
    by (induction s) (auto simp: utf8_char_def)
  then show ?thesis by (simp add: utf8_def)
qed

subsection \<open>Scalars\<close>

datatype scalar = PyStr ustr | PyInt int | PyBool bool

type_synonym attributes = "(ustr, scalar) dict"

text \<open>\<open>str(value)\<close>.\<close>

primrec py_str :: "scalar \<Rightarrow> ustr" where
  "py_str (PyStr s) = s"
| "py_str (PyInt i) = dec_int i"
| "py_str (PyBool b) = (if b then str ''True'' else str ''False'')"

text \<open>\<open>str(attributes.get(key, default))\<close> and \<open>str(parameters[key])\<close>.\<close>

definition get_str :: "attributes \<Rightarrow> string \<Rightarrow> ustr \<Rightarrow> ustr" where
  "get_str d k dflt = (case dget d (str k) of None \<Rightarrow> dflt | Some v \<Rightarrow> py_str v)"

subsection \<open>Canonical JSON text\<close>

definition json_short_escape :: "nat \<Rightarrow> nat option" where
  "json_short_escape c =
     (if c = 34 \<or> c = 92 then Some c
      else if c = 8 then Some 98 else if c = 12 then Some 102
      else if c = 10 then Some 110 else if c = 13 then Some 114 else if c = 9 then Some 116
      else None)"

definition json_escape :: "nat \<Rightarrow> ustr" where
  "json_escape c =
     (case json_short_escape c of
        Some e \<Rightarrow> [92, e]
      | None \<Rightarrow>
          if c < 32 then [92, 117, 48, 48, hex_digit (c div 16), hex_digit (c mod 16)] else [c])"

definition json_str :: "ustr \<Rightarrow> ustr" where
  "json_str s = 34 # concat (map json_escape s) @ [34]"

primrec json_scalar :: "scalar \<Rightarrow> ustr" where
  "json_scalar (PyStr s) = json_str s"
| "json_scalar (PyInt i) = dec_int i"
| "json_scalar (PyBool b) = (if b then str ''true'' else str ''false'')"

datatype json =
    JNull
  | JVal scalar
  | JList "json list"
  | JDict "(ustr \<times> json) list"

definition json_pair :: "ustr \<times> ustr \<Rightarrow> ustr" where
  "json_pair kv = json_str (fst kv) @ 58 # snd kv"

text \<open>\<open>json_text\<close> prints a value as it stands and \<open>dumps\<close> sorts every dictionary by its keys.\<close>

primrec json_text :: "json \<Rightarrow> ustr" where
  "json_text JNull = str ''null''"
| "json_text (JVal v) = json_scalar v"
| "json_text (JList xs) = 91 # joinw [44] (map json_text xs) @ [93]"
| "json_text (JDict kvs) = 123 # joinw [44] (map json_pair (map (map_prod id json_text) kvs)) @ [125]"

primrec sort_keys :: "json \<Rightarrow> json" where
  "sort_keys JNull = JNull"
| "sort_keys (JVal v) = JVal v"
| "sort_keys (JList xs) = JList (map sort_keys xs)"
| "sort_keys (JDict kvs) = JDict (sort_key fst (map (map_prod id sort_keys) kvs))"

definition dumps :: "json \<Rightarrow> ustr" where
  "dumps j = json_text (sort_keys j)"

definition json_attributes :: "attributes \<Rightarrow> json" where
  "json_attributes d = JDict (map (map_prod id JVal) d)"

subsection \<open>The canonical text determines the value\<close>

lemma hex_digit_inject: "a < 16 \<Longrightarrow> b < 16 \<Longrightarrow> hex_digit a = hex_digit b \<Longrightarrow> a = b"
  by (metis hex_value_digit option.inject)

lemma json_short_escape_inject:
  "json_short_escape c = Some e \<Longrightarrow> json_short_escape d = Some e \<Longrightarrow> c = d"
  by (simp add: json_short_escape_def split: if_splits)

lemma json_short_escape_SomeD: "json_short_escape c = Some e \<Longrightarrow> e \<noteq> 117"
  by (auto simp: json_short_escape_def split: if_splits)

lemma json_short_escape_NoneD: "json_short_escape c = None \<Longrightarrow> c \<noteq> 92 \<and> c \<noteq> 34"
  by (auto simp: json_short_escape_def split: if_splits)

lemma json_escape_prefix_free:
  assumes "json_escape c @ x = json_escape d @ y"
  shows "c = d \<and> x = y"
proof (cases "json_short_escape c"; cases "json_short_escape d")
  fix e f assume "json_short_escape c = Some e" "json_short_escape d = Some f"
  with assms json_short_escape_inject [of c e d] show ?thesis by (simp add: json_escape_def)
next
  fix e assume "json_short_escape c = Some e" "json_short_escape d = None"
  with assms json_short_escape_SomeD json_short_escape_NoneD [of d] show ?thesis
    by (simp add: json_escape_def split: if_splits)
next
  fix f assume "json_short_escape c = None" "json_short_escape d = Some f"
  with assms json_short_escape_SomeD json_short_escape_NoneD [of c] show ?thesis
    by (simp add: json_escape_def split: if_splits)
next
  assume n: "json_short_escape c = None" "json_short_escape d = None"
  show ?thesis
  proof (cases "c < 32 \<and> d < 32")
    case True
    with assms n have "hex_digit (c div 16) = hex_digit (d div 16)"
      "hex_digit (c mod 16) = hex_digit (d mod 16)" "x = y"
      by (simp_all add: json_escape_def)
    moreover have "c div 16 < 16" "d div 16 < 16" using True by linarith+
    ultimately have "c div 16 = d div 16" "c mod 16 = d mod 16"
      by (simp_all add: hex_digit_inject)
    with \<open>x = y\<close> show ?thesis by (metis div_mult_mod_eq)
  next
    case False
    with assms n json_short_escape_NoneD [of c] json_short_escape_NoneD [of d] show ?thesis
      by (simp add: json_escape_def split: if_splits)
  qed
qed

lemma hd_json_escape: "json_escape c \<noteq> [] \<and> hd (json_escape c) \<noteq> 34"
  using json_short_escape_NoneD [of c] by (simp add: json_escape_def split: option.splits)

lemma json_str_body_prefix_free:
  "concat (map json_escape s) @ 34 # x = concat (map json_escape t) @ 34 # y \<Longrightarrow> s = t \<and> x = y"
proof (induction s arbitrary: t)
  case Nil
  show ?case
  proof (cases t)
    case (Cons d ds)
    with Nil hd_json_escape [of d] show ?thesis by (cases "json_escape d") auto
  qed (use Nil in simp)
next
  case (Cons c cs)
  show ?case
  proof (cases t)
    case Nil
    with Cons.prems hd_json_escape [of c] show ?thesis by (cases "json_escape c") auto
  next
    case (Cons d ds)
    with Cons.prems Cons.IH [of ds] json_escape_prefix_free [of c _ d] show ?thesis by fastforce
  qed
qed

lemma json_str_prefix_free: "json_str s @ x = json_str t @ y \<Longrightarrow> s = t \<and> x = y"
  using json_str_body_prefix_free [of s x t y] by (simp add: json_str_def)

definition follows :: "ustr \<Rightarrow> bool" where
  "follows x \<longleftrightarrow> x = [] \<or> hd x \<in> {44, 93, 125}"

lemma dec_nat_prefix_free:
  assumes "dec_nat m @ x = dec_nat n @ y" "follows x" "follows y"
  shows "m = n \<and> x = y"
proof -
  have cut: "takeWhile (\<lambda>c. 48 \<le> c \<and> c \<le> 57) (dec_nat k @ z) = dec_nat k" if "follows z" for k z
  proof -
    have "takeWhile (\<lambda>c. 48 \<le> c \<and> c \<le> 57) z = []"
      using that by (cases z) (auto simp: follows_def)
    moreover have "\<forall>c\<in>set (dec_nat k). 48 \<le> c \<and> c \<le> 57" using dec_nat_digits by blast
    ultimately show ?thesis by (simp add: takeWhile_append2)
  qed
  have "dec_nat m = dec_nat n" using cut [OF assms(2), of m] cut [OF assms(3), of n] assms(1) by simp
  with assms(1) show ?thesis by simp
qed

lemma hd_dec_nat: "48 \<le> hd (dec_nat n) \<and> hd (dec_nat n) \<le> 57"
  using dec_nat_digits [OF hd_in_set [OF dec_nat_ne_Nil]] .

lemma hd_dec_int: "dec_int i \<noteq> [] \<and> (hd (dec_int i) = 45 \<or> 48 \<le> hd (dec_int i) \<and> hd (dec_int i) \<le> 57)"
  using hd_dec_nat by (simp add: dec_int_def)

lemma hd_dec_int_sign: "hd (dec_int i) = 45 \<longleftrightarrow> i < 0"
  using hd_dec_nat [of "nat i"] by (auto simp: dec_int_def)

lemma append_eq_hd: "a @ x = b @ y \<Longrightarrow> a \<noteq> [] \<Longrightarrow> b \<noteq> [] \<Longrightarrow> hd a = hd b"
  by (metis hd_append2)

lemma dec_int_prefix_free:
  assumes "dec_int i @ x = dec_int j @ y" "follows x" "follows y"
  shows "i = j \<and> x = y"
proof -
  have "hd (dec_int i) = hd (dec_int j)"
    using append_eq_hd [OF assms(1)] hd_dec_int by blast
  then have sign: "i < 0 \<longleftrightarrow> j < 0" using hd_dec_int_sign by metis
  show ?thesis
  proof (cases "i < 0")
    case True
    with sign assms show ?thesis
      using dec_nat_prefix_free [of "nat (- i)" x "nat (- j)" y] by (auto simp: dec_int_def)
  next
    case False
    with sign assms show ?thesis
      using dec_nat_prefix_free [of "nat i" x "nat j" y] by (auto simp: dec_int_def)
  qed
qed

lemma hd_json_scalar:
  "json_scalar v \<noteq> [] \<and>
   hd (json_scalar v) = (case v of PyStr s \<Rightarrow> 34 | PyInt i \<Rightarrow> hd (dec_int i) | PyBool b \<Rightarrow> if b then 116 else 102)"
  by (cases v) (simp_all add: json_str_def hd_dec_int, simp add: str_def)

lemma hd_dec_int_not: "hd (dec_int i) \<notin> {34, 91, 93, 102, 110, 116, 123, 125}"
  using hd_dec_int [of i] by auto

lemma hd_json_scalar_kind:
  "hd (json_scalar v) = 34 \<longleftrightarrow> (\<exists>s. v = PyStr s)"
  "hd (json_scalar v) \<in> {102, 116} \<longleftrightarrow> (\<exists>b. v = PyBool b)"
  "hd (json_scalar v) \<notin> {91, 93, 110, 123, 125}"
proof -
  note h = conjunct2 [OF hd_json_scalar]
  show "hd (json_scalar v) = 34 \<longleftrightarrow> (\<exists>s. v = PyStr s)"
    unfolding h using hd_dec_int_not by (cases v) (simp_all split: if_splits)
  show "hd (json_scalar v) \<in> {102, 116} \<longleftrightarrow> (\<exists>b. v = PyBool b)"
    unfolding h using hd_dec_int_not by (cases v) (simp_all split: if_splits)
  show "hd (json_scalar v) \<notin> {91, 93, 110, 123, 125}"
    unfolding h using hd_dec_int_not by (cases v) (simp_all split: if_splits)
qed

lemma json_scalar_prefix_free:
  assumes "json_scalar v @ x = json_scalar w @ y" "follows x" "follows y"
  shows "v = w \<and> x = y"
proof -
  have hd: "hd (json_scalar v) = hd (json_scalar w)"
    using append_eq_hd [OF assms(1)] hd_json_scalar by blast
  show ?thesis
  proof (cases v)
    case (PyStr s)
    then have "hd (json_scalar w) = 34"
      using hd hd_json_scalar_kind(1) [of v] by simp
    then obtain t where "w = PyStr t" unfolding hd_json_scalar_kind(1) by blast
    with PyStr assms(1) json_str_prefix_free [of s x t y] show ?thesis by simp
  next
    case (PyBool a)
    then have "hd (json_scalar w) \<in> {102, 116}"
      using hd hd_json_scalar_kind(2) [of v] by simp
    then obtain b where "w = PyBool b" unfolding hd_json_scalar_kind(2) by blast
    with PyBool assms(1) show ?thesis by (cases a; cases b) (simp_all add: str_def)
  next
    case (PyInt i)
    then have "hd (json_scalar w) \<notin> {34, 102, 116}"
      using hd hd_dec_int_not [of i] by simp
    then have "\<nexists>t. w = PyStr t" "\<nexists>b. w = PyBool b"
      using hd_json_scalar_kind(1,2) [of w] by simp_all
    then obtain j where "w = PyInt j" by (cases w) simp_all
    with PyInt assms dec_int_prefix_free [of i x j y] show ?thesis by simp
  qed
qed

text \<open>A printer is prefix-free at a value when the text that follows never matters.\<close>

definition prefix_free_at :: "('a \<Rightarrow> ustr) \<Rightarrow> 'a \<Rightarrow> bool" where
  "prefix_free_at f a \<longleftrightarrow>
     (\<forall>b x y. f a @ x = f b @ y \<longrightarrow> follows x \<longrightarrow> follows y \<longrightarrow> a = b \<and> x = y)"

lemma prefix_free_atD:
  "prefix_free_at f a \<Longrightarrow> f a @ x = f b @ y \<Longrightarrow> follows x \<Longrightarrow> follows y \<Longrightarrow> a = b \<and> x = y"
  by (simp add: prefix_free_at_def)

fun items_tail :: "('a \<Rightarrow> ustr) \<Rightarrow> nat \<Rightarrow> 'a list \<Rightarrow> ustr" where
  "items_tail f cl [] = [cl]"
| "items_tail f cl (a # as) = 44 # f a @ items_tail f cl as"

lemma joinw_items: "joinw [44] (map f (a # as)) @ [cl] = f a @ items_tail f cl as"
  by (induction as arbitrary: a) simp_all

lemma follows_items_tail: "cl \<in> {93, 125} \<Longrightarrow> follows (items_tail f cl as @ x)"
  by (cases as) (auto simp: follows_def)

lemma items_tail_inject:
  assumes "\<And>a. a \<in> set as \<Longrightarrow> prefix_free_at f a" "cl \<in> {93, 125}"
    and "items_tail f cl as @ x = items_tail f cl bs @ y"
  shows "as = bs \<and> x = y"
  using assms
proof (induction as arbitrary: bs)
  case Nil
  then show ?case by (cases bs) auto
next
  case (Cons a as)
  show ?case
  proof (cases bs)
    case Nil
    with Cons.prems show ?thesis by auto
  next
    case (Cons b bs')
    with Cons.prems(3) have "f a @ items_tail f cl as @ x = f b @ items_tail f cl bs' @ y" by simp
    then have "a = b \<and> items_tail f cl as @ x = items_tail f cl bs' @ y"
      using Cons.prems(1,2) by (intro prefix_free_atD [of f]) (auto simp: follows_items_tail)
    with Cons Cons.IH Cons.prems show ?thesis by auto
  qed
qed

lemma joinw_inject:
  assumes "\<And>a. a \<in> set as \<Longrightarrow> prefix_free_at f a" "cl \<in> {93, 125}"
    and hd: "\<And>a. f a \<noteq> [] \<and> hd (f a) \<noteq> cl"
    and eq: "joinw [44] (map f as) @ cl # x = joinw [44] (map f bs) @ cl # y"
  shows "as = bs \<and> x = y"
proof (cases as; cases bs)
  assume "as = []" "bs = []"
  with eq show ?thesis by simp
next
  fix b bs' assume "as = []" "bs = b # bs'"
  with eq have "cl # x = f b @ items_tail f cl bs' @ y"
    using joinw_items [of f b bs' cl] by (metis append.assoc append_Cons append_Nil joinw.simps(1) list.map(1))
  with hd [of b] show ?thesis by (metis hd_append2 list.sel(1))
next
  fix a as' assume "as = a # as'" "bs = []"
  with eq have "f a @ items_tail f cl as' @ x = cl # y"
    using joinw_items [of f a as' cl] by (metis append.assoc append_Cons append_Nil joinw.simps(1) list.map(1))
  with hd [of a] show ?thesis by (metis hd_append2 list.sel(1))
next
  fix a as' b bs' assume as: "as = a # as'" and bs: "bs = b # bs'"
  with eq have "f a @ items_tail f cl as' @ x = f b @ items_tail f cl bs' @ y"
    using joinw_items [of f a as' cl] joinw_items [of f b bs' cl]
    by (metis append.assoc append_Cons append_Nil)
  then have "a = b \<and> items_tail f cl as' @ x = items_tail f cl bs' @ y"
    using assms(1,2) as by (intro prefix_free_atD [of f]) (auto simp: follows_items_tail)
  with as bs items_tail_inject [of as' f cl x bs' y] assms(1,2) show ?thesis by auto
qed

lemma hd_json_text:
  "json_text j \<noteq> [] \<and>
   hd (json_text j) = (case j of JNull \<Rightarrow> 110 | JVal v \<Rightarrow> hd (json_scalar v) | JList _ \<Rightarrow> 91 | JDict _ \<Rightarrow> 123)"
  by (cases j) (simp_all add: hd_json_scalar, simp add: str_def)

lemma json_text_kind:
  "hd (json_text j) = 110 \<longleftrightarrow> j = JNull"
  "hd (json_text j) = 91 \<longleftrightarrow> (\<exists>xs. j = JList xs)"
  "hd (json_text j) = 123 \<longleftrightarrow> (\<exists>kvs. j = JDict kvs)"
  "hd (json_text j) \<notin> {93, 125}"
  using hd_json_text [of j] hd_json_scalar_kind(3) by (cases j; fastforce)+

definition json_item :: "ustr \<times> json \<Rightarrow> ustr" where
  "json_item kv = json_str (fst kv) @ 58 # json_text (snd kv)"

lemma json_text_JDict: "json_text (JDict kvs) = 123 # joinw [44] (map json_item kvs) @ [125]"
proof -
  have "json_pair \<circ> map_prod id json_text = json_item"
    by (auto simp: fun_eq_iff json_item_def json_pair_def)
  then show ?thesis by simp
qed

lemma prefix_free_json_item:
  "prefix_free_at json_text v \<Longrightarrow> prefix_free_at json_item (k, v)"
  unfolding prefix_free_at_def
proof (intro allI impI)
  fix b x y
  assume pv: "\<forall>b x y. json_text v @ x = json_text b @ y \<longrightarrow> follows x \<longrightarrow> follows y \<longrightarrow> v = b \<and> x = y"
    and eq: "json_item (k, v) @ x = json_item b @ y" and f: "follows x" "follows y"
  have "k = fst b \<and> 58 # json_text v @ x = 58 # json_text (snd b) @ y"
    using eq by (intro json_str_prefix_free) (simp add: json_item_def)
  with pv f show "(k, v) = b \<and> x = y" by (cases b) auto
qed

lemma json_text_hd_eq: "json_text a @ x = json_text b @ y \<Longrightarrow> hd (json_text a) = hd (json_text b)"
  using append_eq_hd hd_json_text by blast

lemma json_text_prefix_free: "prefix_free_at json_text j"
proof (induction j)
  case JNull
  show ?case
    unfolding prefix_free_at_def
    by (metis append_same_eq json_text_hd_eq json_text_kind(1) same_append_eq)
next
  case (JVal v)
  show ?case
    unfolding prefix_free_at_def
  proof (intro allI impI)
    fix b x y assume eq: "json_text (JVal v) @ x = json_text b @ y" and f: "follows x" "follows y"
    note hd = json_text_hd_eq [OF eq]
    obtain w where "b = JVal w"
      using hd json_text_kind(1-3) [of b] json_text_kind(1-3) [of "JVal v"] by (cases b) auto
    with eq f json_scalar_prefix_free show "JVal v = b \<and> x = y" by simp
  qed
next
  case (JList xs)
  show ?case
    unfolding prefix_free_at_def
  proof (intro allI impI)
    fix b x y assume eq: "json_text (JList xs) @ x = json_text b @ y"
    obtain ys where b: "b = JList ys"
      using json_text_hd_eq [OF eq] json_text_kind(2) by metis
    have "xs = ys \<and> x = y"
    proof (rule joinw_inject [of xs json_text 93])
      show "json_text a \<noteq> [] \<and> hd (json_text a) \<noteq> 93" for a
        using hd_json_text [of a] json_text_kind(4) [of a] by simp
    qed (use JList eq b in auto)
    with b show "JList xs = b \<and> x = y" by simp
  qed
next
  case (JDict kvs)
  show ?case
    unfolding prefix_free_at_def
  proof (intro allI impI)
    fix b x y assume eq: "json_text (JDict kvs) @ x = json_text b @ y"
    obtain kws where b: "b = JDict kws"
      using json_text_hd_eq [OF eq] json_text_kind(3) by metis
    have "kvs = kws \<and> x = y"
    proof (rule joinw_inject [of kvs json_item 125])
      show "prefix_free_at json_item kv" if "kv \<in> set kvs" for kv
        using JDict [of kv "snd kv"] that prefix_free_json_item [of "snd kv" "fst kv"]
        by (cases kv) auto
      show "json_item a \<noteq> [] \<and> hd (json_item a) \<noteq> 125" for a
        by (simp add: json_item_def json_str_def)
    qed (use eq b in \<open>auto simp: json_text_JDict simp del: json_text.simps\<close>)
    with b show "JDict kvs = b \<and> x = y" by simp
  qed
qed

lemma json_text_inject: "json_text a = json_text b \<longleftrightarrow> a = b"
  using prefix_free_atD [OF json_text_prefix_free, of a "[]" b "[]"] by (auto simp: follows_def)

lemma dumps_eq_iff: "dumps a = dumps b \<longleftrightarrow> sort_keys a = sort_keys b"
  by (simp add: dumps_def json_text_inject)

lemma insort_key_map_snd:
  "insort_key fst (map_prod id f z) (map (map_prod id f) zs) = map (map_prod id f) (insort_key fst z zs)"
  by (induction zs) auto

lemma sort_key_map_snd:
  "sort_key fst (map (map_prod id f) kvs) = map (map_prod id f) (sort_key fst kvs)"
proof (induction kvs)
  case (Cons kv kvs)
  show ?case
    by (simp only: list.map sort_key_simps Cons insort_key_map_snd)
qed simp

lemma sort_keys_attributes: "sort_keys (json_attributes d) = json_attributes (sort_key fst d)"
proof -
  have "map_prod id sort_keys \<circ> map_prod id JVal = (map_prod id JVal :: ustr \<times> scalar \<Rightarrow> _)"
    by (auto simp: fun_eq_iff)
  then show ?thesis by (simp add: json_attributes_def sort_key_map_snd)
qed

lemma json_attributes_inject: "json_attributes a = json_attributes b \<longleftrightarrow> a = b"
proof -
  have "inj (map_prod id JVal :: ustr \<times> scalar \<Rightarrow> _)" by (auto simp: inj_def)
  then show ?thesis by (simp add: json_attributes_def inj_map_eq_map)
qed

lemma sort_key_eq_same_dict:
  assumes "sort_key fst a = sort_key fst b" "distinct (dkeys a)" "distinct (dkeys b)"
  shows "dget a = dget b"
proof -
  have "set a = set b" using assms(1) by (metis set_sort)
  then show ?thesis
    using map_of_inject_set [of a b] assms(2,3) by (auto simp: dget_def dkeys_def fun_eq_iff)
qed

subsection \<open>ASCII values\<close>

text \<open>A value whose strings are ASCII prints as ASCII text, which UTF-8 can always encode.\<close>

primrec scalar_strs :: "scalar \<Rightarrow> ustr set" where
  "scalar_strs (PyStr s) = {s}"
| "scalar_strs (PyInt i) = {}"
| "scalar_strs (PyBool b) = {}"

primrec json_strs :: "json \<Rightarrow> ustr set" where
  "json_strs JNull = {}"
| "json_strs (JVal v) = scalar_strs v"
| "json_strs (JList xs) = \<Union> (set (map json_strs xs))"
| "json_strs (JDict kvs) =
     set (map fst kvs) \<union> \<Union> (set (map snd (map (map_prod id json_strs) kvs)))"

lemma json_strs_JDict: "json_strs (JDict kvs) = (\<Union>kv\<in>set kvs. insert (fst kv) (json_strs (snd kv)))"
  by auto

lemma json_strs_sort_keys: "json_strs (sort_keys j) = json_strs j"
proof (induction j)
  case (JDict kvs)
  have "json_strs (sort_keys (JDict kvs)) =
      (\<Union>kv\<in>set kvs. insert (fst kv) (json_strs (sort_keys (snd kv))))"
    unfolding sort_keys.simps json_strs_JDict by simp
  also have "\<dots> = json_strs (JDict kvs)"
    unfolding json_strs_JDict using JDict by (intro SUP_cong) (auto simp: snds.simps)
  finally show ?case .
qed (auto)

lemma json_escape_ascii: "d \<in> set (json_escape c) \<Longrightarrow> c < 128 \<Longrightarrow> d < 128"
  by (auto simp: json_escape_def json_short_escape_def hex_digit_def split: if_splits)

lemma json_str_ascii: "\<forall>c\<in>set s. c < 128 \<Longrightarrow> \<forall>c\<in>set (json_str s). c < 128"
  using json_escape_ascii by (fastforce simp: json_str_def)

lemma dec_int_ascii: "c \<in> set (dec_int i) \<Longrightarrow> c < 128"
  using dec_nat_digits by (fastforce simp: dec_int_def split: if_splits)

lemma joinw_ascii:
  "\<forall>c\<in>set sep. c < 128 \<Longrightarrow> \<forall>x\<in>set xs. \<forall>c\<in>set x. c < (128::nat) \<Longrightarrow> \<forall>c\<in>set (joinw sep xs). c < 128"
  by (induction sep xs rule: joinw.induct) auto

lemma json_text_ascii: "\<forall>s\<in>json_strs j. \<forall>c\<in>set s. c < 128 \<Longrightarrow> \<forall>c\<in>set (json_text j). c < 128"
proof (induction j)
  case (JVal v)
  then show ?case
    using json_str_ascii dec_int_ascii by (cases v) (auto simp: str_def)
next
  case (JList xs)
  then have "\<forall>x\<in>set (map json_text xs). \<forall>c\<in>set x. c < 128" by auto
  from joinw_ascii [OF _ this, of "[44]"] show ?case by simp
next
  case (JDict kvs)
  have "\<forall>x\<in>set (map json_item kvs). \<forall>c\<in>set x. c < 128"
  proof (intro ballI)
    fix x c assume "x \<in> set (map json_item kvs)" "c \<in> set x"
    then obtain k v where kv: "(k, v) \<in> set kvs" "c \<in> set (json_str k) \<or> c = 58 \<or> c \<in> set (json_text v)"
      by (auto simp: json_item_def)
    have strs: "insert k (json_strs v) \<subseteq> json_strs (JDict kvs)"
      unfolding json_strs_JDict using kv(1) by force
    have "\<forall>c\<in>set (json_str k). c < 128" using strs JDict.prems json_str_ascii by blast
    moreover have "\<forall>c\<in>set (json_text v). c < 128"
      by (rule JDict.IH [OF kv(1)]) (use strs JDict.prems in \<open>auto simp: snds.simps\<close>)
    ultimately show "c < 128" using kv(2) by auto
  qed
  from joinw_ascii [OF _ this, of "[44]"] show ?case by (simp add: json_text_JDict del: json_text.simps)
qed (simp add: str_def)

lemma dumps_ascii:
  "\<forall>s\<in>json_strs j. \<forall>c\<in>set s. c < 128 \<Longrightarrow> utf8 (dumps j) = Some (map of_nat (dumps j))"
  unfolding dumps_def by (intro utf8_ascii json_text_ascii) (simp add: json_strs_sort_keys)

lemmas evaluate_utf8 [evaluate] = utf8_def utf8_char_def

end
