(* ===== verification/Domain.thy ===== *)
theory Domain
  imports PyJson Complex_Main
begin

section \<open>The typed contracts of \<^verbatim>\<open>domain/models.py\<close>\<close>

text \<open>
  The enumerations are datatypes with the source's members, the pydantic models are records
  with the source's fields (each with a short prefix, because HOL record fields share one
  name space), and the declared field constraints are the predicates \<open>valid_\<dots>\<close>. The
  program constructs these models itself in many places, and a constraint that failed there
  would raise a \<open>ValidationError\<close>; the component theories prove that none can.

  The exceptions of the whole program are the datatype \<open>exn\<close>, so that each \<open>raise\<close> and each
  \<open>except\<close> clause of the source is visible in the model.
\<close>

subsection \<open>Enumerations\<close>

datatype Channel = VOICE | TEXT

datatype AssuranceLevel = BASIC | STRONG

datatype IntentKind =
    ASSISTANT_IDENTITY | ASSISTANT_CAPABILITIES | ASSISTANT_HELP | DAILY_BRIEFING
  | SYSTEM_HEALTH | LOCAL_WORKSPACE_STATUS | CREATE_NOTE | LAUNCH_NOTEPAD
  | PREPARE_WORKSPACE | PLAY_MEDIA | ATS_READ | ATS_WRITE | FINANCIAL_TRANSFER
  | SOCIAL_PUBLISH | UNKNOWN

datatype RiskTier = INFORMATIONAL | LOW | MEDIUM | HIGH | CRITICAL

datatype PolicyOutcome = ALLOW | REQUIRE_APPROVAL | DENY

datatype TaskState =
    RECEIVED | PLANNED | AWAITING_APPROVAL | APPROVED | EXECUTING | VERIFYING | COMPLETED
  | PARTIALLY_COMPLETED | DENIED | FAILED | ROLLING_BACK | ROLLED_BACK

datatype StepStatus = VERIFIED | SKIPPED | FAILED | ROLLED_BACK

datatype ApprovalStatus = PENDING | APPROVED | REJECTED | EXPIRED | CONSUMED

datatype ApprovalDecisionKind = APPROVE | REJECT

datatype ApprovalChannel = DESKTOP | PHONE

datatype CapabilityStatus = ACTIVE | SIMULATED | PROHIBITED

datatype ApprovalPolicy = NONE | EXPLICIT | PROHIBITED

text \<open>The string values of the members that the program formats into other text.\<close>

primrec IntentKind_value :: "IntentKind \<Rightarrow> ustr" where
  "IntentKind_value ASSISTANT_IDENTITY = str ''assistant_identity''"
| "IntentKind_value ASSISTANT_CAPABILITIES = str ''assistant_capabilities''"
| "IntentKind_value ASSISTANT_HELP = str ''assistant_help''"
| "IntentKind_value DAILY_BRIEFING = str ''daily_briefing''"
| "IntentKind_value SYSTEM_HEALTH = str ''system_health''"
| "IntentKind_value LOCAL_WORKSPACE_STATUS = str ''local_workspace_status''"
| "IntentKind_value CREATE_NOTE = str ''create_note''"
| "IntentKind_value LAUNCH_NOTEPAD = str ''launch_notepad''"
| "IntentKind_value PREPARE_WORKSPACE = str ''prepare_workspace''"
| "IntentKind_value PLAY_MEDIA = str ''play_media''"
| "IntentKind_value ATS_READ = str ''ats_read''"
| "IntentKind_value ATS_WRITE = str ''ats_write''"
| "IntentKind_value FINANCIAL_TRANSFER = str ''financial_transfer''"
| "IntentKind_value SOCIAL_PUBLISH = str ''social_publish''"
| "IntentKind_value UNKNOWN = str ''unknown''"

primrec RiskTier_value :: "RiskTier \<Rightarrow> ustr" where
  "RiskTier_value INFORMATIONAL = str ''informational''"
| "RiskTier_value LOW = str ''low''"
| "RiskTier_value MEDIUM = str ''medium''"
| "RiskTier_value HIGH = str ''high''"
| "RiskTier_value CRITICAL = str ''critical''"

primrec TaskState_value :: "TaskState \<Rightarrow> ustr" where
  "TaskState_value TaskState.RECEIVED = str ''received''"
| "TaskState_value TaskState.PLANNED = str ''planned''"
| "TaskState_value TaskState.AWAITING_APPROVAL = str ''awaiting_approval''"
| "TaskState_value TaskState.APPROVED = str ''approved''"
| "TaskState_value TaskState.EXECUTING = str ''executing''"
| "TaskState_value TaskState.VERIFYING = str ''verifying''"
| "TaskState_value TaskState.COMPLETED = str ''completed''"
| "TaskState_value TaskState.PARTIALLY_COMPLETED = str ''partially_completed''"
| "TaskState_value TaskState.DENIED = str ''denied''"
| "TaskState_value TaskState.FAILED = str ''failed''"
| "TaskState_value TaskState.ROLLING_BACK = str ''rolling_back''"
| "TaskState_value TaskState.ROLLED_BACK = str ''rolled_back''"

lemma RiskTier_value_inject [simp]: "RiskTier_value a = RiskTier_value b \<longleftrightarrow> a = b"
  by (cases a; cases b) simp_all

lemma TaskState_value_inject [simp]: "TaskState_value a = TaskState_value b \<longleftrightarrow> a = b"
  by (cases a; cases b) simp_all

subsection \<open>Exceptions\<close>

datatype exn =
    InvalidNoteError ustr
  | NoteAlreadyExistsError ustr
  | NoteVerificationError ustr
  | ManagedNoteError ustr
  | DeviceCommandError ustr
  | DeviceSignatureError ustr
  | NodeExecutionError ustr
  | LocalWorkspaceEvidenceError ustr
  | InvalidStateTransitionError TaskState TaskState
  | InvalidSessionError ustr
  | TaskNotFoundError ustr
  | ApprovalValidationError ustr
  | RollbackValidationError ustr
  | MobilePairingError ustr
  | HTTPException nat ustr
  | ValueError ustr
  | UnicodeEncodeError ustr
  | OSError ustr
  | KeyError ustr
  | IndexError ustr
  | TypeError ustr
  | RuntimeError ustr

text \<open>\<open>except ManagedNoteError\<close> catches the class and its three subclasses.\<close>

fun is_ManagedNoteError :: "exn \<Rightarrow> bool" where
  "is_ManagedNoteError (InvalidNoteError _) = True"
| "is_ManagedNoteError (NoteAlreadyExistsError _) = True"
| "is_ManagedNoteError (NoteVerificationError _) = True"
| "is_ManagedNoteError (ManagedNoteError _) = True"
| "is_ManagedNoteError _ = False"

fun is_DeviceCommandError :: "exn \<Rightarrow> bool" where
  "is_DeviceCommandError (DeviceCommandError _) = True"
| "is_DeviceCommandError _ = False"

text \<open>\<open>except ValueError\<close>: the class and those of the program's exceptions that extend it.\<close>

fun is_ValueError :: "exn \<Rightarrow> bool" where
  "is_ValueError (ValueError _) = True"
| "is_ValueError (UnicodeEncodeError _) = True"
| "is_ValueError (DeviceSignatureError _) = True"
| "is_ValueError (InvalidSessionError _) = True"
| "is_ValueError (ApprovalValidationError _) = True"
| "is_ValueError (RollbackValidationError _) = True"
| "is_ValueError (MobilePairingError _) = True"
| "is_ValueError _ = False"

text \<open>\<open>str(exc)\<close>.\<close>

fun exn_str :: "exn \<Rightarrow> ustr" where
  "exn_str (InvalidNoteError m) = m"
| "exn_str (NoteAlreadyExistsError m) = m"
| "exn_str (NoteVerificationError m) = m"
| "exn_str (ManagedNoteError m) = m"
| "exn_str (DeviceCommandError m) = m"
| "exn_str (DeviceSignatureError m) = m"
| "exn_str (NodeExecutionError m) = m"
| "exn_str (LocalWorkspaceEvidenceError m) = m"
| "exn_str (InvalidStateTransitionError a b) =
     str ''Invalid Nexuss transition: '' @ TaskState_value a @ str '' -> '' @ TaskState_value b"
| "exn_str (InvalidSessionError m) = m"
| "exn_str (TaskNotFoundError m) = m"
| "exn_str (ApprovalValidationError m) = m"
| "exn_str (RollbackValidationError m) = m"
| "exn_str (MobilePairingError m) = m"
| "exn_str (HTTPException c m) = dec_nat c @ str '': '' @ m"
| "exn_str (ValueError m) = m"
| "exn_str (UnicodeEncodeError m) = m"
| "exn_str (OSError m) = m"
| "exn_str (KeyError m) = m"
| "exn_str (IndexError m) = m"
| "exn_str (TypeError m) = m"
| "exn_str (RuntimeError m) = m"

type_synonym 'a res = "exn + 'a"

subsection \<open>Models\<close>

record TaskRequest =
  rq_request_id :: uuid
  rq_channel :: Channel
  rq_utterance :: ustr
  rq_user_session_id :: uuid
  rq_target_devices :: "ustr list"
  rq_requested_at :: time
  rq_client_context :: attributes

record IdentitySession =
  ses_session_id :: uuid
  ses_authenticated :: bool
  ses_assurance_level :: AssuranceLevel

record Intent =
  in_kind :: IntentKind
  in_normalized_text :: ustr
  in_confidence :: rat
  in_entities :: "(ustr, ustr) dict"

record PlanStep =
  ps_step_id :: uuid
  ps_order :: nat
  ps_capability_id :: ustr
  ps_risk_tier :: RiskTier
  ps_expected_evidence :: "ustr list"
  ps_parameters :: attributes
  ps_reversible :: bool

record TaskPlan =
  pl_plan_id :: uuid
  pl_task_id :: uuid
  pl_intent :: Intent
  pl_steps :: "PlanStep list"

record PolicyDecision =
  pd_step_id :: uuid
  pd_capability_id :: ustr
  pd_outcome :: PolicyOutcome
  pd_reason_code :: ustr
  pd_explanation :: ustr

record EvidenceRecord =
  er_source :: ustr
  er_observed_at :: time
  er_attributes :: attributes

record CapabilityResult =
  cr_step_id :: uuid
  cr_capability_id :: ustr
  cr_status :: StepStatus
  cr_evidence :: "EvidenceRecord list"
  cr_error_code :: "ustr option"

record ActionEvent =
  ev_event_id :: uuid
  ev_sequence :: nat
  ev_state :: TaskState
  ev_event_type :: ustr
  ev_occurred_at :: time
  ev_detail :: ustr

record ApprovalRequest =
  ap_approval_id :: uuid
  ap_task_id :: uuid
  ap_capability_id :: ustr
  ap_status :: ApprovalStatus
  ap_action_title :: ustr
  ap_action_summary :: ustr
  ap_exact_preview :: ustr
  ap_destination_label :: ustr
  ap_payload_sha256 :: ustr
  ap_approval_token :: "ustr option"
  ap_session_id :: uuid
  ap_expires_at :: time
  ap_risk_tier :: RiskTier
  ap_reversible :: bool
  ap_approval_channel :: ApprovalChannel

record ApprovalDecision =
  ad_approval_id :: uuid
  ad_approval_token :: ustr
  ad_payload_sha256 :: ustr
  ad_decision :: ApprovalDecisionKind

record RollbackRequest =
  rb_confirmation :: ustr

definition valid_RollbackRequest :: "RollbackRequest \<Rightarrow> bool" where
  "valid_RollbackRequest r \<longleftrightarrow> rb_confirmation r = str ''undo''"

record CapabilityManifest =
  cm_capability_id :: ustr
  cm_version :: ustr
  cm_title :: ustr
  cm_description :: ustr
  cm_risk_tier :: RiskTier
  cm_approval_policy :: ApprovalPolicy
  cm_reversible :: bool
  cm_execution_mode :: ustr
  cm_status :: CapabilityStatus
  cm_approval_channel :: ApprovalChannel

record ActionReceipt =
  rc_receipt_id :: uuid
  rc_receipt_version :: nat
  rc_task_id :: uuid
  rc_request_id :: uuid
  rc_state :: TaskState
  rc_intent :: Intent
  rc_plan_id :: uuid
  rc_policy_decisions :: "PolicyDecision list"
  rc_results :: "CapabilityResult list"
  rc_events :: "ActionEvent list"
  rc_created_at :: time
  rc_updated_at :: time
  rc_verified :: bool
  rc_reversible :: bool

record TaskView =
  tv_task_id :: uuid
  tv_request_id :: uuid
  tv_user_session_id :: uuid
  tv_state :: TaskState
  tv_intent :: Intent
  tv_plan :: TaskPlan
  tv_policy_decisions :: "PolicyDecision list"
  tv_results :: "CapabilityResult list"
  tv_events :: "ActionEvent list"
  tv_approval :: "ApprovalRequest option"
  tv_created_at :: time
  tv_updated_at :: time

subsection \<open>Field constraints\<close>

text \<open>\<open>CapabilityId\<close>: the pattern \<open>^[a-z0-9_.-]+$\<close>.\<close>

definition capability_char :: "nat \<Rightarrow> bool" where
  "capability_char c \<longleftrightarrow> 97 \<le> c \<and> c \<le> 122 \<or> 48 \<le> c \<and> c \<le> 57 \<or> c = 95 \<or> c = 46 \<or> c = 45"

definition valid_CapabilityId :: "ustr \<Rightarrow> bool" where
  "valid_CapabilityId s \<longleftrightarrow> s \<noteq> [] \<and> list_all capability_char s"

text \<open>The pattern \<open>^[0-9a-f]{64}$\<close> of every SHA-256 field.\<close>

definition valid_sha256 :: "ustr \<Rightarrow> bool" where
  "valid_sha256 s \<longleftrightarrow> hex64 s"

definition valid_token :: "ustr \<Rightarrow> bool" where
  "valid_token s \<longleftrightarrow> 32 \<le> length s \<and> length s \<le> 256"

definition valid_TaskRequest :: "TaskRequest \<Rightarrow> bool" where
  "valid_TaskRequest r \<longleftrightarrow> 1 \<le> length (rq_utterance r) \<and> length (rq_utterance r) \<le> 10000"

definition valid_Intent :: "Intent \<Rightarrow> bool" where
  "valid_Intent i \<longleftrightarrow> 0 \<le> in_confidence i \<and> in_confidence i \<le> 1"

definition valid_PlanStep :: "PlanStep \<Rightarrow> bool" where
  "valid_PlanStep s \<longleftrightarrow>
     1 \<le> ps_order s \<and> valid_CapabilityId (ps_capability_id s) \<and> ps_expected_evidence s \<noteq> []"

definition valid_TaskPlan :: "TaskPlan \<Rightarrow> bool" where
  "valid_TaskPlan p \<longleftrightarrow>
     pl_steps p \<noteq> [] \<and> list_all valid_PlanStep (pl_steps p) \<and> valid_Intent (pl_intent p)"

definition valid_PolicyDecision :: "PolicyDecision \<Rightarrow> bool" where
  "valid_PolicyDecision d \<longleftrightarrow> valid_CapabilityId (pd_capability_id d)"

definition valid_CapabilityResult :: "CapabilityResult \<Rightarrow> bool" where
  "valid_CapabilityResult r \<longleftrightarrow> valid_CapabilityId (cr_capability_id r)"

definition valid_ActionEvent :: "ActionEvent \<Rightarrow> bool" where
  "valid_ActionEvent e \<longleftrightarrow> 1 \<le> ev_sequence e"

definition valid_ApprovalRequest :: "ApprovalRequest \<Rightarrow> bool" where
  "valid_ApprovalRequest a \<longleftrightarrow>
     valid_CapabilityId (ap_capability_id a) \<and> valid_sha256 (ap_payload_sha256 a) \<and>
     (case ap_approval_token a of None \<Rightarrow> True | Some t \<Rightarrow> valid_token t)"

definition valid_ApprovalDecision :: "ApprovalDecision \<Rightarrow> bool" where
  "valid_ApprovalDecision d \<longleftrightarrow>
     valid_token (ad_approval_token d) \<and> valid_sha256 (ad_payload_sha256 d)"

definition valid_CapabilityManifest :: "CapabilityManifest \<Rightarrow> bool" where
  "valid_CapabilityManifest m \<longleftrightarrow> valid_CapabilityId (cm_capability_id m)"

definition valid_ActionReceipt :: "ActionReceipt \<Rightarrow> bool" where
  "valid_ActionReceipt r \<longleftrightarrow>
     1 \<le> rc_receipt_version r \<and> valid_Intent (rc_intent r) \<and>
     list_all valid_PolicyDecision (rc_policy_decisions r) \<and>
     list_all valid_CapabilityResult (rc_results r) \<and> list_all valid_ActionEvent (rc_events r)"

definition valid_TaskView :: "TaskView \<Rightarrow> bool" where
  "valid_TaskView t \<longleftrightarrow>
     valid_Intent (tv_intent t) \<and> valid_TaskPlan (tv_plan t) \<and>
     list_all valid_PolicyDecision (tv_policy_decisions t) \<and>
     list_all valid_CapabilityResult (tv_results t) \<and> list_all valid_ActionEvent (tv_events t) \<and>
     (case tv_approval t of None \<Rightarrow> True | Some a \<Rightarrow> valid_ApprovalRequest a)"

subsection \<open>Constant-time comparison\<close>

text \<open>
  \<open>secrets.compare_digest\<close> and \<open>hmac.compare_digest\<close> on two \<open>str\<close> values raise a
  \<open>TypeError\<close> unless both are ASCII.
\<close>

definition is_ascii :: "ustr \<Rightarrow> bool" where
  "is_ascii s \<longleftrightarrow> list_all (\<lambda>c. c < 128) s"

definition compare_digest :: "ustr \<Rightarrow> ustr \<Rightarrow> bool res" where
  "compare_digest a b =
     (if is_ascii a \<and> is_ascii b then Inr (a = b)
      else Inl (TypeError (str ''comparing strings with non-ASCII characters is not supported'')))"

lemma compare_digest_True: "compare_digest a b = Inr True \<longleftrightarrow> is_ascii a \<and> is_ascii b \<and> a = b"
  by (auto simp: compare_digest_def)

lemma valid_sha256_ascii: "valid_sha256 s \<Longrightarrow> is_ascii s"
  by (auto simp: valid_sha256_def hex64_def is_ascii_def list_all_iff)

end
