(* ===== verification/PyRegex.thy ===== *)
theory PyRegex
  imports PyText
begin

section \<open>The part of Python's \<open>re\<close> that the program uses\<close>

text \<open>
  A backtracking matcher for the constructs of the program's patterns: literals with or
  without \<open>IGNORECASE\<close>, \<open>\s\<close>, \<open>.\<close>, concatenation, alternatives, an optional group,
  greedy and lazy repetition of one character class, capturing groups and the anchors.

  \<open>rx_match\<close> gives every way a pattern matches a prefix of the text, in the order in which
  Python's engine tries them, so its first element is the match that \<open>re.match\<close> returns:
  an alternative prefers its left branch, a greedy repetition its longest run, a lazy one
  its shortest.
\<close>

datatype cls =
    CChar nat     \<comment> \<open>one code point\<close>
  | CNoCase char  \<comment> \<open>an ASCII letter under \<open>IGNORECASE\<close>\<close>
  | CSpace        \<comment> \<open>\<open>\s\<close>\<close>
  | CAny          \<comment> \<open>\<open>.\<close>: anything but a line feed\<close>

text \<open>
  Under \<open>IGNORECASE\<close> an ASCII letter of a \<open>str\<close> pattern matches both its cases, and the letters
  i, k and s also match the four code points U+0130, U+0131, U+212A and U+017F.
\<close>

definition nocase_extra :: "char \<Rightarrow> nat list" where
  "nocase_extra ch =
     (if ch = CHR ''i'' then [304, 305] else if ch = CHR ''k'' then [8490]
      else if ch = CHR ''s'' then [383] else [])"

definition ascii_upper :: "nat \<Rightarrow> nat" where
  "ascii_upper c = (if 97 \<le> c \<and> c \<le> 122 then c - 32 else c)"

primrec cls_has :: "cls \<Rightarrow> nat \<Rightarrow> bool" where
  "cls_has (CChar d) c = (c = d)"
| "cls_has (CNoCase ch) c =
     (c = of_char ch \<or> c = ascii_upper (of_char ch) \<or> c \<in> set (nocase_extra ch))"
| "cls_has CSpace c = is_space c"
| "cls_has CAny c = (c \<noteq> 10)"

datatype rx =
    Eps
  | One cls
  | Cat rx rx
  | Alt rx rx
  | Opt rx          \<comment> \<open>\<open>(?:r)?\<close>\<close>
  | Many cls        \<comment> \<open>\<open>c*\<close>\<close>
  | ManyLazy cls    \<comment> \<open>\<open>c*?\<close>\<close>
  | Group nat rx    \<comment> \<open>\<open>(?P<k>r)\<close>\<close>
  | AtEnd           \<comment> \<open>\<open>$\<close>: at the end, or before a final line feed\<close>

type_synonym groups = "(nat \<times> ustr) list"

fun many_greedy :: "cls \<Rightarrow> ustr \<Rightarrow> ustr list" where
  "many_greedy k [] = [[]]"
| "many_greedy k (c # cs) = (if cls_has k c then many_greedy k cs @ [c # cs] else [c # cs])"

fun many_lazy :: "cls \<Rightarrow> ustr \<Rightarrow> ustr list" where
  "many_lazy k [] = [[]]"
| "many_lazy k (c # cs) = (c # cs) # (if cls_has k c then many_lazy k cs else [])"

primrec rx_match :: "rx \<Rightarrow> ustr \<Rightarrow> groups \<Rightarrow> (ustr \<times> groups) list" where
  "rx_match Eps s g = [(s, g)]"
| "rx_match (One k) s g =
     (case s of [] \<Rightarrow> [] | c # cs \<Rightarrow> if cls_has k c then [(cs, g)] else [])"
| "rx_match (Cat r1 r2) s g = concat (map (\<lambda>(t, h). rx_match r2 t h) (rx_match r1 s g))"
| "rx_match (Alt r1 r2) s g = rx_match r1 s g @ rx_match r2 s g"
| "rx_match (Opt r) s g = rx_match r s g @ [(s, g)]"
| "rx_match (Many k) s g = map (\<lambda>t. (t, g)) (many_greedy k s)"
| "rx_match (ManyLazy k) s g = map (\<lambda>t. (t, g)) (many_lazy k s)"
| "rx_match (Group k r) s g =
     map (\<lambda>(t, h). (t, (k, take (length s - length t) s) # h)) (rx_match r s g)"
| "rx_match AtEnd s g = (if s = [] \<or> s = [10] then [(s, g)] else [])"

text \<open>\<open>re.match\<close>: the first way to match at the start of the text, with its groups.\<close>

definition re_match :: "rx \<Rightarrow> ustr \<Rightarrow> (ustr \<times> groups) option" where
  "re_match r s = (case rx_match r s [] of [] \<Rightarrow> None | m # _ \<Rightarrow> Some m)"

text \<open>Sugar for patterns: \<open>c+\<close>, a word under \<open>IGNORECASE\<close>, a word as it stands.\<close>

definition Many1 :: "cls \<Rightarrow> rx" where
  "Many1 k = Cat (One k) (Many k)"

definition Many1Lazy :: "cls \<Rightarrow> rx" where
  "Many1Lazy k = Cat (One k) (ManyLazy k)"

primrec seq :: "rx list \<Rightarrow> rx" where
  "seq [] = Eps"
| "seq (r # rs) = (if rs = [] then r else Cat r (seq rs))"

primrec alts :: "rx \<Rightarrow> rx list \<Rightarrow> rx" where
  "alts r [] = r"
| "alts r (r' # rs) = Alt r (alts r' rs)"

definition word_i :: "string \<Rightarrow> rx" where
  "word_i w = seq (map (One \<circ> CNoCase) w)"

definition word_x :: "string \<Rightarrow> rx" where
  "word_x w = seq (map (One \<circ> CChar) (str w))"

text \<open>
  \<open>re.split(r, s)\<close> and \<open>re.sub(r, new, s)\<close> for patterns that never match the empty string:
  at each position the leftmost match is taken and the scan goes on after it.
\<close>

function re_split_aux :: "rx \<Rightarrow> ustr \<Rightarrow> ustr \<Rightarrow> ustr list" where
  "re_split_aux r w s =
     (case s of
        [] \<Rightarrow> [w]
      | c # cs \<Rightarrow>
          (case re_match r s of
             Some (t, _) \<Rightarrow>
               if length t < length s then w # re_split_aux r [] t else re_split_aux r (w @ [c]) cs
           | None \<Rightarrow> re_split_aux r (w @ [c]) cs))"
  by pat_completeness auto
termination
  by (relation "measure (\<lambda>(r, w, s). length s)") auto

declare re_split_aux.simps [simp del]

definition re_split :: "rx \<Rightarrow> ustr \<Rightarrow> ustr list" where
  "re_split r s = re_split_aux r [] s"

definition re_sub :: "rx \<Rightarrow> ustr \<Rightarrow> ustr \<Rightarrow> ustr" where
  "re_sub r new s = joinw new (re_split r s)"

subsection \<open>Every match is a prefix and every group a substring\<close>

lemma many_greedy_suffix: "t \<in> set (many_greedy k s) \<Longrightarrow> suffix t s"
  by (induction k s rule: many_greedy.induct) (auto split: if_splits simp: suffix_ConsI)

lemma many_lazy_suffix: "t \<in> set (many_lazy k s) \<Longrightarrow> suffix t s"
  by (induction k s rule: many_lazy.induct) (auto split: if_splits simp: suffix_ConsI)

lemma rx_match_suffix: "(t, h) \<in> set (rx_match r s g) \<Longrightarrow> suffix t s"
proof (induction r arbitrary: s g t h)
  case (One k)
  then show ?case by (auto split: list.splits if_splits simp: suffix_ConsI)
next
  case (Cat r1 r2)
  then show ?case by (fastforce intro: suffix_order.trans)
qed (auto dest: many_greedy_suffix many_lazy_suffix split: if_splits)

lemma re_match_in: "re_match r s = Some (t, g) \<Longrightarrow> (t, g) \<in> set (rx_match r s [])"
  by (auto simp: re_match_def split: list.splits)

lemma rx_match_groups:
  "(t, h) \<in> set (rx_match r s g) \<Longrightarrow> (k, x) \<in> set h \<Longrightarrow>
   (k, x) \<in> set g \<or> sublist x s"
proof (induction r arbitrary: s g t h)
  case (Cat r1 r2)
  then obtain u h' where u: "(u, h') \<in> set (rx_match r1 s g)" "(t, h) \<in> set (rx_match r2 u h')"
    by auto
  from Cat.IH(2) [OF u(2) Cat.prems(2)] show ?case
  proof
    assume "(k, x) \<in> set h'"
    with Cat.IH(1) [OF u(1)] show ?thesis by blast
  next
    assume "sublist x u"
    moreover have "sublist u s" using rx_match_suffix [OF u(1)] by (rule suffix_imp_sublist)
    ultimately show ?thesis by (blast intro: sublist_order.order_trans)
  qed
next
  case (Group k' r)
  then show ?case by (fastforce intro: prefix_imp_sublist take_is_prefix)
next
  case (Alt r1 r2)
  from Alt.prems(1) have "(t, h) \<in> set (rx_match r1 s g) \<or> (t, h) \<in> set (rx_match r2 s g)"
    by auto
  with Alt.IH Alt.prems(2) show ?case by blast
next
  case (Opt r)
  from Opt.prems(1) have "(t, h) \<in> set (rx_match r s g) \<or> h = g" by auto
  with Opt.IH Opt.prems(2) show ?case by blast
qed (auto split: list.splits if_splits)

lemma re_split_aux_no_match:
  assumes "\<And>t. suffix t s \<Longrightarrow> t \<noteq> [] \<Longrightarrow> re_match r t = None"
  shows "re_split_aux r w s = [w @ s]"
  using assms
proof (induction s arbitrary: w)
  case (Cons c cs)
  have "re_match r (c # cs) = None" using Cons.prems by simp
  moreover have "re_split_aux r (w @ [c]) cs = [w @ c # cs]"
    using Cons.IH [of "w @ [c]"] Cons.prems by (simp add: suffix_ConsI)
  ultimately show ?case by (subst re_split_aux.simps) simp
qed (subst re_split_aux.simps, simp)

lemma set_joinw: "set (joinw sep xs) \<subseteq> set sep \<union> (\<Union>x\<in>set xs. set x)"
  by (induction sep xs rule: joinw.induct) auto

lemma set_re_split_aux:
  "x \<in> set (re_split_aux r w s) \<Longrightarrow> set x \<subseteq> set w \<union> set s"
proof (induction r w s rule: re_split_aux.induct)
  case (1 r w s)
  show ?case
  proof (cases s)
    case Nil
    with "1.prems" show ?thesis by (subst (asm) re_split_aux.simps) simp
  next
    case (Cons c cs)
    show ?thesis
    proof (cases "\<exists>t g. re_match r s = Some (t, g) \<and> length t < length s")
      case True
      then obtain t g where m: "re_match r s = Some (t, g)" "length t < length s" by blast
      then have "set t \<subseteq> set s"
        using rx_match_suffix [OF re_match_in] by (metis set_mono_suffix)
      moreover have "x = w \<or> x \<in> set (re_split_aux r [] t)"
        using "1.prems" m Cons by (subst (asm) re_split_aux.simps) simp
      ultimately show ?thesis using "1.IH"(2) [OF Cons m(1) refl] m Cons by fastforce
    next
      case False
      then have x: "x \<in> set (re_split_aux r (w @ [c]) cs)"
        using "1.prems" Cons by (subst (asm) re_split_aux.simps) (auto split: option.splits if_splits)
      show ?thesis
      proof (cases "re_match r s")
        case None
        with "1.IH"(1) [OF Cons None] x Cons show ?thesis by auto
      next
        case (Some m)
        with False obtain t g where "m = (t, g)" "\<not> length t < length s" by (cases m) auto
        with "1.IH"(3) [OF Cons Some, of t g] x Cons show ?thesis by auto
      qed
    qed
  qed
qed

lemma set_re_split: "x \<in> set (re_split r s) \<Longrightarrow> set x \<subseteq> set s"
  using set_re_split_aux [of x r "[]" s] by (simp add: re_split_def)

lemma set_re_sub: "set (re_sub r new s) \<subseteq> set new \<union> set s"
  unfolding re_sub_def using set_joinw [of new "re_split r s"] set_re_split by fastforce

text \<open>Concrete runs thread the list of matches through a concatenation one by one.\<close>

primrec rx_seq :: "rx \<Rightarrow> (ustr \<times> groups) list \<Rightarrow> (ustr \<times> groups) list" where
  "rx_seq r [] = []"
| "rx_seq r (m # ms) = rx_match r (fst m) (snd m) @ rx_seq r ms"

lemma rx_match_Cat: "rx_match (Cat r1 r2) s g = rx_seq r2 (rx_match r1 s g)"
proof -
  have "concat (map (\<lambda>(t, h). rx_match r2 t h) ms) = rx_seq r2 ms" for ms
    by (induction ms) (simp_all add: case_prod_beta)
  then show ?thesis by simp
qed

declare rx_match.simps(3) [simp del]

lemmas evaluate_regex [evaluate] = rx_match_Cat nocase_extra_def ascii_upper_def
  re_match_def re_sub_def re_split_def re_split_aux.simps Many1_def Many1Lazy_def

end
