(* ===== verification/Notes.thy ===== *)
theory Notes
  imports Domain PyRegex
begin

section \<open>The managed-note store of \<^verbatim>\<open>core/managed_notes.py\<close>\<close>

text \<open>
  Title sanitisation, note preparation, and the store with its two operations, \<open>create\<close> and
  \<open>rollback\<close>. The file system is a partial map from absolute paths (lists of components) to
  nodes; joining a file name to the root follows \<open>pathlib\<close> on a POSIX host, and what the
  operating system decides (symbolic links, errors, what a read returns, a file that another
  process puts back) is the record \<open>os_env\<close>, an argument of both operations.

  The locale \<open>confined_store\<close> is the contract the service relies on: existing entries are
  never overwritten, files appear only directly under the root, and a rollback removes at most
  one file, whose content had the expected digest.
\<close>

subsection \<open>Titles\<close>

definition MAX_NOTE_BYTES :: nat where
  "MAX_NOTE_BYTES = 32768"

definition MAX_TITLE_LENGTH :: nat where
  "MAX_TITLE_LENGTH = 80"

definition RESERVED_WINDOWS_NAMES :: "ustr set" where
  "RESERVED_WINDOWS_NAMES =
     {str ''CON'', str ''PRN'', str ''AUX'', str ''NUL''} \<union>
     set (map (\<lambda>i. str ''COM'' @ dec_nat i) [1..<10]) \<union>
     set (map (\<lambda>i. str ''LPT'' @ dec_nat i) [1..<10])"

text \<open>The slash, the backslash and the colon.\<close>

definition PATH_SEPARATORS :: "nat list" where
  "PATH_SEPARATORS = [47, 92, 58]"

definition title_char :: "platform \<Rightarrow> nat \<Rightarrow> bool" where
  "title_char P c \<longleftrightarrow> pf_isalnum P c \<or> c \<in> set (str '' -_()'')"

definition collapse_spaces :: "ustr \<Rightarrow> ustr" where
  "collapse_spaces s = re_sub (Many1 CSpace) (str '' '') s"

definition normalize_title :: "platform \<Rightarrow> ustr \<Rightarrow> ustr res" where
  "normalize_title P raw_title =
     (let title0 = strip (pf_nfkc P raw_title);
          title = (if endswith (str ''.md'') (casefold P title0)
                   then rstrip (take (length title0 - 3) title0) else title0)
      in if title = [] \<or> length title > MAX_TITLE_LENGTH
         then Inl (InvalidNoteError (str ''NOTE_TITLE_LENGTH_INVALID''))
         else if contains (str ''..'') title \<or> list_ex (\<lambda>sep. contains [sep] title) PATH_SEPARATORS
         then Inl (InvalidNoteError (str ''NOTE_TITLE_PATH_SYNTAX_REJECTED''))
         else
           (let cleaned = strip_chars '' .'' (collapse_spaces (filter (title_char P) title))
            in if cleaned = []
               then Inl (InvalidNoteError (str ''NOTE_TITLE_EMPTY_AFTER_SANITIZATION''))
               else if upper P cleaned \<in> RESERVED_WINDOWS_NAMES
               then Inl (InvalidNoteError (str ''NOTE_TITLE_RESERVED''))
               else Inr cleaned))"

subsection \<open>Preparing a note\<close>

record PreparedNote =
  pn_title :: ustr
  pn_filename :: ustr
  pn_content :: ustr
  pn_content_bytes :: "byte list"
  pn_content_sha256 :: ustr

record CreatedNote =
  cn_path :: "ustr list"
  cn_filename :: ustr
  cn_byte_count :: nat
  cn_sha256 :: ustr

definition normalize_content :: "ustr \<Rightarrow> ustr" where
  "normalize_content content =
     strip (replace_all [13] [10] (replace_all [13, 10] [10] content))"

definition prepare_note :: "platform \<Rightarrow> ustr \<Rightarrow> ustr \<Rightarrow> PreparedNote res" where
  "prepare_note P title content =
     rbind (normalize_title P title) (\<lambda>normalized_title.
       if contains [0] content
       then Inl (InvalidNoteError (str ''NOTE_CONTENT_NULL_BYTE_REJECTED''))
       else
         (let stripped = normalize_content content
          in if stripped = [] then Inl (InvalidNoteError (str ''NOTE_CONTENT_EMPTY''))
             else
               (let normalized = (if endswith [10] stripped then stripped else stripped @ [10])
                in case utf8 normalized of
                     None \<Rightarrow> Inl (UnicodeEncodeError (str ''surrogates not allowed''))
                   | Some content_bytes \<Rightarrow>
                       if length content_bytes > MAX_NOTE_BYTES
                       then Inl (InvalidNoteError (str ''NOTE_CONTENT_TOO_LARGE''))
                       else Inr \<lparr>pn_title = normalized_title,
                                 pn_filename = normalized_title @ str ''.md'',
                                 pn_content = normalized,
                                 pn_content_bytes = content_bytes,
                                 pn_content_sha256 = pf_sha256 P content_bytes\<rparr>)))"

subsection \<open>The file system\<close>

type_synonym path = "ustr list"

datatype node = File "byte list" | Dir

type_synonym files = "path \<Rightarrow> node option"

record os_env =
  os_real :: "path \<Rightarrow> path"                    \<comment> \<open>where symbolic links lead\<close>
  os_mkdir :: "ustr option"                    \<comment> \<open>an error of \<open>mkdir\<close>\<close>
  os_open :: "ustr option"                     \<comment> \<open>an \<open>OSError\<close> of \<open>os.open\<close> on a new name\<close>
  os_write :: "(ustr \<times> byte list) option"      \<comment> \<open>an error while writing, and what reached the disk\<close>
  os_read :: "byte list \<Rightarrow> ustr + byte list"   \<comment> \<open>what \<open>read_bytes\<close> returns or raises\<close>
  os_unlink :: "ustr option"                   \<comment> \<open>an error of \<open>unlink\<close>\<close>
  os_recreated :: "node option"                \<comment> \<open>what another process put in its place\<close>

text \<open>An operating system without faults: reads return what was written.\<close>

definition honest_os :: "os_env \<Rightarrow> bool" where
  "honest_os E \<longleftrightarrow>
     (\<forall>b. os_read E b = Inr b) \<and> os_mkdir E = None \<and> os_open E = None \<and> os_write E = None \<and>
     os_unlink E = None \<and> os_recreated E = None"

text \<open>One such host, without symbolic links, for the concrete runs of the witnesses.\<close>

definition plain_os :: os_env where
  "plain_os = \<lparr>os_real = (\<lambda>p. p), os_mkdir = None, os_open = None, os_write = None,
               os_read = Inr, os_unlink = None, os_recreated = None\<rparr>"

lemma honest_plain_os: "honest_os plain_os"
  by (simp add: honest_os_def plain_os_def)

text \<open>\<open>root / filename\<close>: an absolute name replaces the root, empty and \<open>.\<close> parts vanish.\<close>

definition path_join :: "path \<Rightarrow> ustr \<Rightarrow> path" where
  "path_join base filename =
     (let parts = filter (\<lambda>p. p \<noteq> [] \<and> p \<noteq> str ''.'') (split_on 47 filename)
      in if startswith [47] filename then parts else base @ parts)"

definition path_str :: "path \<Rightarrow> ustr" where
  "path_str p = (if p = [] then [47] else concat (map (\<lambda>c. 47 # c) p))"

text \<open>\<open>mkdir(parents=True, exist_ok=True)\<close>.\<close>

definition mkdirs :: "path \<Rightarrow> files \<Rightarrow> files" where
  "mkdirs base fs = (\<lambda>p. if p \<in> set (prefixes base) \<and> fs p = None then Some Dir else fs p)"

definition blocked :: "path \<Rightarrow> files \<Rightarrow> bool" where
  "blocked base fs \<longleftrightarrow> list_ex (\<lambda>p. case fs p of Some (File _) \<Rightarrow> True | _ \<Rightarrow> False) (prefixes base)"

subsection \<open>The store\<close>

record note_store =
  ns_root :: path
  ns_files :: files

definition target_path :: "os_env \<Rightarrow> path \<Rightarrow> ustr \<Rightarrow> path res" where
  "target_path E base filename =
     (let target = os_real E (path_join base filename)
      in if butlast target \<noteq> base
         then Inl (InvalidNoteError (str ''NOTE_PATH_OUTSIDE_MANAGED_WORKSPACE''))
         else Inr target)"

definition unlink_then :: "os_env \<Rightarrow> note_store \<Rightarrow> path \<Rightarrow> exn \<Rightarrow> note_store \<times> 'a res" where
  "unlink_then E N target exc =
     (case os_unlink E of
        Some e \<Rightarrow> (N, Inl (OSError e))
      | None \<Rightarrow> (N\<lparr>ns_files := (ns_files N)(target := None)\<rparr>, Inl exc))"

definition write_and_verify ::
  "platform \<Rightarrow> os_env \<Rightarrow> note_store \<Rightarrow> path \<Rightarrow> PreparedNote \<Rightarrow> note_store \<times> CreatedNote res" where
  "write_and_verify P E N target prepared =
     (case os_write E of
        Some (e, partial) \<Rightarrow>
          unlink_then E (N\<lparr>ns_files := (ns_files N)(target \<mapsto> File partial)\<rparr>) target (OSError e)
      | None \<Rightarrow>
          (let written = N\<lparr>ns_files := (ns_files N)(target \<mapsto> File (pn_content_bytes prepared))\<rparr>
           in case os_read E (pn_content_bytes prepared) of
                Inl e \<Rightarrow> (written, Inl (OSError e))
              | Inr actual_bytes \<Rightarrow>
                  (let actual_sha256 = pf_sha256 P actual_bytes
                   in if actual_bytes \<noteq> pn_content_bytes prepared \<or>
                         actual_sha256 \<noteq> pn_content_sha256 prepared
                      then unlink_then E written target
                             (NoteVerificationError (str ''NOTE_POST_WRITE_VERIFICATION_FAILED''))
                      else (written,
                            Inr \<lparr>cn_path = target, cn_filename = pn_filename prepared,
                                 cn_byte_count = length actual_bytes, cn_sha256 = actual_sha256\<rparr>))))"

definition store_create ::
  "platform \<Rightarrow> os_env \<Rightarrow> note_store \<Rightarrow> PreparedNote \<Rightarrow> note_store \<times> CreatedNote res" where
  "store_create P E N prepared =
     (case os_mkdir E of
        Some e \<Rightarrow> (N, Inl (OSError e))
      | None \<Rightarrow>
          if blocked (ns_root N) (ns_files N) then (N, Inl (OSError (str ''File exists'')))
          else
            (let N1 = N\<lparr>ns_files := mkdirs (ns_root N) (ns_files N)\<rparr>
             in case target_path E (ns_root N) (pn_filename prepared) of
                  Inl e \<Rightarrow> (N1, Inl e)
                | Inr target \<Rightarrow>
                    if ns_files N1 target \<noteq> None
                    then (N1, Inl (NoteAlreadyExistsError (str ''NOTE_ALREADY_EXISTS'')))
                    else
                      (case os_open E of
                         Some _ \<Rightarrow> (N1, Inl (ManagedNoteError (str ''NOTE_CREATE_FAILED'')))
                       | None \<Rightarrow> write_and_verify P E N1 target prepared)))"

definition store_rollback ::
  "platform \<Rightarrow> os_env \<Rightarrow> note_store \<Rightarrow> ustr \<Rightarrow> ustr \<Rightarrow> note_store \<times> path res" where
  "store_rollback P E N filename expected_sha256 =
     (case target_path E (ns_root N) filename of
        Inl e \<Rightarrow> (N, Inl e)
      | Inr target \<Rightarrow>
          (case ns_files N target of
             Some (File stored) \<Rightarrow>
               (case os_read E stored of
                  Inl e \<Rightarrow> (N, Inl (OSError e))
                | Inr actual \<Rightarrow>
                    if pf_sha256 P actual \<noteq> expected_sha256
                    then (N, Inl (NoteVerificationError (str ''ROLLBACK_HASH_MISMATCH'')))
                    else
                      (case os_unlink E of
                         Some e \<Rightarrow> (N, Inl (OSError e))
                       | None \<Rightarrow>
                           (let N' = N\<lparr>ns_files := (ns_files N)(target := os_recreated E)\<rparr>
                            in if os_recreated E \<noteq> None
                               then (N', Inl (NoteVerificationError
                                      (str ''ROLLBACK_DELETE_VERIFICATION_FAILED'')))
                               else (N', Inr target))))
           | _ \<Rightarrow> (N, Inl (NoteVerificationError (str ''ROLLBACK_TARGET_MISSING'')))))"

subsection \<open>Titles are safe file names\<close>

lemma length_joinw_Cons: "length (joinw sep (x # xs)) = length x + (if xs = [] then 0 else length sep + length (joinw sep xs))"
  by (cases xs) simp_all

lemma re_split_aux_ne_Nil: "re_split_aux r w s \<noteq> []"
  by (induction r w s rule: re_split_aux.induct)
    (subst re_split_aux.simps, auto split: list.splits option.splits)

lemma length_re_sub_single:
  "length (joinw [x] (re_split_aux r w s)) \<le> length w + length s"
proof (induction r w s rule: re_split_aux.induct)
  case (1 r w s)
  show ?case
  proof (cases s)
    case Nil
    then show ?thesis by (subst re_split_aux.simps) simp
  next
    case (Cons c cs)
    show ?thesis
    proof (cases "re_match r s")
      case None
      with "1.IH"(1) [OF Cons None] Cons show ?thesis by (subst re_split_aux.simps) simp
    next
      case (Some m)
      obtain t g where m: "m = (t, g)" by (cases m)
      show ?thesis
      proof (cases "length t < length s")
        case True
        with "1.IH"(2) [OF Cons Some m [symmetric]] Cons Some m show ?thesis
          by (subst re_split_aux.simps) (simp add: length_joinw_Cons)
      next
        case False
        with "1.IH"(3) [OF Cons Some m [symmetric]] Cons Some m show ?thesis
          by (subst re_split_aux.simps) simp
      qed
    qed
  qed
qed

lemma length_collapse_spaces: "length (collapse_spaces s) \<le> length s"
  using length_re_sub_single [of 32 "Many1 CSpace" "[]" s]
  by (simp add: collapse_spaces_def re_sub_def re_split_def str_def)

lemma set_collapse_spaces: "set (collapse_spaces s) \<subseteq> insert 32 (set s)"
  using set_re_sub [of "Many1 CSpace" "str '' ''" s] by (simp add: collapse_spaces_def str_def)

lemma normalize_title_InrE:
  assumes "normalize_title P raw = Inr t"
  obtains title where "length title \<le> MAX_TITLE_LENGTH"
    "\<And>c. c \<in> set PATH_SEPARATORS \<Longrightarrow> c \<notin> set title"
    "t = strip_chars '' .'' (collapse_spaces (filter (title_char P) title))"
    "t \<noteq> []" "upper P t \<notin> RESERVED_WINDOWS_NAMES"
    "set t \<subseteq> insert 32 (set (filter (title_char P) title))"
proof -
  obtain title where
    title: "length title \<le> MAX_TITLE_LENGTH"
      "\<not> list_ex (\<lambda>sep. contains [sep] title) PATH_SEPARATORS"
    and t: "t = strip_chars '' .'' (collapse_spaces (filter (title_char P) title))"
      "t \<noteq> []" "upper P t \<notin> RESERVED_WINDOWS_NAMES"
    using assms unfolding normalize_title_def Let_def
    by (auto split: if_splits simp: not_less)
  have "set t \<subseteq> insert 32 (set (filter (title_char P) title))"
    unfolding t(1) using set_strip_by set_collapse_spaces by (meson order_trans)
  with title t that show ?thesis by (auto simp: list_ex_iff)
qed

lemma normalize_title_no_separator:
  assumes "normalize_title P raw = Inr t" "c \<in> set PATH_SEPARATORS"
  shows "c \<notin> set t"
proof -
  obtain title where "c \<notin> set title" "set t \<subseteq> insert 32 (set (filter (title_char P) title))"
    using normalize_title_InrE [OF assms(1)] assms(2) by metis
  moreover have "c \<noteq> 32" using assms(2) by (auto simp: PATH_SEPARATORS_def)
  ultimately show ?thesis by auto
qed

text \<open>C33. A title that survives sanitisation is a safe file name: it is not empty, has at most
  80 code points, consists of alphanumeric code points, spaces, hyphens, underscores and
  parentheses, holds no path separator and no colon, starts and ends with neither a space nor
  a dot, and is not a reserved Windows device name.\<close>

theorem normalize_title_safe:
  assumes "normalize_title P raw = Inr t"
  shows "t \<noteq> [] \<and> length t \<le> 80 \<and> list_all (title_char P) t \<and>
         list_all (\<lambda>c. c \<notin> set PATH_SEPARATORS) t \<and>
         hd t \<noteq> 32 \<and> last t \<noteq> 32 \<and> hd t \<noteq> 46 \<and> last t \<noteq> 46 \<and>
         upper P t \<notin> RESERVED_WINDOWS_NAMES"
proof -
  obtain title where
    title: "length title \<le> MAX_TITLE_LENGTH"
    and t: "t = strip_chars '' .'' (collapse_spaces (filter (title_char P) title))"
      "t \<noteq> []" "upper P t \<notin> RESERVED_WINDOWS_NAMES"
      "set t \<subseteq> insert 32 (set (filter (title_char P) title))"
    by (rule normalize_title_InrE [OF assms])
  have "length t \<le> length title"
    unfolding t(1)
    by (meson length_strip_by length_collapse_spaces length_filter_le order_trans)
  moreover have "title_char P 32" by (simp add: title_char_def str_def)
  with t(4) have "list_all (title_char P) t" by (auto simp: list_all_iff)
  moreover have "list_all (\<lambda>c. c \<notin> set PATH_SEPARATORS) t"
    using normalize_title_no_separator [OF assms] by (auto simp: list_all_iff)
  moreover have "hd t \<noteq> 32 \<and> last t \<noteq> 32 \<and> hd t \<noteq> 46 \<and> last t \<noteq> 46"
    using hd_strip_by last_strip_by t(1,2) by (fastforce simp: str_def)
  ultimately show ?thesis using title t(2,3) by (simp add: MAX_TITLE_LENGTH_def)
qed

theorem normalize_title_safe_witness:
  "list_all (title_char ascii_platform) (str ''My note'')"
proof -
  have "normalize_title ascii_platform (str '' My   note.MD'') = Inr (str ''My note'')"
    by (simp add: normalize_title_def collapse_spaces_def title_char_def MAX_TITLE_LENGTH_def
        PATH_SEPARATORS_def RESERVED_WINDOWS_NAMES_def upt_rec evaluate)
  from normalize_title_safe [OF this] show ?thesis by simp
qed

subsection \<open>Prepared notes\<close>

lemma prepare_note_InrE:
  assumes "prepare_note P title content = Inr n"
  obtains t c bs where "normalize_title P title = Inr t" "c = normalize_content content"
    "c \<noteq> []" "0 \<notin> set content" "\<not> endswith [10] c"
    "utf8 (c @ [10]) = Some bs" "length bs \<le> MAX_NOTE_BYTES"
    "n = \<lparr>pn_title = t, pn_filename = t @ str ''.md'', pn_content = c @ [10],
          pn_content_bytes = bs, pn_content_sha256 = pf_sha256 P bs\<rparr>"
proof -
  have ne: "\<not> endswith [10] (normalize_content content)"
  proof
    assume "endswith [10] (normalize_content content)"
    then have "normalize_content content \<noteq> [] \<and> last (normalize_content content) = 10"
      by (auto simp: endswith_iff)
    moreover have "is_space 10" by (simp add: is_space_def)
    ultimately show False using last_strip_by [of is_space] unfolding normalize_content_def by metis
  qed
  have "0 \<notin> set content"
    using assms by (auto simp: prepare_note_def rbind_Inr_iff Let_def
        split: if_splits option.splits)
  with assms ne that show ?thesis
    by (auto simp: prepare_note_def rbind_Inr_iff Let_def not_less split: if_splits option.splits)
qed

lemma normalize_content_chars:
  "0 \<notin> set s \<Longrightarrow> 0 \<notin> set (normalize_content s)" "13 \<notin> set (normalize_content s)"
proof -
  show "13 \<notin> set (normalize_content s)"
    unfolding normalize_content_def
    using set_strip_by replace_single_notin [of 13 "[10]"] by fastforce
  assume "0 \<notin> set s"
  then show "0 \<notin> set (normalize_content s)"
    unfolding normalize_content_def
    using set_strip_by set_replace_all [of "[13]" "[10]"] set_replace_all [of "[13, 10]" "[10]" s]
    by fastforce
qed

text \<open>A prepared note is what the store may write: its file name is a safe title with the
  extension, its content is not empty, ends with exactly the line feed that was added, has no
  carriage return and no null character, and its UTF-8 bytes are within 32 KiB and are
  what the recorded digest was computed from.\<close>

theorem prepare_note_contract:
  assumes "prepare_note P title content = Inr n"
  shows "normalize_title P title = Inr (pn_title n) \<and>
         pn_filename n = pn_title n @ str ''.md'' \<and>
         (\<exists>body. body \<noteq> [] \<and> pn_content n = body @ [10] \<and> \<not> is_space (last body)) \<and>
         13 \<notin> set (pn_content n) \<and> 0 \<notin> set (pn_content n) \<and>
         utf8 (pn_content n) = Some (pn_content_bytes n) \<and>
         length (pn_content_bytes n) \<le> 32768 \<and>
         pn_content_sha256 n = pf_sha256 P (pn_content_bytes n)"
proof -
  from assms obtain t c bs where
    n: "normalize_title P title = Inr t" "c = normalize_content content" "c \<noteq> []"
      "0 \<notin> set content" "utf8 (c @ [10]) = Some bs" "length bs \<le> MAX_NOTE_BYTES"
      "n = \<lparr>pn_title = t, pn_filename = t @ str ''.md'', pn_content = c @ [10],
            pn_content_bytes = bs, pn_content_sha256 = pf_sha256 P bs\<rparr>"
    by (rule prepare_note_InrE)
  moreover have "\<not> is_space (last c)"
    using n(2,3) last_strip_by unfolding normalize_content_def by blast
  ultimately show ?thesis
    using normalize_content_chars [of content] by (auto simp: MAX_NOTE_BYTES_def)
qed

definition sample_note :: PreparedNote where
  "sample_note =
     \<lparr>pn_title = str ''a'', pn_filename = str ''a.md'', pn_content = str ''b'' @ [10],
      pn_content_bytes = [98, 10], pn_content_sha256 = pf_sha256 ascii_platform [98, 10]\<rparr>"

lemma prepare_sample_note:
  "prepare_note ascii_platform (str ''a.md'') (str '' b '') = Inr sample_note"
  by (simp add: prepare_note_def normalize_title_def collapse_spaces_def title_char_def MAX_TITLE_LENGTH_def
      PATH_SEPARATORS_def RESERVED_WINDOWS_NAMES_def upt_rec sample_note_def normalize_content_def
      MAX_NOTE_BYTES_def evaluate)

theorem prepare_note_contract_witness: "utf8 (pn_content sample_note) = Some [98, 10]"
  using prepare_note_contract [OF prepare_sample_note] by (simp add: sample_note_def)

subsection \<open>Paths\<close>

lemma path_join_plain:
  assumes "47 \<notin> set f" "f \<noteq> []" "f \<noteq> str ''.''"
  shows "path_join base f = base @ [f]"
  using assms by (cases f) (auto simp: path_join_def split_on_no_sep)

lemma prepare_note_name:
  assumes "prepare_note P title content = Inr n"
  shows "normalize_title P title = Inr (pn_title n)" "pn_filename n = pn_title n @ str ''.md''"
  by (rule prepare_note_InrE [OF assms], simp)+

lemma prepared_path:
  assumes "prepare_note P title content = Inr n"
  shows "path_join base (pn_filename n) = base @ [pn_filename n]"
proof -
  have "47 \<notin> set (pn_title n)"
    using normalize_title_no_separator [OF prepare_note_name(1) [OF assms], of 47]
    by (simp add: PATH_SEPARATORS_def)
  moreover have "x @ str ''.md'' \<noteq> str ''.''" "47 \<notin> set (str ''.md'')" "str ''.md'' \<noteq> []" for x
    by (cases x; simp add: str_def)+
  ultimately show ?thesis
    unfolding prepare_note_name(2) [OF assms] by (intro path_join_plain) auto
qed

lemma target_path_parent: "target_path E base f = Inr p \<Longrightarrow> butlast p = base"
  by (auto simp: target_path_def Let_def split: if_splits)

lemma target_path_Inr: "target_path E base f = Inr p \<longleftrightarrow> p = os_real E (path_join base f) \<and> butlast p = base"
  by (auto simp: target_path_def Let_def)

subsection \<open>What the store changes\<close>

lemma mkdirs_keeps: "fs p = Some x \<Longrightarrow> mkdirs base fs p = Some x"
  by (simp add: mkdirs_def)

lemma mkdirs_None: "mkdirs base fs p = None \<Longrightarrow> fs p = None"
  by (simp add: mkdirs_def split: if_splits)

lemma mkdirs_File: "mkdirs base fs p = Some (File b) \<Longrightarrow> fs p = Some (File b)"
  by (simp add: mkdirs_def split: if_splits)

text \<open>A \<open>create\<close> touches the created directories and one name that was free, under the root.\<close>

lemma unlink_then_files:
  "ns_root (fst (unlink_then E N target exc)) = ns_root N \<and>
   (p \<noteq> target \<longrightarrow> ns_files (fst (unlink_then E N target exc)) p = ns_files N p)"
  by (simp add: unlink_then_def split: option.splits)

lemma write_and_verify_files:
  "ns_root (fst (write_and_verify P E N target n)) = ns_root N \<and>
   (p \<noteq> target \<longrightarrow> ns_files (fst (write_and_verify P E N target n)) p = ns_files N p)"
  by (auto simp: write_and_verify_def Let_def unlink_then_files split: option.splits sum.splits)

lemma store_create_cases:
  obtains (same) "fst (store_create P E N n) = N"
  | (dirs) "fst (store_create P E N n) = N\<lparr>ns_files := mkdirs (ns_root N) (ns_files N)\<rparr>"
      "\<exists>e. snd (store_create P E N n) = Inl e"
  | (written) target where
      "target_path E (ns_root N) (pn_filename n) = Inr target" "ns_files N target = None"
      "store_create P E N n =
         write_and_verify P E (N\<lparr>ns_files := mkdirs (ns_root N) (ns_files N)\<rparr>) target n"
proof -
  let ?D = "mkdirs (ns_root N) (ns_files N)"
  let ?N1 = "N\<lparr>ns_files := ?D\<rparr>"
  consider "fst (store_create P E N n) = N"
    | "os_mkdir E = None" "\<not> blocked (ns_root N) (ns_files N)"
    by (cases "os_mkdir E"; cases "blocked (ns_root N) (ns_files N)") (auto simp: store_create_def)
  then show ?thesis
  proof cases
    case 2
    show ?thesis
    proof (cases "\<exists>target. target_path E (ns_root N) (pn_filename n) = Inr target \<and>
        ?D target = None \<and> os_open E = None")
      case True
      then obtain target where t: "target_path E (ns_root N) (pn_filename n) = Inr target"
        "?D target = None" "os_open E = None" by blast
      show ?thesis
        by (rule written [OF t(1) mkdirs_None [OF t(2)]]) (use 2 t in \<open>simp add: store_create_def Let_def\<close>)
    next
      case False
      with 2 have "fst (store_create P E N n) = ?N1 \<and> (\<exists>e. snd (store_create P E N n) = Inl e)"
        by (cases "target_path E (ns_root N) (pn_filename n)"; cases "os_open E")
          (auto simp: store_create_def Let_def)
      with dirs show ?thesis by blast
    qed
  qed (rule same)
qed

lemma store_create_root [simp]: "ns_root (fst (store_create P E N n)) = ns_root N"
  by (cases rule: store_create_cases [of P E N n]) (simp_all add: write_and_verify_files)

lemma store_create_keeps:
  assumes "ns_files N p = Some x"
  shows "ns_files (fst (store_create P E N n)) p = Some x"
proof (cases rule: store_create_cases [of P E N n])
  case (written target)
  then have "p \<noteq> target" using assms by auto
  with written(3) assms show ?thesis by (simp add: mkdirs_keeps write_and_verify_files)
qed (use assms in \<open>simp_all add: mkdirs_keeps\<close>)

lemma store_create_new_file:
  assumes "ns_files N p = None" "ns_files (fst (store_create P E N n)) p = Some (File b)"
  shows "butlast p = ns_root N"
proof (cases rule: store_create_cases [of P E N n])
  case (written target)
  have "p = target"
  proof (rule ccontr)
    assume "p \<noteq> target"
    with assms(2) written(3) have "mkdirs (ns_root N) (ns_files N) p = Some (File b)"
      by (simp add: write_and_verify_files)
    with assms(1) show False by (simp add: mkdirs_def split: if_splits)
  qed
  with target_path_parent [OF written(1)] show ?thesis by simp
qed (use assms in \<open>auto dest: mkdirs_File\<close>)

lemma store_create_Inr:
  assumes "store_create P E N n = (N', Inr c)"
  shows "target_path E (ns_root N) (pn_filename n) = Inr (cn_path c) \<and>
         mkdirs (ns_root N) (ns_files N) (cn_path c) = None \<and>
         ns_files N (cn_path c) = None \<and>
         N' = N\<lparr>ns_files := (mkdirs (ns_root N) (ns_files N))(cn_path c \<mapsto> File (pn_content_bytes n))\<rparr> \<and>
         c = \<lparr>cn_path = cn_path c, cn_filename = pn_filename n,
              cn_byte_count = length (pn_content_bytes n), cn_sha256 = pn_content_sha256 n\<rparr> \<and>
         os_read E (pn_content_bytes n) = Inr (pn_content_bytes n) \<and>
         pf_sha256 P (pn_content_bytes n) = pn_content_sha256 n"
  using assms
  by (auto simp: store_create_def write_and_verify_def unlink_then_def Let_def
      dest: mkdirs_None split: option.splits sum.splits if_splits)

lemma store_rollback_cases:
  obtains (same) e where "store_rollback P E N f h = (N, Inl e)"
  | (removed) target stored actual where
      "target_path E (ns_root N) f = Inr target" "ns_files N target = Some (File stored)"
      "os_read E stored = Inr actual" "pf_sha256 P actual = h" "os_unlink E = None"
      "store_rollback P E N f h =
         (N\<lparr>ns_files := (ns_files N)(target := os_recreated E)\<rparr>,
          if os_recreated E \<noteq> None
          then Inl (NoteVerificationError (str ''ROLLBACK_DELETE_VERIFICATION_FAILED''))
          else Inr target)"
proof -
  show ?thesis
  proof (cases "target_path E (ns_root N) f")
    case (Inl e)
    then show ?thesis using same by (simp add: store_rollback_def)
  next
    case (Inr target)
    show ?thesis
    proof (cases "\<exists>stored actual. ns_files N target = Some (File stored) \<and>
        os_read E stored = Inr actual \<and> pf_sha256 P actual = h \<and> os_unlink E = None")
      case True
      then show ?thesis using removed Inr by (auto simp: store_rollback_def Let_def)
    next
      case False
      with Inr have "\<exists>e. store_rollback P E N f h = (N, Inl e)"
        by (auto simp: store_rollback_def Let_def split: option.splits node.splits sum.splits)
      with same show ?thesis by blast
    qed
  qed
qed

lemma store_rollback_change:
  assumes "ns_files (fst (store_rollback P E N f h)) p \<noteq> ns_files N p"
  obtains stored actual where "p = os_real E (path_join (ns_root N) f)" "butlast p = ns_root N"
    "ns_files N p = Some (File stored)" "os_read E stored = Inr actual" "pf_sha256 P actual = h"
proof (cases rule: store_rollback_cases [of P E N f h])
  case (removed target stored actual)
  have "p = target" using assms removed(6) by (auto split: if_splits)
  with removed that show ?thesis by (metis target_path_Inr)
qed (use assms in simp)

lemma store_rollback_root [simp]: "ns_root (fst (store_rollback P E N f h)) = ns_root N"
  by (cases rule: store_rollback_cases [of P E N f h]) simp_all

subsection \<open>The contract of a confined store\<close>

locale confined_store =
  fixes create :: "'e \<Rightarrow> 's \<Rightarrow> PreparedNote \<Rightarrow> 's \<times> CreatedNote res"
    and rollback :: "'e \<Rightarrow> 's \<Rightarrow> ustr \<Rightarrow> ustr \<Rightarrow> 's \<times> path res"
    and files :: "'s \<Rightarrow> files"
    and base :: "'s \<Rightarrow> path"
  assumes create_base: "base (fst (create E s n)) = base s"
    and create_keeps: "files s p = Some x \<Longrightarrow> files (fst (create E s n)) p = Some x"
    and create_confined:
      "files s p = None \<Longrightarrow> files (fst (create E s n)) p = Some (File b) \<Longrightarrow> butlast p = base s"
    and rollback_base: "base (fst (rollback E s f h)) = base s"
    and rollback_confined:
      "files (fst (rollback E s f h)) p \<noteq> files s p \<Longrightarrow>
         butlast p = base s \<and> (\<exists>b. files s p = Some (File b))"
    and rollback_one:
      "files (fst (rollback E s f h)) p \<noteq> files s p \<Longrightarrow>
       files (fst (rollback E s f h)) q \<noteq> files s q \<Longrightarrow> p = q"
begin

text \<open>Whatever sequence of creations and rollbacks runs, a file outside the root is never
  created, changed or removed.\<close>

definition apply_op :: "'s \<Rightarrow> 'e \<times> (PreparedNote + ustr \<times> ustr) \<Rightarrow> 's" where
  "apply_op s x =
     (case x of (E, Inl n) \<Rightarrow> fst (create E s n) | (E, Inr (f, h)) \<Rightarrow> fst (rollback E s f h))"

lemma apply_op_outside:
  assumes "butlast p \<noteq> base s"
  shows "base (apply_op s x) = base s \<and>
    (files (apply_op s x) p = Some (File b) \<longleftrightarrow> files s p = Some (File b))"
proof (cases x)
  case (Pair E y)
  show ?thesis
  proof (cases y)
    case (Inl n)
    with Pair show ?thesis
      using create_base create_keeps create_confined [of s p E n b] assms
      by (cases "files s p") (auto simp: apply_op_def)
  next
    case (Inr fh)
    obtain f h where fh: "fh = (f, h)" by (cases fh)
    have "files (fst (rollback E s f h)) p = files s p"
      using rollback_confined [of E s f h p] assms by blast
    with Pair Inr fh show ?thesis by (simp add: apply_op_def rollback_base)
  qed
qed

lemma run_outside:
  assumes "butlast p \<noteq> base s"
  shows "files (foldl apply_op s xs) p = Some (File b) \<longleftrightarrow> files s p = Some (File b)"
proof -
  have "base (foldl apply_op s xs) = base s \<and>
      (files (foldl apply_op s xs) p = Some (File b) \<longleftrightarrow> files s p = Some (File b))"
    using assms
  proof (induction xs arbitrary: s)
    case (Cons x xs)
    from apply_op_outside [OF Cons.prems, of x] Cons.IH [of "apply_op s x"] Cons.prems
    show ?case by simp
  qed simp
  then show ?thesis by simp
qed

end

interpretation vault: confined_store "store_create P" "store_rollback P" ns_files ns_root for P
proof unfold_locales
  fix E N f h p q
  show "butlast p = ns_root N \<and> (\<exists>b. ns_files N p = Some (File b))"
    if "ns_files (fst (store_rollback P E N f h)) p \<noteq> ns_files N p"
    using that by (elim store_rollback_change) auto
  show "p = q"
    if "ns_files (fst (store_rollback P E N f h)) p \<noteq> ns_files N p"
      "ns_files (fst (store_rollback P E N f h)) q \<noteq> ns_files N q"
    using that by (metis store_rollback_change)
qed (simp_all add: store_create_keeps store_create_new_file)

subsection \<open>Creation and rollback\<close>

text \<open>C31. Creating never overwrites and writes nothing else: whatever the operating system does
  (errors at any call, corrupted reads, symbolic links), every existing entry is unchanged,
  a new file can only be a direct child of the root, and on success exactly the approved bytes
  are at the reported path and were read back with the approved digest.\<close>

theorem create_exclusive:
  assumes "store_create P E N n = (N', r)"
  shows "(\<forall>p x. ns_files N p = Some x \<longrightarrow> ns_files N' p = Some x) \<and>
         (\<forall>p b. ns_files N p = None \<longrightarrow> ns_files N' p = Some (File b) \<longrightarrow> butlast p = ns_root N) \<and>
         (\<forall>c. r = Inr c \<longrightarrow>
            ns_files N (cn_path c) = None \<and> butlast (cn_path c) = ns_root N \<and>
            ns_files N' (cn_path c) = Some (File (pn_content_bytes n)) \<and>
            cn_byte_count c = length (pn_content_bytes n) \<and>
            cn_sha256 c = pf_sha256 P (pn_content_bytes n))"
proof -
  have N': "N' = fst (store_create P E N n)" using assms by simp
  have "ns_files N (cn_path c) = None \<and> butlast (cn_path c) = ns_root N \<and>
      ns_files N' (cn_path c) = Some (File (pn_content_bytes n)) \<and>
      cn_byte_count c = length (pn_content_bytes n) \<and>
      cn_sha256 c = pf_sha256 P (pn_content_bytes n)" if "r = Inr c" for c
    using store_create_Inr [of P E N n N' c] assms that
    by (auto simp: target_path_Inr)
  then show ?thesis
    using vault.create_keeps [of N _ _ P E n] vault.create_confined [of N _ P E n] unfolding N' by blast
qed

definition sample_store :: note_store where
  "sample_store = \<lparr>ns_root = [str ''w''], ns_files = (\<lambda>p. None)\<rparr>"

definition sample_created :: CreatedNote where
  "sample_created =
     \<lparr>cn_path = [str ''w'', str ''a.md''], cn_filename = str ''a.md'', cn_byte_count = 2,
      cn_sha256 = pf_sha256 ascii_platform [98, 10]\<rparr>"

definition sample_store_after :: note_store where
  "sample_store_after =
     sample_store\<lparr>ns_files := (mkdirs [str ''w''] (\<lambda>p. None))
                    ([str ''w'', str ''a.md''] \<mapsto> File [98, 10])\<rparr>"

lemma create_sample:
  "store_create ascii_platform plain_os sample_store sample_note =
     (sample_store_after, Inr sample_created)"
proof -
  have "path_join [str ''w''] (str ''a.md'') = [str ''w'', str ''a.md'']" by code_simp
  then show ?thesis
    by (simp add: store_create_def write_and_verify_def target_path_def sample_store_def
        sample_note_def sample_created_def sample_store_after_def plain_os_def mkdirs_def blocked_def
        Let_def)
qed

theorem create_exclusive_witness:
  "ns_files sample_store_after (cn_path sample_created) = Some (File [98, 10])"
  using create_exclusive [OF create_sample] by (simp add: sample_note_def)

text \<open>Rollback removes only the unchanged file: whatever the operating system does, it
  changes at most the one entry its file name resolves to, that entry was a file directly
  under the root, and what was read from it had the expected digest.\<close>

theorem rollback_bound:
  assumes "store_rollback P E N f h = (N', r)" and "ns_files N' p \<noteq> ns_files N p"
  shows "p = os_real E (path_join (ns_root N) f) \<and> butlast p = ns_root N \<and>
         (\<exists>stored actual. ns_files N p = Some (File stored) \<and> os_read E stored = Inr actual \<and>
            pf_sha256 P actual = h)"
  using assms by (metis fst_conv store_rollback_change)

lemma rollback_sample:
  "store_rollback ascii_platform plain_os sample_store_after (cn_filename sample_created)
     (cn_sha256 sample_created) =
   (sample_store\<lparr>ns_files := mkdirs [str ''w''] (\<lambda>p. None)\<rparr>, Inr (cn_path sample_created))"
proof -
  have "path_join [str ''w''] (str ''a.md'') = [str ''w'', str ''a.md'']" by code_simp
  then show ?thesis
    by (simp add: store_rollback_def target_path_def sample_store_def sample_created_def
        sample_store_after_def plain_os_def mkdirs_def Let_def fun_upd_idem)
qed

theorem rollback_bound_witness:
  "butlast (cn_path sample_created) = ns_root sample_store_after"
proof -
  let ?N = "sample_store\<lparr>ns_files := mkdirs [str ''w''] (\<lambda>p. None)\<rparr>"
  have "ns_files ?N (cn_path sample_created) \<noteq> ns_files sample_store_after (cn_path sample_created)"
    by (simp add: sample_created_def sample_store_after_def mkdirs_def)
  from rollback_bound [OF rollback_sample this] show ?thesis by blast
qed

text \<open>On a host without faults an undo finds what the creation wrote.\<close>

lemma store_undo:
  assumes "store_create P E N n = (N', Inr c)"
    and "honest_os E'" and "\<forall>p. os_real E' p = os_real E p"
  shows "\<exists>N''. store_rollback P E' N' (cn_filename c) (cn_sha256 c) = (N'', Inr (cn_path c)) \<and>
               ns_files N'' = mkdirs (ns_root N) (ns_files N) \<and> ns_root N'' = ns_root N"
proof -
  note c = store_create_Inr [OF assms(1)]
  then have fn: "cn_filename c = pn_filename n" "cn_sha256 c = pf_sha256 P (pn_content_bytes n)"
    by (metis CreatedNote.select_convs(2), metis CreatedNote.select_convs(4))
  have t: "target_path E' (ns_root N) (pn_filename n) = Inr (cn_path c)"
    using c assms(3) by (metis target_path_Inr)
  show ?thesis
    using c t fn assms(2) by (auto simp: store_rollback_def honest_os_def fun_upd_idem)
qed

text \<open>C32. Round trip: on a host without faults, undoing a creation with the reported file name
  and digest succeeds and restores every file of the store, leaving at most the
  directories of the root behind.\<close>

theorem create_rollback_roundtrip:
  assumes "store_create P E N n = (N', Inr c)"
    and "honest_os E'" and "\<forall>p. os_real E' p = os_real E p"
  shows "\<exists>N''. store_rollback P E' N' (cn_filename c) (cn_sha256 c) = (N'', Inr (cn_path c)) \<and>
               ns_files N'' = mkdirs (ns_root N) (ns_files N) \<and> ns_root N'' = ns_root N"
  by (rule store_undo [OF assms])

theorem create_rollback_roundtrip_witness:
  "\<exists>N. store_rollback ascii_platform plain_os sample_store_after (str ''a.md'')
         (pf_sha256 ascii_platform [98, 10]) = (N, Inr [str ''w'', str ''a.md''])"
  using create_rollback_roundtrip [OF create_sample honest_plain_os]
  by (auto simp: sample_created_def)

end
