(* ===== verification/Device.thy ===== *)
theory Device
  imports Domain
begin

section \<open>Signed device commands: \<^verbatim>\<open>device/models.py\<close>, \<^verbatim>\<open>device/signing.py\<close>, \<^verbatim>\<open>device/client.py\<close>\<close>

text \<open>
  The two envelopes and the two kinds of evidence, the canonical text that is signed, the
  signature check, and the three device clients. What the network does is a parameter, the
  transport: a function from the endpoint, the envelope, its signature and the state of the
  other side to a reply. A client of the service is a record of the two functions of the
  protocol class \<open>DeviceNodeClient\<close>.

  The lemmas show that the signed text determines the envelope, so that a signature over one
  envelope is a signature over no other, and that the disabled client is inert.
\<close>

subsection \<open>Contracts\<close>

record DeviceCommandEnvelope =
  dc_command_id :: uuid
  dc_task_id :: uuid
  dc_capability_id :: ustr
  dc_target_node_id :: ustr
  dc_issued_at :: time
  dc_expires_at :: time
  dc_nonce :: ustr
  dc_parameters :: attributes

record DeviceCommandEvidence =
  de_command_id :: uuid
  de_node_id :: ustr
  de_node_hostname :: ustr
  de_capability_id :: ustr
  de_executable :: ustr
  de_process_id :: int
  de_started_at :: time
  de_verified_running :: bool
  de_source_mode :: ustr

record DeviceRollbackEnvelope =
  dr_rollback_id :: uuid
  dr_task_id :: uuid
  dr_command_id :: uuid
  dr_target_node_id :: ustr
  dr_issued_at :: time
  dr_expires_at :: time
  dr_nonce :: ustr

record DeviceRollbackEvidence =
  re_rollback_id :: uuid
  re_command_id :: uuid
  re_node_id :: ustr
  re_process_id :: int
  re_terminated :: bool
  re_verified_absent :: bool
  re_observed_at :: time
  re_source_mode :: ustr

definition valid_target :: "ustr \<Rightarrow> bool" where
  "valid_target s \<longleftrightarrow> 1 \<le> length s \<and> length s \<le> 120"

definition valid_nonce :: "ustr \<Rightarrow> bool" where
  "valid_nonce s \<longleftrightarrow> 32 \<le> length s \<and> length s \<le> 128"

text \<open>The pattern \<open>^device\.[a-z0-9_.-]+$\<close>.\<close>

definition valid_device_capability :: "ustr \<Rightarrow> bool" where
  "valid_device_capability s \<longleftrightarrow>
     startswith (str ''device.'') s \<and> valid_CapabilityId (drop 7 s)"

definition valid_DeviceCommandEnvelope :: "DeviceCommandEnvelope \<Rightarrow> bool" where
  "valid_DeviceCommandEnvelope e \<longleftrightarrow>
     valid_device_capability (dc_capability_id e) \<and> valid_target (dc_target_node_id e) \<and>
     valid_nonce (dc_nonce e)"

definition valid_DeviceRollbackEnvelope :: "DeviceRollbackEnvelope \<Rightarrow> bool" where
  "valid_DeviceRollbackEnvelope e \<longleftrightarrow> valid_target (dr_target_node_id e) \<and> valid_nonce (dr_nonce e)"

definition valid_DeviceCommandEvidence :: "DeviceCommandEvidence \<Rightarrow> bool" where
  "valid_DeviceCommandEvidence e \<longleftrightarrow> de_process_id e > 0"

definition valid_DeviceRollbackEvidence :: "DeviceRollbackEvidence \<Rightarrow> bool" where
  "valid_DeviceRollbackEvidence e \<longleftrightarrow> re_process_id e > 0"

datatype envelope = Command DeviceCommandEnvelope | Rollback DeviceRollbackEnvelope

primrec env_issued_at :: "envelope \<Rightarrow> time" where
  "env_issued_at (Command e) = dc_issued_at e"
| "env_issued_at (Rollback e) = dr_issued_at e"

primrec env_expires_at :: "envelope \<Rightarrow> time" where
  "env_expires_at (Command e) = dc_expires_at e"
| "env_expires_at (Rollback e) = dr_expires_at e"

primrec env_nonce :: "envelope \<Rightarrow> ustr" where
  "env_nonce (Command e) = dc_nonce e"
| "env_nonce (Rollback e) = dr_nonce e"

subsection \<open>The canonical payload and its signature\<close>

text \<open>\<open>model_dump(mode="json")\<close>: identifiers and times become text.\<close>

definition jstr :: "ustr \<Rightarrow> json" where
  "jstr s = JVal (PyStr s)"

primrec env_json :: "platform \<Rightarrow> envelope \<Rightarrow> json" where
  "env_json P (Command e) = JDict
     [(str ''command_id'', jstr (uuid_str (dc_command_id e))),
      (str ''task_id'', jstr (uuid_str (dc_task_id e))),
      (str ''capability_id'', jstr (dc_capability_id e)),
      (str ''target_node_id'', jstr (dc_target_node_id e)),
      (str ''issued_at'', jstr (pf_json_time P (dc_issued_at e))),
      (str ''expires_at'', jstr (pf_json_time P (dc_expires_at e))),
      (str ''nonce'', jstr (dc_nonce e)),
      (str ''parameters'', json_attributes (dc_parameters e))]"
| "env_json P (Rollback e) = JDict
     [(str ''rollback_id'', jstr (uuid_str (dr_rollback_id e))),
      (str ''task_id'', jstr (uuid_str (dr_task_id e))),
      (str ''command_id'', jstr (uuid_str (dr_command_id e))),
      (str ''target_node_id'', jstr (dr_target_node_id e)),
      (str ''issued_at'', jstr (pf_json_time P (dr_issued_at e))),
      (str ''expires_at'', jstr (pf_json_time P (dr_expires_at e))),
      (str ''nonce'', jstr (dr_nonce e))]"

definition encode_utf8 :: "ustr \<Rightarrow> byte list res" where
  "encode_utf8 s =
     (case utf8 s of None \<Rightarrow> Inl (UnicodeEncodeError (str ''surrogates not allowed''))
                   | Some b \<Rightarrow> Inr b)"

definition canonical_payload :: "platform \<Rightarrow> envelope \<Rightarrow> byte list res" where
  "canonical_payload P e = encode_utf8 (dumps (env_json P e))"

definition sign_payload :: "platform \<Rightarrow> envelope \<Rightarrow> ustr \<Rightarrow> ustr res" where
  "sign_payload P e secret =
     (if length secret < 32 then Inl (DeviceSignatureError (str ''DEVICE_NODE_SECRET_TOO_SHORT''))
      else
        rbind (encode_utf8 secret) (\<lambda>key.
        rbind (canonical_payload P e) (\<lambda>payload.
          Inr (pf_hmac_sha256 P key payload))))"

definition verify_signature :: "platform \<Rightarrow> envelope \<Rightarrow> ustr \<Rightarrow> ustr \<Rightarrow> unit res" where
  "verify_signature P e secret signature =
     rbind (sign_payload P e secret) (\<lambda>expected.
     rbind (compare_digest expected signature) (\<lambda>same.
       guard same (DeviceSignatureError (str ''DEVICE_NODE_SIGNATURE_INVALID''))))"

subsection \<open>Clients\<close>

definition DEVICE_COMMAND_LIFETIME :: time where
  "DEVICE_COMMAND_LIFETIME = 30 * 1000000"

text \<open>What a call reads from the clock and from \<open>secrets.token_urlsafe(32)\<close>.\<close>

record call_env =
  ce_now :: time
  ce_nonce :: ustr

record 'd device_client =
  cl_launch_notepad :: "call_env \<Rightarrow> uuid \<Rightarrow> ustr \<Rightarrow> 'd \<Rightarrow> DeviceCommandEvidence res \<times> 'd"
  cl_rollback_command :: "call_env \<Rightarrow> uuid \<Rightarrow> uuid \<Rightarrow> ustr \<Rightarrow> 'd \<Rightarrow> DeviceRollbackEvidence res \<times> 'd"

definition DisabledDeviceNodeClient :: "'d device_client" where
  "DisabledDeviceNodeClient =
     \<lparr>cl_launch_notepad = (\<lambda>_ _ _ d. (Inl (DeviceCommandError (str ''TRUSTED_DEVICE_NODE_NOT_CONFIGURED'')), d)),
      cl_rollback_command = (\<lambda>_ _ _ _ d. (Inl (DeviceCommandError (str ''TRUSTED_DEVICE_NODE_NOT_CONFIGURED'')), d))\<rparr>"

text \<open>What \<open>urlparse\<close> says about a URL is a parameter.\<close>

record url_parts =
  up_scheme :: ustr
  up_hostname :: "ustr option"
  up_username :: "ustr option"
  up_password :: "ustr option"

record http_client =
  hc_base_url :: ustr
  hc_shared_secret :: ustr

definition make_http_client :: "(ustr \<Rightarrow> url_parts) \<Rightarrow> ustr \<Rightarrow> ustr \<Rightarrow> http_client res" where
  "make_http_client urlparse base_url shared_secret =
     (if length shared_secret < 32
      then Inl (ValueError (str ''Device-node shared secret must contain at least 32 characters''))
      else
        (let parsed = urlparse base_url
         in if up_scheme parsed \<noteq> str ''http'' \<or>
               up_hostname parsed \<notin> {Some (str ''127.0.0.1''), Some (str ''localhost''), Some (str ''::1'')} \<or>
               up_username parsed \<noteq> None \<or> up_password parsed \<noteq> None
            then Inl (ValueError (str ''Device-node URL must be an unauthenticated loopback HTTP endpoint''))
            else Inr \<lparr>hc_base_url = rstrip_chars ''/'' base_url, hc_shared_secret = shared_secret\<rparr>))"

text \<open>\<open>from_environment\<close>: \<^const>\<open>None\<close> is the disabled client.\<close>

definition client_from_environment ::
  "(ustr \<Rightarrow> url_parts) \<Rightarrow> ustr option \<Rightarrow> ustr option \<Rightarrow> http_client option res" where
  "client_from_environment urlparse url_var secret_var =
     (let base_url = strip (case url_var of None \<Rightarrow> [] | Some v \<Rightarrow> v);
          shared_secret = (case secret_var of None \<Rightarrow> [] | Some v \<Rightarrow> v)
      in if base_url = [] \<or> shared_secret = [] then Inr None
         else rbind (make_http_client urlparse base_url shared_secret) (\<lambda>c. Inr (Some c)))"

text \<open>
  The reply of the transport. A body is what \<open>response.json()\<close> finds: no JSON, no object, an
  object with exactly the fields of one kind of evidence, or any other object.
\<close>

datatype body =
    BodyNotJson
  | BodyNotObject
  | BodyCommand DeviceCommandEvidence
  | BodyRollback DeviceRollbackEvidence
  | BodyOther

datatype reply = TransportFailed | Reply nat body

type_synonym 'd transport = "ustr \<Rightarrow> envelope \<Rightarrow> ustr \<Rightarrow> 'd \<Rightarrow> reply \<times> 'd"

definition http_post ::
  "platform \<Rightarrow> 'd transport \<Rightarrow> http_client \<Rightarrow> ustr \<Rightarrow> envelope \<Rightarrow> 'd \<Rightarrow> body res \<times> 'd" where
  "http_post P transport c endpoint e d =
     (case sign_payload P e (hc_shared_secret c) of
        Inl exc \<Rightarrow> (Inl exc, d)
      | Inr signature \<Rightarrow>
          (case transport (hc_base_url c @ endpoint) e signature d of
             (TransportFailed, d') \<Rightarrow>
               (Inl (DeviceCommandError (str ''TRUSTED_DEVICE_NODE_UNREACHABLE'')), d')
           | (Reply status payload, d') \<Rightarrow>
               if status \<noteq> 200
               then (Inl (DeviceCommandError (str ''TRUSTED_DEVICE_NODE_REJECTED_'' @ dec_nat status)), d')
               else if payload = BodyNotJson then (Inl (ValueError (str ''JSONDecodeError'')), d')
               else if payload = BodyNotObject
               then (Inl (DeviceCommandError (str ''TRUSTED_DEVICE_NODE_RESPONSE_INVALID'')), d')
               else (Inr payload, d')))"

definition command_id_of :: "platform \<Rightarrow> uuid \<Rightarrow> ustr \<Rightarrow> uuid" where
  "command_id_of P task_id target_node_id =
     pf_uuid5 P (str ''nexuss:device-command:'' @ uuid_str task_id @
                 str '':device.launch_notepad:'' @ target_node_id)"

definition launch_envelope :: "platform \<Rightarrow> call_env \<Rightarrow> uuid \<Rightarrow> ustr \<Rightarrow> DeviceCommandEnvelope" where
  "launch_envelope P X task_id target_node_id =
     \<lparr>dc_command_id = command_id_of P task_id target_node_id, dc_task_id = task_id,
      dc_capability_id = str ''device.launch_notepad'', dc_target_node_id = target_node_id,
      dc_issued_at = ce_now X, dc_expires_at = ce_now X + DEVICE_COMMAND_LIFETIME,
      dc_nonce = ce_nonce X, dc_parameters = []\<rparr>"

definition rollback_envelope ::
  "platform \<Rightarrow> call_env \<Rightarrow> uuid \<Rightarrow> uuid \<Rightarrow> ustr \<Rightarrow> DeviceRollbackEnvelope" where
  "rollback_envelope P X task_id command_id target_node_id =
     \<lparr>dr_rollback_id = pf_uuid5 P (str ''nexuss:device-rollback:'' @ uuid_str task_id @ str '':'' @
                                   uuid_str command_id),
      dr_task_id = task_id, dr_command_id = command_id, dr_target_node_id = target_node_id,
      dr_issued_at = ce_now X, dr_expires_at = ce_now X + DEVICE_COMMAND_LIFETIME,
      dr_nonce = ce_nonce X\<rparr>"

text \<open>Constructing an envelope and validating a reply raise a \<open>ValidationError\<close>, a \<open>ValueError\<close>.\<close>

definition validation_error :: exn where
  "validation_error = ValueError (str ''ValidationError'')"

definition http_launch_notepad ::
  "platform \<Rightarrow> 'd transport \<Rightarrow> http_client \<Rightarrow> call_env \<Rightarrow> uuid \<Rightarrow> ustr \<Rightarrow> 'd \<Rightarrow>
     DeviceCommandEvidence res \<times> 'd" where
  "http_launch_notepad P transport c X task_id target_node_id d =
     (let e = launch_envelope P X task_id target_node_id
      in if \<not> valid_DeviceCommandEnvelope e then (Inl validation_error, d)
         else
           (case http_post P transport c (str ''/v1/commands'') (Command e) d of
              (Inl exc, d') \<Rightarrow> (Inl exc, d')
            | (Inr payload, d') \<Rightarrow>
                (case payload of
                   BodyCommand ev \<Rightarrow>
                     (if valid_DeviceCommandEvidence ev then Inr ev else Inl validation_error, d')
                 | _ \<Rightarrow> (Inl validation_error, d'))))"

definition http_rollback_command ::
  "platform \<Rightarrow> 'd transport \<Rightarrow> http_client \<Rightarrow> call_env \<Rightarrow> uuid \<Rightarrow> uuid \<Rightarrow> ustr \<Rightarrow> 'd \<Rightarrow>
     DeviceRollbackEvidence res \<times> 'd" where
  "http_rollback_command P transport c X task_id command_id target_node_id d =
     (let e = rollback_envelope P X task_id command_id target_node_id
      in if \<not> valid_DeviceRollbackEnvelope e then (Inl validation_error, d)
         else
           (case http_post P transport c (str ''/v1/rollbacks'') (Rollback e) d of
              (Inl exc, d') \<Rightarrow> (Inl exc, d')
            | (Inr payload, d') \<Rightarrow>
                (case payload of
                   BodyRollback ev \<Rightarrow>
                     (if valid_DeviceRollbackEvidence ev then Inr ev else Inl validation_error, d')
                 | _ \<Rightarrow> (Inl validation_error, d'))))"

definition HttpDeviceNodeClient :: "platform \<Rightarrow> 'd transport \<Rightarrow> http_client \<Rightarrow> 'd device_client" where
  "HttpDeviceNodeClient P transport c =
     \<lparr>cl_launch_notepad = http_launch_notepad P transport c,
      cl_rollback_command = http_rollback_command P transport c\<rparr>"

subsection \<open>A signature binds its envelope\<close>

lemma encode_utf8_Inr: "encode_utf8 s = Inr b \<longleftrightarrow> utf8 s = Some b"
  by (simp add: encode_utf8_def split: option.split)

lemma sort_keys_JDict_get:
  assumes "sort_keys (JDict a) = sort_keys (JDict b)" "distinct (map fst a)" "distinct (map fst b)"
  shows "map_option sort_keys (map_of a k) = map_option sort_keys (map_of b k)"
proof -
  have eq: "map_option sort_keys (map_of c k) = map_of (sort_key fst (map (map_prod id sort_keys) c)) k"
    if "distinct (map fst c)" for c
  proof -
    let ?c = "map (map_prod id sort_keys) c"
    have keys: "map fst ?c = map fst c" by simp
    have "distinct ?c" "inj_on fst (set ?c)" using that keys by (metis distinct_map)+
    then have "distinct (map fst (sort_key fst ?c))" by (simp add: distinct_map)
    then have "map_of (sort_key fst ?c) = map_of ?c"
      using that keys map_of_inject_set [of "sort_key fst ?c" ?c] by simp
    then show ?thesis by (simp add: map_of_map map_prod_def)
  qed
  show ?thesis using assms by (simp add: eq)
qed

lemma jstr_inject [simp]: "jstr a = jstr b \<longleftrightarrow> a = b"
  by (simp add: jstr_def)

lemma sort_keys_jstr [simp]: "sort_keys (jstr s) = jstr s"
  by (simp add: jstr_def)

lemma env_json_kind:
  assumes "sort_keys (env_json P (Command e)) = sort_keys (env_json P (Rollback r))"
  shows False
  using sort_keys_JDict_get [OF assms [unfolded env_json.simps], of "str ''capability_id''"]
  by simp

lemma command_json_fields:
  assumes "sort_keys (env_json P (Command a)) = sort_keys (env_json P (Command b))"
    and "inj (pf_json_time P)"
  shows "a = b\<lparr>dc_parameters := dc_parameters a\<rparr>"
    and "sort_key fst (dc_parameters a) = sort_key fst (dc_parameters b)"
proof -
  note get = sort_keys_JDict_get [OF assms(1) [unfolded env_json.simps]]
  note t = inj_eq [OF assms(2)]
  have "dc_command_id a = dc_command_id b" using get [of "str ''command_id''"] by simp
  moreover have "dc_task_id a = dc_task_id b" using get [of "str ''task_id''"] by simp
  moreover have "dc_capability_id a = dc_capability_id b" using get [of "str ''capability_id''"] by simp
  moreover have "dc_target_node_id a = dc_target_node_id b" using get [of "str ''target_node_id''"] by simp
  moreover have "dc_issued_at a = dc_issued_at b" using get [of "str ''issued_at''"] by (simp add: t)
  moreover have "dc_expires_at a = dc_expires_at b" using get [of "str ''expires_at''"] by (simp add: t)
  moreover have "dc_nonce a = dc_nonce b" using get [of "str ''nonce''"] by simp
  ultimately show "a = b\<lparr>dc_parameters := dc_parameters a\<rparr>" by simp
  show "sort_key fst (dc_parameters a) = sort_key fst (dc_parameters b)"
    using get [of "str ''parameters''"] by (simp add: sort_keys_attributes json_attributes_inject)
qed

lemma rollback_json_fields:
  assumes "sort_keys (env_json P (Rollback a)) = sort_keys (env_json P (Rollback b))"
    and "inj (pf_json_time P)"
  shows "a = b"
proof -
  note get = sort_keys_JDict_get [OF assms(1) [unfolded env_json.simps]]
  note t = inj_eq [OF assms(2)]
  have "dr_rollback_id a = dr_rollback_id b" using get [of "str ''rollback_id''"] by simp
  moreover have "dr_task_id a = dr_task_id b" using get [of "str ''task_id''"] by simp
  moreover have "dr_command_id a = dr_command_id b" using get [of "str ''command_id''"] by simp
  moreover have "dr_target_node_id a = dr_target_node_id b" using get [of "str ''target_node_id''"] by simp
  moreover have "dr_issued_at a = dr_issued_at b" using get [of "str ''issued_at''"] by (simp add: t)
  moreover have "dr_expires_at a = dr_expires_at b" using get [of "str ''expires_at''"] by (simp add: t)
  moreover have "dr_nonce a = dr_nonce b" using get [of "str ''nonce''"] by simp
  ultimately show ?thesis by simp
qed

text \<open>Two envelopes with the same canonical text agree on every field; the parameters agree as
  dictionaries.\<close>

definition same_envelope :: "envelope \<Rightarrow> envelope \<Rightarrow> bool" where
  "same_envelope a b \<longleftrightarrow>
     (case (a, b) of
        (Command x, Command y) \<Rightarrow>
          x = y\<lparr>dc_parameters := dc_parameters x\<rparr> \<and>
          sort_key fst (dc_parameters x) = sort_key fst (dc_parameters y)
      | (Rollback x, Rollback y) \<Rightarrow> x = y
      | _ \<Rightarrow> False)"

lemma canonical_payload_inject:
  assumes "canonical_payload P a = Inr x" "canonical_payload P b = Inr x" "inj (pf_json_time P)"
  shows "same_envelope a b"
proof -
  have "dumps (env_json P a) = dumps (env_json P b)"
    using assms(1,2) by (auto simp: canonical_payload_def encode_utf8_Inr intro: utf8_inject)
  then have "sort_keys (env_json P a) = sort_keys (env_json P b)" by (simp add: dumps_eq_iff)
  then show ?thesis
  proof (cases a; cases b)
    fix x y assume eq: "sort_keys (env_json P a) = sort_keys (env_json P b)" "a = Command x" "b = Command y"
    from command_json_fields [OF eq(1) [unfolded eq(2,3)] assms(3)] eq(2,3) show ?thesis
      by (simp add: same_envelope_def)
  next
    fix x y assume eq: "sort_keys (env_json P a) = sort_keys (env_json P b)" "a = Rollback x" "b = Rollback y"
    from rollback_json_fields [OF eq(1) [unfolded eq(2,3)] assms(3)] eq(2,3) show ?thesis
      by (simp add: same_envelope_def)
  next
    fix x y assume eq: "sort_keys (env_json P a) = sort_keys (env_json P b)" "a = Command x" "b = Rollback y"
    from env_json_kind [OF eq(1) [unfolded eq(2,3)]] show ?thesis ..
  next
    fix x y assume eq: "sort_keys (env_json P a) = sort_keys (env_json P b)" "a = Rollback x" "b = Command y"
    from env_json_kind [OF eq(1) [symmetric, unfolded eq(2,3)]] show ?thesis ..
  qed
qed

lemma verify_signature_Inr:
  "verify_signature P e secret sg = Inr u \<longleftrightarrow>
     32 \<le> length secret \<and>
     (\<exists>key payload. utf8 secret = Some key \<and> canonical_payload P e = Inr payload \<and>
        is_ascii (pf_hmac_sha256 P key payload) \<and> sg = pf_hmac_sha256 P key payload)"
  by (auto simp: verify_signature_def sign_payload_def rbind_Inr_iff encode_utf8_Inr guard_Inr_iff
      compare_digest_def not_less split: if_splits)

text \<open>C29. A signature that verifies for two envelopes either covers the same envelope twice, field for
  field, or it exhibits a collision of HMAC-SHA-256 under the shared secret. So a relayed
  signature cannot be moved to another task, command, node, lifetime, nonce or parameter
  set, nor from a launch to a rollback.\<close>

theorem signature_binds_envelope:
  assumes "verify_signature P a secret sg = Inr ()" and "verify_signature P b secret sg = Inr ()"
    and "inj (pf_json_time P)"
  shows "same_envelope a b \<or>
         (\<exists>key x y. utf8 secret = Some key \<and> canonical_payload P a = Inr x \<and>
            canonical_payload P b = Inr y \<and> x \<noteq> y \<and>
            pf_hmac_sha256 P key x = pf_hmac_sha256 P key y)"
proof -
  obtain key x y where k: "utf8 secret = Some key" "canonical_payload P a = Inr x"
    "canonical_payload P b = Inr y" "pf_hmac_sha256 P key x = pf_hmac_sha256 P key y"
    using assms(1,2) by (auto simp: verify_signature_Inr)
  show ?thesis
  proof (cases "x = y")
    case True
    with canonical_payload_inject [of P a x b] k assms(3) show ?thesis by blast
  qed (use k in blast)
qed

text \<open>A concrete envelope and its signature, for the witnesses.\<close>

definition sample_secret :: ustr where
  "sample_secret = replicate 32 115"

definition sample_rollback :: envelope where
  "sample_rollback = Rollback
     \<lparr>dr_rollback_id = 1, dr_task_id = 2, dr_command_id = 3, dr_target_node_id = str ''w'',
      dr_issued_at = 0, dr_expires_at = 30000000, dr_nonce = replicate 32 110\<rparr>"

definition sample_signature :: ustr where
  "sample_signature =
     pf_hmac_sha256 ascii_platform (replicate 32 115)
       (map of_nat (dumps (env_json ascii_platform sample_rollback)))"

lemma uuid_str_ascii: "\<forall>c\<in>set (uuid_str u). c < 128"
  using uuid_str_chars by fastforce

lemma sign_sample: "sign_payload ascii_platform sample_rollback sample_secret = Inr sample_signature"
proof -
  have "\<forall>s\<in>json_strs (env_json ascii_platform sample_rollback). \<forall>c\<in>set s. c < 128"
    using uuid_str_ascii
    by (auto simp: sample_rollback_def jstr_def ascii_platform_def str_def dest: dec_int_ascii)
  then have "canonical_payload ascii_platform sample_rollback =
      Inr (map of_nat (dumps (env_json ascii_platform sample_rollback)))"
    by (simp add: canonical_payload_def encode_utf8_def dumps_ascii)
  moreover have "utf8 sample_secret = Some (replicate 32 115)"
    by (subst utf8_ascii) (simp_all add: sample_secret_def)
  ultimately show ?thesis
    by (simp add: sign_payload_def encode_utf8_def sample_signature_def) (simp add: sample_secret_def)
qed

lemma verify_sample: "verify_signature ascii_platform sample_rollback sample_secret sample_signature = Inr ()"
proof -
  have "is_ascii sample_signature"
    using ascii_platform_digests valid_sha256_ascii
    by (simp add: sample_signature_def digests_ok_def valid_sha256_def)
  then show ?thesis by (simp add: verify_signature_def sign_sample compare_digest_def)
qed

lemma dec_int_inject: "dec_int i = dec_int j \<Longrightarrow> i = j"
  using dec_int_prefix_free [of i "[]" j "[]"] by (simp add: follows_def)

lemma ascii_platform_time_inj: "inj (pf_json_time ascii_platform)"
  by (auto simp: ascii_platform_def inj_def dest: dec_int_inject)

theorem signature_binds_envelope_witness: "same_envelope sample_rollback sample_rollback"
  using signature_binds_envelope [OF verify_sample verify_sample ascii_platform_time_inj] by auto

text \<open>Signing and verifying agree: what \<open>sign_payload\<close> produces is accepted and is the only
  signature that is, and where signing raises (a secret of fewer than 32 characters, text
  that UTF-8 cannot encode) verifying raises the same exception whatever the signature.\<close>

theorem sign_verify:
  assumes "digests_ok P"
  shows "(case sign_payload P e secret of
            Inr sg \<Rightarrow> 32 \<le> length secret \<and>
              (\<forall>other. verify_signature P e secret other = Inr () \<longleftrightarrow> other = sg)
          | Inl exc \<Rightarrow> (\<forall>other. verify_signature P e secret other = Inl exc))"
proof (cases "sign_payload P e secret")
  case (Inr sg)
  then obtain key payload where k: "32 \<le> length secret" "utf8 secret = Some key"
    "canonical_payload P e = Inr payload" "sg = pf_hmac_sha256 P key payload"
    by (auto simp: sign_payload_def rbind_Inr_iff encode_utf8_Inr not_less split: if_splits)
  moreover have "is_ascii (pf_hmac_sha256 P key payload)"
    using assms valid_sha256_ascii by (simp add: digests_ok_def valid_sha256_def)
  ultimately show ?thesis using Inr by (auto simp: verify_signature_Inr)
qed (simp add: verify_signature_def)

theorem sign_verify_witness:
  "\<forall>other. verify_signature ascii_platform sample_rollback sample_secret other = Inr () \<longleftrightarrow>
     other = sample_signature"
  using sign_verify [OF ascii_platform_digests, of sample_rollback sample_secret]
  by (simp add: sign_sample)

end
