(* ===== verification/Registry.thy ===== *)
theory Registry
  imports Domain
begin

section \<open>The capability registry of \<^verbatim>\<open>core/registry.py\<close>\<close>

text \<open>
  The eleven manifests, the index \<open>_BY_ID\<close> built from them, and the two lookups. The lemmas
  evaluate the lookup at every registered identifier and show it is \<^const>\<open>None\<close> elsewhere.
\<close>

definition manifest_assistant_respond :: CapabilityManifest where
  "manifest_assistant_respond = \<lparr>
     cm_capability_id = str ''assistant.respond'', cm_version = str ''1.0.0'',
     cm_title = str ''Nexuss conversation'',
     cm_description = str ''Answer identity, help, and capability questions without side effects.'',
     cm_risk_tier = INFORMATIONAL, cm_approval_policy = ApprovalPolicy.NONE,
     cm_reversible = False, cm_execution_mode = str ''deterministic_local'',
     cm_status = CapabilityStatus.ACTIVE, cm_approval_channel = DESKTOP\<rparr>"

definition manifest_read_status :: CapabilityManifest where
  "manifest_read_status = \<lparr>
     cm_capability_id = str ''workspace.read_status'', cm_version = str ''1.0.0'',
     cm_title = str ''Workspace status'',
     cm_description = str ''Read bounded local repository and runtime metadata.'',
     cm_risk_tier = LOW, cm_approval_policy = ApprovalPolicy.NONE,
     cm_reversible = False, cm_execution_mode = str ''live_local_readonly'',
     cm_status = CapabilityStatus.ACTIVE, cm_approval_channel = DESKTOP\<rparr>"

definition manifest_create_note :: CapabilityManifest where
  "manifest_create_note = \<lparr>
     cm_capability_id = str ''workspace.create_note'', cm_version = str ''1.0.0'',
     cm_title = str ''Create managed note'',
     cm_description = str ''Create a verified Markdown note in the Nexuss managed workspace.'',
     cm_risk_tier = MEDIUM, cm_approval_policy = ApprovalPolicy.EXPLICIT,
     cm_reversible = True, cm_execution_mode = str ''live_local_controlled_write'',
     cm_status = CapabilityStatus.ACTIVE, cm_approval_channel = DESKTOP\<rparr>"

definition manifest_rollback_create_note :: CapabilityManifest where
  "manifest_rollback_create_note = \<lparr>
     cm_capability_id = str ''workspace.rollback_create_note'', cm_version = str ''1.0.0'',
     cm_title = str ''Undo note creation'',
     cm_description = str ''Remove only the unchanged note created by the associated receipt.'',
     cm_risk_tier = MEDIUM, cm_approval_policy = ApprovalPolicy.EXPLICIT,
     cm_reversible = False, cm_execution_mode = str ''live_local_receipt_bound_rollback'',
     cm_status = CapabilityStatus.ACTIVE, cm_approval_channel = DESKTOP\<rparr>"

definition manifest_launch_notepad :: CapabilityManifest where
  "manifest_launch_notepad = \<lparr>
     cm_capability_id = str ''device.launch_notepad'', cm_version = str ''1.0.0'',
     cm_title = str ''Launch Notepad on trusted Windows node'',
     cm_description =
       str ''Launch only the fixed Windows Notepad executable through a signed, '' @
       str ''loopback-only device-node command envelope.'',
     cm_risk_tier = HIGH, cm_approval_policy = ApprovalPolicy.EXPLICIT,
     cm_reversible = True, cm_execution_mode = str ''trusted_device_node'',
     cm_status = CapabilityStatus.ACTIVE, cm_approval_channel = PHONE\<rparr>"

definition manifest_rollback_launch_notepad :: CapabilityManifest where
  "manifest_rollback_launch_notepad = \<lparr>
     cm_capability_id = str ''device.rollback_launch_notepad'', cm_version = str ''1.0.0'',
     cm_title = str ''Close receipt-bound Notepad process'',
     cm_description =
       str ''Terminate only the process created by the associated signed device command.'',
     cm_risk_tier = HIGH, cm_approval_policy = ApprovalPolicy.EXPLICIT,
     cm_reversible = False, cm_execution_mode = str ''trusted_device_node_rollback'',
     cm_status = CapabilityStatus.ACTIVE, cm_approval_channel = PHONE\<rparr>"

text \<open>The five simulated capabilities differ only in identifier, title and description.\<close>

definition simulated_manifest :: "string \<Rightarrow> string \<Rightarrow> string \<Rightarrow> CapabilityManifest" where
  "simulated_manifest cid title description = \<lparr>
     cm_capability_id = str cid, cm_version = str ''0.1.0'',
     cm_title = str title, cm_description = str description,
     cm_risk_tier = LOW, cm_approval_policy = ApprovalPolicy.NONE,
     cm_reversible = False, cm_execution_mode = str ''simulated'',
     cm_status = CapabilityStatus.SIMULATED, cm_approval_channel = DESKTOP\<rparr>"

definition MANIFESTS :: "CapabilityManifest list" where
  "MANIFESTS =
     [manifest_assistant_respond, manifest_read_status, manifest_create_note,
      manifest_rollback_create_note, manifest_launch_notepad, manifest_rollback_launch_notepad,
      simulated_manifest ''calendar.read_summary'' ''Calendar summary''
        ''P1 deterministic simulation only.'',
      simulated_manifest ''email.read_summary'' ''Email summary''
        ''P1 deterministic simulation only.'',
      simulated_manifest ''github.read_summary'' ''GitHub summary''
        ''P1 deterministic simulation only.'',
      simulated_manifest ''ats.read_health'' ''ATS health''
        ''Protected read-only simulation; no live ATS connection.'',
      simulated_manifest ''ats.read_intelligence'' ''ATS intelligence''
        ''Protected read-only simulation; no live market data.'']"

definition BY_ID :: "(ustr, CapabilityManifest) dict" where
  "BY_ID = dict_by cm_capability_id MANIFESTS"

definition list_capabilities :: "CapabilityManifest list" where
  "list_capabilities = MANIFESTS"

definition get_capability :: "ustr \<Rightarrow> CapabilityManifest option" where
  "get_capability capability_id = dget BY_ID capability_id"

lemmas manifest_defs =
  manifest_assistant_respond_def manifest_read_status_def manifest_create_note_def
  manifest_rollback_create_note_def manifest_launch_notepad_def
  manifest_rollback_launch_notepad_def simulated_manifest_def

text \<open>Looking a manifest up is a case distinction over the eleven identifiers.\<close>

lemma get_capability_cases:
  "get_capability c =
     (if c = str ''assistant.respond'' then Some manifest_assistant_respond
      else if c = str ''workspace.read_status'' then Some manifest_read_status
      else if c = str ''workspace.create_note'' then Some manifest_create_note
      else if c = str ''workspace.rollback_create_note'' then Some manifest_rollback_create_note
      else if c = str ''device.launch_notepad'' then Some manifest_launch_notepad
      else if c = str ''device.rollback_launch_notepad'' then Some manifest_rollback_launch_notepad
      else if c = str ''calendar.read_summary'' then
        Some (simulated_manifest ''calendar.read_summary'' ''Calendar summary''
          ''P1 deterministic simulation only.'')
      else if c = str ''email.read_summary'' then
        Some (simulated_manifest ''email.read_summary'' ''Email summary''
          ''P1 deterministic simulation only.'')
      else if c = str ''github.read_summary'' then
        Some (simulated_manifest ''github.read_summary'' ''GitHub summary''
          ''P1 deterministic simulation only.'')
      else if c = str ''ats.read_health'' then
        Some (simulated_manifest ''ats.read_health'' ''ATS health''
          ''Protected read-only simulation; no live ATS connection.'')
      else if c = str ''ats.read_intelligence'' then
        Some (simulated_manifest ''ats.read_intelligence'' ''ATS intelligence''
          ''Protected read-only simulation; no live market data.'')
      else None)"
proof -
  have ids: "cm_capability_id manifest_assistant_respond = str ''assistant.respond''"
    "cm_capability_id manifest_read_status = str ''workspace.read_status''"
    "cm_capability_id manifest_create_note = str ''workspace.create_note''"
    "cm_capability_id manifest_rollback_create_note = str ''workspace.rollback_create_note''"
    "cm_capability_id manifest_launch_notepad = str ''device.launch_notepad''"
    "cm_capability_id manifest_rollback_launch_notepad = str ''device.rollback_launch_notepad''"
    "\<And>c t d. cm_capability_id (simulated_manifest c t d) = str c"
    by (simp_all add: manifest_defs)
  show ?thesis
    by (simp add: get_capability_def BY_ID_def dict_by_def MANIFESTS_def ids del: str_eq_iff split del: if_split)
      (simp add: dict_laws)
qed

lemma manifest_ids_distinct: "distinct (map cm_capability_id list_capabilities)"
  by (simp add: list_capabilities_def MANIFESTS_def manifest_defs)

lemma get_capability_in_registry:
  "get_capability c = Some m \<longleftrightarrow> m \<in> set list_capabilities \<and> cm_capability_id m = c"
  using manifest_ids_distinct
  by (simp add: get_capability_def BY_ID_def list_capabilities_def dict_by_iff)

lemma get_capability_id: "get_capability c = Some m \<Longrightarrow> cm_capability_id m = c"
  by (simp add: get_capability_in_registry)

text \<open>Registry lookups are exact: an identifier is found exactly when a manifest of the
  registry carries it, identifiers are unique, all of them satisfy the declared
  pattern, and every registered capability that changes something outside the process needs
  explicit approval, on the phone when it acts on a device.\<close>

theorem registry_sound:
  "(get_capability c = Some m \<longleftrightarrow> m \<in> set list_capabilities \<and> cm_capability_id m = c) \<and>
   distinct (map cm_capability_id list_capabilities) \<and>
   list_all valid_CapabilityManifest list_capabilities \<and>
   list_all (\<lambda>m. cm_reversible m \<longrightarrow> cm_approval_policy m = ApprovalPolicy.EXPLICIT) list_capabilities \<and>
   list_all (\<lambda>m. cm_risk_tier m = HIGH \<longleftrightarrow> cm_approval_channel m = PHONE) list_capabilities"
proof -
  have "list_all valid_CapabilityManifest list_capabilities"
    by (simp add: list_capabilities_def MANIFESTS_def manifest_defs valid_CapabilityManifest_def
        valid_CapabilityId_def)
      (simp add: str_def capability_char_def)
  moreover have "list_all (\<lambda>m. cm_reversible m \<longrightarrow> cm_approval_policy m = ApprovalPolicy.EXPLICIT) list_capabilities"
    "list_all (\<lambda>m. cm_risk_tier m = HIGH \<longleftrightarrow> cm_approval_channel m = PHONE) list_capabilities"
    by (simp_all add: list_capabilities_def MANIFESTS_def manifest_defs)
  ultimately show ?thesis using get_capability_in_registry manifest_ids_distinct by blast
qed

theorem registry_sound_witness:
  "manifest_launch_notepad \<in> set list_capabilities \<and> cm_risk_tier manifest_launch_notepad = HIGH"
  using registry_sound [of "str ''device.launch_notepad''" manifest_launch_notepad]
  by (simp add: get_capability_cases) (simp add: manifest_launch_notepad_def)

end
