(* ===== verification/Policy.thy ===== *)
theory Policy
  imports Registry
begin

section \<open>Fail-closed policy evaluation: \<^verbatim>\<open>core/policy.py\<close>\<close>

text \<open>
  \<open>evaluate_step\<close> with its branches in the source's order: the prohibited list, an
  unregistered capability, a registry prohibition, explicit approval, no approval needed, and
  the closing denial. The lemmas turn it into three explicit lists of capabilities.
\<close>

definition PROHIBITED_CAPABILITIES :: "ustr set" where
  "PROHIBITED_CAPABILITIES =
     {str ''ats.write_order'', str ''finance.transfer'', str ''social.publish'',
      str ''nexuss.unsupported'', str ''device.workspace.prepare''}"

definition decision ::
  "PlanStep \<Rightarrow> PolicyOutcome \<Rightarrow> ustr \<Rightarrow> ustr \<Rightarrow> PolicyDecision" where
  "decision step out reason explanation =
     \<lparr>pd_step_id = ps_step_id step, pd_capability_id = ps_capability_id step,
      pd_outcome = out, pd_reason_code = reason, pd_explanation = explanation\<rparr>"

definition evaluate_step :: "PlanStep \<Rightarrow> PolicyDecision" where
  "evaluate_step step =
     (if ps_capability_id step \<in> PROHIBITED_CAPABILITIES then
        decision step DENY (str ''CAPABILITY_PROHIBITED_IN_P3'')
          (str ''This capability is outside the approved P3 execution boundary.'')
      else
        (case get_capability (ps_capability_id step) of
           None \<Rightarrow>
             decision step DENY (str ''CAPABILITY_NOT_REGISTERED'')
               (str ''Unregistered capabilities cannot execute in Nexuss.'')
         | Some manifest \<Rightarrow>
             if cm_status manifest = CapabilityStatus.PROHIBITED then
               decision step DENY (str ''CAPABILITY_REGISTRY_PROHIBITED'')
                 (str ''The capability registry marks this capability as prohibited.'')
             else if cm_approval_policy manifest = ApprovalPolicy.EXPLICIT then
               (let phone_required = cm_approval_channel manifest = PHONE in
                decision step REQUIRE_APPROVAL
                  (if phone_required then str ''TRUSTED_PHONE_APPROVAL_REQUIRED''
                   else str ''EXPLICIT_USER_APPROVAL_REQUIRED'')
                  (if phone_required then
                     str ''This trusted-device command requires approval from a paired phone bound to '' @
                     str ''the requesting Nexuss session and the exact payload hash.''
                   else
                     str ''This controlled write is authorized only after the user approves the exact '' @
                     str ''payload bound to the current authenticated session.''))
             else if cm_approval_policy manifest = ApprovalPolicy.NONE then
               decision step ALLOW
                 (if cm_execution_mode manifest = str ''deterministic_local''
                  then str ''INFORMATIONAL_NO_SIDE_EFFECT''
                  else str ''REGISTERED_READ_ONLY_OR_SIMULATED'')
                 (str ''The registered capability has no approved external side effect.'')
             else
               decision step DENY (str ''FAIL_CLOSED_POLICY_CONFIGURATION'')
                 (str ''No explicit policy outcome authorizes this capability.'')))"

text \<open>The capabilities of each outcome.\<close>

definition allowed_capabilities :: "ustr set" where
  "allowed_capabilities =
     {str ''assistant.respond'', str ''workspace.read_status'', str ''calendar.read_summary'',
      str ''email.read_summary'', str ''github.read_summary'', str ''ats.read_health'',
      str ''ats.read_intelligence''}"

definition approval_capabilities :: "ustr set" where
  "approval_capabilities =
     {str ''workspace.create_note'', str ''workspace.rollback_create_note'',
      str ''device.launch_notepad'', str ''device.rollback_launch_notepad''}"

lemma evaluate_step_ids [simp]:
  "pd_step_id (evaluate_step step) = ps_step_id step"
  "pd_capability_id (evaluate_step step) = ps_capability_id step"
  by (simp_all add: evaluate_step_def decision_def Let_def split: option.splits)

lemma outcome_by_manifest:
  "pd_outcome (evaluate_step step) =
     (if ps_capability_id step \<in> PROHIBITED_CAPABILITIES then DENY
      else case get_capability (ps_capability_id step) of
             None \<Rightarrow> DENY
           | Some m \<Rightarrow>
               if cm_status m = CapabilityStatus.PROHIBITED then DENY
               else if cm_approval_policy m = ApprovalPolicy.EXPLICIT then REQUIRE_APPROVAL
               else if cm_approval_policy m = ApprovalPolicy.NONE then ALLOW else DENY)"
  by (simp add: evaluate_step_def decision_def Let_def split: option.splits)

lemma outcome_by_capability:
  "pd_outcome (evaluate_step step) =
     (if ps_capability_id step \<in> allowed_capabilities then ALLOW
      else if ps_capability_id step \<in> approval_capabilities then REQUIRE_APPROVAL
      else DENY)"
proof -
  have "(if c \<in> PROHIBITED_CAPABILITIES then DENY
      else case get_capability c of None \<Rightarrow> DENY
           | Some m \<Rightarrow>
               if cm_status m = CapabilityStatus.PROHIBITED then DENY
               else if cm_approval_policy m = ApprovalPolicy.EXPLICIT then REQUIRE_APPROVAL
               else if cm_approval_policy m = ApprovalPolicy.NONE then ALLOW else DENY) =
     (if c \<in> allowed_capabilities then ALLOW
      else if c \<in> approval_capabilities then REQUIRE_APPROVAL else DENY)" for c
    unfolding get_capability_cases
    by (auto simp: manifest_defs allowed_capabilities_def approval_capabilities_def
        PROHIBITED_CAPABILITIES_def)
  then show ?thesis unfolding outcome_by_manifest .
qed

lemma outcome_ALLOW_iff:
  "pd_outcome (evaluate_step step) = ALLOW \<longleftrightarrow> ps_capability_id step \<in> allowed_capabilities"
  by (simp add: outcome_by_capability)

lemma outcome_REQUIRE_iff:
  "pd_outcome (evaluate_step step) = REQUIRE_APPROVAL \<longleftrightarrow>
     ps_capability_id step \<in> approval_capabilities"
  by (auto simp: outcome_by_capability allowed_capabilities_def approval_capabilities_def)

lemma evaluate_step_valid [valid_intro]:
  "valid_CapabilityId (ps_capability_id step) \<Longrightarrow> valid_PolicyDecision (evaluate_step step)"
  by (simp add: valid_PolicyDecision_def)

text \<open>Policy is fail-closed: whatever a plan step asks for, it is allowed without approval
  exactly when its capability is one of seven informational, read-only or simulated ones,
  it needs approval exactly when it is one of the four controlled ones, and every other
  identifier, known or not, is denied.\<close>

theorem policy_fail_closed:
  "(pd_outcome (evaluate_step step) = ALLOW \<longleftrightarrow> ps_capability_id step \<in> allowed_capabilities) \<and>
   (pd_outcome (evaluate_step step) = REQUIRE_APPROVAL \<longleftrightarrow>
      ps_capability_id step \<in> approval_capabilities) \<and>
   (pd_outcome (evaluate_step step) = DENY \<longleftrightarrow>
      ps_capability_id step \<notin> allowed_capabilities \<union> approval_capabilities)"
  by (auto simp: outcome_by_capability allowed_capabilities_def approval_capabilities_def)

text \<open>The decision about a device command names the phone: for a capability that needs
  approval, the reason code is the phone one exactly when the registry puts the
  capability on the phone channel.\<close>

theorem policy_phone_reason:
  assumes "get_capability (ps_capability_id step) = Some m"
    and "pd_outcome (evaluate_step step) = REQUIRE_APPROVAL"
  shows "pd_reason_code (evaluate_step step) = str ''TRUSTED_PHONE_APPROVAL_REQUIRED'' \<longleftrightarrow>
           cm_approval_channel m = PHONE"
  using assms
  by (auto simp: evaluate_step_def decision_def Let_def split: if_splits)

theorem policy_phone_reason_witness:
  "pd_reason_code (evaluate_step \<lparr>ps_step_id = 1, ps_order = 1,
      ps_capability_id = str ''device.launch_notepad'', ps_risk_tier = HIGH,
      ps_expected_evidence = [], ps_parameters = [], ps_reversible = True\<rparr>)
     = str ''TRUSTED_PHONE_APPROVAL_REQUIRED''"
  by (subst policy_phone_reason [where m = manifest_launch_notepad])
    (simp_all add: outcome_REQUIRE_iff approval_capabilities_def get_capability_cases,
     simp add: manifest_launch_notepad_def)

end
