(* ===== verification/Executor.thy ===== *)
theory Executor
  imports Notes Device Policy
begin

section \<open>Capability execution: \<^verbatim>\<open>core/simulator.py\<close>, \<^verbatim>\<open>core/local_workspace.py\<close>, \<^verbatim>\<open>core/executor.py\<close>\<close>

text \<open>
  The simulator's table, the read-only workspace evidence, and the router that executes one
  plan step. The two components with effects, the note store and the device, form the
  record \<open>world\<close>, which is passed through; what the operating system, the workspace and
  the clock answer is the record \<open>exec_env\<close>. An exception that the router does not catch is
  the \<^const>\<open>Inl\<close> of its result, next to the world it leaves.
\<close>

subsection \<open>Results\<close>

definition failed_result :: "PlanStep \<Rightarrow> ustr \<Rightarrow> CapabilityResult" where
  "failed_result step error_code =
     \<lparr>cr_step_id = ps_step_id step, cr_capability_id = ps_capability_id step,
      cr_status = StepStatus.FAILED, cr_evidence = [], cr_error_code = Some error_code\<rparr>"

definition evidenced_result ::
  "PlanStep \<Rightarrow> StepStatus \<Rightarrow> ustr \<Rightarrow> time \<Rightarrow> attributes \<Rightarrow> ustr option \<Rightarrow> CapabilityResult" where
  "evidenced_result step status source timestamp attributes error_code =
     \<lparr>cr_step_id = ps_step_id step, cr_capability_id = ps_capability_id step, cr_status = status,
      cr_evidence = [\<lparr>er_source = source, er_observed_at = timestamp, er_attributes = attributes\<rparr>],
      cr_error_code = error_code\<rparr>"

subsection \<open>The simulator\<close>

definition SIMULATED_ATTRIBUTES :: "(ustr, attributes) dict" where
  "SIMULATED_ATTRIBUTES =
     [(str ''calendar.read_summary'',
         [(str ''events'', PyInt 2), (str ''source_mode'', PyStr (str ''simulated''))]),
      (str ''email.read_summary'',
         [(str ''unread_priority'', PyInt 3), (str ''source_mode'', PyStr (str ''simulated''))]),
      (str ''github.read_summary'',
         [(str ''repositories'', PyInt 4), (str ''open_pull_requests'', PyInt 1),
          (str ''source_mode'', PyStr (str ''simulated''))]),
      (str ''ats.read_health'',
         [(str ''status'', PyStr (str ''healthy'')), (str ''mode'', PyStr (str ''read_only_simulated''))]),
      (str ''ats.read_intelligence'',
         [(str ''status'', PyStr (str ''available'')), (str ''mode'', PyStr (str ''read_only_simulated'')),
          (str ''market_signal'', PyStr (str ''not_real_data''))]),
      (str ''nexuss.read_health'',
         [(str ''status'', PyStr (str ''ready'')), (str ''mode'', PyStr (str ''p3_approved_actions''))]),
      (str ''media.prepare_playback'',
         [(str ''status'', PyStr (str ''prepared'')), (str ''source_mode'', PyStr (str ''simulated''))])]"

definition execute_simulated_step :: "PlanStep \<Rightarrow> time \<Rightarrow> CapabilityResult" where
  "execute_simulated_step step timestamp =
     (case dget SIMULATED_ATTRIBUTES (ps_capability_id step) of
        None \<Rightarrow> failed_result step (str ''SIMULATOR_CAPABILITY_NOT_FOUND'')
      | Some attributes \<Rightarrow>
          evidenced_result step StepStatus.VERIFIED (str ''simulator:'' @ ps_capability_id step)
            timestamp attributes None)"

subsection \<open>Workspace evidence\<close>

definition MAX_GIT_OUTPUT :: nat where
  "MAX_GIT_OUTPUT = 16384"

text \<open>
  What the host answers: \<open>wp_run_git\<close> is the standard output of a command, or \<^const>\<open>None\<close>
  when \<open>subprocess.run\<close> raises, and \<open>wp_disk\<close> is the total and the free space or an error.
\<close>

record workspace_probe =
  wp_which_git :: "ustr option"
  wp_run_git :: "ustr list \<Rightarrow> ustr option"
  wp_is_dir :: bool
  wp_has_dot_git :: bool
  wp_hostname :: ustr
  wp_system :: ustr
  wp_release :: ustr
  wp_machine :: ustr
  wp_python_version :: ustr
  wp_python_executable :: ustr
  wp_root_name :: ustr
  wp_root_path :: ustr
  wp_disk :: "ustr + int \<times> int"

definition run_git :: "workspace_probe \<Rightarrow> ustr list \<Rightarrow> ustr res" where
  "run_git W arguments =
     (case wp_which_git W of
        None \<Rightarrow> Inl (LocalWorkspaceEvidenceError (str ''Git executable is unavailable''))
      | Some git \<Rightarrow>
          (case wp_run_git W ([git, str ''-C'', wp_root_path W] @ arguments) of
             None \<Rightarrow> Inl (LocalWorkspaceEvidenceError (str ''Git metadata collection failed''))
           | Some stdout \<Rightarrow>
               (let output = strip stdout
                in rbind (encode_utf8 output) (\<lambda>encoded.
                     if length encoded > MAX_GIT_OUTPUT
                     then Inl (LocalWorkspaceEvidenceError (str ''Git metadata exceeded the safe output limit''))
                     else Inr output))))"

text \<open>\<open>str.splitlines\<close>; a carriage return followed by a line feed is one boundary.\<close>

definition is_line_break :: "nat \<Rightarrow> bool" where
  "is_line_break c \<longleftrightarrow> 10 \<le> c \<and> c \<le> 13 \<or> 28 \<le> c \<and> c \<le> 30 \<or> c = 133 \<or> c = 8232 \<or> c = 8233"

fun splitlines_aux :: "ustr \<Rightarrow> ustr \<Rightarrow> ustr list" where
  "splitlines_aux w [] = (if w = [] then [] else [w])"
| "splitlines_aux w (c # cs) =
     (if is_line_break c
      then w # splitlines_aux [] (if c = 13 \<and> cs \<noteq> [] \<and> hd cs = 10 then tl cs else cs)
      else splitlines_aux (w @ [c]) cs)"

definition splitlines :: "ustr \<Rightarrow> ustr list" where
  "splitlines s = splitlines_aux [] s"

definition or_unknown :: "ustr \<Rightarrow> ustr" where
  "or_unknown s = (if s = [] then str ''unknown'' else s)"

definition collect_local_workspace_status ::
  "platform \<Rightarrow> workspace_probe \<Rightarrow> time \<Rightarrow> attributes res" where
  "collect_local_workspace_status P W timestamp =
     (if \<not> wp_is_dir W \<or> \<not> wp_has_dot_git W
      then Inl (LocalWorkspaceEvidenceError
             (str ''Configured Nexuss repository is not a Git workspace''))
      else
        rbind (run_git W [str ''branch'', str ''--show-current'']) (\<lambda>branch.
        rbind (run_git W [str ''rev-parse'', str ''HEAD'']) (\<lambda>commit.
        rbind (run_git W [str ''status'', str ''--porcelain=v1'']) (\<lambda>porcelain.
          (let changed_entries = filter (\<lambda>line. strip line \<noteq> []) (splitlines porcelain)
           in case wp_disk W of
                Inl e \<Rightarrow> Inl (OSError e)
              | Inr (disk_total, disk_free) \<Rightarrow>
                  Inr [(str ''source_mode'', PyStr (str ''live_local_readonly'')),
                       (str ''observed_at'', PyStr (pf_isoformat P timestamp)),
                       (str ''hostname'', PyStr (or_unknown (wp_hostname W))),
                       (str ''operating_system'', PyStr (or_unknown (wp_system W))),
                       (str ''operating_system_release'', PyStr (or_unknown (wp_release W))),
                       (str ''machine'', PyStr (or_unknown (wp_machine W))),
                       (str ''python_version'', PyStr (wp_python_version W)),
                       (str ''python_executable_name'', PyStr (wp_python_executable W)),
                       (str ''repository_name'', PyStr (wp_root_name W)),
                       (str ''repository_path'', PyStr (wp_root_path W)),
                       (str ''git_branch'', PyStr (if branch = [] then str ''detached'' else branch)),
                       (str ''git_commit'', PyStr commit),
                       (str ''git_clean'', PyBool (changed_entries = [])),
                       (str ''git_changed_entries'', PyInt (int (length changed_entries))),
                       (str ''disk_total_bytes'', PyInt disk_total),
                       (str ''disk_free_bytes'', PyInt disk_free),
                       (str ''api_mode'', PyStr (str ''p3_approved_actions''))])))))"

subsection \<open>The router\<close>

record 'd world =
  wd_notes :: note_store
  wd_device :: 'd

record exec_env =
  xe_os :: os_env
  xe_probe :: workspace_probe
  xe_call :: call_env

definition execute_assistant_response :: "PlanStep \<Rightarrow> time \<Rightarrow> CapabilityResult" where
  "execute_assistant_response step timestamp =
     (let response = get_str (ps_parameters step) ''response'' []
      in if response = [] then failed_result step (str ''ASSISTANT_RESPONSE_MISSING'')
         else evidenced_result step StepStatus.VERIFIED (str ''nexuss:deterministic_response'') timestamp
                [(str ''response'', PyStr response),
                 (str ''source_mode'', PyStr (str ''deterministic_local''))] None)"

text \<open>\<open>str(step.parameters[key])\<close>.\<close>

definition param :: "PlanStep \<Rightarrow> string \<Rightarrow> ustr res" where
  "param step key =
     (case dget (ps_parameters step) (str key) of None \<Rightarrow> Inl (KeyError (str key)) | Some v \<Rightarrow> Inr (py_str v))"

definition prepared_from_step :: "PlanStep \<Rightarrow> PreparedNote res" where
  "prepared_from_step step =
     rbind (param step ''title'') (\<lambda>title.
     rbind (param step ''filename'') (\<lambda>filename.
     rbind (param step ''content'') (\<lambda>content.
     rbind (encode_utf8 content) (\<lambda>content_bytes.
     rbind (param step ''content_sha256'') (\<lambda>content_sha256.
       Inr \<lparr>pn_title = title, pn_filename = filename, pn_content = content,
            pn_content_bytes = content_bytes, pn_content_sha256 = content_sha256\<rparr>)))))"

definition note_result :: "PlanStep \<Rightarrow> time \<Rightarrow> CreatedNote \<Rightarrow> CapabilityResult" where
  "note_result step timestamp created =
     evidenced_result step StepStatus.VERIFIED (str ''local:managed_workspace'') timestamp
       [(str ''source_mode'', PyStr (str ''live_local_controlled_write'')),
        (str ''filename'', PyStr (cn_filename created)),
        (str ''managed_path'', PyStr (path_str (cn_path created))),
        (str ''byte_count'', PyInt (int (cn_byte_count created))),
        (str ''sha256'', PyStr (cn_sha256 created)),
        (str ''verified'', PyBool True), (str ''reversible'', PyBool True)] None"

definition execute_create_note ::
  "platform \<Rightarrow> os_env \<Rightarrow> PlanStep \<Rightarrow> time \<Rightarrow> note_store \<Rightarrow> CapabilityResult res \<times> note_store" where
  "execute_create_note P E step timestamp N =
     (case prepared_from_step step of
        Inl e \<Rightarrow> (Inl e, N)
      | Inr prepared \<Rightarrow>
          (case store_create P E N prepared of
             (N', Inl e) \<Rightarrow> (Inl e, N')
           | (N', Inr created) \<Rightarrow> (Inr (note_result step timestamp created), N')))"

definition launch_result :: "platform \<Rightarrow> PlanStep \<Rightarrow> time \<Rightarrow> DeviceCommandEvidence \<Rightarrow> CapabilityResult" where
  "launch_result P step timestamp ev =
     evidenced_result step
       (if de_verified_running ev then StepStatus.VERIFIED else StepStatus.FAILED)
       (str ''device:windows-node'') timestamp
       [(str ''source_mode'', PyStr (de_source_mode ev)),
        (str ''command_id'', PyStr (uuid_str (de_command_id ev))),
        (str ''node_id'', PyStr (de_node_id ev)),
        (str ''node_hostname'', PyStr (de_node_hostname ev)),
        (str ''executable'', PyStr (de_executable ev)),
        (str ''process_id'', PyInt (de_process_id ev)),
        (str ''started_at'', PyStr (pf_isoformat P (de_started_at ev))),
        (str ''verified_running'', PyBool (de_verified_running ev)),
        (str ''reversible'', PyBool True)]
       (if de_verified_running ev then None else Some (str ''DEVICE_PROCESS_NOT_RUNNING''))"

definition execute_launch_notepad ::
  "platform \<Rightarrow> 'd device_client \<Rightarrow> call_env \<Rightarrow> PlanStep \<Rightarrow> time \<Rightarrow> uuid \<Rightarrow> 'd \<Rightarrow>
     CapabilityResult res \<times> 'd" where
  "execute_launch_notepad P C X step timestamp task_id d =
     (let target_node_id = get_str (ps_parameters step) ''target_node_id'' (str ''windows-primary'')
      in case cl_launch_notepad C X task_id target_node_id d of
           (Inl e, d') \<Rightarrow>
             (if is_DeviceCommandError e
              then Inr (failed_result step (str ''TRUSTED_DEVICE_COMMAND_FAILED'')) else Inl e, d')
         | (Inr ev, d') \<Rightarrow> (Inr (launch_result P step timestamp ev), d'))"

definition is_workspace_error :: "exn \<Rightarrow> bool" where
  "is_workspace_error e \<longleftrightarrow> (case e of LocalWorkspaceEvidenceError _ \<Rightarrow> True | _ \<Rightarrow> False)"

definition execute_read_status ::
  "platform \<Rightarrow> workspace_probe \<Rightarrow> PlanStep \<Rightarrow> time \<Rightarrow> CapabilityResult res" where
  "execute_read_status P W step timestamp =
     (case collect_local_workspace_status P W timestamp of
        Inl e \<Rightarrow>
          if is_workspace_error e
          then Inr (failed_result step (str ''LOCAL_WORKSPACE_EVIDENCE_UNAVAILABLE'')) else Inl e
      | Inr attributes \<Rightarrow>
          Inr (evidenced_result step StepStatus.VERIFIED (str ''local:workspace'') timestamp attributes None))"

text \<open>
  \<open>has_store\<close>, \<open>client\<close> and \<open>task_id\<close> are the optional arguments; the service passes all three.
\<close>

definition execute_step ::
  "platform \<Rightarrow> exec_env \<Rightarrow> PlanStep \<Rightarrow> time \<Rightarrow> bool \<Rightarrow> 'd device_client option \<Rightarrow> uuid option \<Rightarrow>
     'd world \<Rightarrow> CapabilityResult res \<times> 'd world" where
  "execute_step P X step timestamp has_store client task_id W =
     (if ps_capability_id step = str ''assistant.respond''
      then (Inr (execute_assistant_response step timestamp), W)
      else if ps_capability_id step = str ''workspace.create_note''
      then
        (if \<not> has_store
         then (Inl (RuntimeError (str ''ManagedNoteStore is required for controlled writes'')), W)
         else
           (let (r, N) = execute_create_note P (xe_os X) step timestamp (wd_notes W)
            in (r, W\<lparr>wd_notes := N\<rparr>)))
      else if ps_capability_id step = str ''device.launch_notepad''
      then
        (case (task_id, client) of
           (Some t, Some C) \<Rightarrow>
             (let (r, d) = execute_launch_notepad P C (xe_call X) step timestamp t (wd_device W)
              in (r, W\<lparr>wd_device := d\<rparr>))
         | _ \<Rightarrow> (Inr (failed_result step (str ''TRUSTED_DEVICE_NODE_NOT_CONFIGURED'')), W))
      else if ps_capability_id step = str ''workspace.read_status''
      then (execute_read_status P (xe_probe X) step timestamp, W)
      else (Inr (execute_simulated_step step timestamp), W))"

subsection \<open>What a step can do\<close>

lemma execute_step_frame:
  "ps_capability_id step \<noteq> str ''workspace.create_note'' \<Longrightarrow>
     wd_notes (snd (execute_step P X step ts hs C t W)) = wd_notes W"
  "ps_capability_id step \<noteq> str ''device.launch_notepad'' \<Longrightarrow>
     wd_device (snd (execute_step P X step ts hs C t W)) = wd_device W"
  by (simp_all add: execute_step_def case_prod_beta split: option.split)

lemma execute_step_inert:
  assumes "ps_capability_id step \<notin> {str ''workspace.create_note'', str ''device.launch_notepad''}"
  shows "snd (execute_step P X step ts hs C t W) = W"
  using execute_step_frame [of step P X ts hs C t W] assms by simp

lemma result_simps [simp]:
  "cr_step_id (failed_result step c) = ps_step_id step"
  "cr_capability_id (failed_result step c) = ps_capability_id step"
  "cr_status (failed_result step c) = StepStatus.FAILED"
  "cr_step_id (evidenced_result step st src ts a ec) = ps_step_id step"
  "cr_capability_id (evidenced_result step st src ts a ec) = ps_capability_id step"
  "cr_status (evidenced_result step st src ts a ec) = st"
  "cr_evidence (evidenced_result step st src ts a ec) =
     [\<lparr>er_source = src, er_observed_at = ts, er_attributes = a\<rparr>]"
  by (simp_all add: failed_result_def evidenced_result_def)

definition result_for :: "PlanStep \<Rightarrow> CapabilityResult \<Rightarrow> bool" where
  "result_for step r \<longleftrightarrow>
     cr_step_id r = ps_step_id step \<and> cr_capability_id r = ps_capability_id step \<and>
     cr_status r \<in> {StepStatus.VERIFIED, StepStatus.FAILED} \<and>
     (cr_status r = StepStatus.VERIFIED \<longrightarrow> length (cr_evidence r) = 1)"

lemma result_for_intros:
  "result_for step (failed_result step c)"
  "st \<in> {StepStatus.VERIFIED, StepStatus.FAILED} \<Longrightarrow> result_for step (evidenced_result step st src ts a ec)"
  by (auto simp: result_for_def)

lemma execute_step_result_for:
  "fst (execute_step P X step ts hs C t W) = Inr r \<Longrightarrow> result_for step r"
  by (auto simp: execute_step_def execute_assistant_response_def execute_create_note_def note_result_def
      execute_launch_notepad_def launch_result_def execute_read_status_def execute_simulated_step_def
      case_prod_beta Let_def result_for_intros
      split: if_splits option.splits sum.splits prod.splits)

text \<open>C34. Whatever policy allows without approval changes nothing: executing it leaves the note
  store and the device as they were, whatever the host answers and even if it raises.\<close>

theorem allowed_step_is_inert:
  assumes "pd_outcome (evaluate_step step) = ALLOW"
  shows "snd (execute_step P X step ts hs C t W) = W"
  using assms
  by (intro execute_step_inert) (auto simp: outcome_ALLOW_iff allowed_capabilities_def)

definition read_step :: PlanStep where
  "read_step =
     \<lparr>ps_step_id = 1, ps_order = 1, ps_capability_id = str ''calendar.read_summary'', ps_risk_tier = LOW,
      ps_expected_evidence = [str ''calendar_snapshot''], ps_parameters = [], ps_reversible = False\<rparr>"

theorem allowed_step_is_inert_witness:
  "\<forall>X C W. snd (execute_step ascii_platform X read_step 5 True (Some C) (Some 7) W) = W"
proof -
  have "pd_outcome (evaluate_step read_step) = ALLOW"
    by (simp add: read_step_def outcome_ALLOW_iff allowed_capabilities_def)
  from allowed_step_is_inert [OF this] show ?thesis by blast
qed

text \<open>Policy and executor agree: an allowed capability is always implemented, and the two entries
  of the simulator that policy denies are exactly the ones no manifest registers.\<close>

theorem allowed_capabilities_implemented:
  assumes "ps_capability_id step \<in> set (dkeys SIMULATED_ATTRIBUTES) \<union>
    {str ''assistant.respond'', str ''workspace.read_status''}"
  shows "pd_outcome (evaluate_step step) =
           (if ps_capability_id step \<in> {str ''nexuss.read_health'', str ''media.prepare_playback''}
            then DENY else ALLOW)"
  using assms
  by (auto simp: outcome_by_capability SIMULATED_ATTRIBUTES_def dkeys_def allowed_capabilities_def
      approval_capabilities_def)

theorem allowed_capabilities_implemented_witness:
  "pd_outcome (evaluate_step read_step) = ALLOW"
  by (subst allowed_capabilities_implemented)
    (simp_all add: read_step_def SIMULATED_ATTRIBUTES_def dkeys_def)

end
