(* ===== verification/Intents.thy ===== *)
theory Intents
  imports Domain PyRegex
begin

section \<open>Deterministic intent classification: \<^verbatim>\<open>core/intents.py\<close>\<close>

text \<open>
  The note pattern as a syntax tree of \<open>PyRegex\<close>, the note formatter, and the classifier with
  its \<open>if\<close>/\<open>elif\<close> chain in the source's order. The lemmas say that every classification is a
  valid \<open>Intent\<close>, which entities each kind carries, and that the two kinds that lead to a
  controlled action need their explicit wording.
\<close>

subsection \<open>The note pattern\<close>

definition TITLE :: nat where "TITLE = 0"

definition BODY :: nat where "BODY = 1"

definition spaces :: rx where
  "spaces = Many1 CSpace"

definition NOTE_HEAD :: rx where
  "NOTE_HEAD =
     seq [Opt (seq [word_i ''please'', spaces]),
          alts (word_i ''create'') [word_i ''make'', word_i ''write'', word_i ''save''],
          spaces, Opt (seq [word_i ''a'', spaces]), word_i ''note'',
          spaces, alts (word_i ''called'') [word_i ''titled'', word_i ''named''], spaces]"

definition NOTE_BODY :: rx where
  "NOTE_BODY =
     seq [spaces,
          alts (seq [word_i ''with'', Opt (seq [spaces, word_i ''the'']), spaces,
                     alts (seq [word_i ''task'', Opt (word_i ''s'')]) [word_i ''content''],
                     Many CSpace, Opt (One (CChar 58))])
               [word_i ''containing'', seq [word_i ''that'', spaces, word_i ''says'']],
          spaces, Group BODY (Many1 CAny)]"

definition NOTE_PATTERN :: rx where
  "NOTE_PATTERN =
     Cat NOTE_HEAD (Cat (Group TITLE (Many1Lazy CAny)) (Cat (Opt NOTE_BODY) AtEnd))"

definition group_text :: "groups \<Rightarrow> nat \<Rightarrow> ustr option" where
  "group_text g k = map_of g k"

subsection \<open>The note's text\<close>

definition TASK_PREFIX :: rx where
  "TASK_PREFIX =
     seq [Opt (seq [word_i ''the'', spaces]), word_i ''task'', Opt (word_i ''s''),
          Many CSpace, One (CChar 58), Many CSpace, Group 1 (Many1 CAny), AtEnd]"

definition ITEM_SEPARATOR :: rx where
  "ITEM_SEPARATOR =
     Alt (seq [Many CSpace, One (CChar 44), Many CSpace]) (seq [spaces, word_x ''and'', spaces])"

text \<open>\<open>re.sub\<close> with a pattern anchored by \<open>^\<close> can only remove a prefix.\<close>

definition drop_conjunction :: "ustr \<Rightarrow> ustr" where
  "drop_conjunction s =
     (case re_match (seq [alts (word_i ''and'') [word_i ''or''], spaces]) s of
        None \<Rightarrow> s | Some (t, _) \<Rightarrow> t)"

definition note_items :: "ustr \<Rightarrow> ustr list" where
  "note_items s =
     map (\<lambda>item. drop_conjunction (strip_chars '' .'' item))
       (filter (\<lambda>item. strip_chars '' .'' item \<noteq> []) (re_split ITEM_SEPARATOR s))"

definition strip_task_prefix :: "ustr \<Rightarrow> ustr" where
  "strip_task_prefix s =
     (case re_match TASK_PREFIX s of
        None \<Rightarrow> s
      | Some (_, g) \<Rightarrow> (case group_text g 1 of None \<Rightarrow> s | Some x \<Rightarrow> strip x))"

definition format_note_content :: "ustr \<Rightarrow> ustr option \<Rightarrow> ustr" where
  "format_note_content title body =
     (let heading = str ''# '' @ strip title
      in case body of
           None \<Rightarrow> heading @ [10, 10] @ str ''Created with Nexuss.'' @ [10]
         | Some text \<Rightarrow>
             if strip text = [] then heading @ [10, 10] @ str ''Created with Nexuss.'' @ [10]
             else
               (let normalized_body = strip_task_prefix (rstrip_chars ''.'' (strip text));
                    items = note_items normalized_body
                in if length items \<ge> 2
                   then heading @ [10, 10] @
                        joinw [10] (map (\<lambda>item. str ''- [ ] '' @ item) items) @ [10]
                   else heading @ [10, 10] @ normalized_body @ [10]))"

subsection \<open>The classifier\<close>

definition normalize_text :: "platform \<Rightarrow> ustr \<Rightarrow> ustr" where
  "normalize_text P utterance = joinw [32] (split_ws (casefold P utterance))"

definition any_in :: "string list \<Rightarrow> ustr \<Rightarrow> bool" where
  "any_in terms s = list_ex (\<lambda>t. contains (str t) s) terms"

definition note_entities :: "groups \<Rightarrow> (ustr, ustr) dict" where
  "note_entities g =
     (let raw_title = strip_by (\<lambda>c. c \<in> {32, 34, 39})
                        (case group_text g TITLE of None \<Rightarrow> [] | Some t \<Rightarrow> t)
      in [(str ''title'', raw_title),
          (str ''content'', format_note_content raw_title (group_text g BODY))])"

text \<open>The part of the chain after the note pattern: the kind and the confidence in per cent.\<close>

definition classify_text :: "ustr \<Rightarrow> IntentKind \<times> rat" where
  "classify_text s =
     (if any_in [''who are you'', ''what are you'', ''introduce yourself''] s
      then (ASSISTANT_IDENTITY, 99 / 100)
      else if any_in [''what can you do'', ''your capabilities'', ''show capabilities''] s
      then (ASSISTANT_CAPABILITIES, 98 / 100)
      else if s \<in> {str ''help'', str ''help me'', str ''how do i use nexuss''} \<or>
              contains (str ''how can you help'') s
      then (ASSISTANT_HELP, 97 / 100)
      else if any_in [''open notepad'', ''launch notepad'', ''start notepad'', ''open text editor''] s
      then (LAUNCH_NOTEPAD, 99 / 100)
      else if any_in [''send money'', ''transfer money'', ''m-pesa''] s
      then (FINANCIAL_TRANSFER, 99 / 100)
      else if any_in [''publish'', ''post on facebook'', ''social post''] s
      then (SOCIAL_PUBLISH, 98 / 100)
      else if contains (str ''ats'') s \<and>
              any_in [''buy'', ''sell'', ''trade'', ''place order'', ''write''] s
      then (ATS_WRITE, 99 / 100)
      else if any_in [''workspace'', ''repository'', ''repo'', ''computer''] s \<and>
              any_in [''status'', ''check'', ''inspect'', ''system''] s
      then (LOCAL_WORKSPACE_STATUS, 98 / 100)
      else if contains (str ''daily briefing'') s \<or> s = str ''briefing''
      then (DAILY_BRIEFING, 99 / 100)
      else if contains (str ''prepare'') s \<and> contains (str ''workspace'') s
      then (PREPARE_WORKSPACE, 97 / 100)
      else if contains (str ''ats'') s then (ATS_READ, 96 / 100)
      else if contains (str ''health'') s then (SYSTEM_HEALTH, 95 / 100)
      else if contains (str ''play'') s \<and> any_in [''media'', ''music'', ''song'', ''video''] s
      then (PLAY_MEDIA, 94 / 100)
      else (UNKNOWN, 0))"

definition classify_intent :: "platform \<Rightarrow> ustr \<Rightarrow> Intent" where
  "classify_intent P utterance =
     (let normalized = normalize_text P utterance
      in case re_match NOTE_PATTERN (strip utterance) of
           Some (_, g) \<Rightarrow>
             \<lparr>in_kind = CREATE_NOTE, in_normalized_text = normalized, in_confidence = 99 / 100,
              in_entities = note_entities g\<rparr>
         | None \<Rightarrow>
             (let (kind, confidence) = classify_text normalized
              in \<lparr>in_kind = kind, in_normalized_text = normalized, in_confidence = confidence,
                  in_entities =
                    (if kind = LAUNCH_NOTEPAD
                     then [(str ''target_node_id'', str ''windows-primary'')] else [])\<rparr>))"

subsection \<open>What the chain can answer\<close>

definition LAUNCH_PHRASES :: "string list" where
  "LAUNCH_PHRASES = [''open notepad'', ''launch notepad'', ''start notepad'', ''open text editor'']"

definition sound_class :: "ustr \<Rightarrow> IntentKind \<times> rat \<Rightarrow> bool" where
  "sound_class s p \<longleftrightarrow>
     0 \<le> snd p \<and> snd p \<le> 1 \<and> (snd p = 0 \<longleftrightarrow> fst p = UNKNOWN) \<and> fst p \<noteq> CREATE_NOTE \<and>
     (fst p = LAUNCH_NOTEPAD \<longrightarrow> any_in LAUNCH_PHRASES s)"

lemma sound_class_if:
  "(b \<Longrightarrow> sound_class s x) \<Longrightarrow> sound_class s y \<Longrightarrow> sound_class s (if b then x else y)"
  by simp

lemma sound_classify_text: "sound_class s (classify_text s)"
  unfolding classify_text_def
  by (intro sound_class_if) (simp_all add: sound_class_def LAUNCH_PHRASES_def)

lemma classify_intent_note:
  assumes "re_match NOTE_PATTERN (strip u) = Some (t, g)"
  shows "classify_intent P u =
    \<lparr>in_kind = CREATE_NOTE, in_normalized_text = normalize_text P u, in_confidence = 99 / 100,
     in_entities = note_entities g\<rparr>"
  using assms by (simp add: classify_intent_def)

lemma classify_intent_text:
  assumes "re_match NOTE_PATTERN (strip u) = None"
  shows "classify_intent P u =
    \<lparr>in_kind = fst (classify_text (normalize_text P u)), in_normalized_text = normalize_text P u,
     in_confidence = snd (classify_text (normalize_text P u)),
     in_entities = (if fst (classify_text (normalize_text P u)) = LAUNCH_NOTEPAD
                    then [(str ''target_node_id'', str ''windows-primary'')] else [])\<rparr>"
  using assms by (simp add: classify_intent_def Let_def case_prod_beta)

lemma classify_intent_cases:
  obtains (noted) t g where "re_match NOTE_PATTERN (strip u) = Some (t, g)"
      "in_kind (classify_intent P u) = CREATE_NOTE"
      "in_entities (classify_intent P u) = note_entities g"
      "in_confidence (classify_intent P u) = 99 / 100"
  | (chain) "re_match NOTE_PATTERN (strip u) = None"
      "in_kind (classify_intent P u) \<noteq> CREATE_NOTE"
      "sound_class (normalize_text P u)
         (in_kind (classify_intent P u), in_confidence (classify_intent P u))"
      "in_entities (classify_intent P u) =
         (if in_kind (classify_intent P u) = LAUNCH_NOTEPAD
          then [(str ''target_node_id'', str ''windows-primary'')] else [])"
proof (cases "re_match NOTE_PATTERN (strip u)")
  case None
  with sound_classify_text [of "normalize_text P u"] chain show ?thesis
    by (simp add: classify_intent_text sound_class_def)
next
  case (Some m)
  with noted show ?thesis by (cases m) (simp add: classify_intent_note)
qed

lemma classify_valid [valid_intro]: "valid_Intent (classify_intent P u)"
  by (cases rule: classify_intent_cases [of u P]) (simp_all add: valid_Intent_def sound_class_def)

lemma note_entities_get:
  "dget (note_entities g) (str ''title'') \<noteq> None" "dget (note_entities g) (str ''content'') \<noteq> None"
  by (simp_all add: note_entities_def Let_def dget_def)

text \<open>The title is a piece of what the user typed.\<close>

lemma sublist_rstrip_by: "sublist (rstrip_by p s) s"
  using rstrip_by_prefix [of s p] by (metis prefixI prefix_imp_sublist)

lemma sublist_strip_by: "sublist (strip_by p s) s"
proof -
  have "sublist (lstrip_by p s) s" by (simp add: lstrip_by_def sublist_dropWhile)
  with sublist_rstrip_by show ?thesis
    unfolding strip_by_def by (metis sublist_order.order_trans)
qed

lemma note_title_sublist:
  assumes "re_match NOTE_PATTERN s = Some (t, g)" "dget (note_entities g) (str ''title'') = Some x"
  shows "sublist x s"
proof (cases "group_text g TITLE")
  case None
  with assms(2) show ?thesis
    by (simp add: note_entities_def Let_def dget_def strip_by_def lstrip_by_def rstrip_by_def)
next
  case (Some raw)
  then have "(TITLE, raw) \<in> set g" by (simp add: group_text_def map_of_SomeD)
  with rx_match_groups [OF re_match_in [OF assms(1)]] have "sublist raw s" by simp
  moreover have "sublist x raw"
    using assms(2) Some sublist_strip_by by (auto simp: note_entities_def Let_def dget_def)
  ultimately show ?thesis by (rule sublist_order.order_trans [rotated])
qed

subsection \<open>Normalized text\<close>

definition word :: "ustr \<Rightarrow> bool" where
  "word v \<longleftrightarrow> v \<noteq> [] \<and> list_all (\<lambda>c. \<not> is_space c) v"

lemma split_ws_aux_words:
  "list_all (\<lambda>c. \<not> is_space c) w \<Longrightarrow> list_all word (split_ws_aux w s)"
  by (induction w s rule: split_ws_aux.induct) (simp_all add: word_def)

lemma split_ws_aux_word:
  "list_all (\<lambda>c. \<not> is_space c) v \<Longrightarrow> split_ws_aux w (v @ s) = split_ws_aux (w @ v) s"
  by (induction v arbitrary: w) simp_all

lemma split_ws_joinw:
  assumes "list_all word ws"
  shows "split_ws (joinw [32] ws) = ws"
  using assms unfolding split_ws_def
proof (induction "[32::nat]" ws rule: joinw.induct)
  case (2 x)
  then show ?case using split_ws_aux_word [of x "[]" "[]"] by (simp add: word_def)
next
  case (3 x y zs)
  have "is_space 32" by (simp add: is_space_def)
  with 3 split_ws_aux_word [of x "[]" "32 # joinw [32] (y # zs)"] show ?case by (simp add: word_def)
qed simp

lemma split_ws_normalize: "joinw [32] (split_ws (normalize_text P u)) = normalize_text P u"
proof -
  have "list_all word (split_ws s)" for s
    using split_ws_aux_words [of "[]" s] by (simp add: split_ws_def)
  then show ?thesis by (simp add: normalize_text_def split_ws_joinw)
qed

text \<open>C40. Whatever the user types, classification yields a valid intent: the confidence is between
  zero and one and is zero exactly for the unknown kind, the normalized text has its words
  separated by single spaces, and entities are present for exactly the two kinds that
  lead to a controlled action. A device command is only derived from one of its four
  phrases, and a note only when the pattern matches, with a title that is a piece of
  the utterance.\<close>

theorem classification_sound:
  "let i = classify_intent P u in
     valid_Intent i \<and> (in_confidence i = 0 \<longleftrightarrow> in_kind i = UNKNOWN) \<and>
     in_normalized_text i = joinw [32] (split_ws (in_normalized_text i)) \<and>
     (in_entities i = [] \<longleftrightarrow> in_kind i \<notin> {CREATE_NOTE, LAUNCH_NOTEPAD}) \<and>
     (in_kind i \<noteq> LAUNCH_NOTEPAD \<or> any_in LAUNCH_PHRASES (in_normalized_text i)) \<and>
     (in_kind i = CREATE_NOTE \<longleftrightarrow> re_match NOTE_PATTERN (strip u) \<noteq> None) \<and>
     (case dget (in_entities i) (str ''title'') of None \<Rightarrow> in_kind i \<noteq> CREATE_NOTE | Some t \<Rightarrow> sublist t u)"
proof -
  have nt: "in_normalized_text (classify_intent P u) = normalize_text P u"
    by (simp add: classify_intent_def Let_def case_prod_beta split: option.split)
  show ?thesis
  proof (cases rule: classify_intent_cases [of u P])
    case (noted t g)
    obtain x where x: "dget (note_entities g) (str ''title'') = Some x"
      using note_entities_get(1) by blast
    have "sublist x u"
      using note_title_sublist [OF noted(1) x] sublist_strip_by sublist_order.order_trans by blast
    with noted nt x show ?thesis
      by (simp add: Let_def classify_valid split_ws_normalize) (simp add: note_entities_def Let_def)
  next
    case chain
    then show ?thesis
      by (auto simp: Let_def classify_valid split_ws_normalize nt sound_class_def dget_def)
  qed
qed

lemma classify_sample:
  "in_kind (classify_intent ascii_platform (str ''Open  Notepad now'')) = LAUNCH_NOTEPAD"
proof -
  have "normalize_text ascii_platform (str ''Open  Notepad now'') = str ''open notepad now''"
    by (simp add: normalize_text_def evaluate)
  moreover have "re_match NOTE_PATTERN (strip (str ''Open  Notepad now'')) = None"
    by (simp add: NOTE_PATTERN_def NOTE_HEAD_def NOTE_BODY_def word_i_def spaces_def evaluate)
  moreover have "fst (classify_text (str ''open notepad now'')) = LAUNCH_NOTEPAD"
    by (simp add: classify_text_def any_in_def str_def)
  ultimately show ?thesis by (simp add: classify_intent_text)
qed

theorem classification_sound_witness:
  "any_in LAUNCH_PHRASES
     (in_normalized_text (classify_intent ascii_platform (str ''Open  Notepad now'')))"
  using classification_sound [of ascii_platform "str ''Open  Notepad now''"]
  by (simp add: Let_def classify_sample)

subsection \<open>The shape of a note\<close>

lemma format_note_content_heading: "startswith (str ''# '') (format_note_content title body)"
  by (simp add: format_note_content_def Let_def startswith_iff split: option.split)

end
