(* ===== verification/Planner.thy ===== *)
theory Planner
  imports Intents Notes Policy
begin

section \<open>Deterministic planning: \<^verbatim>\<open>core/planner.py\<close>\<close>

text \<open>
  The step specifications per intent, the derived identifiers and the plan. Planning can
  raise (a note may be refused, and a note intent without its entities has no title), so
  \<open>build_plan\<close> returns a result.

  The lemmas give, for every intent, the capabilities of its steps, and show that every plan
  passes the declared validation and what policy will answer to it.
\<close>

definition step_id :: "platform \<Rightarrow> uuid \<Rightarrow> nat \<Rightarrow> ustr \<Rightarrow> uuid" where
  "step_id P task_id order capability_id =
     pf_uuid5 P (str ''nexuss:'' @ uuid_str task_id @ str '':'' @ dec_nat order @ str '':'' @
                 capability_id)"

text \<open>Code points 8216 and 8217 are the typographic quotation marks of the help text.\<close>

definition assistant_response :: "IntentKind \<Rightarrow> ustr res" where
  "assistant_response kind =
     (if kind = ASSISTANT_IDENTITY then
        Inr (str ''I am Nexuss, your personal cognitive control plane. I interpret requests, apply '' @
             str ''safety policy, coordinate approved capabilities, verify results, and preserve '' @
             str ''auditable Action Receipts.'')
      else if kind = ASSISTANT_CAPABILITIES then
        Inr (str ''I can inspect this Nexuss workspace, run clearly labelled simulations, explain my '' @
             str ''decisions, create verified notes, and request phone approval for trusted '' @
             str ''device commands. Higher-risk connectors remain disabled until separately reviewed.'')
      else if kind = ASSISTANT_HELP then
        Inr (str ''Try: '' @ [8216] @ str ''Check my workspace and system status'' @ [8217] @ str '', '' @
             [8216] @ str ''Who are you?'' @ [8217] @ str '', or '' @ [8216] @ str ''Create a note '' @
             str ''called Launch checklist with the tasks: verify P3, review the receipt, and test '' @
             str ''undo'' @ [8217] @ str '', or '' @ [8216] @ str ''Open Notepad on this computer'' @ [8217] @
             str ''.'')
      else Inl (KeyError (IntentKind_value kind)))"

record step_spec =
  sp_capability_id :: ustr
  sp_risk :: RiskTier
  sp_evidence :: "ustr list"
  sp_parameters :: attributes
  sp_reversible :: bool

definition spec :: "string \<Rightarrow> RiskTier \<Rightarrow> string list \<Rightarrow> attributes \<Rightarrow> bool \<Rightarrow> step_spec" where
  "spec capability_id risk evidence parameters reversible =
     \<lparr>sp_capability_id = str capability_id, sp_risk = risk, sp_evidence = map str evidence,
      sp_parameters = parameters, sp_reversible = reversible\<rparr>"

definition note_parameters :: "PreparedNote \<Rightarrow> attributes" where
  "note_parameters n =
     [(str ''title'', PyStr (pn_title n)), (str ''filename'', PyStr (pn_filename n)),
      (str ''content'', PyStr (pn_content n)), (str ''content_sha256'', PyStr (pn_content_sha256 n)),
      (str ''byte_count'', PyInt (int (length (pn_content_bytes n))))]"

definition launch_parameters :: "Intent \<Rightarrow> attributes" where
  "launch_parameters intent =
     [(str ''target_node_id'',
         PyStr (case dget (in_entities intent) (str ''target_node_id'') of
                  None \<Rightarrow> str ''windows-primary'' | Some v \<Rightarrow> v)),
      (str ''application'', PyStr (str ''notepad''))]"

definition entity :: "Intent \<Rightarrow> string \<Rightarrow> ustr res" where
  "entity intent key =
     (case dget (in_entities intent) (str key) of None \<Rightarrow> Inl (KeyError (str key)) | Some v \<Rightarrow> Inr v)"

text \<open>The table \<open>capability_specs\<close> of the remaining intents.\<close>

primrec capability_specs :: "IntentKind \<Rightarrow> step_spec list" where
  "capability_specs DAILY_BRIEFING =
     [spec ''calendar.read_summary'' LOW [''calendar_snapshot''] [] False,
      spec ''email.read_summary'' LOW [''email_snapshot''] [] False,
      spec ''github.read_summary'' LOW [''repository_snapshot''] [] False,
      spec ''ats.read_health'' LOW [''ats_health_snapshot''] [] False]"
| "capability_specs SYSTEM_HEALTH = [spec ''nexuss.read_health'' LOW [''health_snapshot''] [] False]"
| "capability_specs LOCAL_WORKSPACE_STATUS =
     [spec ''workspace.read_status'' LOW [''workspace_status_snapshot''] [] False]"
| "capability_specs PREPARE_WORKSPACE =
     [spec ''device.workspace.prepare'' MEDIUM [''workspace_state''] [] True]"
| "capability_specs PLAY_MEDIA = [spec ''media.prepare_playback'' LOW [''playback_state''] [] False]"
| "capability_specs ATS_READ =
     [spec ''ats.read_intelligence'' LOW [''ats_intelligence_snapshot''] [] False]"
| "capability_specs ATS_WRITE = [spec ''ats.write_order'' CRITICAL [''trade_confirmation''] [] False]"
| "capability_specs FINANCIAL_TRANSFER =
     [spec ''finance.transfer'' CRITICAL [''transaction_receipt''] [] False]"
| "capability_specs SOCIAL_PUBLISH = [spec ''social.publish'' HIGH [''published_post''] [] False]"
| "capability_specs UNKNOWN = [spec ''nexuss.unsupported'' HIGH [''unsupported_reason''] [] False]"
| "capability_specs CREATE_NOTE = []"
| "capability_specs LAUNCH_NOTEPAD = []"
| "capability_specs ASSISTANT_IDENTITY = []"
| "capability_specs ASSISTANT_CAPABILITIES = []"
| "capability_specs ASSISTANT_HELP = []"

definition plan_specs :: "platform \<Rightarrow> Intent \<Rightarrow> step_spec list res" where
  "plan_specs P intent =
     (if in_kind intent \<in> {ASSISTANT_IDENTITY, ASSISTANT_CAPABILITIES, ASSISTANT_HELP} then
        rbind (assistant_response (in_kind intent)) (\<lambda>response.
          Inr [spec ''assistant.respond'' INFORMATIONAL [''assistant_response'']
                 [(str ''response'', PyStr response)] False])
      else if in_kind intent = CREATE_NOTE then
        rbind (entity intent ''title'') (\<lambda>title.
        rbind (entity intent ''content'') (\<lambda>content.
        rbind (prepare_note P title content) (\<lambda>prepared.
          Inr [spec ''workspace.create_note'' MEDIUM [''created_note_metadata'', ''sha256_verification'']
                 (note_parameters prepared) True])))
      else if in_kind intent = LAUNCH_NOTEPAD then
        Inr [spec ''device.launch_notepad'' HIGH [''trusted_node_identity'', ''process_start_verification'']
               (launch_parameters intent) True]
      else Inr (capability_specs (in_kind intent)))"

definition plan_step :: "platform \<Rightarrow> uuid \<Rightarrow> nat \<Rightarrow> step_spec \<Rightarrow> PlanStep" where
  "plan_step P task_id order sp =
     \<lparr>ps_step_id = step_id P task_id order (sp_capability_id sp), ps_order = order,
      ps_capability_id = sp_capability_id sp, ps_risk_tier = sp_risk sp,
      ps_expected_evidence = sp_evidence sp, ps_parameters = sp_parameters sp,
      ps_reversible = sp_reversible sp\<rparr>"

text \<open>\<open>enumerate(specs, start=1)\<close>.\<close>

definition plan_steps :: "platform \<Rightarrow> uuid \<Rightarrow> step_spec list \<Rightarrow> PlanStep list" where
  "plan_steps P task_id specs =
     map (\<lambda>(order, sp). plan_step P task_id order sp) (zip (map Suc [0..<length specs]) specs)"

text \<open>\<open>StrEnum\<close> members format as their value.\<close>

definition build_plan :: "platform \<Rightarrow> uuid \<Rightarrow> Intent \<Rightarrow> TaskPlan res" where
  "build_plan P task_id intent =
     rbind (plan_specs P intent) (\<lambda>specs.
       Inr \<lparr>pl_plan_id =
              pf_uuid5 P (str ''nexuss:'' @ uuid_str task_id @ str '':plan:'' @
                          IntentKind_value (in_kind intent)),
            pl_task_id = task_id, pl_intent = intent, pl_steps = plan_steps P task_id specs\<rparr>)"

subsection \<open>The steps of a plan\<close>

text \<open>The capabilities a plan uses, as a function of the kind of intent alone.\<close>

definition planned_capabilities :: "IntentKind \<Rightarrow> ustr list" where
  "planned_capabilities kind =
     (if kind \<in> {ASSISTANT_IDENTITY, ASSISTANT_CAPABILITIES, ASSISTANT_HELP}
      then [str ''assistant.respond'']
      else if kind = CREATE_NOTE then [str ''workspace.create_note'']
      else if kind = LAUNCH_NOTEPAD then [str ''device.launch_notepad'']
      else map sp_capability_id (capability_specs kind))"

lemma length_plan_steps [simp]: "length (plan_steps P t specs) = length specs"
  by (simp add: plan_steps_def)

lemma plan_steps_nth:
  "i < length specs \<Longrightarrow> plan_steps P t specs ! i = plan_step P t (Suc i) (specs ! i)"
  by (simp add: plan_steps_def)

lemma plan_steps_simps:
  "map ps_capability_id (plan_steps P t specs) = map sp_capability_id specs"
  "map ps_order (plan_steps P t specs) = map Suc [0..<length specs]"
  by (rule nth_equalityI; simp add: plan_steps_nth plan_step_def)+

lemma build_plan_Inr:
  assumes "build_plan P t i = Inr plan"
  obtains specs where "plan_specs P i = Inr specs" "pl_steps plan = plan_steps P t specs"
    "pl_task_id plan = t" "pl_intent plan = i"
  using assms by (auto simp: build_plan_def rbind_Inr_iff)

definition assistant_kinds :: "IntentKind set" where
  "assistant_kinds = {ASSISTANT_IDENTITY, ASSISTANT_CAPABILITIES, ASSISTANT_HELP}"

definition respond_spec :: "ustr \<Rightarrow> step_spec" where
  "respond_spec response =
     spec ''assistant.respond'' INFORMATIONAL [''assistant_response''] [(str ''response'', PyStr response)] False"

definition note_spec :: "PreparedNote \<Rightarrow> step_spec" where
  "note_spec n =
     spec ''workspace.create_note'' MEDIUM [''created_note_metadata'', ''sha256_verification'']
       (note_parameters n) True"

definition launch_spec :: "Intent \<Rightarrow> step_spec" where
  "launch_spec i =
     spec ''device.launch_notepad'' HIGH [''trusted_node_identity'', ''process_start_verification'']
       (launch_parameters i) True"

lemma plan_specs_if:
  "plan_specs P i =
     (if in_kind i \<in> assistant_kinds
      then rbind (assistant_response (in_kind i)) (\<lambda>r. Inr [respond_spec r])
      else if in_kind i = CREATE_NOTE
      then rbind (entity i ''title'') (\<lambda>title. rbind (entity i ''content'') (\<lambda>content.
             rbind (prepare_note P title content) (\<lambda>n. Inr [note_spec n])))
      else if in_kind i = LAUNCH_NOTEPAD then Inr [launch_spec i]
      else Inr (capability_specs (in_kind i)))"
  unfolding plan_specs_def assistant_kinds_def respond_spec_def note_spec_def launch_spec_def ..

lemma plan_specs_InrE:
  assumes "plan_specs P i = Inr specs"
  obtains (respond) r where "in_kind i \<in> assistant_kinds" "specs = [respond_spec r]"
    | (noted) title content n where "in_kind i = CREATE_NOTE" "entity i ''title'' = Inr title"
        "entity i ''content'' = Inr content" "prepare_note P title content = Inr n"
        "specs = [note_spec n]"
    | (launch) "in_kind i = LAUNCH_NOTEPAD" "specs = [launch_spec i]"
    | (table) "in_kind i \<notin> assistant_kinds" "in_kind i \<noteq> CREATE_NOTE" "in_kind i \<noteq> LAUNCH_NOTEPAD"
        "specs = capability_specs (in_kind i)"
  using assms unfolding plan_specs_if rbind_Inr_iff
  by (cases "in_kind i \<in> assistant_kinds"; cases "in_kind i = CREATE_NOTE"; cases "in_kind i = LAUNCH_NOTEPAD")
    (auto simp: rbind_Inr_iff)

lemma planned_capabilities_if:
  "planned_capabilities k =
     (if k \<in> assistant_kinds then [str ''assistant.respond'']
      else if k = CREATE_NOTE then [str ''workspace.create_note'']
      else if k = LAUNCH_NOTEPAD then [str ''device.launch_notepad'']
      else map sp_capability_id (capability_specs k))"
  unfolding planned_capabilities_def assistant_kinds_def ..

lemma CREATE_LAUNCH_not_assistant: "CREATE_NOTE \<notin> assistant_kinds" "LAUNCH_NOTEPAD \<notin> assistant_kinds"
  by (simp_all add: assistant_kinds_def)

lemma plan_specs_capabilities:
  assumes "plan_specs P i = Inr specs"
  shows "map sp_capability_id specs = planned_capabilities (in_kind i)"
  using assms
  by (cases rule: plan_specs_InrE)
    (simp_all add: planned_capabilities_if respond_spec_def note_spec_def launch_spec_def spec_def
      CREATE_LAUNCH_not_assistant)

lemma plan_capabilities:
  assumes "build_plan P t i = Inr plan"
  shows "map ps_capability_id (pl_steps plan) = planned_capabilities (in_kind i)"
  by (rule build_plan_Inr [OF assms]) (simp add: plan_steps_simps plan_specs_capabilities)

definition sound_spec :: "step_spec \<Rightarrow> bool" where
  "sound_spec sp \<longleftrightarrow> valid_CapabilityId (sp_capability_id sp) \<and> sp_evidence sp \<noteq> []"

lemma sound_spec_spec:
  "sound_spec (spec c r es ps v) \<longleftrightarrow> c \<noteq> [] \<and> list_all capability_char (str c) \<and> es \<noteq> []"
  by (auto simp: sound_spec_def spec_def valid_CapabilityId_def)

lemma capability_specs_sound: "list_all sound_spec (capability_specs k)"
  by (cases k) (simp_all add: sound_spec_spec str_def capability_char_def)

lemma capability_specs_ne_Nil:
  "k \<notin> assistant_kinds \<Longrightarrow> k \<noteq> CREATE_NOTE \<Longrightarrow> k \<noteq> LAUNCH_NOTEPAD \<Longrightarrow> capability_specs k \<noteq> []"
  by (cases k) (simp_all add: assistant_kinds_def)

lemma plan_specs_sound:
  assumes "plan_specs P i = Inr specs"
  shows "specs \<noteq> [] \<and> list_all sound_spec specs"
  using assms
proof (cases rule: plan_specs_InrE)
  case table
  then show ?thesis by (simp add: capability_specs_sound capability_specs_ne_Nil)
qed (simp_all add: respond_spec_def note_spec_def launch_spec_def sound_spec_spec str_def
    capability_char_def)

lemma valid_plan [valid_intro]:
  assumes "build_plan P t i = Inr plan" "valid_Intent i"
  shows "valid_TaskPlan plan"
proof -
  obtain specs where specs: "plan_specs P i = Inr specs" "pl_steps plan = plan_steps P t specs"
    "pl_intent plan = i"
    by (rule build_plan_Inr [OF assms(1)])
  have "list_all valid_PlanStep (plan_steps P t specs)"
    using plan_specs_sound [OF specs(1)]
    by (auto simp: list_all_length plan_steps_simps plan_steps_nth plan_step_def sound_spec_def
        valid_PlanStep_def)
  moreover have "plan_steps P t specs \<noteq> []"
    using plan_specs_sound [OF specs(1)] by (metis length_0_conv length_plan_steps)
  ultimately show ?thesis using specs assms(2) by (simp add: valid_TaskPlan_def)
qed

text \<open>C36. Every plan that is built is valid and bound to its task: it satisfies the declared
  constraints, carries the given task identifier and intent, numbers its steps from one,
  uses exactly the capabilities its kind of intent stands for, and each step identifier is
  derived from the task, the position and the capability.\<close>

theorem plan_wellformed:
  assumes "build_plan P t i = Inr plan" and "valid_Intent i"
  shows "valid_TaskPlan plan \<and> pl_task_id plan = t \<and> pl_intent plan = i \<and>
         map ps_order (pl_steps plan) = map Suc [0..<length (pl_steps plan)] \<and>
         map ps_capability_id (pl_steps plan) = planned_capabilities (in_kind i) \<and>
         list_all (\<lambda>s. ps_step_id s = step_id P t (ps_order s) (ps_capability_id s)) (pl_steps plan)"
proof -
  obtain specs where specs: "plan_specs P i = Inr specs" "pl_steps plan = plan_steps P t specs"
    "pl_task_id plan = t" "pl_intent plan = i"
    by (rule build_plan_Inr [OF assms(1)])
  have "list_all (\<lambda>s. ps_step_id s = step_id P t (ps_order s) (ps_capability_id s)) (plan_steps P t specs)"
    by (simp add: list_all_length plan_steps_simps plan_steps_nth plan_step_def)
  with specs valid_plan [OF assms] plan_capabilities [OF assms(1)] show ?thesis
    by (simp add: plan_steps_simps)
qed

definition sample_intent :: Intent where
  "sample_intent =
     \<lparr>in_kind = LAUNCH_NOTEPAD, in_normalized_text = str ''open notepad'', in_confidence = 99 / 100,
      in_entities = [(str ''target_node_id'', str ''windows-primary'')]\<rparr>"

definition sample_plan :: "uuid \<Rightarrow> TaskPlan" where
  "sample_plan t =
     \<lparr>pl_plan_id = pf_uuid5 ascii_platform (str ''nexuss:'' @ uuid_str t @ str '':plan:launch_notepad''),
      pl_task_id = t, pl_intent = sample_intent,
      pl_steps = [plan_step ascii_platform t 1 (launch_spec sample_intent)]\<rparr>"

lemma build_sample_plan: "build_plan ascii_platform t sample_intent = Inr (sample_plan t)"
  by (simp add: build_plan_def sample_plan_def plan_specs_if sample_intent_def plan_steps_def
      assistant_kinds_def str_append [symmetric])

lemma valid_sample_intent: "valid_Intent sample_intent"
  by (simp add: valid_Intent_def sample_intent_def)

theorem plan_wellformed_witness: "valid_TaskPlan (sample_plan 7) \<and> pl_task_id (sample_plan 7) = 7"
  using plan_wellformed [OF build_sample_plan valid_sample_intent] by blast

subsection \<open>What policy answers to a plan\<close>

lemma plan_outcomes_by_kind:
  assumes "build_plan P t i = Inr plan"
  shows "map (pd_outcome \<circ> evaluate_step) (pl_steps plan) =
           map (\<lambda>c. if c \<in> allowed_capabilities then ALLOW
                    else if c \<in> approval_capabilities then REQUIRE_APPROVAL else DENY)
             (planned_capabilities (in_kind i))"
  unfolding plan_capabilities [OF assms, symmetric] by (simp add: outcome_by_capability)

definition approval_kinds :: "IntentKind set" where
  "approval_kinds = {CREATE_NOTE, LAUNCH_NOTEPAD}"

definition allowed_kinds :: "IntentKind set" where
  "allowed_kinds =
     {ASSISTANT_IDENTITY, ASSISTANT_CAPABILITIES, ASSISTANT_HELP, DAILY_BRIEFING,
      LOCAL_WORKSPACE_STATUS, ATS_READ}"

lemma outcomes_of_kind:
  assumes "build_plan P t i = Inr plan"
  shows "map (pd_outcome \<circ> evaluate_step) (pl_steps plan) =
           (if in_kind i \<in> allowed_kinds then replicate (length (pl_steps plan)) ALLOW
            else if in_kind i \<in> approval_kinds then [REQUIRE_APPROVAL] else [DENY])"
proof -
  have "length (pl_steps plan) = length (planned_capabilities (in_kind i))"
    using plan_capabilities [OF assms] by (metis length_map)
  then show ?thesis
    unfolding plan_outcomes_by_kind [OF assms]
    by (cases "in_kind i")
      (simp_all add: planned_capabilities_def allowed_kinds_def approval_kinds_def spec_def
        allowed_capabilities_def approval_capabilities_def)
qed

lemma plan_shapes:
  assumes "build_plan P t i = Inr plan"
  obtains
    (allowed) "map (pd_outcome \<circ> evaluate_step) (pl_steps plan) = replicate (length (pl_steps plan)) ALLOW"
  | (approval) step where "pl_steps plan = [step]"
      "ps_capability_id step \<in> {str ''workspace.create_note'', str ''device.launch_notepad''}"
      "pd_outcome (evaluate_step step) = REQUIRE_APPROVAL"
  | (denied) step where "pl_steps plan = [step]" "pd_outcome (evaluate_step step) = DENY"
proof -
  note out = outcomes_of_kind [OF assms]
  note caps = plan_capabilities [OF assms]
  consider "in_kind i \<in> allowed_kinds" | "in_kind i \<notin> allowed_kinds" "in_kind i \<in> approval_kinds"
    | "in_kind i \<notin> allowed_kinds" "in_kind i \<notin> approval_kinds" by blast
  then show ?thesis
  proof cases
    case 1
    with out allowed show ?thesis by simp
  next
    case 2
    with out obtain step where step: "pl_steps plan = [step]" "pd_outcome (evaluate_step step) = REQUIRE_APPROVAL"
      by auto
    then show ?thesis
      using approval [of step] caps 2 by (auto simp: approval_kinds_def planned_capabilities_def)
  next
    case 3
    with out denied show ?thesis by auto
  qed
qed

text \<open>C35. A plan is homogeneous under policy: the six informational kinds give plans whose every
  step is allowed, a note or a device command gives a plan of a single step that
  needs approval, and every other kind gives a plan of a single denied step. A denied or a
  controlled step therefore never shares a plan with another step.\<close>

theorem plan_outcomes:
  assumes "build_plan P t i = Inr plan"
  shows "map (pd_outcome \<circ> evaluate_step) (pl_steps plan) =
           (if in_kind i \<in> allowed_kinds then replicate (length (pl_steps plan)) ALLOW
            else if in_kind i \<in> approval_kinds then [REQUIRE_APPROVAL] else [DENY])"
  by (rule outcomes_of_kind [OF assms])

theorem plan_outcomes_witness:
  "map (pd_outcome \<circ> evaluate_step) (pl_steps (sample_plan 7)) = [REQUIRE_APPROVAL]"
  using plan_outcomes [OF build_sample_plan]
  by (simp add: sample_intent_def allowed_kinds_def approval_kinds_def)

subsection \<open>How planning can fail\<close>

lemma if_InlE:
  assumes "(if b then Inl x else y) = Inl e"
  obtains "e = x" | "y = Inl e"
  by (cases b) (use assms that in simp_all)

lemma if_InrE:
  assumes "(if b then Inl x else Inr y) = Inl e"
  obtains "e = x"
  by (cases b) (use assms that in simp_all)

lemma normalize_title_Inl:
  "normalize_title P raw = Inl e \<Longrightarrow> \<exists>m. e = InvalidNoteError m \<and> m \<noteq> str ''NOTE_CONTENT_EMPTY''"
  unfolding normalize_title_def Let_def by (elim if_InrE if_InlE) simp_all

lemma prepare_note_Inl:
  assumes "prepare_note P title content = Inl e"
  shows "(\<exists>m. e = InvalidNoteError m) \<or> (\<exists>m. e = UnicodeEncodeError m)"
  using assms
  by (auto simp: prepare_note_def rbind_Inl_iff Let_def dest: normalize_title_Inl
      split: if_splits option.splits)

lemma replace_all_keeps: "x \<notin> set old \<Longrightarrow> x \<in> set s \<Longrightarrow> x \<in> set (replace_all old new s)"
proof (induction old new s rule: replace_all.induct)
  case (1 old new s)
  show ?case
  proof (cases s)
    case (Cons c cs)
    show ?thesis
    proof (cases "old \<noteq> [] \<and> startswith old s")
      case True
      then obtain t where t: "s = old @ t" by (auto simp: startswith_iff)
      with "1.prems" have "x \<in> set (drop (length old) s)" by simp
      with "1.IH"(1) [OF Cons True] "1.prems"(1) True Cons show ?thesis
        by (simp add: replace_all_Cons)
    next
      case False
      with "1.IH"(2) [OF Cons False] "1.prems" Cons show ?thesis
        by (auto simp: replace_all_Cons)
    qed
  qed (use "1.prems" in simp)
qed

lemma drafted_content_not_empty: "normalize_content (format_note_content title body) \<noteq> []"
proof -
  have "35 \<in> set (format_note_content title body)"
    using format_note_content_heading [of title body] by (auto simp: startswith_iff str_def)
  then have "35 \<in> set (replace_all [13] [10] (replace_all [13, 10] [10] (format_note_content title body)))"
    by (intro replace_all_keeps) simp_all
  moreover have "\<not> is_space 35" by (simp add: is_space_def)
  ultimately show ?thesis unfolding normalize_content_def strip_by_eq_Nil_iff by blast
qed

lemma entity_note:
  assumes "in_kind (classify_intent P u) = CREATE_NOTE"
  obtains title body where "entity (classify_intent P u) ''title'' = Inr title"
    "entity (classify_intent P u) ''content'' = Inr (format_note_content title body)"
proof (cases rule: classify_intent_cases [of u P])
  case (noted t g)
  with that show ?thesis by (auto simp: entity_def note_entities_def Let_def dget_def)
qed (use assms in simp)

text \<open>C39. Planning what the classifier understood fails only on a note, and only because the note
  is unacceptable (a title or a size) or cannot be encoded; the classifier never drafts a
  note without its entities or with an empty text.\<close>

theorem planning_errors:
  assumes "build_plan P t (classify_intent P u) = Inl e"
  shows "in_kind (classify_intent P u) = CREATE_NOTE \<and>
         (\<exists>m. (e = InvalidNoteError m \<and> m \<noteq> str ''NOTE_CONTENT_EMPTY'') \<or> e = UnicodeEncodeError m)"
proof -
  have "plan_specs P (classify_intent P u) = Inl e"
    using assms by (simp add: build_plan_def rbind_Inl_iff)
  moreover have "assistant_response k \<noteq> Inl e" if "k \<in> assistant_kinds" for k
    using that by (auto simp: assistant_kinds_def assistant_response_def)
  ultimately have kind: "in_kind (classify_intent P u) = CREATE_NOTE"
    by (auto simp: plan_specs_if rbind_Inl_iff split: if_splits)
  obtain title body where ents: "entity (classify_intent P u) ''title'' = Inr title"
    "entity (classify_intent P u) ''content'' = Inr (format_note_content title body)"
    by (rule entity_note [OF kind])
  with \<open>plan_specs P _ = Inl e\<close> kind have "prepare_note P title (format_note_content title body) = Inl e"
    by (simp add: plan_specs_if CREATE_LAUNCH_not_assistant rbind_Inl_iff)
  then have "(\<exists>m. e = InvalidNoteError m \<and> m \<noteq> str ''NOTE_CONTENT_EMPTY'') \<or> (\<exists>m. e = UnicodeEncodeError m)"
    using drafted_content_not_empty [of title body]
    by (auto simp: prepare_note_def rbind_Inl_iff Let_def dest: normalize_title_Inl
        split: if_splits option.splits)
  with kind show ?thesis by blast
qed

lemma classify_reserved:
  "classify_intent ascii_platform (str ''make note named con'') =
     \<lparr>in_kind = CREATE_NOTE, in_normalized_text = str ''make note named con'', in_confidence = 99 / 100,
      in_entities = [(str ''title'', str ''con''),
        (str ''content'', str ''# con'' @ [10, 10] @ str ''Created with Nexuss.'' @ [10])]\<rparr>"
proof -
  have "re_match NOTE_PATTERN (strip (str ''make note named con'')) = Some ([], [(TITLE, str ''con'')])"
    by (simp add: NOTE_PATTERN_def NOTE_HEAD_def NOTE_BODY_def word_i_def spaces_def evaluate)
  moreover have "note_entities [(TITLE, str ''con'')] = [(str ''title'', str ''con''),
      (str ''content'', str ''# con'' @ [10, 10] @ str ''Created with Nexuss.'' @ [10])]"
    by (simp add: note_entities_def group_text_def TITLE_def BODY_def format_note_content_def evaluate)
  moreover have "normalize_text ascii_platform (str ''make note named con'') = str ''make note named con''"
    by (simp add: normalize_text_def evaluate)
  ultimately show ?thesis by (simp add: classify_intent_note)
qed

theorem planning_errors_witness:
  "\<exists>e. build_plan ascii_platform 7 (classify_intent ascii_platform (str ''make note named con'')) = Inl e \<and>
       (\<exists>m. e = InvalidNoteError m \<or> e = UnicodeEncodeError m)"
proof -
  have "normalize_title ascii_platform (str ''con'') = Inl (InvalidNoteError (str ''NOTE_TITLE_RESERVED''))"
    by (simp add: normalize_title_def collapse_spaces_def title_char_def MAX_TITLE_LENGTH_def
        PATH_SEPARATORS_def RESERVED_WINDOWS_NAMES_def upt_rec evaluate)
  then have e: "build_plan ascii_platform 7 (classify_intent ascii_platform (str ''make note named con'')) =
      Inl (InvalidNoteError (str ''NOTE_TITLE_RESERVED''))"
    by (simp add: classify_reserved build_plan_def plan_specs_if CREATE_LAUNCH_not_assistant entity_def
        dget_def prepare_note_def)
  from planning_errors [OF e] e show ?thesis by blast
qed

end
