(* ===== verification/Lifecycle.thy ===== *)
theory Lifecycle
  imports Domain
begin

section \<open>The task lifecycle of \<^verbatim>\<open>core/state_machine.py\<close>\<close>

text \<open>
  The table of allowed transitions and \<open>validate_transition\<close>. The specification is a ranked
  graph: every transition goes strictly up, so a lifecycle has no cycle and at most eight
  transitions. The locale \<open>ranked_transitions\<close> states that contract once and is interpreted
  on the transitions that \<open>validate_transition\<close> lets pass.
\<close>

subsection \<open>Ranked transition graphs\<close>

locale ranked_transitions =
  fixes step :: "'a \<Rightarrow> 'a \<Rightarrow> bool"
    and rank :: "'a \<Rightarrow> nat"
    and top :: nat
  assumes step_up: "step a b \<Longrightarrow> rank a < rank b"
    and rank_le: "rank a \<le> top"
begin

lemma path_rank: "successively step (a # xs) \<Longrightarrow> rank a + length xs \<le> rank (last (a # xs))"
proof (induction xs arbitrary: a)
  case (Cons b xs)
  then have "rank a < rank b" "rank b + length xs \<le> rank (last (b # xs))"
    using step_up by auto
  then show ?case by simp
qed simp

lemma path_bound: "successively step (a # xs) \<Longrightarrow> rank a + length xs \<le> top"
  using path_rank [of a xs] rank_le [of "last (a # xs)"] by linarith

lemma reaches_up: "step\<^sup>+\<^sup>+ a b \<Longrightarrow> rank a < rank b"
  by (induction rule: tranclp_induct) (auto dest: step_up)

lemma no_cycle: "\<not> step\<^sup>+\<^sup>+ a a"
  using reaches_up by blast

lemma path_distinct: "successively step xs \<Longrightarrow> distinct xs"
proof (induction xs)
  case (Cons a xs)
  have "rank a < rank b" if "b \<in> set xs" for b
  proof -
    obtain ys zs where xs: "xs = ys @ b # zs" using split_list [OF \<open>b \<in> set xs\<close>] by blast
    with Cons.prems have "successively step (a # ys @ [b])"
      by (metis append_Cons append_Nil append.assoc successively_append_iff)
    then have "rank a + length (ys @ [b]) \<le> rank b" using path_rank [of a "ys @ [b]"] by simp
    then show ?thesis by simp
  qed
  then have "a \<notin> set xs" by blast
  moreover have "successively step xs"
    using Cons.prems by (auto simp: successively_Cons)
  ultimately show ?case using Cons.IH by simp
qed simp

end

subsection \<open>The table\<close>

primrec ALLOWED_TRANSITIONS :: "TaskState \<Rightarrow> TaskState set" where
  "ALLOWED_TRANSITIONS TaskState.RECEIVED = {TaskState.PLANNED, TaskState.FAILED}"
| "ALLOWED_TRANSITIONS TaskState.PLANNED =
     {TaskState.AWAITING_APPROVAL, TaskState.EXECUTING, TaskState.DENIED, TaskState.FAILED}"
| "ALLOWED_TRANSITIONS TaskState.AWAITING_APPROVAL =
     {TaskState.APPROVED, TaskState.DENIED, TaskState.FAILED}"
| "ALLOWED_TRANSITIONS TaskState.APPROVED = {TaskState.EXECUTING, TaskState.FAILED}"
| "ALLOWED_TRANSITIONS TaskState.EXECUTING =
     {TaskState.VERIFYING, TaskState.FAILED, TaskState.PARTIALLY_COMPLETED}"
| "ALLOWED_TRANSITIONS TaskState.VERIFYING =
     {TaskState.COMPLETED, TaskState.FAILED, TaskState.PARTIALLY_COMPLETED}"
| "ALLOWED_TRANSITIONS TaskState.COMPLETED = {TaskState.ROLLING_BACK}"
| "ALLOWED_TRANSITIONS TaskState.ROLLING_BACK = {TaskState.ROLLED_BACK, TaskState.FAILED}"
| "ALLOWED_TRANSITIONS TaskState.PARTIALLY_COMPLETED = {TaskState.ROLLING_BACK}"
| "ALLOWED_TRANSITIONS TaskState.DENIED = {}"
| "ALLOWED_TRANSITIONS TaskState.FAILED = {}"
| "ALLOWED_TRANSITIONS TaskState.ROLLED_BACK = {}"

definition validate_transition :: "TaskState \<Rightarrow> TaskState \<Rightarrow> unit res" where
  "validate_transition current target =
     (if target \<notin> ALLOWED_TRANSITIONS current
      then Inl (InvalidStateTransitionError current target) else Inr ())"

subsection \<open>Allowed steps and paths\<close>

inductive lifecycle_step :: "TaskState \<Rightarrow> TaskState \<Rightarrow> bool" where
  allowed: "validate_transition a b = Inr () \<Longrightarrow> lifecycle_step a b"

inductive_simps lifecycle_step_iff: "lifecycle_step a b"

lemma lifecycle_step_allowed: "lifecycle_step a b \<longleftrightarrow> b \<in> ALLOWED_TRANSITIONS a"
  by (simp add: lifecycle_step_iff validate_transition_def)

lemma validate_transition_ok: "b \<in> ALLOWED_TRANSITIONS a \<Longrightarrow> validate_transition a b = Inr ()"
  by (simp add: validate_transition_def)

text \<open>A rank that every allowed transition increases.\<close>

primrec lifecycle_rank :: "TaskState \<Rightarrow> nat" where
  "lifecycle_rank TaskState.RECEIVED = 0"
| "lifecycle_rank TaskState.PLANNED = 1"
| "lifecycle_rank TaskState.AWAITING_APPROVAL = 2"
| "lifecycle_rank TaskState.APPROVED = 3"
| "lifecycle_rank TaskState.EXECUTING = 4"
| "lifecycle_rank TaskState.VERIFYING = 5"
| "lifecycle_rank TaskState.COMPLETED = 6"
| "lifecycle_rank TaskState.PARTIALLY_COMPLETED = 6"
| "lifecycle_rank TaskState.ROLLING_BACK = 7"
| "lifecycle_rank TaskState.DENIED = 8"
| "lifecycle_rank TaskState.FAILED = 8"
| "lifecycle_rank TaskState.ROLLED_BACK = 8"

lemma lifecycle_step_rank: "lifecycle_step a b \<Longrightarrow> lifecycle_rank a < lifecycle_rank b"
  by (cases a; auto simp: lifecycle_step_allowed)

lemma lifecycle_rank_le: "lifecycle_rank a \<le> 8"
  by (cases a) simp_all

interpretation lifecycle: ranked_transitions lifecycle_step lifecycle_rank 8
  by unfold_locales (simp_all add: lifecycle_step_rank lifecycle_rank_le)

text \<open>The states of a well-formed history: it starts as received and every step is allowed.\<close>

definition lifecycle_path :: "TaskState list \<Rightarrow> bool" where
  "lifecycle_path ss \<longleftrightarrow>
     ss \<noteq> [] \<and> hd ss = TaskState.RECEIVED \<and> successively lifecycle_step ss"

lemma lifecycle_path_snoc:
  "lifecycle_path ss \<Longrightarrow> s \<in> ALLOWED_TRANSITIONS (last ss) \<Longrightarrow> lifecycle_path (ss @ [s])"
  by (simp add: lifecycle_path_def successively_snoc lifecycle_step_allowed)

lemma lifecycle_path_start: "lifecycle_path [TaskState.RECEIVED]"
  by (simp add: lifecycle_path_def)

lemma lifecycle_path_prefix:
  "lifecycle_path (xs @ ys) \<Longrightarrow> xs \<noteq> [] \<Longrightarrow> lifecycle_path xs"
  by (auto simp: lifecycle_path_def successively_append_iff)

text \<open>C38. A lifecycle never revisits a state and has at most nine states, whatever the order
  of the operations that produced it: the transition table admits no cycle.\<close>

theorem lifecycle_bounded:
  assumes "lifecycle_path ss"
  shows "distinct ss \<and> length ss \<le> 9"
proof -
  from assms obtain xs where ss: "ss = TaskState.RECEIVED # xs"
    by (cases ss) (auto simp: lifecycle_path_def)
  with assms have p: "successively lifecycle_step (TaskState.RECEIVED # xs)"
    by (simp add: lifecycle_path_def)
  from lifecycle.path_bound [OF p] lifecycle.path_distinct [OF p] ss show ?thesis by simp
qed

theorem lifecycle_bounded_witness:
  "distinct [TaskState.RECEIVED, TaskState.PLANNED, TaskState.AWAITING_APPROVAL,
     TaskState.APPROVED, TaskState.EXECUTING, TaskState.VERIFYING, TaskState.COMPLETED,
     TaskState.ROLLING_BACK, TaskState.ROLLED_BACK]"
  by (rule conjunct1 [OF lifecycle_bounded])
    (simp add: lifecycle_path_def lifecycle_step_allowed)

text \<open>What may precede a state: the converse of the table, used for the audit trail.\<close>

lemma lifecycle_predecessors:
  "lifecycle_step a TaskState.APPROVED \<Longrightarrow> a = TaskState.AWAITING_APPROVAL"
  "lifecycle_step a TaskState.COMPLETED \<Longrightarrow> a = TaskState.VERIFYING"
  "lifecycle_step a TaskState.VERIFYING \<Longrightarrow> a = TaskState.EXECUTING"
  "lifecycle_step a TaskState.EXECUTING \<Longrightarrow> a = TaskState.PLANNED \<or> a = TaskState.APPROVED"
  "lifecycle_step a TaskState.ROLLED_BACK \<Longrightarrow> a = TaskState.ROLLING_BACK"
  by (cases a; simp add: lifecycle_step_allowed)+

lemma path_predecessor:
  assumes "lifecycle_path ss" "s \<in> set ss" "s \<noteq> TaskState.RECEIVED"
  shows "\<exists>a\<in>set ss. lifecycle_step a s"
proof -
  obtain ys zs where ss: "ss = ys @ s # zs" using split_list [OF assms(2)] by blast
  with assms(1,3) have "ys \<noteq> []" by (auto simp: lifecycle_path_def)
  then have "lifecycle_step (last ys) s"
    using assms(1) ss by (auto simp: lifecycle_path_def successively_append_iff)
  moreover have "last ys \<in> set ss" using ss \<open>ys \<noteq> []\<close> by simp
  ultimately show ?thesis by blast
qed

lemma completed_was_verified:
  assumes "lifecycle_path ss" "TaskState.COMPLETED \<in> set ss"
  shows "TaskState.EXECUTING \<in> set ss \<and> TaskState.VERIFYING \<in> set ss"
proof -
  have "TaskState.VERIFYING \<in> set ss"
    using path_predecessor [OF assms] lifecycle_predecessors(2) by auto
  moreover from this have "TaskState.EXECUTING \<in> set ss"
    using path_predecessor [OF assms(1), of TaskState.VERIFYING] lifecycle_predecessors(3) by auto
  ultimately show ?thesis by simp
qed

end
