(* ===== verification/Ledger.thy ===== *)
theory Ledger
  imports Domain
begin

section \<open>The action-receipt ledger of \<^verbatim>\<open>core/ledger.py\<close>\<close>

text \<open>
  \<open>InMemoryActionLedger\<close>: a dictionary from a task to the list of its receipts. \<open>append\<close>
  creates the entry before it checks the version, as \<open>setdefault\<close> does, so a refused receipt
  can leave an empty history behind; \<open>get\<close> and \<open>history\<close> do not see the difference.

  The locale \<open>receipt_ledger\<close> is the contract the service relies on (an accepted receipt
  extends one history by itself and leaves the others alone, a receipt with another version
  is refused and nothing changes); its lemmas give append-only growth and gap-free
  versions. It is interpreted on the model of the class.
\<close>

type_synonym ledger = "(uuid, ActionReceipt list) dict"

definition ledger_append :: "ActionReceipt \<Rightarrow> ledger \<Rightarrow> unit res \<times> ledger" where
  "ledger_append receipt L =
     (let L' = (case dget L (rc_task_id receipt) of
                  None \<Rightarrow> dput (rc_task_id receipt) [] L | Some _ \<Rightarrow> L);
          history = (case dget L' (rc_task_id receipt) of None \<Rightarrow> [] | Some h \<Rightarrow> h);
          expected_version = length history + 1
      in if rc_receipt_version receipt \<noteq> expected_version
         then (Inl (ValueError (str ''Receipt version '' @ dec_nat (rc_receipt_version receipt) @
                 str '' does not match '' @ dec_nat expected_version)), L')
         else (Inr (), dput (rc_task_id receipt) (history @ [receipt]) L'))"

definition ledger_get :: "ledger \<Rightarrow> uuid \<Rightarrow> ActionReceipt option" where
  "ledger_get L task_id =
     (case dget L task_id of
        None \<Rightarrow> None
      | Some history \<Rightarrow> if history = [] then None else Some (last history))"

definition ledger_history :: "ledger \<Rightarrow> uuid \<Rightarrow> ActionReceipt list" where
  "ledger_history L task_id = (case dget L task_id of None \<Rightarrow> [] | Some history \<Rightarrow> history)"

text \<open>\<open>values\<close> takes \<open>history[-1]\<close> of every entry, which raises on an empty one.\<close>

definition ledger_values :: "ledger \<Rightarrow> ActionReceipt list res" where
  "ledger_values L =
     (if [] \<in> set (dvals L) then Inl (IndexError (str ''list index out of range''))
      else Inr (map last (dvals L)))"

subsection \<open>The contract\<close>

locale receipt_ledger =
  fixes append :: "ActionReceipt \<Rightarrow> 'l \<Rightarrow> unit res \<times> 'l"
    and get :: "'l \<Rightarrow> uuid \<Rightarrow> ActionReceipt option"
    and history :: "'l \<Rightarrow> uuid \<Rightarrow> ActionReceipt list"
  assumes append_next:
      "rc_receipt_version r = length (history L (rc_task_id r)) + 1 \<Longrightarrow>
       \<exists>L'. append r L = (Inr (), L') \<and>
         history L' = (history L)(rc_task_id r := history L (rc_task_id r) @ [r])"
    and append_other:
      "rc_receipt_version r \<noteq> length (history L (rc_task_id r)) + 1 \<Longrightarrow>
       \<exists>e L'. append r L = (Inl e, L') \<and> history L' = history L"
    and get_history: "get L t = (if history L t = [] then None else Some (last (history L t)))"
begin

lemma append_ok_iff: "fst (append r L) = Inr () \<longleftrightarrow> rc_receipt_version r = length (history L (rc_task_id r)) + 1"
  using append_next [of r L] append_other [of r L] by force

lemma append_only: "prefix (history L t) (history (snd (append r L)) t)"
  using append_next [of r L] append_other [of r L]
  by (cases "rc_receipt_version r = length (history L (rc_task_id r)) + 1") auto

definition versioned :: "'l \<Rightarrow> bool" where
  "versioned L \<longleftrightarrow>
     (\<forall>t. map rc_receipt_version (history L t) = map Suc [0..<length (history L t)] \<and>
          (\<forall>r\<in>set (history L t). rc_task_id r = t))"

lemma versioned_append: "versioned L \<Longrightarrow> versioned (snd (append r L))"
proof (cases "rc_receipt_version r = length (history L (rc_task_id r)) + 1")
  case True
  with append_next obtain L' where L': "append r L = (Inr (), L')"
    "history L' = (history L)(rc_task_id r := history L (rc_task_id r) @ [r])" by blast
  assume "versioned L"
  with L' True show ?thesis by (auto simp: versioned_def)
next
  case False
  with append_other obtain e L' where "append r L = (Inl e, L')" "history L' = history L" by blast
  moreover assume "versioned L"
  ultimately show ?thesis by (simp add: versioned_def)
qed

lemma versioned_last:
  assumes "versioned L" "get L t = Some r"
  shows "rc_receipt_version r = length (history L t) \<and> rc_task_id r = t"
proof -
  from assms(2) have ne: "history L t \<noteq> []" and r: "r = last (history L t)"
    by (auto simp: get_history split: if_splits)
  have "map rc_receipt_version (history L t) = map Suc [0..<length (history L t)]"
    using assms(1) by (simp add: versioned_def)
  then have "rc_receipt_version r = last (map Suc [0..<length (history L t)])"
    using ne r by (metis last_map)
  moreover have "r \<in> set (history L t)" using ne r by simp
  ultimately show ?thesis using assms(1) ne by (simp add: versioned_def last_map)
qed

lemma next_version_accepted:
  assumes "versioned L"
    and "rc_receipt_version r =
      (case get L (rc_task_id r) of None \<Rightarrow> 1 | Some p \<Rightarrow> rc_receipt_version p + 1)"
  shows "fst (append r L) = Inr ()"
proof (cases "get L (rc_task_id r)")
  case None
  with assms(2) show ?thesis by (simp add: append_ok_iff get_history split: if_splits)
next
  case (Some p)
  with assms(2) versioned_last [OF assms(1) Some] show ?thesis by (simp add: append_ok_iff)
qed

end

lemma history_append_next:
  assumes "rc_receipt_version r = length (ledger_history L (rc_task_id r)) + 1"
  shows "\<exists>L'. ledger_append r L = (Inr (), L') \<and>
    ledger_history L' = (ledger_history L)(rc_task_id r := ledger_history L (rc_task_id r) @ [r])"
  using assms
  by (auto simp: ledger_append_def ledger_history_def Let_def dict_laws fun_eq_iff
      split: option.splits)

lemma history_append_other:
  assumes "rc_receipt_version r \<noteq> length (ledger_history L (rc_task_id r)) + 1"
  shows "\<exists>e L'. ledger_append r L = (Inl e, L') \<and> ledger_history L' = ledger_history L"
  using assms
  by (auto simp: ledger_append_def ledger_history_def Let_def dict_laws fun_eq_iff
      split: option.splits)

interpretation receipts: receipt_ledger ledger_append ledger_get ledger_history
  by unfold_locales
    (use history_append_next history_append_other in
      \<open>auto simp: ledger_get_def ledger_history_def split: option.splits\<close>)

lemma ledger_empty_versioned [simp]: "receipts.versioned []"
  by (simp add: receipts.versioned_def ledger_history_def dict_laws)

text \<open>A receipt is accepted exactly when its version is the successor of the number of
  receipts its task already has; a refused one changes no history, and an accepted one
  extends the history of its own task only, at its end.\<close>

theorem ledger_append_only:
  "(case ledger_append r L of
      (Inr _, L') \<Rightarrow>
        rc_receipt_version r = length (ledger_history L (rc_task_id r)) + 1 \<and>
        ledger_get L' (rc_task_id r) = Some r \<and>
        ledger_history L' =
          (ledger_history L)(rc_task_id r := ledger_history L (rc_task_id r) @ [r])
    | (Inl e, L') \<Rightarrow>
        rc_receipt_version r \<noteq> length (ledger_history L (rc_task_id r)) + 1 \<and>
        ledger_history L' = ledger_history L)"
  using receipts.append_next [of r L] receipts.append_other [of r L]
  by (cases "rc_receipt_version r = length (ledger_history L (rc_task_id r)) + 1")
    (auto simp: receipts.get_history)

end
