(* ===== verification/Service.thy ===== *)
theory Service
  imports Executor Planner Lifecycle Ledger
begin

section \<open>The orchestration service: \<^verbatim>\<open>core/service.py\<close>\<close>

text \<open>
  The state of \<open>CoreSimulatorService\<close> and its operations, each as a function from the state to
  a result (an exception or a value) and the next state. The tasks, the request index and
  the receipt ledger are dictionaries; the note store and the device are the \<open>world\<close>.

  A stored \<open>TaskView\<close> is replaced by a copy when an operation succeeds, but its event list is
  extended in place while the operation runs. The model keeps this: when a step raises
  an exception that the service does not catch, the stored task keeps its state, results and
  approval and shows the events appended so far.

  What an operation reads from outside (each \<open>datetime.now\<close> call site, the approval token, the
  answers of the host to each executed step) is the record \<open>service_env\<close>.
\<close>

subsection \<open>State and environment\<close>

record 'd service =
  sv_tasks :: "(uuid, TaskView) dict"
  sv_request_index :: "(uuid, uuid) dict"
  sv_ledger :: ledger
  sv_world :: "'d world"

record service_env =
  se_now :: time            \<comment> \<open>\<open>now\<close> of the operation\<close>
  se_outcome_at :: time     \<comment> \<open>when execution failed, or verification or rollback ended its first phase\<close>
  se_final_at :: time       \<comment> \<open>when verification completed or failed\<close>
  se_updated_at :: time     \<comment> \<open>the new \<open>updated_at\<close>\<close>
  se_token :: ustr          \<comment> \<open>\<open>secrets.token_urlsafe(32)\<close>\<close>
  se_exec :: "nat \<Rightarrow> exec_env"

definition APPROVAL_LIFETIME :: time where
  "APPROVAL_LIFETIME = 5 * 60 * 1000000"

definition init_service :: "note_store \<Rightarrow> 'd \<Rightarrow> 'd service" where
  "init_service notes device =
     \<lparr>sv_tasks = [], sv_request_index = [], sv_ledger = [],
      sv_world = \<lparr>wd_notes = notes, wd_device = device\<rparr>\<rparr>"

subsection \<open>Helpers of the class\<close>

definition payload_json :: "PlanStep \<Rightarrow> json" where
  "payload_json step = JDict
     [(str ''capability_id'', jstr (ps_capability_id step)),
      (str ''parameters'', json_attributes (ps_parameters step)),
      (str ''reversible'', JVal (PyBool (ps_reversible step))),
      (str ''risk_tier'', jstr (RiskTier_value (ps_risk_tier step)))]"

definition payload_sha256 :: "platform \<Rightarrow> PlanStep \<Rightarrow> ustr res" where
  "payload_sha256 P step =
     rbind (encode_utf8 (dumps (payload_json step))) (\<lambda>encoded. Inr (pf_sha256 P encoded))"

definition validate_session :: "IdentitySession \<Rightarrow> uuid \<Rightarrow> unit res" where
  "validate_session session expected_session_id =
     (if \<not> ses_authenticated session \<or> ses_session_id session \<noteq> expected_session_id
      then Inl (InvalidSessionError (str ''Authenticated session does not match the task''))
      else Inr ())"

definition append_event ::
  "platform \<Rightarrow> uuid \<Rightarrow> ActionEvent list \<Rightarrow> TaskState \<Rightarrow> string \<Rightarrow> ustr \<Rightarrow> time \<Rightarrow> ActionEvent list" where
  "append_event P task_id events state event_type detail occurred_at =
     (let sequence = length events + 1
      in events @
         [\<lparr>ev_event_id = pf_uuid5 P (str ''nexuss:event:'' @ uuid_str task_id @ str '':'' @
             dec_nat sequence @ str '':'' @ str event_type @ str '':'' @ TaskState_value state),
           ev_sequence = sequence, ev_state = state, ev_event_type = str event_type,
           ev_occurred_at = occurred_at, ev_detail = detail\<rparr>])"

definition REVERSIBLE_CAPABILITIES :: "ustr set" where
  "REVERSIBLE_CAPABILITIES = {str ''workspace.create_note'', str ''device.launch_notepad''}"

definition receipt_of :: "platform \<Rightarrow> nat \<Rightarrow> TaskView \<Rightarrow> ActionReceipt" where
  "receipt_of P receipt_version task =
     \<lparr>rc_receipt_id = pf_uuid5 P (str ''nexuss:receipt:'' @ uuid_str (tv_task_id task)),
      rc_receipt_version = receipt_version, rc_task_id = tv_task_id task,
      rc_request_id = tv_request_id task, rc_state = tv_state task, rc_intent = tv_intent task,
      rc_plan_id = pl_plan_id (tv_plan task), rc_policy_decisions = tv_policy_decisions task,
      rc_results = tv_results task, rc_events = tv_events task, rc_created_at = tv_created_at task,
      rc_updated_at = tv_updated_at task,
      rc_verified =
        (tv_state task \<in> {TaskState.COMPLETED, TaskState.ROLLED_BACK} \<and> tv_results task \<noteq> []),
      rc_reversible =
        (tv_state task = TaskState.COMPLETED \<and>
         list_ex (\<lambda>r. cr_capability_id r \<in> REVERSIBLE_CAPABILITIES \<and> cr_status r = StepStatus.VERIFIED)
           (tv_results task))\<rparr>"

definition record_receipt :: "platform \<Rightarrow> TaskView \<Rightarrow> ledger \<Rightarrow> unit res \<times> ledger" where
  "record_receipt P task L =
     (let receipt_version =
            (case ledger_get L (tv_task_id task) of None \<Rightarrow> 1 | Some previous \<Rightarrow> rc_receipt_version previous + 1)
      in ledger_append (receipt_of P receipt_version task) L)"

definition invalid_note_plan :: "platform \<Rightarrow> uuid \<Rightarrow> Intent \<Rightarrow> ustr \<Rightarrow> TaskPlan" where
  "invalid_note_plan P task_id intent error_code =
     \<lparr>pl_plan_id = pf_uuid5 P (str ''nexuss:'' @ uuid_str task_id @ str '':plan:'' @
         IntentKind_value (in_kind intent) @ str '':invalid''),
      pl_task_id = task_id, pl_intent = intent,
      pl_steps =
        [\<lparr>ps_step_id = pf_uuid5 P (str ''nexuss:'' @ uuid_str task_id @ str '':1:workspace.create_note''),
          ps_order = 1, ps_capability_id = str ''workspace.create_note'', ps_risk_tier = MEDIUM,
          ps_expected_evidence = [str ''validation_error''],
          ps_parameters = [(str ''validation_error'', PyStr error_code)], ps_reversible = False\<rparr>]\<rparr>"

text \<open>Code point 183 is the middle dot of the destination label, 92 the backslash.\<close>

definition approval_for ::
  "platform \<Rightarrow> ustr \<Rightarrow> uuid \<Rightarrow> uuid \<Rightarrow> PlanStep \<Rightarrow> time \<Rightarrow> ApprovalRequest res" where
  "approval_for P token task_id session_id step now =
     rbind (payload_sha256 P step) (\<lambda>payload_hash.
       (let device = (ps_capability_id step = str ''device.launch_notepad'');
            target_node_id = get_str (ps_parameters step) ''target_node_id'' (str ''windows-primary'');
            filename = get_str (ps_parameters step) ''filename'' (str ''managed action'')
        in Inr \<lparr>
          ap_approval_id = pf_uuid5 P (str ''nexuss:approval:'' @ uuid_str task_id @ str '':'' @ payload_hash),
          ap_task_id = task_id, ap_capability_id = ps_capability_id step,
          ap_status = ApprovalStatus.PENDING,
          ap_action_title =
            (if device then str ''Launch Notepad on trusted Windows node'' else str ''Create managed note''),
          ap_action_summary =
            (if device
             then str ''Start only the fixed Windows Notepad executable through the signed '' @
                  str ''device node '' @ target_node_id @ str ''.''
             else str ''Create '' @ filename @ str '' without overwriting an existing file.''),
          ap_exact_preview =
            (if device
             then str ''Capability: '' @ ps_capability_id step @ [10] @
                  str ''Target node: '' @ target_node_id @ [10] @
                  str ''Executable: C:'' @ [92] @ str ''Windows'' @ [92] @ str ''System32'' @ [92] @
                  str ''notepad.exe'' @ [10] @ str ''Shell: disabled'' @ [10] @ str ''Arguments: none''
             else get_str (ps_parameters step) ''content'' (str ''No content preview available.'')),
          ap_destination_label =
            (if device then str ''Trusted Windows node '' @ [183] @ str '' '' @ target_node_id
             else str ''Nexuss Managed Workspace''),
          ap_payload_sha256 = payload_hash, ap_approval_token = Some token,
          ap_session_id = session_id, ap_expires_at = now + APPROVAL_LIFETIME,
          ap_risk_tier = ps_risk_tier step, ap_reversible = ps_reversible step,
          ap_approval_channel = (if device then PHONE else DESKTOP)\<rparr>))"

subsection \<open>Execution\<close>

text \<open>The loop over the steps: the exception that ended it, and the results before it.\<close>

primrec run_steps ::
  "platform \<Rightarrow> 'd device_client \<Rightarrow> service_env \<Rightarrow> uuid \<Rightarrow> time \<Rightarrow> PlanStep list \<Rightarrow> CapabilityResult list \<Rightarrow>
     'd world \<Rightarrow> exn option \<times> CapabilityResult list \<times> 'd world" where
  "run_steps P C E task_id now [] results W = (None, results, W)"
| "run_steps P C E task_id now (step # steps) results W =
     (case execute_step P (se_exec E (ps_order step)) step now True (Some C) (Some task_id) W of
        (Inl e, W') \<Rightarrow> (Some e, results, W')
      | (Inr r, W') \<Rightarrow> run_steps P C E task_id now steps (results @ [r]) W')"

definition execute_authorized_steps ::
  "platform \<Rightarrow> 'd device_client \<Rightarrow> service_env \<Rightarrow> uuid \<Rightarrow> TaskPlan \<Rightarrow> ActionEvent list \<Rightarrow> time \<Rightarrow> 'd world \<Rightarrow>
     (TaskState \<times> CapabilityResult list) res \<times> ActionEvent list \<times> 'd world" where
  "execute_authorized_steps P C E task_id plan events now W =
     (if events = [] then (Inl (IndexError (str ''list index out of range'')), events, W)
      else case validate_transition (ev_state (last events)) TaskState.EXECUTING of
        Inl e \<Rightarrow> (Inl e, events, W)
      | Inr _ \<Rightarrow>
          (let events1 = append_event P task_id events TaskState.EXECUTING ''execution_started''
                 (str ''Authorized capabilities entered bounded execution.'') now
           in case run_steps P C E task_id now (pl_steps plan) [] W of
                (Some exc, results, W') \<Rightarrow>
                  if \<not> is_ManagedNoteError exc then (Inl exc, events1, W')
                  else
                    (case validate_transition TaskState.EXECUTING TaskState.FAILED of
                       Inl e \<Rightarrow> (Inl e, events1, W')
                     | Inr _ \<Rightarrow>
                         (Inr (TaskState.FAILED, results),
                          append_event P task_id events1 TaskState.FAILED ''execution_failed''
                            (exn_str exc) (se_outcome_at E), W'))
              | (None, results, W') \<Rightarrow>
                  (case validate_transition TaskState.EXECUTING TaskState.VERIFYING of
                     Inl e \<Rightarrow> (Inl e, events1, W')
                   | Inr _ \<Rightarrow>
                       (let events2 = append_event P task_id events1 TaskState.VERIFYING
                              ''verification_started''
                              (str ''Nexuss is verifying returned evidence against the action contract.'')
                              (se_outcome_at E);
                            verified = (results \<noteq> [] \<and>
                              list_all (\<lambda>r. cr_status r = StepStatus.VERIFIED \<and> cr_evidence r \<noteq> []) results);
                            final_state = (if verified then TaskState.COMPLETED else TaskState.FAILED)
                        in case validate_transition TaskState.VERIFYING final_state of
                             Inl e \<Rightarrow> (Inl e, events2, W')
                           | Inr _ \<Rightarrow>
                               (Inr (final_state, results),
                                append_event P task_id events2 final_state
                                  (if verified then ''verification_completed'' else ''verification_failed'')
                                  (if verified then str ''All expected evidence was verified.''
                                   else str ''The execution result did not satisfy the evidence contract.'')
                                  (se_final_at E), W')))))"

subsection \<open>Storing a task\<close>

definition commit :: "platform \<Rightarrow> TaskView \<Rightarrow> 'd service \<Rightarrow> TaskView res \<times> 'd service" where
  "commit P task S =
     (let S1 = S\<lparr>sv_tasks := dput (tv_task_id task) task (sv_tasks S)\<rparr>
      in case record_receipt P task (sv_ledger S) of
           (Inl e, L) \<Rightarrow> (Inl e, S1\<lparr>sv_ledger := L\<rparr>)
         | (Inr _, L) \<Rightarrow> (Inr task, S1\<lparr>sv_ledger := L\<rparr>))"

subsection \<open>Creating a task\<close>

definition task_id_of :: "platform \<Rightarrow> uuid \<Rightarrow> uuid" where
  "task_id_of P request_id = pf_uuid5 P (str ''nexuss:task:'' @ uuid_str request_id)"

text \<open>The \<open>try\<close> around \<open>build_plan\<close>: the plan, and the code of a refused note.\<close>

definition plan_or_refuse :: "platform \<Rightarrow> uuid \<Rightarrow> Intent \<Rightarrow> (TaskPlan \<times> ustr option) res" where
  "plan_or_refuse P task_id intent =
     (case build_plan P task_id intent of
        Inr plan \<Rightarrow> Inr (plan, None)
      | Inl e \<Rightarrow>
          (case e of
             InvalidNoteError m \<Rightarrow> Inr (invalid_note_plan P task_id intent m, Some m)
           | _ \<Rightarrow> Inl e))"

definition policy_decisions :: "TaskPlan \<Rightarrow> ustr option \<Rightarrow> PolicyDecision list" where
  "policy_decisions plan refused =
     (case refused of
        Some m \<Rightarrow>
          [\<lparr>pd_step_id = ps_step_id (hd (pl_steps plan)),
            pd_capability_id = ps_capability_id (hd (pl_steps plan)), pd_outcome = DENY,
            pd_reason_code = str ''INVALID_MANAGED_NOTE_REQUEST'', pd_explanation = m\<rparr>]
      | None \<Rightarrow> map evaluate_step (pl_steps plan))"

text \<open>What follows the decisions: denial, a request for approval, or execution.\<close>

definition create_outcome ::
  "platform \<Rightarrow> 'd device_client \<Rightarrow> service_env \<Rightarrow> uuid \<Rightarrow> uuid \<Rightarrow> TaskPlan \<Rightarrow> PolicyDecision list \<Rightarrow>
     ActionEvent list \<Rightarrow> 'd world \<Rightarrow>
     (TaskState \<times> ApprovalRequest option \<times> CapabilityResult list) res \<times> ActionEvent list \<times> 'd world" where
  "create_outcome P C E task_id session_id plan decisions events W =
     (if list_ex (\<lambda>d. pd_outcome d = DENY) decisions then
        (case validate_transition TaskState.PLANNED TaskState.DENIED of
           Inl e \<Rightarrow> (Inl e, events, W)
         | Inr _ \<Rightarrow>
             (Inr (TaskState.DENIED, None, []),
              append_event P task_id events TaskState.DENIED ''policy_denied''
                (str ''Policy denied at least one required capability.'') (se_now E), W))
      else if list_ex (\<lambda>d. pd_outcome d = REQUIRE_APPROVAL) decisions then
        (case validate_transition TaskState.PLANNED TaskState.AWAITING_APPROVAL of
           Inl e \<Rightarrow> (Inl e, events, W)
         | Inr _ \<Rightarrow>
             (case approval_for P (se_token E) task_id session_id (hd (pl_steps plan)) (se_now E) of
                Inl e \<Rightarrow> (Inl e, events, W)
              | Inr approval \<Rightarrow>
                  (Inr (TaskState.AWAITING_APPROVAL, Some approval, []),
                   append_event P task_id events TaskState.AWAITING_APPROVAL ''approval_requested''
                     (str ''Execution is paused pending explicit approval of the exact payload.'')
                     (se_now E), W)))
      else
        (case execute_authorized_steps P C E task_id plan events (se_now E) W of
           (Inl e, events', W') \<Rightarrow> (Inl e, events', W')
         | (Inr (state, results), events', W') \<Rightarrow> (Inr (state, None, results), events', W')))"

definition received_events :: "platform \<Rightarrow> service_env \<Rightarrow> uuid \<Rightarrow> ActionEvent list" where
  "received_events P E task_id =
     append_event P task_id [] TaskState.RECEIVED ''request_received''
       (str ''Authenticated request accepted for interpretation.'') (se_now E)"

definition planned_events :: "platform \<Rightarrow> service_env \<Rightarrow> uuid \<Rightarrow> TaskPlan \<Rightarrow> ActionEvent list" where
  "planned_events P E task_id plan =
     append_event P task_id (received_events P E task_id) TaskState.PLANNED ''plan_generated''
       (str ''Generated a '' @ dec_nat (length (pl_steps plan)) @
        str ''-step deterministic capability plan.'') (se_now E)"

definition create_task ::
  "platform \<Rightarrow> 'd device_client \<Rightarrow> service_env \<Rightarrow> TaskRequest \<Rightarrow> IdentitySession \<Rightarrow> 'd service \<Rightarrow>
     TaskView res \<times> 'd service" where
  "create_task P C E request session S =
     (case dget (sv_request_index S) (rq_request_id request) of
        Some existing_task_id \<Rightarrow>
          (case dget (sv_tasks S) existing_task_id of
             None \<Rightarrow> (Inl (KeyError (uuid_str existing_task_id)), S)
           | Some task \<Rightarrow> (Inr task, S))
      | None \<Rightarrow>
          (case validate_session session (rq_user_session_id request) of
             Inl e \<Rightarrow> (Inl e, S)
           | Inr _ \<Rightarrow>
               (let task_id = task_id_of P (rq_request_id request);
                    intent = classify_intent P (rq_utterance request)
                in case plan_or_refuse P task_id intent of
                     Inl e \<Rightarrow> (Inl e, S)
                   | Inr (plan, refused) \<Rightarrow>
                       (case validate_transition TaskState.RECEIVED TaskState.PLANNED of
                          Inl e \<Rightarrow> (Inl e, S)
                        | Inr _ \<Rightarrow>
                            (let decisions = policy_decisions plan refused
                             in case create_outcome P C E task_id (ses_session_id session) plan decisions
                                       (planned_events P E task_id plan) (sv_world S) of
                                  (Inl e, _, W) \<Rightarrow> (Inl e, S\<lparr>sv_world := W\<rparr>)
                                | (Inr (state, approval, results), events, W) \<Rightarrow>
                                    commit P
                                      \<lparr>tv_task_id = task_id, tv_request_id = rq_request_id request,
                                       tv_user_session_id = rq_user_session_id request,
                                       tv_state = state, tv_intent = intent, tv_plan = plan,
                                       tv_policy_decisions = decisions, tv_results = results,
                                       tv_events = events, tv_approval = approval,
                                       tv_created_at = se_now E, tv_updated_at = se_updated_at E\<rparr>
                                      (S\<lparr>sv_world := W, sv_request_index :=
                                           dput (rq_request_id request) task_id (sv_request_index S)\<rparr>))))))"

subsection \<open>Deciding an approval\<close>

text \<open>\<open>model_copy\<close> of an approval that is no longer pending: the token is erased.\<close>

definition close_approval :: "ApprovalStatus \<Rightarrow> ApprovalRequest \<Rightarrow> ApprovalRequest" where
  "close_approval status approval = approval\<lparr>ap_status := status, ap_approval_token := None\<rparr>"

text \<open>The four checks of a decision against the stored approval, in order.\<close>

definition check_decision :: "ApprovalDecision \<Rightarrow> ApprovalRequest \<Rightarrow> unit res" where
  "check_decision dec approval =
     (if ad_approval_id dec \<noteq> ap_approval_id approval
      then Inl (ApprovalValidationError (str ''APPROVAL_ID_MISMATCH''))
      else
        rbind (compare_digest (ad_approval_token dec)
                 (case ap_approval_token approval of None \<Rightarrow> [] | Some token \<Rightarrow> token)) (\<lambda>same_token.
        rbind (guard same_token (ApprovalValidationError (str ''APPROVAL_TOKEN_MISMATCH''))) (\<lambda>_.
        rbind (compare_digest (ad_payload_sha256 dec) (ap_payload_sha256 approval)) (\<lambda>same_hash.
        rbind (guard same_hash (ApprovalValidationError (str ''APPROVAL_PAYLOAD_HASH_MISMATCH''))) (\<lambda>_.
          guard (ap_status approval = ApprovalStatus.PENDING)
            (ApprovalValidationError (str ''APPROVAL_ALREADY_CONSUMED'')))))))"

text \<open>Closing a task as denied: the expiry and the rejection.\<close>

definition deny_task ::
  "platform \<Rightarrow> TaskView \<Rightarrow> ApprovalRequest \<Rightarrow> string \<Rightarrow> string \<Rightarrow> time \<Rightarrow> 'd service \<Rightarrow>
     TaskView res \<times> 'd service" where
  "deny_task P task closing event_type detail now S =
     (case validate_transition (tv_state task) TaskState.DENIED of
        Inl e \<Rightarrow> (Inl e, S)
      | Inr _ \<Rightarrow>
          commit P
            (task\<lparr>tv_events := append_event P (tv_task_id task) (tv_events task) TaskState.DENIED
                                event_type (str detail) now,
                  tv_state := TaskState.DENIED, tv_approval := Some closing, tv_updated_at := now\<rparr>) S)"

text \<open>The stored task whose event list has grown in place.\<close>

definition with_events :: "TaskView \<Rightarrow> ActionEvent list \<Rightarrow> 'd service \<Rightarrow> 'd service" where
  "with_events task events S =
     S\<lparr>sv_tasks := dput (tv_task_id task) (task\<lparr>tv_events := events\<rparr>) (sv_tasks S)\<rparr>"

definition grant_task ::
  "platform \<Rightarrow> 'd device_client \<Rightarrow> service_env \<Rightarrow> ApprovalChannel \<Rightarrow> TaskView \<Rightarrow> ApprovalRequest \<Rightarrow>
     'd service \<Rightarrow> TaskView res \<times> 'd service" where
  "grant_task P C E channel task approval S =
     (case validate_transition (tv_state task) TaskState.APPROVED of
        Inl e \<Rightarrow> (Inl e, S)
      | Inr _ \<Rightarrow>
          (let events = append_event P (tv_task_id task) (tv_events task) TaskState.APPROVED
                 ''approval_granted''
                 (if channel = PHONE
                  then str ''The exact payload was approved from the paired phone session.''
                  else str ''The exact payload was approved by the authenticated desktop session.'')
                 (se_now E)
           in case execute_authorized_steps P C E (tv_task_id task) (tv_plan task) events (se_now E)
                     (sv_world S) of
                (Inl e, events', W) \<Rightarrow> (Inl e, with_events task events' (S\<lparr>sv_world := W\<rparr>))
              | (Inr (state, results), events', W) \<Rightarrow>
                  commit P
                    (task\<lparr>tv_events := events', tv_state := state, tv_results := results,
                          tv_approval := Some (close_approval ApprovalStatus.CONSUMED approval),
                          tv_updated_at := se_updated_at E\<rparr>)
                    (S\<lparr>sv_world := W\<rparr>)))"

definition approve_task ::
  "platform \<Rightarrow> 'd device_client \<Rightarrow> service_env \<Rightarrow> uuid \<Rightarrow> ApprovalDecision \<Rightarrow> IdentitySession \<Rightarrow>
     ApprovalChannel \<Rightarrow> 'd service \<Rightarrow> TaskView res \<times> 'd service" where
  "approve_task P C E task_id dec session channel S =
     (case dget (sv_tasks S) task_id of
        None \<Rightarrow> (Inl (TaskNotFoundError (uuid_str task_id)), S)
      | Some task \<Rightarrow>
          (case validate_session session (tv_user_session_id task) of
             Inl e \<Rightarrow> (Inl e, S)
           | Inr _ \<Rightarrow>
               (case (if tv_state task = TaskState.AWAITING_APPROVAL then tv_approval task else None) of
                  None \<Rightarrow> (Inl (ApprovalValidationError (str ''TASK_IS_NOT_AWAITING_APPROVAL'')), S)
                | Some approval \<Rightarrow>
                    if ad_decision dec = APPROVE \<and> ap_approval_channel approval \<noteq> channel
                    then (Inl (ApprovalValidationError
                            (if ap_approval_channel approval = PHONE then str ''PHONE_APPROVAL_REQUIRED''
                             else str ''DESKTOP_APPROVAL_REQUIRED'')), S)
                    else if se_now E \<ge> ap_expires_at approval
                    then
                      (case deny_task P task (close_approval ApprovalStatus.EXPIRED approval)
                              ''approval_expired''
                              ''The approval window expired before authorization.'' (se_now E) S of
                         (Inl e, S') \<Rightarrow> (Inl e, S')
                       | (Inr _, S') \<Rightarrow> (Inl (ApprovalValidationError (str ''APPROVAL_EXPIRED'')), S'))
                    else
                      (case check_decision dec approval of
                         Inl e \<Rightarrow> (Inl e, S)
                       | Inr _ \<Rightarrow>
                           if ad_decision dec = REJECT
                           then deny_task P task (close_approval ApprovalStatus.REJECTED approval)
                                  ''approval_rejected'' ''The user rejected the proposed action.'' (se_now E) S
                           else grant_task P C E channel task approval S))))"

subsection \<open>Pending phone approvals\<close>

record MobileApprovalSummary =
  ms_task_id :: uuid
  ms_approval_id :: uuid
  ms_approval_token :: ustr
  ms_payload_sha256 :: ustr
  ms_action_title :: ustr
  ms_action_summary :: ustr
  ms_exact_preview :: ustr
  ms_destination_label :: ustr
  ms_risk_tier :: RiskTier
  ms_reversible :: bool
  ms_expires_at :: time

definition phone_summary :: "uuid \<Rightarrow> TaskView \<Rightarrow> MobileApprovalSummary option" where
  "phone_summary session_id task =
     (case tv_approval task of
        None \<Rightarrow> None
      | Some approval \<Rightarrow>
          (case ap_approval_token approval of
             None \<Rightarrow> None
           | Some token \<Rightarrow>
               if tv_user_session_id task \<noteq> session_id \<or>
                  tv_state task \<noteq> TaskState.AWAITING_APPROVAL \<or>
                  ap_approval_channel approval \<noteq> PHONE \<or>
                  ap_status approval \<noteq> ApprovalStatus.PENDING
               then None
               else Some \<lparr>
                 ms_task_id = tv_task_id task, ms_approval_id = ap_approval_id approval,
                 ms_approval_token = token, ms_payload_sha256 = ap_payload_sha256 approval,
                 ms_action_title = ap_action_title approval,
                 ms_action_summary = ap_action_summary approval,
                 ms_exact_preview = ap_exact_preview approval,
                 ms_destination_label = ap_destination_label approval,
                 ms_risk_tier = ap_risk_tier approval, ms_reversible = ap_reversible approval,
                 ms_expires_at = ap_expires_at approval\<rparr>))"

text \<open>\<open>sorted\<close> is stable, as \<^const>\<open>sort_key\<close> is.\<close>

definition list_pending_phone_approvals :: "uuid \<Rightarrow> 'd service \<Rightarrow> MobileApprovalSummary list" where
  "list_pending_phone_approvals session_id S =
     sort_key ms_expires_at (List.map_filter (phone_summary session_id) (dvals (sv_tasks S)))"

subsection \<open>Rolling a task back\<close>

definition rollback_source :: "CapabilityResult \<Rightarrow> bool" where
  "rollback_source r \<longleftrightarrow>
     cr_capability_id r \<in> REVERSIBLE_CAPABILITIES \<and> cr_status r = StepStatus.VERIFIED \<and> cr_evidence r \<noteq> []"

definition rolled_back_result :: "CapabilityResult \<Rightarrow> string \<Rightarrow> string \<Rightarrow> time \<Rightarrow> attributes \<Rightarrow> CapabilityResult" where
  "rolled_back_result source capability_id origin observed_at attributes =
     \<lparr>cr_step_id = cr_step_id source, cr_capability_id = str capability_id,
      cr_status = StepStatus.ROLLED_BACK,
      cr_evidence = [\<lparr>er_source = str origin, er_observed_at = observed_at, er_attributes = attributes\<rparr>],
      cr_error_code = None\<rparr>"

definition rollback_note ::
  "platform \<Rightarrow> os_env \<Rightarrow> CapabilityResult \<Rightarrow> time \<Rightarrow> note_store \<Rightarrow> CapabilityResult res \<times> note_store" where
  "rollback_note P os source observed_at N =
     (let attributes = er_attributes (hd (cr_evidence source));
          filename = get_str attributes ''filename'' [];
          expected_sha256 = get_str attributes ''sha256'' []
      in case store_rollback P os N filename expected_sha256 of
           (N', Inl e) \<Rightarrow> (Inl e, N')
         | (N', Inr removed_path) \<Rightarrow>
             (Inr (rolled_back_result source ''workspace.rollback_create_note''
                     ''local:managed_workspace'' observed_at
                     [(str ''source_mode'', PyStr (str ''live_local_receipt_bound_rollback'')),
                      (str ''filename'', PyStr filename),
                      (str ''removed_path'', PyStr (path_str removed_path)),
                      (str ''expected_sha256'', PyStr expected_sha256),
                      (str ''verified_absent'', PyBool True)]), N'))"

definition rollback_device_command ::
  "'d device_client \<Rightarrow> call_env \<Rightarrow> uuid \<Rightarrow> CapabilityResult \<Rightarrow> time \<Rightarrow> 'd \<Rightarrow> CapabilityResult res \<times> 'd" where
  "rollback_device_command C X task_id device_result observed_at d =
     (let attributes = er_attributes (hd (cr_evidence device_result));
          node_id = get_str attributes ''node_id'' []
      in case uuid_parse (get_str attributes ''command_id'' []) of
           None \<Rightarrow> (Inl (ValueError (str ''badly formed hexadecimal UUID string'')), d)
         | Some command_id \<Rightarrow>
             (case cl_rollback_command C X task_id command_id node_id d of
                (Inl e, d') \<Rightarrow> (Inl e, d')
              | (Inr evidence, d') \<Rightarrow>
                  if \<not> re_verified_absent evidence
                  then (Inl (DeviceCommandError (str ''DEVICE_ROLLBACK_NOT_VERIFIED'')), d')
                  else
                    (Inr (rolled_back_result device_result ''device.rollback_launch_notepad''
                            ''device:windows-node'' observed_at
                            [(str ''source_mode'', PyStr (re_source_mode evidence)),
                             (str ''rollback_id'', PyStr (uuid_str (re_rollback_id evidence))),
                             (str ''command_id'', PyStr (uuid_str (re_command_id evidence))),
                             (str ''node_id'', PyStr (re_node_id evidence)),
                             (str ''process_id'', PyInt (re_process_id evidence)),
                             (str ''terminated'', PyBool (re_terminated evidence)),
                             (str ''verified_absent'', PyBool (re_verified_absent evidence))]), d')))"

text \<open>The body of the \<open>try\<close>: the result and the detail of the closing event.\<close>

definition perform_rollback ::
  "platform \<Rightarrow> 'd device_client \<Rightarrow> exec_env \<Rightarrow> uuid \<Rightarrow> CapabilityResult \<Rightarrow> time \<Rightarrow> 'd world \<Rightarrow>
     (CapabilityResult \<times> ustr) res \<times> 'd world" where
  "perform_rollback P C X task_id source now W =
     (if cr_capability_id source = str ''workspace.create_note''
      then
        (let (r, N) = rollback_note P (xe_os X) source now (wd_notes W)
         in (rbind r (\<lambda>result.
               Inr (result, str ''The receipt-owned note was removed and absence was verified.'')),
             W\<lparr>wd_notes := N\<rparr>))
      else
        (let (r, d) = rollback_device_command C (xe_call X) task_id source now (wd_device W)
         in (rbind r (\<lambda>result.
               Inr (result,
                 str ''The receipt-bound device process was terminated and absence was verified.'')),
             W\<lparr>wd_device := d\<rparr>)))"

definition is_rollback_failure :: "exn \<Rightarrow> bool" where
  "is_rollback_failure e \<longleftrightarrow> is_ManagedNoteError e \<or> is_DeviceCommandError e \<or> is_ValueError e"

definition finish_rollback ::
  "platform \<Rightarrow> service_env \<Rightarrow> TaskView \<Rightarrow> ActionEvent list \<Rightarrow> (CapabilityResult \<times> ustr) res \<Rightarrow> 'd service \<Rightarrow>
     TaskView res \<times> 'd service" where
  "finish_rollback P E task events outcome S =
     (case outcome of
        Inl exc \<Rightarrow>
          if \<not> is_rollback_failure exc then (Inl exc, with_events task events S)
          else
            (case validate_transition TaskState.ROLLING_BACK TaskState.FAILED of
               Inl e \<Rightarrow> (Inl e, with_events task events S)
             | Inr _ \<Rightarrow>
                 (case commit P
                    (task\<lparr>tv_events := append_event P (tv_task_id task) events TaskState.FAILED
                                        ''rollback_failed'' (exn_str exc) (se_outcome_at E),
                          tv_state := TaskState.FAILED, tv_updated_at := se_updated_at E\<rparr>) S of
                    (Inl e, S') \<Rightarrow> (Inl e, S')
                  | (Inr _, S') \<Rightarrow> (Inl (RollbackValidationError (exn_str exc)), S')))
      | Inr (result, detail) \<Rightarrow>
          (case validate_transition TaskState.ROLLING_BACK TaskState.ROLLED_BACK of
             Inl e \<Rightarrow> (Inl e, with_events task events S)
           | Inr _ \<Rightarrow>
               commit P
                 (task\<lparr>tv_events := append_event P (tv_task_id task) events TaskState.ROLLED_BACK
                                     ''rollback_verified'' detail (se_outcome_at E),
                       tv_state := TaskState.ROLLED_BACK, tv_results := tv_results task @ [result],
                       tv_updated_at := se_updated_at E\<rparr>) S))"

definition rollback_task ::
  "platform \<Rightarrow> 'd device_client \<Rightarrow> service_env \<Rightarrow> uuid \<Rightarrow> IdentitySession \<Rightarrow> 'd service \<Rightarrow>
     TaskView res \<times> 'd service" where
  "rollback_task P C E task_id session S =
     (case dget (sv_tasks S) task_id of
        None \<Rightarrow> (Inl (TaskNotFoundError (uuid_str task_id)), S)
      | Some task \<Rightarrow>
          (case validate_session session (tv_user_session_id task) of
             Inl e \<Rightarrow> (Inl e, S)
           | Inr _ \<Rightarrow>
               if tv_state task \<noteq> TaskState.COMPLETED
               then (Inl (RollbackValidationError (str ''TASK_IS_NOT_ROLLBACK_ELIGIBLE'')), S)
               else
                 (case List.find rollback_source (tv_results task) of
                    None \<Rightarrow> (Inl (RollbackValidationError (str ''NO_RECEIPT_BOUND_REVERSIBLE_RESULT'')), S)
                  | Some source \<Rightarrow>
                      (case validate_transition (tv_state task) TaskState.ROLLING_BACK of
                         Inl e \<Rightarrow> (Inl e, S)
                       | Inr _ \<Rightarrow>
                           (let events = append_event P task_id (tv_events task) TaskState.ROLLING_BACK
                                  ''rollback_started''
                                  (str ''Receipt-bound rollback started after explicit user Undo.'') (se_now E);
                                (outcome, W) = perform_rollback P C (se_exec E 0) task_id source (se_now E)
                                                 (sv_world S)
                            in finish_rollback P E task events outcome (S\<lparr>sv_world := W\<rparr>))))))"

subsection \<open>Reading\<close>

definition get_task :: "uuid \<Rightarrow> 'd service \<Rightarrow> TaskView res" where
  "get_task task_id S =
     (case dget (sv_tasks S) task_id of
        None \<Rightarrow> Inl (TaskNotFoundError (uuid_str task_id)) | Some task \<Rightarrow> Inr task)"

definition get_receipt :: "uuid \<Rightarrow> 'd service \<Rightarrow> ActionReceipt res" where
  "get_receipt task_id S =
     (case ledger_get (sv_ledger S) task_id of
        None \<Rightarrow> Inl (TaskNotFoundError (uuid_str task_id)) | Some receipt \<Rightarrow> Inr receipt)"

definition get_receipt_history :: "uuid \<Rightarrow> 'd service \<Rightarrow> ActionReceipt list res" where
  "get_receipt_history task_id S =
     (let history = ledger_history (sv_ledger S) task_id
      in if history = [] then Inl (TaskNotFoundError (uuid_str task_id)) else Inr history)"

end
