(* ===== verification/ServiceInv.thy ===== *)
theory ServiceInv
  imports Service
begin

section \<open>What every operation of the service keeps\<close>

text \<open>
  Facts about the building blocks of the service (events, execution, \<open>commit\<close>), the invariant
  of its state, and the proof that each operation keeps it. The invariant says of every
  stored task that its log is numbered, that its approval is bound to it and pending exactly
  while it awaits one, that results of controlled capabilities exist only after a
  consumed approval, and that the last receipt of the ledger agrees with it.
\<close>

subsection \<open>Transitions and events\<close>

lemma transitions [simp]:
  "validate_transition TaskState.RECEIVED TaskState.PLANNED = Inr ()"
  "validate_transition TaskState.PLANNED TaskState.DENIED = Inr ()"
  "validate_transition TaskState.PLANNED TaskState.AWAITING_APPROVAL = Inr ()"
  "validate_transition TaskState.PLANNED TaskState.EXECUTING = Inr ()"
  "validate_transition TaskState.APPROVED TaskState.EXECUTING = Inr ()"
  "validate_transition TaskState.AWAITING_APPROVAL TaskState.APPROVED = Inr ()"
  "validate_transition TaskState.AWAITING_APPROVAL TaskState.DENIED = Inr ()"
  "validate_transition TaskState.EXECUTING TaskState.FAILED = Inr ()"
  "validate_transition TaskState.EXECUTING TaskState.VERIFYING = Inr ()"
  "validate_transition TaskState.VERIFYING TaskState.COMPLETED = Inr ()"
  "validate_transition TaskState.VERIFYING TaskState.FAILED = Inr ()"
  "validate_transition TaskState.COMPLETED TaskState.ROLLING_BACK = Inr ()"
  "validate_transition TaskState.ROLLING_BACK TaskState.FAILED = Inr ()"
  "validate_transition TaskState.ROLLING_BACK TaskState.ROLLED_BACK = Inr ()"
  by (simp_all add: validate_transition_def)

text \<open>An event log starts with the receipt of the request and is numbered from one.\<close>

definition numbered_log :: "ActionEvent list \<Rightarrow> bool" where
  "numbered_log events \<longleftrightarrow>
     events \<noteq> [] \<and> ev_state (hd events) = TaskState.RECEIVED \<and>
     map ev_sequence events = map Suc [0..<length events]"

lemma append_event_simps [simp]:
  "append_event P t events s ty de oc \<noteq> []"
  "ev_state (last (append_event P t events s ty de oc)) = s"
  "map ev_state (append_event P t events s ty de oc) = map ev_state events @ [s]"
  "prefix events (append_event P t events s ty de oc)"
  "events \<noteq> [] \<Longrightarrow> hd (append_event P t events s ty de oc) = hd events"
  by (simp_all add: append_event_def Let_def)

lemma numbered_append [simp]:
  "numbered_log events \<Longrightarrow> numbered_log (append_event P t events s ty de oc)"
  by (simp add: numbered_log_def append_event_def Let_def)

lemma numbered_start: "numbered_log (received_events P E t)"
  by (simp add: numbered_log_def received_events_def append_event_def)

lemma numbered_planned [simp]: "numbered_log (planned_events P E t plan)"
  by (simp add: planned_events_def numbered_start)

lemma planned_states [simp]:
  "map ev_state (planned_events P E t plan) = [TaskState.RECEIVED, TaskState.PLANNED]"
  "ev_state (last (planned_events P E t plan)) = TaskState.PLANNED"
  "planned_events P E t plan \<noteq> []"
  by (simp_all add: planned_events_def received_events_def)

text \<open>A log that is a path of the lifecycle and ends in the state of the task.\<close>

definition tidy_log :: "ActionEvent list \<Rightarrow> TaskState \<Rightarrow> bool" where
  "tidy_log events state \<longleftrightarrow>
     lifecycle_path (map ev_state events) \<and> ev_state (last events) = state"

lemma tidy_append:
  assumes "tidy_log events s" "s' \<in> ALLOWED_TRANSITIONS s"
  shows "tidy_log (append_event P t events s' ty de oc) s'"
proof -
  have "events \<noteq> []" using assms(1) by (auto simp: tidy_log_def lifecycle_path_def)
  then have "last (map ev_state events) = s" using assms(1) by (simp add: tidy_log_def last_map)
  then show ?thesis
    using assms lifecycle_path_snoc [of "map ev_state events" s'] by (simp add: tidy_log_def)
qed

lemma tidy_planned: "tidy_log (planned_events P E t plan) TaskState.PLANNED"
  by (simp add: tidy_log_def lifecycle_path_def lifecycle_step_allowed)

subsection \<open>Execution of a plan\<close>

lemma run_steps_results:
  assumes "run_steps P C E t now steps acc W = (exc, results, W')"
  shows "\<exists>new. results = acc @ new \<and> list_all2 result_for (take (length new) steps) new \<and>
    (exc = None \<longrightarrow> length new = length steps)"
  using assms
proof (induction steps arbitrary: acc W)
  case Nil
  then show ?case by simp
next
  case (Cons step steps)
  obtain r W1 where r: "execute_step P (se_exec E (ps_order step)) step now True (Some C) (Some t) W = (r, W1)"
    by (rule prod.exhaust)
  show ?case
  proof (cases r)
    case (Inl e)
    with Cons.prems r show ?thesis by auto
  next
    case (Inr x)
    have "result_for step x"
      using execute_step_result_for [of P "se_exec E (ps_order step)" step now True "Some C" "Some t" W x] r Inr
      by simp
    moreover from Cons.prems r Inr have "run_steps P C E t now steps (acc @ [x]) W1 = (exc, results, W')"
      by simp
    from Cons.IH [OF this] obtain new where "results = acc @ x # new"
      "list_all2 result_for (take (length new) steps) new" "exc = None \<longrightarrow> length new = length steps"
      by auto
    ultimately show ?thesis by (intro exI [of _ "x # new"]) auto
  qed
qed

lemma run_steps_inert:
  assumes "list_all (\<lambda>s. ps_capability_id s \<notin> REVERSIBLE_CAPABILITIES) steps"
  shows "snd (snd (run_steps P C E t now steps acc W)) = W"
  using assms
proof (induction steps arbitrary: acc)
  case (Cons step steps)
  have "snd (execute_step P (se_exec E (ps_order step)) step now True (Some C) (Some t) W) = W"
    using Cons.prems by (intro execute_step_inert) (simp add: REVERSIBLE_CAPABILITIES_def)
  with Cons show ?case by (simp split: prod.split sum.split) (metis snd_conv)
qed simp

definition all_verified :: "CapabilityResult list \<Rightarrow> bool" where
  "all_verified results \<longleftrightarrow>
     results \<noteq> [] \<and> list_all (\<lambda>r. cr_status r = StepStatus.VERIFIED \<and> cr_evidence r \<noteq> []) results"

text \<open>The three ways an authorised execution ends.\<close>

lemma execute_cases:
  assumes "events \<noteq> []" "ev_state (last events) \<in> {TaskState.PLANNED, TaskState.APPROVED}"
  obtains
    (crashed) e results W' where
      "run_steps P C E t now (pl_steps plan) [] W = (Some e, results, W')" "\<not> is_ManagedNoteError e"
      "execute_authorized_steps P C E t plan events now W =
         (Inl e, append_event P t events TaskState.EXECUTING ''execution_started''
            (str ''Authorized capabilities entered bounded execution.'') now, W')"
  | (refused) e results W' events' where
      "run_steps P C E t now (pl_steps plan) [] W = (Some e, results, W')" "is_ManagedNoteError e"
      "execute_authorized_steps P C E t plan events now W = (Inr (TaskState.FAILED, results), events', W')"
      "map ev_state events' = map ev_state events @ [TaskState.EXECUTING, TaskState.FAILED]"
      "prefix events events'" "numbered_log events \<Longrightarrow> numbered_log events'"
  | (verified) results W' events' state where
      "run_steps P C E t now (pl_steps plan) [] W = (None, results, W')"
      "state = (if all_verified results then TaskState.COMPLETED else TaskState.FAILED)"
      "execute_authorized_steps P C E t plan events now W = (Inr (state, results), events', W')"
      "map ev_state events' =
         map ev_state events @ [TaskState.EXECUTING, TaskState.VERIFYING, state]"
      "prefix events events'" "numbered_log events \<Longrightarrow> numbered_log events'"
proof -
  obtain exc results W' where run: "run_steps P C E t now (pl_steps plan) [] W = (exc, results, W')"
    by (cases "run_steps P C E t now (pl_steps plan) [] W") auto
  have ok: "validate_transition (ev_state (last events)) TaskState.EXECUTING = Inr ()"
    using assms(2) by auto
  let ?ev = "append_event P t events TaskState.EXECUTING ''execution_started''
    (str ''Authorized capabilities entered bounded execution.'') now"
  have pre: "prefix events (append_event P t (append_event P t events s1 y1 d1 a1) s2 y2 d2 a2)"
    "prefix events (append_event P t (append_event P t (append_event P t events s1 y1 d1 a1) s2 y2 d2 a2) s3 y3 d3 a3)"
    for s1 y1 d1 a1 s2 y2 d2 a2 s3 y3 d3 a3
    by (meson append_event_simps(4) prefix_order.trans)+
  show ?thesis
  proof (cases exc)
    case (Some e)
    show ?thesis
    proof (cases "is_ManagedNoteError e")
      case True
      let ?ev2 = "append_event P t ?ev TaskState.FAILED ''execution_failed'' (exn_str e) (se_outcome_at E)"
      show ?thesis
        by (rule refused [of e results W' ?ev2])
          (use run Some True ok assms(1) pre in
            \<open>simp_all add: execute_authorized_steps_def\<close>)
    next
      case False
      show ?thesis
        by (rule crashed [of e results W'])
          (use run Some False ok assms(1) in \<open>simp_all add: execute_authorized_steps_def\<close>)
    qed
  next
    case None
    let ?v = "all_verified results"
    let ?s = "if ?v then TaskState.COMPLETED else TaskState.FAILED"
    let ?ev2 = "append_event P t ?ev TaskState.VERIFYING ''verification_started''
      (str ''Nexuss is verifying returned evidence against the action contract.'') (se_outcome_at E)"
    let ?ev3 = "append_event P t ?ev2 ?s
      (if ?v then ''verification_completed'' else ''verification_failed'')
      (if ?v then str ''All expected evidence was verified.''
       else str ''The execution result did not satisfy the evidence contract.'') (se_final_at E)"
    show ?thesis
    proof (rule verified [of results W' ?s ?ev3])
      show "execute_authorized_steps P C E t plan events now W = (Inr (?s, results), ?ev3, W')"
        using run None ok assms(1)
        by (simp add: execute_authorized_steps_def Let_def all_verified_def)
    qed (use run None pre in simp_all)
  qed
qed

lemma execute_inert:
  assumes "list_all (\<lambda>s. ps_capability_id s \<notin> REVERSIBLE_CAPABILITIES) (pl_steps plan)"
    and "events \<noteq> []" "ev_state (last events) \<in> {TaskState.PLANNED, TaskState.APPROVED}"
  shows "snd (snd (execute_authorized_steps P C E t plan events now W)) = W"
  using run_steps_inert [OF assms(1), of P C E t now "[]" W]
  by (cases rule: execute_cases [OF assms(2,3), of P C E t now plan W]) simp_all

subsection \<open>What a new task leads to\<close>

lemma plan_or_refuse_Inr:
  assumes "plan_or_refuse P t i = Inr (plan, refused)"
  obtains (planned) "build_plan P t i = Inr plan" "refused = None"
    | (invalid) m where "build_plan P t i = Inl (InvalidNoteError m)"
        "plan = invalid_note_plan P t i m" "refused = Some m"
  using assms by (auto simp: plan_or_refuse_def split: sum.splits exn.splits)

lemma plan_or_refuse_task: "plan_or_refuse P t i = Inr (plan, refused) \<Longrightarrow> pl_task_id plan = t"
  by (erule plan_or_refuse_Inr) (auto simp: invalid_note_plan_def elim: build_plan_Inr)

lemma create_outcome_cases:
  assumes "plan_or_refuse P t i = Inr (plan, refused)"
  obtains
    (denied) "list_ex (\<lambda>d. pd_outcome d = DENY) (policy_decisions plan refused)"
      "create_outcome P C E t sid plan (policy_decisions plan refused) (planned_events P E t plan) W =
         (Inr (TaskState.DENIED, None, []),
          append_event P t (planned_events P E t plan) TaskState.DENIED ''policy_denied''
            (str ''Policy denied at least one required capability.'') (se_now E), W)"
  | (unencodable) e step where "pl_steps plan = [step]"
      "create_outcome P C E t sid plan (policy_decisions plan refused) (planned_events P E t plan) W =
         (Inl e, planned_events P E t plan, W)"
      "payload_sha256 P step = Inl e"
  | (approval) step a where "refused = None" "pl_steps plan = [step]"
      "ps_capability_id step \<in> REVERSIBLE_CAPABILITIES"
      "approval_for P (se_token E) t sid step (se_now E) = Inr a"
      "create_outcome P C E t sid plan (policy_decisions plan refused) (planned_events P E t plan) W =
         (Inr (TaskState.AWAITING_APPROVAL, Some a, []),
          append_event P t (planned_events P E t plan) TaskState.AWAITING_APPROVAL ''approval_requested''
            (str ''Execution is paused pending explicit approval of the exact payload.'') (se_now E), W)"
  | (executed) "list_all (\<lambda>s. ps_capability_id s \<notin> REVERSIBLE_CAPABILITIES) (pl_steps plan)"
      "list_all (\<lambda>d. pd_outcome d = ALLOW) (policy_decisions plan refused)"
      "create_outcome P C E t sid plan (policy_decisions plan refused) (planned_events P E t plan) W =
         (case execute_authorized_steps P C E t plan (planned_events P E t plan) (se_now E) W of
            (Inl e, events', W') \<Rightarrow> (Inl e, events', W')
          | (Inr (state, results), events', W') \<Rightarrow> (Inr (state, None, results), events', W'))"
  using assms
proof (cases rule: plan_or_refuse_Inr)
  case (invalid m)
  show ?thesis
    by (rule denied) (simp_all add: create_outcome_def policy_decisions_def invalid)
next
  case planned
  from planned(1) show ?thesis
  proof (cases rule: plan_shapes)
    case allowed
    then have out: "pd_outcome (evaluate_step s) = ALLOW" if "s \<in> set (pl_steps plan)" for s
      using that by (metis comp_apply image_eqI in_set_replicate list.set_map)
    then have ndeny: "\<not> list_ex (\<lambda>d. pd_outcome d = DENY) (policy_decisions plan refused)"
      and nreq: "\<not> list_ex (\<lambda>d. pd_outcome d = REQUIRE_APPROVAL) (policy_decisions plan refused)"
      and all: "list_all (\<lambda>d. pd_outcome d = ALLOW) (policy_decisions plan refused)"
      using planned(2) by (auto simp: policy_decisions_def list_ex_iff list_all_iff)
    have "list_all (\<lambda>s. ps_capability_id s \<notin> REVERSIBLE_CAPABILITIES) (pl_steps plan)"
      using out by (force simp: list_all_iff outcome_ALLOW_iff allowed_capabilities_def REVERSIBLE_CAPABILITIES_def)
    then show ?thesis
      by (rule executed [OF _ all]) (simp add: create_outcome_def ndeny nreq)
  next
    case (denied step)
    show ?thesis
      by (rule that(1)) (simp_all add: create_outcome_def policy_decisions_def planned(2) denied)
  next
    case (approval step)
    have rev: "ps_capability_id step \<in> REVERSIBLE_CAPABILITIES"
      using approval(2) by (simp add: REVERSIBLE_CAPABILITIES_def)
    show ?thesis
    proof (cases "approval_for P (se_token E) t sid step (se_now E)")
      case (Inl e)
      then have "payload_sha256 P step = Inl e"
        by (auto simp: approval_for_def rbind_Inl_iff Let_def)
      with Inl show ?thesis
        by (intro that(2) [of step e])
          (simp_all add: create_outcome_def policy_decisions_def planned(2) approval)
    next
      case (Inr a)
      show ?thesis
        by (rule that(3) [OF planned(2) approval(1) rev Inr])
          (simp add: create_outcome_def policy_decisions_def planned(2) approval Inr)
    qed
  qed
qed

lemma create_outcome_inert:
  assumes "plan_or_refuse P t i = Inr (plan, refused)"
  shows "snd (snd (create_outcome P C E t sid plan (policy_decisions plan refused)
           (planned_events P E t plan) W)) = W"
  using assms
proof (cases rule: create_outcome_cases [where C = C and E = E and sid = sid and W = W])
  case executed
  with execute_inert [of plan "planned_events P E t plan" P C E t "se_now E" W] show ?thesis
    by (cases "execute_authorized_steps P C E t plan (planned_events P E t plan) (se_now E) W")
      (auto split: sum.split)
qed simp_all

lemma commit_world [simp]: "sv_world (snd (commit P task S)) = sv_world S"
  by (simp add: commit_def Let_def split: prod.split sum.split)

text \<open>A creation that stores a new task, and the ones that store nothing.\<close>

lemma create_task_cases:
  obtains
    (existing) tid where "dget (sv_request_index S) (rq_request_id request) = Some tid"
      "create_task P C E request session S =
         (case dget (sv_tasks S) tid of None \<Rightarrow> (Inl (KeyError (uuid_str tid)), S) | Some task \<Rightarrow> (Inr task, S))"
  | (raised) e where "dget (sv_request_index S) (rq_request_id request) = None"
      "create_task P C E request session S = (Inl e, S)"
  | (stored) plan refused state approval results events where
      "dget (sv_request_index S) (rq_request_id request) = None"
      "validate_session session (rq_user_session_id request) = Inr ()"
      "plan_or_refuse P (task_id_of P (rq_request_id request)) (classify_intent P (rq_utterance request)) =
         Inr (plan, refused)"
      "create_outcome P C E (task_id_of P (rq_request_id request)) (ses_session_id session) plan
         (policy_decisions plan refused) (planned_events P E (task_id_of P (rq_request_id request)) plan)
         (sv_world S) = (Inr (state, approval, results), events, sv_world S)"
      "create_task P C E request session S =
         commit P
           \<lparr>tv_task_id = task_id_of P (rq_request_id request), tv_request_id = rq_request_id request,
            tv_user_session_id = rq_user_session_id request, tv_state = state,
            tv_intent = classify_intent P (rq_utterance request), tv_plan = plan,
            tv_policy_decisions = policy_decisions plan refused, tv_results = results,
            tv_events = events, tv_approval = approval, tv_created_at = se_now E,
            tv_updated_at = se_updated_at E\<rparr>
           (S\<lparr>sv_request_index :=
                dput (rq_request_id request) (task_id_of P (rq_request_id request)) (sv_request_index S)\<rparr>)"
proof (cases "dget (sv_request_index S) (rq_request_id request)")
  case (Some tid)
  then show ?thesis by (rule existing) (simp add: create_task_def Some)
next
  case None
  let ?t = "task_id_of P (rq_request_id request)"
  let ?i = "classify_intent P (rq_utterance request)"
  show ?thesis
  proof (cases "validate_session session (rq_user_session_id request)")
    case (Inl e)
    show ?thesis by (rule raised [OF None, of e]) (simp add: create_task_def None Inl)
  next
    case (Inr u)
    show ?thesis
    proof (cases "plan_or_refuse P ?t ?i")
      case (Inl e)
      show ?thesis by (rule raised [OF None, of e]) (simp add: create_task_def None Inr Inl)
    next
      case (Inr pr)
      obtain plan refused where pr: "plan_or_refuse P ?t ?i = Inr (plan, refused)"
        using Inr by (cases pr) simp
      obtain r events W where out: "create_outcome P C E ?t (ses_session_id session) plan
          (policy_decisions plan refused) (planned_events P E ?t plan) (sv_world S) = (r, events, W)"
        by (rule prod_cases3)
      have W: "W = sv_world S"
        using create_outcome_inert [OF pr, of C E "ses_session_id session" "sv_world S"] out by simp
      show ?thesis
      proof (cases r)
        case (Inl e)
        show ?thesis
          by (rule raised [OF None, of e])
            (simp add: create_task_def None \<open>validate_session _ _ = _\<close> pr Let_def out Inl W)
      next
        case (Inr x)
        obtain state approval results where x: "x = (state, approval, results)" by (rule prod_cases3)
        show ?thesis
          by (rule stored [OF None _ pr])
            (use out Inr x W \<open>validate_session _ _ = _\<close> in
              \<open>simp_all add: create_task_def None pr Let_def out\<close>)
      qed
    qed
  qed
qed

lemma create_task_world: "sv_world (snd (create_task P C E request session S)) = sv_world S"
  by (cases rule: create_task_cases [of S request P C E session]) (auto split: option.split)

subsection \<open>Storing a task\<close>

lemma commit_ok:
  assumes "receipts.versioned (sv_ledger S)"
  obtains L r where "commit P task S =
      (Inr task, S\<lparr>sv_tasks := dput (tv_task_id task) task (sv_tasks S), sv_ledger := L\<rparr>)"
    "r = receipt_of P (length (ledger_history (sv_ledger S) (tv_task_id task)) + 1) task"
    "ledger_history L = (ledger_history (sv_ledger S))
       (tv_task_id task := ledger_history (sv_ledger S) (tv_task_id task) @ [r])"
    "receipts.versioned L"
proof -
  let ?L = "sv_ledger S" and ?t = "tv_task_id task"
  define v where "v = (case ledger_get ?L ?t of None \<Rightarrow> 1 | Some p \<Rightarrow> rc_receipt_version p + 1)"
  let ?r = "receipt_of P v task"
  have id: "rc_task_id ?r = ?t" "rc_receipt_version ?r = v" by (simp_all add: receipt_of_def)
  have "fst (ledger_append ?r ?L) = Inr ()"
    by (rule receipts.next_version_accepted [OF assms]) (simp only: id, simp only: v_def)
  then have v: "v = length (ledger_history ?L ?t) + 1" using receipts.append_ok_iff [of ?r ?L] id by simp
  from receipts.append_next [of ?r ?L] v id obtain L where L: "ledger_append ?r ?L = (Inr (), L)"
    "ledger_history L = (ledger_history ?L)(?t := ledger_history ?L ?t @ [?r])" by auto
  have "receipts.versioned L" using receipts.versioned_append [OF assms, of ?r] L(1) by simp
  moreover have "commit P task S = (Inr task, S\<lparr>sv_tasks := dput ?t task (sv_tasks S), sv_ledger := L\<rparr>)"
    using L(1) by (simp add: commit_def record_receipt_def v_def)
  ultimately show ?thesis using that L(2) v by blast
qed

subsection \<open>The invariant\<close>

text \<open>The approval of a task is for the only step of its plan, on the channel of the capability, and
  it is pending, with its token, exactly while the task awaits it.\<close>

definition approval_inv :: "platform \<Rightarrow> TaskView \<Rightarrow> ApprovalRequest \<Rightarrow> bool" where
  "approval_inv P t a \<longleftrightarrow>
     ap_task_id a = tv_task_id t \<and> ap_session_id a = tv_user_session_id t \<and>
     (ap_status a = ApprovalStatus.PENDING \<longleftrightarrow> tv_state t = TaskState.AWAITING_APPROVAL) \<and>
     (ap_approval_token a = None \<longleftrightarrow> ap_status a \<noteq> ApprovalStatus.PENDING) \<and>
     ap_expires_at a = tv_created_at t + APPROVAL_LIFETIME \<and>
     (\<exists>step. pl_steps (tv_plan t) = [step] \<and> ps_capability_id step \<in> REVERSIBLE_CAPABILITIES \<and>
        ap_capability_id a = ps_capability_id step \<and>
        payload_sha256 P step = Inr (ap_payload_sha256 a) \<and>
        ap_approval_channel a =
          (if ps_capability_id step = str ''device.launch_notepad'' then PHONE else DESKTOP))"

definition RESTING_STATES :: "TaskState set" where
  "RESTING_STATES =
     {TaskState.AWAITING_APPROVAL, TaskState.DENIED, TaskState.COMPLETED, TaskState.FAILED,
      TaskState.ROLLED_BACK}"

definition task_inv :: "platform \<Rightarrow> uuid \<Rightarrow> TaskView \<Rightarrow> bool" where
  "task_inv P tid t \<longleftrightarrow>
     tv_task_id t = tid \<and> pl_task_id (tv_plan t) = tid \<and> tv_state t \<in> RESTING_STATES \<and>
     numbered_log (tv_events t) \<and>
     (case tv_approval t of
        None \<Rightarrow> tv_state t \<noteq> TaskState.AWAITING_APPROVAL
      | Some a \<Rightarrow> approval_inv P t a) \<and>
     (tv_state t = TaskState.AWAITING_APPROVAL \<longrightarrow> tv_results t = []) \<and>
     (tv_state t = TaskState.COMPLETED \<longrightarrow> all_verified (tv_results t)) \<and>
     (\<forall>r\<in>set (tv_results t). cr_capability_id r \<in> REVERSIBLE_CAPABILITIES \<longrightarrow>
        (\<exists>a. tv_approval t = Some a \<and> ap_status a = ApprovalStatus.CONSUMED))"

definition receipt_matches :: "ActionReceipt \<Rightarrow> TaskView \<Rightarrow> bool" where
  "receipt_matches r t \<longleftrightarrow>
     rc_state r = tv_state t \<and> rc_results r = tv_results t \<and> rc_request_id r = tv_request_id t \<and>
     prefix (rc_events r) (tv_events t)"

definition service_inv :: "platform \<Rightarrow> 'd service \<Rightarrow> bool" where
  "service_inv P S \<longleftrightarrow>
     distinct (dkeys (sv_tasks S)) \<and> receipts.versioned (sv_ledger S) \<and>
     (\<forall>tid t. dget (sv_tasks S) tid = Some t \<longrightarrow>
        task_inv P tid t \<and> dget (sv_request_index S) (tv_request_id t) = Some tid \<and>
        (\<exists>r. ledger_get (sv_ledger S) tid = Some r \<and> receipt_matches r t)) \<and>
     (\<forall>tid. ledger_history (sv_ledger S) tid \<noteq> [] \<longrightarrow> dget (sv_tasks S) tid \<noteq> None) \<and>
     (\<forall>rid tid. dget (sv_request_index S) rid = Some tid \<longrightarrow>
        tid = task_id_of P rid \<and> dget (sv_tasks S) tid \<noteq> None)"

lemma service_invD:
  assumes "service_inv P S"
  shows "receipts.versioned (sv_ledger S)"
    and "dget (sv_tasks S) tid = Some t \<Longrightarrow> task_inv P tid t"
    and "dget (sv_request_index S) rid = Some tid \<Longrightarrow> dget (sv_tasks S) tid \<noteq> None"
    and "dget (sv_tasks S) tid = Some t \<Longrightarrow> dget (sv_request_index S) (tv_request_id t) = Some tid"
    and "dget (sv_tasks S) tid = Some t \<Longrightarrow>
           \<exists>r. ledger_get (sv_ledger S) tid = Some r \<and> receipt_matches r t"
  using assms by (auto simp: service_inv_def)

lemma service_inv_world [simp]: "service_inv P (S\<lparr>sv_world := W\<rparr>) = service_inv P S"
  by (simp add: service_inv_def)

lemma service_inv_init: "service_inv P (init_service N d)"
  by (simp add: service_inv_def init_service_def dict_laws dkeys_def ledger_history_def)

lemma receipt_matches_receipt_of: "receipt_matches (receipt_of P v t) t"
  by (simp add: receipt_matches_def receipt_of_def)

text \<open>Committing a task that satisfies the invariant keeps it; \<open>index_put\<close> is the index after it.\<close>

lemma commit_index_inv:
  assumes "service_inv P S" "task_inv P (tv_task_id t) t"
    and ix: "\<And>rid. dget ix rid =
      (if rid = tv_request_id t then Some (tv_task_id t) else dget (sv_request_index S) rid)"
    and id: "tv_task_id t = task_id_of P (tv_request_id t)"
  shows "service_inv P (snd (commit P t (S\<lparr>sv_request_index := ix\<rparr>)))"
    and "fst (commit P t (S\<lparr>sv_request_index := ix\<rparr>)) = Inr t"
proof -
  let ?S = "S\<lparr>sv_request_index := ix\<rparr>"
  obtain L r where c: "commit P t ?S =
      (Inr t, ?S\<lparr>sv_tasks := dput (tv_task_id t) t (sv_tasks ?S), sv_ledger := L\<rparr>)"
    "r = receipt_of P (length (ledger_history (sv_ledger ?S) (tv_task_id t)) + 1) t"
    "ledger_history L = (ledger_history (sv_ledger ?S))
       (tv_task_id t := ledger_history (sv_ledger ?S) (tv_task_id t) @ [r])"
    "receipts.versioned L"
    by (rule commit_ok [of ?S P t]) (use service_invD(1) [OF assms(1)] in simp)
  then show "fst (commit P t ?S) = Inr t" by simp
  have get: "ledger_get L tid = (if tid = tv_task_id t then Some r else ledger_get (sv_ledger S) tid)" for tid
    using c(3) by (simp add: receipts.get_history)
  have index: "rid \<noteq> tv_request_id t" if "dget (sv_request_index S) rid = Some tid" "tid \<noteq> tv_task_id t" for rid tid
    using that assms(1) id by (auto simp: service_inv_def)
  show "service_inv P (snd (commit P t ?S))"
    using assms(1,2) c receipt_matches_receipt_of get ix id index
    unfolding service_inv_def by (auto simp: dict_laws split: if_splits)
qed

lemma commit_inv:
  assumes "service_inv P S" "task_inv P (tv_task_id t) t"
    and "dget (sv_tasks S) (tv_task_id t) = Some t'" "tv_request_id t' = tv_request_id t"
  shows "service_inv P (snd (commit P t S))" and "fst (commit P t S) = Inr t"
proof -
  have i: "dget (sv_request_index S) (tv_request_id t) = Some (tv_task_id t)"
    using service_invD(4) [OF assms(1,3)] assms(4) by simp
  then have id: "tv_task_id t = task_id_of P (tv_request_id t)"
    using assms(1) by (auto simp: service_inv_def)
  have "dget (sv_request_index S) rid =
      (if rid = tv_request_id t then Some (tv_task_id t) else dget (sv_request_index S) rid)" for rid
    using i by simp
  from commit_index_inv [OF assms(1,2) this id]
  show "service_inv P (snd (commit P t S))" and "fst (commit P t S) = Inr t" by simp_all
qed

text \<open>Growing the event list of a stored task keeps the invariant.\<close>

lemma with_events_inv:
  assumes "service_inv P S" "dget (sv_tasks S) (tv_task_id t) = Some t"
    "prefix (tv_events t) events" "numbered_log events"
  shows "service_inv P (with_events t events S)"
proof -
  let ?t = "t\<lparr>tv_events := events\<rparr>"
  have "approval_inv P ?t a = approval_inv P t a" for a by (simp add: approval_inv_def)
  then have "task_inv P (tv_task_id t) ?t"
    using service_invD(2) [OF assms(1,2)] assms(4) by (simp add: task_inv_def cong: option.case_cong)
  moreover obtain r where "ledger_get (sv_ledger S) (tv_task_id t) = Some r" "receipt_matches r t"
    using service_invD(5) [OF assms(1,2)] by blast
  moreover from this have "receipt_matches r ?t"
    using assms(3) by (auto simp: receipt_matches_def intro: prefix_order.trans)
  ultimately show ?thesis
    using assms(1) service_invD(4) [OF assms(1,2)]
    unfolding service_inv_def with_events_def by (auto simp: dict_laws split: if_splits)
qed

end
