(* ===== verification/ServiceOps.thy ===== *)
theory ServiceOps
  imports ServiceInv
begin

section \<open>The operations of the service keep the invariant\<close>

text \<open>
  One case rule per operation, which lists the ways it can end, and one preservation lemma per
  operation. The service is then an instance of the locale \<open>invariant_machine\<close>, so that every
  run of operations keeps the invariant and only extends the receipt histories.
\<close>

subsection \<open>Creating\<close>

lemma approval_for_Inr:
  assumes "approval_for P token t sid step now = Inr a"
  shows "ap_task_id a = t \<and> ap_session_id a = sid \<and> ap_status a = ApprovalStatus.PENDING \<and>
    ap_approval_token a = Some token \<and> ap_capability_id a = ps_capability_id step \<and>
    payload_sha256 P step = Inr (ap_payload_sha256 a) \<and> ap_expires_at a = now + APPROVAL_LIFETIME \<and>
    ap_approval_channel a =
      (if ps_capability_id step = str ''device.launch_notepad'' then PHONE else DESKTOP)"
  using assms by (auto simp: approval_for_def rbind_Inr_iff Let_def)

lemma run_steps_capabilities:
  assumes "run_steps P C E t now steps [] W = (exc, results, W')" "r \<in> set results"
  shows "\<exists>s\<in>set steps. result_for s r"
proof -
  have "list_all2 result_for (take (length results) steps) results"
    using run_steps_results [OF assms(1)] by auto
  moreover obtain i where i: "i < length results" "r = results ! i"
    using assms(2) by (metis in_set_conv_nth)
  ultimately have "result_for (take (length results) steps ! i) r" "i < length (take (length results) steps)"
    by (auto simp: list_all2_conv_all_nth min_def split: if_splits)
  moreover from this(2) have "take (length results) steps ! i \<in> set steps"
    by (metis in_set_takeD nth_mem)
  ultimately show ?thesis by blast
qed

lemma execute_Inr:
  assumes "execute_authorized_steps P C E t plan events now W = (Inr (state, results), events', W')"
    and "events \<noteq> []" "ev_state (last events) \<in> {TaskState.PLANNED, TaskState.APPROVED}"
  shows "state \<in> {TaskState.COMPLETED, TaskState.FAILED} \<and>
    (state = TaskState.COMPLETED \<longrightarrow> all_verified results) \<and>
    (\<forall>r\<in>set results. \<exists>s\<in>set (pl_steps plan). result_for s r) \<and>
    prefix events events' \<and> (numbered_log events \<longrightarrow> numbered_log events')"
  using assms(2,3)
proof (cases rule: execute_cases [of events P C E t now plan W])
  case (refused e results W' events')
  with assms(1) run_steps_capabilities [OF refused(1)] show ?thesis by simp
next
  case (verified results W' events' state)
  with assms(1) run_steps_capabilities [OF verified(1)] show ?thesis by (simp split: if_splits)
qed (use assms(1) in simp_all)

lemma created_task_inv:
  assumes plan: "plan_or_refuse P t i = Inr (plan, refused)"
    and out: "create_outcome P C E t sid plan (policy_decisions plan refused)
      (planned_events P E t plan) W = (Inr (state, approval, results), events, W')"
    and task: "tv_task_id v = t" "tv_created_at v = se_now E" "tv_plan v = plan" "tv_state v = state" "tv_events v = events"
      "tv_approval v = approval" "tv_results v = results" "tv_user_session_id v = sid"
  shows "task_inv P t v"
  using plan
proof (cases rule: create_outcome_cases [where C = C and E = E and sid = sid and W = W])
  case denied
  with out have "state = TaskState.DENIED" "approval = None" "results = []" "numbered_log events" by auto
  with task plan_or_refuse_task [OF plan] show ?thesis
    by (simp add: task_inv_def RESTING_STATES_def)
next
  case (approval step a)
  note a = approval_for_Inr [OF approval(4)]
  from approval(5) out have "state = TaskState.AWAITING_APPROVAL" "approval = Some a" "results = []"
    "numbered_log events" by auto
  with approval(2,3) task plan_or_refuse_task [OF plan] a show ?thesis
    by (simp add: task_inv_def RESTING_STATES_def approval_inv_def)
next
  case executed
  obtain st rs ev where ex: "execute_authorized_steps P C E t plan (planned_events P E t plan) (se_now E) W =
      (Inr (st, rs), ev, W')" "state = st" "approval = None" "results = rs" "events = ev"
    using executed(3) out by (auto split: prod.splits sum.splits)
  have "cr_capability_id r \<notin> REVERSIBLE_CAPABILITIES" if "r \<in> set rs" for r
    using execute_Inr [OF ex(1)] that executed(1) by (fastforce simp: list_all_iff result_for_def)
  moreover have "st \<in> {TaskState.COMPLETED, TaskState.FAILED}"
    "st = TaskState.COMPLETED \<longrightarrow> all_verified rs" "numbered_log ev"
    using execute_Inr [OF ex(1)] by simp_all
  ultimately show ?thesis
    using ex(2-) task plan_or_refuse_task [OF plan] by (auto simp: task_inv_def RESTING_STATES_def)
qed (use out in simp_all)

lemma validate_session_Inr:
  "validate_session session sid = Inr u \<longleftrightarrow> ses_authenticated session \<and> ses_session_id session = sid"
  by (auto simp: validate_session_def)

lemma create_task_inv:
  assumes "service_inv P S"
  shows "service_inv P (snd (create_task P C E request session S))"
proof (cases rule: create_task_cases [of S request P C E session])
  case (existing tid)
  then show ?thesis using assms by (simp split: option.split)
next
  case (stored plan refused state approval results events)
  let ?t = "task_id_of P (rq_request_id request)"
  let ?v = "\<lparr>tv_task_id = ?t, tv_request_id = rq_request_id request,
    tv_user_session_id = rq_user_session_id request, tv_state = state,
    tv_intent = classify_intent P (rq_utterance request), tv_plan = plan,
    tv_policy_decisions = policy_decisions plan refused, tv_results = results,
    tv_events = events, tv_approval = approval, tv_created_at = se_now E,
    tv_updated_at = se_updated_at E\<rparr>"
  have sid: "rq_user_session_id request = ses_session_id session"
    using stored(2) by (simp add: validate_session_Inr)
  have "task_inv P ?t ?v"
    by (rule created_task_inv [OF stored(3,4)]) (simp_all add: sid)
  then have "task_inv P (tv_task_id ?v) ?v" by simp
  from commit_index_inv(1) [OF assms this] stored(5) show ?thesis by (simp add: dict_laws)
qed (use assms in simp)

subsection \<open>Deciding\<close>

definition decision_matches :: "ApprovalDecision \<Rightarrow> ApprovalRequest \<Rightarrow> bool" where
  "decision_matches dec a \<longleftrightarrow>
     ad_approval_id dec = ap_approval_id a \<and>
     ad_approval_token dec = (case ap_approval_token a of None \<Rightarrow> [] | Some token \<Rightarrow> token) \<and>
     ad_payload_sha256 dec = ap_payload_sha256 a \<and> ap_status a = ApprovalStatus.PENDING"

lemma check_decision_Inr: "check_decision dec a = Inr u \<Longrightarrow> decision_matches dec a"
  by (auto simp: check_decision_def decision_matches_def rbind_Inr_iff guard_Inr_iff compare_digest_def
      split: if_splits)

text \<open>What a decision must satisfy before anything is executed.\<close>

definition authorised ::
  "service_env \<Rightarrow> ApprovalDecision \<Rightarrow> IdentitySession \<Rightarrow> ApprovalChannel \<Rightarrow> TaskView \<Rightarrow> ApprovalRequest \<Rightarrow> bool" where
  "authorised E dec session channel task a \<longleftrightarrow>
     ses_authenticated session \<and> ses_session_id session = tv_user_session_id task \<and>
     tv_state task = TaskState.AWAITING_APPROVAL \<and> tv_approval task = Some a \<and>
     ad_decision dec = APPROVE \<and> channel = ap_approval_channel a \<and> se_now E < ap_expires_at a \<and>
     decision_matches dec a"

lemma approve_task_cases:
  obtains
    (refused) e where "approve_task P C E tid dec session channel S = (Inl e, S)"
  | (expired) task a where "dget (sv_tasks S) tid = Some task" "ses_authenticated session"
      "ses_session_id session = tv_user_session_id task" "tv_state task = TaskState.AWAITING_APPROVAL"
      "tv_approval task = Some a" "ap_expires_at a \<le> se_now E"
      "snd (approve_task P C E tid dec session channel S) =
         snd (deny_task P task (close_approval ApprovalStatus.EXPIRED a) ''approval_expired''
           ''The approval window expired before authorization.'' (se_now E) S)"
      "\<exists>e. fst (approve_task P C E tid dec session channel S) = Inl e"
  | (rejected) task a where "dget (sv_tasks S) tid = Some task" "ses_authenticated session"
      "ses_session_id session = tv_user_session_id task" "tv_state task = TaskState.AWAITING_APPROVAL"
      "tv_approval task = Some a" "decision_matches dec a" "ad_decision dec = REJECT"
      "approve_task P C E tid dec session channel S =
         deny_task P task (close_approval ApprovalStatus.REJECTED a) ''approval_rejected''
           ''The user rejected the proposed action.'' (se_now E) S"
      "se_now E < ap_expires_at a"
  | (granted) task a where "dget (sv_tasks S) tid = Some task"
      "authorised E dec session channel task a"
      "approve_task P C E tid dec session channel S = grant_task P C E channel task a S"
proof (cases "dget (sv_tasks S) tid")
  case None
  show ?thesis by (rule refused) (simp add: approve_task_def None)
next
  case (Some task)
  note task = Some
  show ?thesis
  proof (cases "validate_session session (tv_user_session_id task)")
    case (Inl e)
    show ?thesis by (rule refused) (simp add: approve_task_def task Inl)
  next
    case (Inr u)
    note ses = Inr Inr [unfolded validate_session_Inr]
    show ?thesis
    proof (cases "tv_state task = TaskState.AWAITING_APPROVAL \<and> tv_approval task \<noteq> None")
      case False
      then show ?thesis by (intro refused) (auto simp: approve_task_def task ses(1))
    next
      case True
      then obtain a where a: "tv_state task = TaskState.AWAITING_APPROVAL" "tv_approval task = Some a" by blast
      consider "ad_decision dec = APPROVE \<and> ap_approval_channel a \<noteq> channel"
        | "\<not> (ad_decision dec = APPROVE \<and> ap_approval_channel a \<noteq> channel)" "ap_expires_at a \<le> se_now E"
        | e where "\<not> (ad_decision dec = APPROVE \<and> ap_approval_channel a \<noteq> channel)"
            "\<not> ap_expires_at a \<le> se_now E" "check_decision dec a = Inl e"
        | "\<not> (ad_decision dec = APPROVE \<and> ap_approval_channel a \<noteq> channel)"
            "\<not> ap_expires_at a \<le> se_now E" "check_decision dec a = Inr ()" "ad_decision dec = REJECT"
        | "ap_approval_channel a = channel" "\<not> ap_expires_at a \<le> se_now E" "check_decision dec a = Inr ()"
            "ad_decision dec = APPROVE"
        by (cases "check_decision dec a"; cases "ad_decision dec") auto
      then show ?thesis
      proof cases
        case 1
        then show ?thesis by (intro refused) (simp add: approve_task_def task ses(1) a)
      next
        case 2
        then show ?thesis
          using ses(2) by (intro expired [OF task _ _ a])
            (simp_all only: approve_task_def task ses(1) a if_True if_False option.case sum.case refl
              simp_thms case_prod_beta, auto split: sum.split prod.split)
      next
        case 3
        then show ?thesis by (intro refused) (auto simp: approve_task_def task ses(1) a)
      next
        case 4
        then show ?thesis
          using ses(2) check_decision_Inr by (intro rejected [OF task _ _ a])
            (auto simp: approve_task_def task ses(1) a)
      next
        case 5
        then show ?thesis
          using ses(2) check_decision_Inr a by (intro granted [OF task])
            (auto simp: approve_task_def task ses(1) authorised_def)
      qed
    qed
  qed
qed

lemma append_event_prefix2:
  "prefix events (append_event P t (append_event P t events s1 y1 d1 a1) s2 y2 d2 a2)"
  by (meson append_event_simps(4) prefix_order.trans)

lemma deny_task_inv:
  assumes "service_inv P S" "dget (sv_tasks S) tid = Some task"
    "tv_state task = TaskState.AWAITING_APPROVAL" "tv_approval task = Some a"
    "status \<noteq> ApprovalStatus.PENDING"
  shows "service_inv P (snd (deny_task P task (close_approval status a) ty de now S))"
    and "\<exists>v. fst (deny_task P task (close_approval status a) ty de now S) = Inr v"
proof -
  let ?ev = "append_event P (tv_task_id task) (tv_events task) TaskState.DENIED ty (str de) now"
  let ?v = "task\<lparr>tv_events := ?ev, tv_state := TaskState.DENIED,
    tv_approval := Some (close_approval status a), tv_updated_at := now\<rparr>"
  note inv = service_invD(2) [OF assms(1,2)]
  have "approval_inv P task a" using inv assms(4) by (simp add: task_inv_def)
  then have "approval_inv P ?v (close_approval status a)"
    using assms(5) by (simp add: approval_inv_def close_approval_def)
  then have "task_inv P (tv_task_id ?v) ?v"
    using inv assms(3) by (simp add: task_inv_def RESTING_STATES_def)
  moreover have "deny_task P task (close_approval status a) ty de now S = commit P ?v S"
    using assms(3) by (simp add: deny_task_def)
  ultimately show "service_inv P (snd (deny_task P task (close_approval status a) ty de now S))"
    and "\<exists>v. fst (deny_task P task (close_approval status a) ty de now S) = Inr v"
    using commit_inv [OF assms(1), of ?v task] assms(2) inv by (simp_all add: task_inv_def)
qed

lemma grant_task_inv:
  assumes "service_inv P S" "dget (sv_tasks S) tid = Some task"
    "tv_state task = TaskState.AWAITING_APPROVAL" "tv_approval task = Some a"
  shows "service_inv P (snd (grant_task P C E channel task a S))"
proof -
  let ?de = "if channel = PHONE
    then str ''The exact payload was approved from the paired phone session.''
    else str ''The exact payload was approved by the authenticated desktop session.''"
  let ?ev = "append_event P (tv_task_id task) (tv_events task) TaskState.APPROVED ''approval_granted'' ?de (se_now E)"
  note inv = service_invD(2) [OF assms(1,2)]
  obtain r ev W where ex: "execute_authorized_steps P C E (tv_task_id task) (tv_plan task) ?ev (se_now E)
      (sv_world S) = (r, ev, W)" by (rule prod_cases3)
  have num: "numbered_log ?ev" using inv by (simp add: task_inv_def)
  show ?thesis
  proof (cases r)
    case (Inl e)
    have "ev = append_event P (tv_task_id task) ?ev TaskState.EXECUTING ''execution_started''
        (str ''Authorized capabilities entered bounded execution.'') (se_now E)"
      by (rule execute_cases [of ?ev P C E "tv_task_id task" "se_now E" "tv_plan task" "sv_world S"])
        (use ex Inl in simp_all)
    then have "prefix (tv_events task) ev" "numbered_log ev"
      using num append_event_prefix2 by simp_all
    moreover have "dget (sv_tasks (S\<lparr>sv_world := W\<rparr>)) (tv_task_id task) = Some task"
      using assms(2) inv by (simp add: task_inv_def)
    ultimately have "service_inv P (with_events task ev (S\<lparr>sv_world := W\<rparr>))"
      using assms(1) by (intro with_events_inv) simp_all
    then show ?thesis
      using assms(3) ex Inl by (simp add: grant_task_def Let_def)
  next
    case (Inr x)
    obtain state results where x: "r = Inr (state, results)" using Inr by (cases x) simp
    let ?v = "task\<lparr>tv_events := ev, tv_state := state, tv_results := results,
      tv_approval := Some (close_approval ApprovalStatus.CONSUMED a), tv_updated_at := se_updated_at E\<rparr>"
    note e = execute_Inr [OF ex [unfolded x]]
    have st: "state \<in> {TaskState.COMPLETED, TaskState.FAILED}" "numbered_log ev"
      "state = TaskState.COMPLETED \<longrightarrow> all_verified results"
      using e num by simp_all
    have "approval_inv P task a" using inv assms(4) by (simp add: task_inv_def)
    then have "approval_inv P ?v (close_approval ApprovalStatus.CONSUMED a)"
      using st(1) by (auto simp: approval_inv_def close_approval_def)
    then have "task_inv P (tv_task_id ?v) ?v"
      using inv st by (auto simp: task_inv_def RESTING_STATES_def close_approval_def)
    from commit_inv(1) [of P "S\<lparr>sv_world := W\<rparr>", OF _ this] assms(1-3) inv ex x show ?thesis
      by (simp add: grant_task_def Let_def task_inv_def)
  qed
qed

lemma approve_task_inv:
  assumes "service_inv P S"
  shows "service_inv P (snd (approve_task P C E tid dec session channel S))"
proof (cases rule: approve_task_cases [of P C E tid dec session channel S])
  case (expired task a)
  with deny_task_inv(1) [OF assms expired(1,4,5)] show ?thesis by simp
next
  case (rejected task a)
  with deny_task_inv(1) [OF assms rejected(1,4,5)] show ?thesis by simp
next
  case (granted task a)
  with grant_task_inv [OF assms granted(1)] show ?thesis by (simp add: authorised_def)
qed (use assms in simp)

subsection \<open>Rolling back\<close>

lemma rollback_task_cases:
  obtains
    (refused) e where "rollback_task P C E tid session S = (Inl e, S)"
  | (attempted) task source outcome W where "dget (sv_tasks S) tid = Some task"
      "ses_authenticated session" "ses_session_id session = tv_user_session_id task"
      "tv_state task = TaskState.COMPLETED" "source \<in> set (tv_results task)" "rollback_source source"
      "perform_rollback P C (se_exec E 0) tid source (se_now E) (sv_world S) = (outcome, W)"
      "rollback_task P C E tid session S =
         finish_rollback P E task
           (append_event P tid (tv_events task) TaskState.ROLLING_BACK ''rollback_started''
              (str ''Receipt-bound rollback started after explicit user Undo.'') (se_now E))
           outcome (S\<lparr>sv_world := W\<rparr>)"
proof (cases "dget (sv_tasks S) tid")
  case None
  show ?thesis by (rule refused) (simp add: rollback_task_def None)
next
  case (Some task)
  note task = Some
  show ?thesis
  proof (cases "validate_session session (tv_user_session_id task)")
    case (Inl e)
    show ?thesis by (rule refused) (simp add: rollback_task_def task Inl)
  next
    case (Inr u)
    note ses = Inr Inr [unfolded validate_session_Inr]
    show ?thesis
    proof (cases "tv_state task = TaskState.COMPLETED")
      case False
      show ?thesis by (rule refused) (simp add: rollback_task_def task ses(1) False)
    next
      case True
      show ?thesis
      proof (cases "List.find rollback_source (tv_results task)")
        case None
        show ?thesis by (rule refused) (simp add: rollback_task_def task ses(1) True None)
      next
        case (Some source)
        then have src: "source \<in> set (tv_results task)" "rollback_source source"
          by (auto simp: find_Some_iff)
        obtain outcome W where p: "perform_rollback P C (se_exec E 0) tid source (se_now E) (sv_world S) =
            (outcome, W)" by (rule prod.exhaust)
        show ?thesis
          by (rule attempted [OF task _ _ True src p])
            (use ses(2) in \<open>simp_all add: rollback_task_def task ses(1) True Some p\<close>)
      qed
    qed
  qed
qed

lemma perform_rollback_result:
  assumes "perform_rollback P C X tid source now W = (Inr (result, detail), W')"
  shows "cr_capability_id result \<notin> REVERSIBLE_CAPABILITIES \<and> cr_status result = StepStatus.ROLLED_BACK"
  using assms
  by (auto simp: perform_rollback_def rollback_note_def rollback_device_command_def rolled_back_result_def
      REVERSIBLE_CAPABILITIES_def Let_def rbind_Inr_iff
      split: if_splits prod.splits sum.splits option.splits)

lemma finish_rollback_inv:
  assumes "service_inv P S" "dget (sv_tasks S) (tv_task_id task) = Some task"
    "tv_state task = TaskState.COMPLETED" "prefix (tv_events task) events" "numbered_log events"
    "\<And>result detail. outcome = Inr (result, detail) \<Longrightarrow> cr_capability_id result \<notin> REVERSIBLE_CAPABILITIES"
  shows "service_inv P (snd (finish_rollback P E task events outcome S))"
proof -
  note inv = service_invD(2) [OF assms(1,2)]
  let ?v = "\<lambda>s ty de oc rs. task\<lparr>tv_events := append_event P (tv_task_id task) events s ty de oc,
    tv_state := s, tv_results := rs, tv_updated_at := se_updated_at E\<rparr>"
  have v: "task_inv P (tv_task_id task) (?v s ty de oc rs)"
    if "s \<in> {TaskState.FAILED, TaskState.ROLLED_BACK}"
      "\<forall>r\<in>set rs. r \<in> set (tv_results task) \<or> cr_capability_id r \<notin> REVERSIBLE_CAPABILITIES"
    for s ty de oc rs
  proof -
    have "approval_inv P (?v s ty de oc rs) a \<longleftrightarrow> approval_inv P task a" for a
      using that(1) assms(3) by (auto simp: approval_inv_def)
    then show ?thesis
      using inv that assms(3,5) by (auto simp: task_inv_def RESTING_STATES_def split: option.splits)
  qed
  show ?thesis
  proof (cases outcome)
    case (Inl exc)
    show ?thesis
    proof (cases "is_rollback_failure exc")
      case True
      let ?f = "?v TaskState.FAILED ''rollback_failed'' (exn_str exc) (se_outcome_at E) (tv_results task)"
      have f: "?f = task\<lparr>tv_events := append_event P (tv_task_id task) events TaskState.FAILED
          ''rollback_failed'' (exn_str exc) (se_outcome_at E), tv_state := TaskState.FAILED,
          tv_updated_at := se_updated_at E\<rparr>" by (cases task) simp
      have "task_inv P (tv_task_id ?f) ?f"
        using v [of TaskState.FAILED "tv_results task" "''rollback_failed''" "exn_str exc" "se_outcome_at E"]
        by simp
      from commit_inv [OF assms(1) this, of task, unfolded f] assms(2) Inl True show ?thesis
        by (auto simp: finish_rollback_def split: prod.split sum.split)
    next
      case False
      with Inl with_events_inv [OF assms(1,2,4,5)] show ?thesis by (simp add: finish_rollback_def)
    qed
  next
    case (Inr x)
    obtain result detail where x: "outcome = Inr (result, detail)" using Inr by (cases x) simp
    let ?f = "?v TaskState.ROLLED_BACK ''rollback_verified'' detail (se_outcome_at E) (tv_results task @ [result])"
    have "task_inv P (tv_task_id ?f) ?f" using v assms(6) [OF x] by simp
    from commit_inv(1) [OF assms(1) this, of task] assms(2) x show ?thesis
      by (simp add: finish_rollback_def)
  qed
qed

lemma rollback_task_inv:
  assumes "service_inv P S"
  shows "service_inv P (snd (rollback_task P C E tid session S))"
proof (cases rule: rollback_task_cases [of P C E tid session S])
  case (attempted task source outcome W)
  note inv = service_invD(2) [OF assms attempted(1)]
  have tid: "tv_task_id task = tid" "numbered_log (tv_events task)" using inv by (simp_all add: task_inv_def)
  show ?thesis
    unfolding attempted(8)
  proof (rule finish_rollback_inv)
    show "cr_capability_id result \<notin> REVERSIBLE_CAPABILITIES" if "outcome = Inr (result, detail)" for result detail
      using perform_rollback_result attempted(7) that by blast
  qed (use assms attempted tid in simp_all)
qed (use assms in simp)

subsection \<open>The service as a machine\<close>

datatype operation =
    Create service_env TaskRequest IdentitySession
  | Decide service_env uuid ApprovalDecision IdentitySession ApprovalChannel
  | Undo service_env uuid IdentitySession

primrec service_step :: "platform \<Rightarrow> 'd device_client \<Rightarrow> 'd service \<Rightarrow> operation \<Rightarrow> 'd service" where
  "service_step P C S (Create E request session) = snd (create_task P C E request session S)"
| "service_step P C S (Decide E tid dec session channel) =
     snd (approve_task P C E tid dec session channel S)"
| "service_step P C S (Undo E tid session) = snd (rollback_task P C E tid session S)"

text \<open>Receipt histories only grow at their end and an indexed request keeps its task.\<close>

definition history_le :: "'d service \<Rightarrow> 'd service \<Rightarrow> bool" where
  "history_le S S' \<longleftrightarrow>
     (\<forall>tid. prefix (ledger_history (sv_ledger S) tid) (ledger_history (sv_ledger S') tid)) \<and>
     (\<forall>rid tid. dget (sv_request_index S) rid = Some tid \<longrightarrow> dget (sv_request_index S') rid = Some tid)"

lemma history_le_refl [simp]: "history_le S S"
  by (simp add: history_le_def)

lemma history_le_trans: "history_le S T \<Longrightarrow> history_le T U \<Longrightarrow> history_le S U"
  by (auto simp: history_le_def intro: prefix_order.trans)

lemma history_le_world [simp]: "history_le S (S\<lparr>sv_world := W\<rparr>)"
  by (simp add: history_le_def)

lemma history_le_commit: "history_le S (snd (commit P t S))"
proof -
  have "sv_ledger (snd (commit P t S)) = snd (record_receipt P t (sv_ledger S))"
    "sv_request_index (snd (commit P t S)) = sv_request_index S"
    by (simp_all add: commit_def Let_def split: prod.split sum.split)
  then show ?thesis
    by (simp add: history_le_def record_receipt_def receipts.append_only)
qed

lemma history_le_with_events [simp]: "history_le S (with_events t ev S)"
  by (simp add: history_le_def with_events_def)

lemma history_le_create: "history_le S (snd (create_task P C E request session S))"
proof (cases rule: create_task_cases [of S request P C E session])
  case (stored plan refused state approval results events)
  have "history_le S (S\<lparr>sv_request_index :=
      dput (rq_request_id request) (task_id_of P (rq_request_id request)) (sv_request_index S)\<rparr>)"
    using stored(1) by (auto simp: history_le_def dict_laws)
  from history_le_trans [OF this history_le_commit] show ?thesis by (simp only: stored(5))
qed (simp_all split: option.split)

lemma history_le_deny: "history_le S (snd (deny_task P task c ty de now S))"
  by (simp add: deny_task_def history_le_commit split: sum.split)

lemma history_le_world_commit: "history_le S (snd (commit P t (S\<lparr>sv_world := W\<rparr>)))"
  using history_le_trans [OF history_le_world history_le_commit] .

lemma history_le_world_events: "history_le S (with_events t ev (S\<lparr>sv_world := W\<rparr>))"
  using history_le_trans [OF history_le_world history_le_with_events] .

lemma history_le_grant: "history_le S (snd (grant_task P C E channel task a S))"
  by (auto simp: grant_task_def Let_def history_le_world_commit history_le_world_events
      split: sum.split prod.split)

lemma history_le_approve: "history_le S (snd (approve_task P C E tid dec session channel S))"
  by (cases rule: approve_task_cases [of P C E tid dec session channel S])
    (simp_all add: history_le_deny history_le_grant)

lemma finish_rollback_snd:
  obtains (kept) "snd (finish_rollback P E task ev outcome S) = with_events task ev S"
  | (stored) t where "snd (finish_rollback P E task ev outcome S) = snd (commit P t S)"
      "tv_task_id t = tv_task_id task" "tv_request_id t = tv_request_id task"
      "tv_user_session_id t = tv_user_session_id task" "tv_plan t = tv_plan task"
      "tv_approval t = tv_approval task"
      "tv_state t = (if \<exists>x. outcome = Inr x then TaskState.ROLLED_BACK else TaskState.FAILED)"
proof (cases outcome)
  case (Inl exc)
  show ?thesis
  proof (cases "is_rollback_failure exc")
    case True
    let ?t = "task\<lparr>tv_events := append_event P (tv_task_id task) ev TaskState.FAILED ''rollback_failed''
        (exn_str exc) (se_outcome_at E), tv_state := TaskState.FAILED, tv_updated_at := se_updated_at E\<rparr>"
    show ?thesis
      by (rule stored [of ?t])
        (simp_all add: finish_rollback_def Inl True case_prod_beta split: sum.split)
  qed (use Inl kept in \<open>simp add: finish_rollback_def\<close>)
next
  case (Inr x)
  show ?thesis
    by (rule stored [of "task\<lparr>tv_events := append_event P (tv_task_id task) ev TaskState.ROLLED_BACK
        ''rollback_verified'' (snd x) (se_outcome_at E), tv_state := TaskState.ROLLED_BACK,
        tv_results := tv_results task @ [fst x], tv_updated_at := se_updated_at E\<rparr>"])
      (simp_all add: finish_rollback_def Inr case_prod_beta)
qed

lemma history_le_finish: "history_le S (snd (finish_rollback P E task ev outcome S))"
  by (cases rule: finish_rollback_snd [of P E task ev outcome S]) (simp_all add: history_le_commit)

lemma history_le_rollback: "history_le S (snd (rollback_task P C E tid session S))"
proof (cases rule: rollback_task_cases [of P C E tid session S])
  case (attempted task source outcome W)
  show ?thesis
    unfolding attempted(8) by (rule history_le_trans [OF history_le_world history_le_finish])
qed simp

interpretation nexuss: invariant_machine "service_step P C" "service_inv P" history_le for P C
proof unfold_locales
  fix S op
  show "service_inv P S \<Longrightarrow> service_inv P (service_step P C S op)"
    by (cases op) (simp_all add: create_task_inv approve_task_inv rollback_task_inv)
  show "history_le S (service_step P C S op)"
    by (cases op) (simp_all add: history_le_create history_le_approve history_le_rollback)
  show "history_le S T \<Longrightarrow> history_le T U \<Longrightarrow> history_le S U" for S T U :: "'c service"
    by (rule history_le_trans)
qed simp

abbreviation run :: "platform \<Rightarrow> 'd device_client \<Rightarrow> 'd service \<Rightarrow> operation list \<Rightarrow> 'd service" where
  "run P C S ops \<equiv> foldl (service_step P C) S ops"

lemma run_init_inv: "service_inv P (run P C (init_service N d) ops)"
  by (rule nexuss.run_inv [OF service_inv_init])

subsection \<open>Whose tasks an operation can touch\<close>

text \<open>The task an operation can store or change.\<close>

definition touches :: "platform \<Rightarrow> operation \<Rightarrow> uuid" where
  "touches P op =
     (case op of Create E request session \<Rightarrow> task_id_of P (rq_request_id request)
               | Decide E tid dec session channel \<Rightarrow> tid | Undo E tid session \<Rightarrow> tid)"

lemma commit_tasks: "sv_tasks (snd (commit P t S)) = dput (tv_task_id t) t (sv_tasks S)"
  by (simp add: commit_def Let_def split: prod.split sum.split)

lemma deny_task_tasks:
  "tid \<noteq> tv_task_id task \<Longrightarrow> dget (sv_tasks (snd (deny_task P task c ty de now S))) tid = dget (sv_tasks S) tid"
  by (simp add: deny_task_def commit_tasks dict_laws split: sum.split)

lemma grant_task_tasks:
  "tid \<noteq> tv_task_id task \<Longrightarrow> dget (sv_tasks (snd (grant_task P C E ch task a S))) tid = dget (sv_tasks S) tid"
  by (auto simp: grant_task_def Let_def commit_tasks with_events_def dict_laws split: sum.split prod.split)

lemma finish_rollback_tasks:
  assumes "tid \<noteq> tv_task_id task"
  shows "dget (sv_tasks (snd (finish_rollback P E task ev outcome S))) tid = dget (sv_tasks S) tid"
  using assms
  by (cases rule: finish_rollback_snd [of P E task ev outcome S])
    (simp_all add: commit_tasks with_events_def dict_laws)

lemma step_other_tasks:
  assumes "service_inv P S" "tid \<noteq> touches P op"
  shows "dget (sv_tasks (service_step P C S op)) tid = dget (sv_tasks S) tid"
proof -
  have id: "tv_task_id t = k" if "dget (sv_tasks S) k = Some t" for k t
    using service_invD(2) [OF assms(1) that] by (simp add: task_inv_def)
  show ?thesis
  proof (cases op)
    case (Create E request session)
    then show ?thesis
      using assms(2)
      by (cases rule: create_task_cases [of S request P C E session])
        (simp_all add: touches_def commit_tasks dict_laws split: option.split)
  next
    case (Decide E k dec session channel)
    then show ?thesis
      using assms(2) id
      by (cases rule: approve_task_cases [of P C E k dec session channel S])
        (simp_all add: touches_def deny_task_tasks grant_task_tasks)
  next
    case (Undo E k session)
    then show ?thesis
      using assms(2) id
      by (cases rule: rollback_task_cases [of P C E k session S])
        (simp_all add: touches_def finish_rollback_tasks)
  qed
qed

end
