(* ===== verification/Runs.thy ===== *)
theory Runs
  imports ServiceOps
begin

section \<open>A concrete run of the service\<close>

text \<open>
  One device command from the request to its undo, on concrete inputs, for the witnesses of
  the properties: a platform whose \<open>uuid5\<close> gives every task the identifier of its request, a
  device that counts its running processes, a request to open Notepad, an approval from the
  phone and a rollback. Digests stay symbolic.
\<close>

subsection \<open>Platform, device and request\<close>

definition run_platform :: platform where
  "run_platform = ascii_platform
     \<lparr>pf_uuid5 := (\<lambda>s. case uuid_parse (drop 12 s) of None \<Rightarrow> 0 | Some u \<Rightarrow> u)\<rparr>"

lemma run_platform_tables:
  "pf_casefold run_platform = pf_casefold ascii_platform" "pf_upper run_platform = pf_upper ascii_platform"
  "pf_isalnum run_platform = pf_isalnum ascii_platform" "pf_nfkc run_platform = pf_nfkc ascii_platform"
  "pf_sha256 run_platform = pf_sha256 ascii_platform"
  by (simp_all add: run_platform_def)

lemma run_platform_digests: "digests_ok run_platform"
  using ascii_platform_digests by (simp add: digests_ok_def run_platform_def)

lemma run_platform_task_id: "task_id_of run_platform rid = rid"
proof -
  have "drop 12 (str ''nexuss:task:'' @ uuid_str rid) = uuid_str rid" by simp
  then show ?thesis by (simp add: task_id_of_def run_platform_def uuid_roundtrip)
qed

definition sample_evidence :: "uuid \<Rightarrow> DeviceCommandEvidence" where
  "sample_evidence t =
     \<lparr>de_command_id = t, de_node_id = str ''windows-primary'', de_node_hostname = str ''host'',
      de_capability_id = str ''device.launch_notepad'', de_executable = str ''notepad.exe'',
      de_process_id = 42, de_started_at = 0, de_verified_running = True,
      de_source_mode = str ''live_trusted_device_node''\<rparr>"

definition counting_client :: "nat device_client" where
  "counting_client =
     \<lparr>cl_launch_notepad = (\<lambda>X t target d. (Inr (sample_evidence t), Suc d)),
      cl_rollback_command = (\<lambda>X t c target d.
        (Inr \<lparr>re_rollback_id = 1, re_command_id = c, re_node_id = target, re_process_id = 42,
              re_terminated = True, re_verified_absent = True, re_observed_at = 0,
              re_source_mode = str ''live_trusted_device_node_rollback''\<rparr>, d - 1))\<rparr>"

definition sample_probe :: workspace_probe where
  "sample_probe =
     \<lparr>wp_which_git = None, wp_run_git = (\<lambda>_. None), wp_is_dir = True, wp_has_dot_git = True,
      wp_hostname = [], wp_system = [], wp_release = [], wp_machine = [], wp_python_version = [],
      wp_python_executable = [], wp_root_name = [], wp_root_path = [], wp_disk = Inr (0, 0)\<rparr>"

definition env_at :: "time \<Rightarrow> service_env" where
  "env_at now =
     \<lparr>se_now = now, se_outcome_at = now, se_final_at = now, se_updated_at = now,
      se_token = replicate 43 116,
      se_exec = (\<lambda>_. \<lparr>xe_os = plain_os, xe_probe = sample_probe,
                       xe_call = \<lparr>ce_now = now, ce_nonce = replicate 43 110\<rparr>\<rparr>)\<rparr>"

lemma env_at_simps [simp]:
  "se_now (env_at now) = now" "se_token (env_at now) = replicate 43 116"
  "se_outcome_at (env_at now) = now" "se_final_at (env_at now) = now" "se_updated_at (env_at now) = now"
  by (simp_all add: env_at_def)

definition sample_session :: IdentitySession where
  "sample_session = \<lparr>ses_session_id = 9, ses_authenticated = True, ses_assurance_level = BASIC\<rparr>"

definition sample_request :: TaskRequest where
  "sample_request =
     \<lparr>rq_request_id = 5, rq_channel = TEXT, rq_utterance = str ''open notepad'', rq_user_session_id = 9,
      rq_target_devices = [], rq_requested_at = 0, rq_client_context = []\<rparr>"

definition service0 :: "nat service" where
  "service0 = init_service sample_store 0"

subsection \<open>The request\<close>

definition run_intent :: Intent where
  "run_intent =
     \<lparr>in_kind = LAUNCH_NOTEPAD, in_normalized_text = str ''open notepad'', in_confidence = 99 / 100,
      in_entities = [(str ''target_node_id'', str ''windows-primary'')]\<rparr>"

lemma classify_run: "classify_intent run_platform (str ''open notepad'') = run_intent"
proof -
  have n: "normalize_text run_platform (str ''open notepad'') = str ''open notepad''"
    by (simp add: normalize_text_def run_platform_tables evaluate)
  have "re_match NOTE_PATTERN (strip (str ''open notepad'')) = None"
    by (simp add: NOTE_PATTERN_def NOTE_HEAD_def NOTE_BODY_def word_i_def spaces_def evaluate)
  moreover have "classify_text (str ''open notepad'') = (LAUNCH_NOTEPAD, 99 / 100)"
    by (simp add: classify_text_def any_in_def str_def)
  ultimately show ?thesis by (simp add: classify_intent_text n run_intent_def)
qed

definition run_step :: PlanStep where
  "run_step = plan_step run_platform 5 1 (launch_spec run_intent)"

definition run_plan :: TaskPlan where
  "run_plan =
     \<lparr>pl_plan_id = pf_uuid5 run_platform (str ''nexuss:'' @ uuid_str 5 @ str '':plan:launch_notepad''),
      pl_task_id = 5, pl_intent = run_intent, pl_steps = [run_step]\<rparr>"

lemma build_run_plan: "build_plan run_platform 5 run_intent = Inr run_plan"
  by (simp add: build_plan_def run_plan_def run_step_def plan_specs_if run_intent_def plan_steps_def
      assistant_kinds_def str_append [symmetric])

lemma run_step_simps:
  "ps_capability_id run_step = str ''device.launch_notepad''" "ps_order run_step = 1"
  "ps_parameters run_step =
     [(str ''target_node_id'', PyStr (str ''windows-primary'')), (str ''application'', PyStr (str ''notepad''))]"
  "ps_risk_tier run_step = HIGH" "ps_reversible run_step"
  by (simp_all add: run_step_def plan_step_def launch_spec_def spec_def launch_parameters_def run_intent_def
      dget_def)

definition run_hash :: ustr where
  "run_hash = pf_sha256 ascii_platform (map of_nat (dumps (payload_json run_step)))"

lemma run_payload: "payload_sha256 run_platform run_step = Inr run_hash"
proof -
  have "\<forall>s\<in>json_strs (payload_json run_step). \<forall>c\<in>set s. c < 128"
    by (simp add: payload_json_def run_step_simps jstr_def json_attributes_def) (simp add: str_def)
  then show ?thesis
    by (simp add: payload_sha256_def encode_utf8_def dumps_ascii run_hash_def run_platform_tables)
qed

lemma run_hash_ascii: "is_ascii run_hash"
  using ascii_platform_digests valid_sha256_ascii by (simp add: run_hash_def digests_ok_def valid_sha256_def)

definition run_approval :: ApprovalRequest where
  "run_approval =
     (case approval_for run_platform (replicate 43 116) 5 9 run_step 0 of Inr a \<Rightarrow> a)"

lemma approval_run: "approval_for run_platform (replicate 43 116) 5 9 run_step 0 = Inr run_approval"
  by (simp add: run_approval_def approval_for_def run_payload Let_def)

lemma run_approval_simps:
  "ap_task_id run_approval = 5" "ap_session_id run_approval = 9" "ap_status run_approval = ApprovalStatus.PENDING"
  "ap_approval_token run_approval = Some (replicate 43 116)" "ap_payload_sha256 run_approval = run_hash"
  "ap_expires_at run_approval = APPROVAL_LIFETIME" "ap_approval_channel run_approval = PHONE"
  using approval_for_Inr [OF approval_run] run_payload by (simp_all add: run_step_simps)

definition awaiting_view :: TaskView where
  "awaiting_view =
     \<lparr>tv_task_id = 5, tv_request_id = 5, tv_user_session_id = 9, tv_state = TaskState.AWAITING_APPROVAL,
      tv_intent = run_intent, tv_plan = run_plan, tv_policy_decisions = [evaluate_step run_step],
      tv_results = [],
      tv_events = append_event run_platform 5 (planned_events run_platform (env_at 0) 5 run_plan)
        TaskState.AWAITING_APPROVAL ''approval_requested''
        (str ''Execution is paused pending explicit approval of the exact payload.'') 0,
      tv_approval = Some run_approval, tv_created_at = 0, tv_updated_at = 0\<rparr>"

definition service1 :: "nat service" where
  "service1 = snd (create_task run_platform counting_client (env_at 0) sample_request sample_session service0)"

lemma service0_inv: "service_inv P service0"
  by (simp add: service0_def service_inv_init)

lemma service1_inv: "service_inv run_platform service1"
  by (simp add: service1_def create_task_inv service0_inv)

lemma create_commit:
  assumes "dget (sv_request_index S) 5 = None"
  shows "create_task run_platform C (env_at 0) sample_request sample_session S =
    commit run_platform awaiting_view (S\<lparr>sv_request_index := dput 5 5 (sv_request_index S)\<rparr>)"
proof -
  have out: "pd_outcome (evaluate_step run_step) = REQUIRE_APPROVAL"
    by (simp add: outcome_REQUIRE_iff run_step_simps approval_capabilities_def)
  show ?thesis
    using assms
    by (simp add: create_task_def sample_request_def sample_session_def validate_session_def
        run_platform_task_id classify_run plan_or_refuse_def build_run_plan
        policy_decisions_def create_outcome_def run_plan_def out approval_run awaiting_view_def env_at_def
        Let_def cong: if_cong)
qed

lemma create_run:
  "create_task run_platform C (env_at 0) sample_request sample_session service0 = (Inr awaiting_view, service1)"
  "dget (sv_tasks service1) 5 = Some awaiting_view"
  "sv_world service1 = sv_world service0"
proof -
  let ?S = "service0\<lparr>sv_request_index := dput 5 5 (sv_request_index service0)\<rparr>"
  have c: "create_task run_platform C (env_at 0) sample_request sample_session service0 =
      commit run_platform awaiting_view ?S" for C
    by (rule create_commit) (simp add: service0_def init_service_def dict_laws)
  obtain L where L: "commit run_platform awaiting_view ?S =
      (Inr awaiting_view, ?S\<lparr>sv_tasks := dput 5 awaiting_view (sv_tasks ?S), sv_ledger := L\<rparr>)"
  proof (rule commit_ok [of ?S run_platform awaiting_view])
    show "receipts.versioned (sv_ledger ?S)" by (simp add: service0_def init_service_def)
  qed (simp add: awaiting_view_def)
  show "create_task run_platform C (env_at 0) sample_request sample_session service0 =
      (Inr awaiting_view, service1)"
    "dget (sv_tasks service1) 5 = Some awaiting_view"
    "sv_world service1 = sv_world service0"
    by (simp_all add: service1_def c L dict_laws)
qed

subsection \<open>The decision\<close>

definition sample_decision :: "ApprovalDecisionKind \<Rightarrow> ApprovalDecision" where
  "sample_decision kind =
     \<lparr>ad_approval_id = ap_approval_id run_approval, ad_approval_token = replicate 43 116,
      ad_payload_sha256 = run_hash, ad_decision = kind\<rparr>"

lemma sample_decision_checked: "check_decision (sample_decision kind) run_approval = Inr ()"
  by (simp add: check_decision_def sample_decision_def run_approval_simps compare_digest_def run_hash_ascii)
    (simp add: is_ascii_def list_all_iff)

lemma authorised_run:
  "authorised (env_at 1) (sample_decision APPROVE) sample_session PHONE awaiting_view run_approval"
  using check_decision_Inr [OF sample_decision_checked]
  by (simp add: authorised_def sample_session_def awaiting_view_def run_approval_simps APPROVAL_LIFETIME_def)
    (simp add: sample_decision_def)

lemma approve_grant:
  assumes "dget (sv_tasks S) 5 = Some awaiting_view"
  shows "approve_task run_platform C (env_at 1) 5 (sample_decision APPROVE) sample_session PHONE S =
    grant_task run_platform C (env_at 1) PHONE awaiting_view run_approval S"
  using assms
  by (simp add: approve_task_def validate_session_def sample_session_def awaiting_view_def
      run_approval_simps APPROVAL_LIFETIME_def sample_decision_checked)
    (simp add: sample_decision_def)

lemmas approve_grant_run = approve_grant [OF create_run(2)]

definition service2 :: "nat service" where
  "service2 = snd (approve_task run_platform counting_client (env_at 1) 5 (sample_decision APPROVE)
     sample_session PHONE service1)"

definition run_result :: CapabilityResult where
  "run_result = launch_result run_platform run_step 1 (sample_evidence 5)"

definition completed_events :: "ActionEvent list" where
  "completed_events =
     (let e1 = append_event run_platform 5 (tv_events awaiting_view) TaskState.APPROVED ''approval_granted''
            (str ''The exact payload was approved from the paired phone session.'') 1;
          e2 = append_event run_platform 5 e1 TaskState.EXECUTING ''execution_started''
            (str ''Authorized capabilities entered bounded execution.'') 1;
          e3 = append_event run_platform 5 e2 TaskState.VERIFYING ''verification_started''
            (str ''Nexuss is verifying returned evidence against the action contract.'') 1
      in append_event run_platform 5 e3 TaskState.COMPLETED ''verification_completed''
           (str ''All expected evidence was verified.'') 1)"

definition completed_view :: TaskView where
  "completed_view = awaiting_view
     \<lparr>tv_events := completed_events, tv_state := TaskState.COMPLETED, tv_results := [run_result],
      tv_approval := Some (close_approval ApprovalStatus.CONSUMED run_approval), tv_updated_at := 1\<rparr>"

lemma run_result_simps:
  "cr_status run_result = StepStatus.VERIFIED" "cr_evidence run_result \<noteq> []"
  "cr_capability_id run_result = str ''device.launch_notepad''"
  by (simp_all add: run_result_def launch_result_def sample_evidence_def run_step_simps)

lemma service2_inv: "service_inv run_platform service2"
  by (simp add: service2_def approve_task_inv service1_inv)

lemma approve_run:
  "approve_task run_platform counting_client (env_at 1) 5 (sample_decision APPROVE) sample_session PHONE
     service1 = (Inr completed_view, service2)"
  "dget (sv_tasks service2) 5 = Some completed_view"
  "wd_device (sv_world service2) = Suc (wd_device (sv_world service1))"
proof -
  let ?W = "(sv_world service1)\<lparr>wd_device := Suc (wd_device (sv_world service1))\<rparr>"
  let ?S = "service1\<lparr>sv_world := ?W\<rparr>"
  have step: "execute_step run_platform (se_exec (env_at 1) k) run_step 1 True (Some counting_client) (Some 5)
      (sv_world service1) = (Inr run_result, ?W)" for k
    by (simp add: execute_step_def run_step_simps execute_launch_notepad_def counting_client_def
        run_result_def Let_def)
  have ex: "execute_authorized_steps run_platform counting_client (env_at 1) 5 run_plan
      (append_event run_platform 5 (tv_events awaiting_view) TaskState.APPROVED ''approval_granted''
         (str ''The exact payload was approved from the paired phone session.'') 1) 1 (sv_world service1) =
      (Inr (TaskState.COMPLETED, [run_result]), completed_events, ?W)"
    by (simp add: execute_authorized_steps_def run_plan_def run_step_simps step run_result_simps
        completed_events_def Let_def)
  have "approve_task run_platform counting_client (env_at 1) 5 (sample_decision APPROVE) sample_session PHONE
      service1 = grant_task run_platform counting_client (env_at 1) PHONE awaiting_view run_approval service1"
    by (rule approve_grant_run)
  also have "\<dots> = commit run_platform completed_view ?S"
    using ex by (simp add: grant_task_def awaiting_view_def completed_view_def Let_def)
  finally have eq: "approve_task run_platform counting_client (env_at 1) 5 (sample_decision APPROVE)
      sample_session PHONE service1 = commit run_platform completed_view ?S" .
  obtain L where "commit run_platform completed_view ?S =
      (Inr completed_view, ?S\<lparr>sv_tasks := dput 5 completed_view (sv_tasks ?S), sv_ledger := L\<rparr>)"
  proof (rule commit_ok [of ?S run_platform completed_view])
    show "receipts.versioned (sv_ledger ?S)" using service_invD(1) [OF service1_inv] by simp
  qed (simp add: completed_view_def awaiting_view_def)
  with eq show
    "approve_task run_platform counting_client (env_at 1) 5 (sample_decision APPROVE) sample_session PHONE
       service1 = (Inr completed_view, service2)"
    "dget (sv_tasks service2) 5 = Some completed_view"
    "wd_device (sv_world service2) = Suc (wd_device (sv_world service1))"
    by (simp_all add: service2_def dict_laws)
qed

text \<open>A client that raises an exception the executor does not translate, after the command was sent.\<close>

definition crashing_client :: "nat device_client" where
  "crashing_client = counting_client
     \<lparr>cl_launch_notepad := (\<lambda>X t target d. (Inl (ValueError (str ''not JSON'')), Suc d))\<rparr>"

lemma crash_run:
  "\<exists>S. approve_task run_platform crashing_client (env_at 1) 5 (sample_decision APPROVE) sample_session PHONE
     service1 = (Inl (ValueError (str ''not JSON'')), S) \<and> S \<noteq> service1"
proof -
  let ?W = "(sv_world service1)\<lparr>wd_device := Suc (wd_device (sv_world service1))\<rparr>"
  let ?ev = "append_event run_platform 5 (tv_events awaiting_view) TaskState.APPROVED ''approval_granted''
    (str ''The exact payload was approved from the paired phone session.'') 1"
  have step: "execute_step run_platform (se_exec (env_at 1) k) run_step 1 True (Some crashing_client) (Some 5)
      (sv_world service1) = (Inl (ValueError (str ''not JSON'')), ?W)" for k
    by (simp add: execute_step_def run_step_simps execute_launch_notepad_def crashing_client_def Let_def)
  have ex: "\<exists>ev. execute_authorized_steps run_platform crashing_client (env_at 1) 5 run_plan ?ev 1
      (sv_world service1) = (Inl (ValueError (str ''not JSON'')), ev, ?W)"
    by (simp add: execute_authorized_steps_def run_plan_def run_step_simps step Let_def)
  have "tv_state awaiting_view = TaskState.AWAITING_APPROVAL" "tv_task_id awaiting_view = 5"
    "tv_plan awaiting_view = run_plan" by (simp_all add: awaiting_view_def)
  with ex obtain S where "grant_task run_platform crashing_client (env_at 1) PHONE awaiting_view run_approval
      service1 = (Inl (ValueError (str ''not JSON'')), S)" "sv_world S = ?W"
    by (auto simp: grant_task_def Let_def with_events_def)
  moreover have "?W \<noteq> sv_world service1"
  proof
    assume "?W = sv_world service1"
    then have "wd_device ?W = wd_device (sv_world service1)" by (rule arg_cong)
    then show False by simp
  qed
  ultimately show ?thesis by (auto simp: approve_grant_run)
qed

subsection \<open>The undo\<close>

definition service3 :: "nat service" where
  "service3 = snd (rollback_task run_platform counting_client (env_at 2) 5 sample_session service2)"

lemma service3_inv: "service_inv run_platform service3"
  by (simp add: service3_def rollback_task_inv service2_inv)

lemma rollback_run:
  "\<exists>v. rollback_task run_platform counting_client (env_at 2) 5 sample_session service2 = (Inr v, service3) \<and>
       dget (sv_tasks service3) 5 = Some v \<and> tv_state v = TaskState.ROLLED_BACK"
  "wd_device (sv_world service3) = wd_device (sv_world service2) - 1"
proof -
  let ?W = "(sv_world service2)\<lparr>wd_device := wd_device (sv_world service2) - 1\<rparr>"
  have src: "List.find rollback_source (tv_results completed_view) = Some run_result"
    using run_result_simps by (simp add: completed_view_def rollback_source_def REVERSIBLE_CAPABILITIES_def)
  have attrs: "get_str (er_attributes (hd (cr_evidence run_result))) ''command_id'' [] = uuid_str 5"
    "get_str (er_attributes (hd (cr_evidence run_result))) ''node_id'' [] = str ''windows-primary''"
    by (simp_all add: run_result_def launch_result_def get_str_def dget_def sample_evidence_def)
  obtain result detail where p: "perform_rollback run_platform counting_client (se_exec (env_at 2) 0) 5
      run_result 2 (sv_world service2) = (Inr (result, detail), ?W)"
    by (simp add: perform_rollback_def run_result_simps rollback_device_command_def attrs uuid_roundtrip
        counting_client_def Let_def)
  let ?ev = "append_event run_platform 5 (tv_events completed_view) TaskState.ROLLING_BACK ''rollback_started''
    (str ''Receipt-bound rollback started after explicit user Undo.'') 2"
  have completed: "tv_state completed_view = TaskState.COMPLETED" "tv_task_id completed_view = 5"
    "tv_user_session_id completed_view = 9"
    by (simp_all add: completed_view_def awaiting_view_def)
  define v where "v = completed_view\<lparr>tv_events := append_event run_platform 5 ?ev TaskState.ROLLED_BACK
      ''rollback_verified'' detail 2, tv_state := TaskState.ROLLED_BACK,
      tv_results := tv_results completed_view @ [result], tv_updated_at := 2\<rparr>"
  have eq: "rollback_task run_platform counting_client (env_at 2) 5 sample_session service2 =
      commit run_platform v (service2\<lparr>sv_world := ?W\<rparr>)" "tv_task_id v = 5" "tv_state v = TaskState.ROLLED_BACK"
    using src p
    by (simp_all add: rollback_task_def approve_run(2) validate_session_def sample_session_def completed
        finish_rollback_def v_def)
  obtain L where "commit run_platform v (service2\<lparr>sv_world := ?W\<rparr>) =
      (Inr v, service2\<lparr>sv_world := ?W, sv_tasks := dput 5 v (sv_tasks service2), sv_ledger := L\<rparr>)"
  proof (rule commit_ok [of "service2\<lparr>sv_world := ?W\<rparr>" run_platform v])
    show "receipts.versioned (sv_ledger (service2\<lparr>sv_world := ?W\<rparr>))"
      using service_invD(1) [OF service2_inv] by simp
  qed (use eq(2) that in simp)
  with eq show
    "\<exists>v. rollback_task run_platform counting_client (env_at 2) 5 sample_session service2 = (Inr v, service3) \<and>
         dget (sv_tasks service3) 5 = Some v \<and> tv_state v = TaskState.ROLLED_BACK"
    "wd_device (sv_world service3) = wd_device (sv_world service2) - 1"
    by (simp_all add: service3_def dict_laws)
qed

end
