(* ===== verification/ServiceMoves.thy ===== *)
theory ServiceMoves
  imports ServiceOps
begin

section \<open>The service refines a small lifecycle\<close>

text \<open>
  Seen from outside, a task is only ever in one of five resting states. \<open>task_move\<close> is that
  abstract machine, and \<open>step_task\<close> is the simulation: an operation leaves a task as it is,
  adds an aborted attempt to its event list (an exception nobody caught), creates it, or makes
  one abstract move, whose events follow the transition table from the old state to the new
  one. The other tasks are untouched. So the log of every reachable task is a path of the
  table to its state with aborted attempts in between (\<open>audited\<close>, kept by every operation).
\<close>

subsection \<open>The abstract machine\<close>

inductive task_move :: "TaskState \<Rightarrow> TaskState \<Rightarrow> bool" where
  deny: "task_move TaskState.AWAITING_APPROVAL TaskState.DENIED"
| complete: "task_move TaskState.AWAITING_APPROVAL TaskState.COMPLETED"
| fail: "task_move TaskState.AWAITING_APPROVAL TaskState.FAILED"
| undo: "task_move TaskState.COMPLETED TaskState.ROLLED_BACK"
| undo_failed: "task_move TaskState.COMPLETED TaskState.FAILED"

inductive_cases task_moveE: "task_move s s'"

inductive_simps task_move_iff: "task_move s s'"

definition INITIAL_STATES :: "TaskState set" where
  "INITIAL_STATES =
     {TaskState.AWAITING_APPROVAL, TaskState.DENIED, TaskState.COMPLETED, TaskState.FAILED}"

text \<open>An abstract move is a path of the transition table.\<close>

lemma task_move_lifecycle: "task_move s s' \<Longrightarrow> lifecycle_step\<^sup>+\<^sup>+ s s'"
proof (induction rule: task_move.induct)
  case complete
  have "lifecycle_step TaskState.AWAITING_APPROVAL TaskState.APPROVED"
    "lifecycle_step TaskState.APPROVED TaskState.EXECUTING"
    "lifecycle_step TaskState.EXECUTING TaskState.VERIFYING"
    "lifecycle_step TaskState.VERIFYING TaskState.COMPLETED" by (simp_all add: lifecycle_step_allowed)
  then show ?case by (meson tranclp.r_into_trancl tranclp.trancl_into_trancl)
next
  case undo
  have "lifecycle_step TaskState.COMPLETED TaskState.ROLLING_BACK"
    "lifecycle_step TaskState.ROLLING_BACK TaskState.ROLLED_BACK" by (simp_all add: lifecycle_step_allowed)
  then show ?case by (meson tranclp.r_into_trancl tranclp.trancl_into_trancl)
next
  case undo_failed
  have "lifecycle_step TaskState.COMPLETED TaskState.ROLLING_BACK"
    "lifecycle_step TaskState.ROLLING_BACK TaskState.FAILED" by (simp_all add: lifecycle_step_allowed)
  then show ?case by (meson tranclp.r_into_trancl tranclp.trancl_into_trancl)
qed (auto simp: lifecycle_step_allowed)

subsection \<open>Logs\<close>

text \<open>The events added between two logs follow the transition table from one state to the other.\<close>

definition log_run :: "ActionEvent list \<Rightarrow> TaskState \<Rightarrow> ActionEvent list \<Rightarrow> TaskState \<Rightarrow> bool" where
  "log_run events s events' s' \<longleftrightarrow>
     (\<exists>added. events' = events @ added \<and> successively lifecycle_step (s # map ev_state added) \<and>
        last (s # map ev_state added) = s')"

lemma log_run_refl: "log_run events s events s"
  by (simp add: log_run_def)

lemma log_run_append:
  assumes "log_run events s events' s'" "s'' \<in> ALLOWED_TRANSITIONS s'"
  shows "log_run events s (append_event P t events' s'' ty de oc) s''"
proof -
  from assms(1) obtain added where a: "events' = events @ added"
    "successively lifecycle_step (s # map ev_state added)" "last (s # map ev_state added) = s'"
    by (auto simp: log_run_def)
  obtain e where e: "append_event P t events' s'' ty de oc = events' @ [e]" "ev_state e = s''"
    by (simp add: append_event_def Let_def)
  have "successively lifecycle_step ((s # map ev_state added) @ [s''])"
    using a(2,3) assms(2) by (simp only: successively_snoc) (simp add: lifecycle_step_allowed)
  then show ?thesis
    using a(1) e by (auto simp: log_run_def intro!: exI [of _ "added @ [e]"])
qed

lemma log_run_trans:
  assumes "log_run xs s ys s'" "log_run ys s' zs s''"
  shows "log_run xs s zs s''"
proof -
  from assms obtain as bs where as: "ys = xs @ as" "successively lifecycle_step (s # map ev_state as)"
    "last (s # map ev_state as) = s'"
    and bs: "zs = ys @ bs" "successively lifecycle_step (s' # map ev_state bs)" "last (s' # map ev_state bs) = s''"
    by (auto simp: log_run_def)
  have "successively lifecycle_step ((s # map ev_state as) @ map ev_state bs)"
    using as(2,3) bs(2) by (simp only: successively_append_iff) (auto simp: successively_Cons)
  moreover have "last ((s # map ev_state as) @ map ev_state bs) = s''"
    using as(3) bs(3) by (cases bs) simp_all
  ultimately show ?thesis
    using as(1) bs(1) by (auto simp: log_run_def intro!: exI [of _ "as @ bs"])
qed

lemma tidy_log_run:
  assumes "tidy_log events s" "log_run events s events' s'"
  shows "tidy_log events' s'"
proof -
  from assms(1) have t: "events \<noteq> []" "hd (map ev_state events) = TaskState.RECEIVED"
    "successively lifecycle_step (map ev_state events)" "last (map ev_state events) = s"
    by (auto simp: tidy_log_def lifecycle_path_def last_map)
  from assms(2) obtain added where a: "events' = events @ added"
    "successively lifecycle_step (s # map ev_state added)" "last (s # map ev_state added) = s'"
    by (auto simp: log_run_def)
  have "successively lifecycle_step (map ev_state events @ map ev_state added)"
    using t(3,4) a(2) by (simp only: successively_append_iff) (auto simp: successively_Cons)
  moreover have "ev_state (last events') = s'"
    using a(1,3) t(1,4) by (cases "added = []") (simp_all add: last_map)
  ultimately show ?thesis using a(1) t by (simp add: tidy_log_def lifecycle_path_def)
qed

text \<open>An attempt that an exception ended: what it leaves in the log, though the task keeps its state.\<close>

inductive aborted_attempt :: "TaskState \<Rightarrow> TaskState list \<Rightarrow> bool" where
  approval: "aborted_attempt TaskState.AWAITING_APPROVAL [TaskState.APPROVED, TaskState.EXECUTING]"
| rollback: "aborted_attempt TaskState.COMPLETED [TaskState.ROLLING_BACK]"

text \<open>
  \<open>audited path states\<close>: the states of a log are those of \<open>path\<close>, a path of the transition table
  from received, with aborted attempts in between.
\<close>

inductive audited :: "TaskState list \<Rightarrow> TaskState list \<Rightarrow> bool" where
  received: "audited [TaskState.RECEIVED] [TaskState.RECEIVED]"
| step: "audited path states \<Longrightarrow> lifecycle_step (last path) s \<Longrightarrow> audited (path @ [s]) (states @ [s])"
| aborted: "audited path states \<Longrightarrow> aborted_attempt (last path) attempt \<Longrightarrow> audited path (states @ attempt)"

lemma audited_path: "audited path states \<Longrightarrow> lifecycle_path path"
  by (induction rule: audited.induct)
    (simp_all add: lifecycle_path_start lifecycle_path_snoc lifecycle_step_allowed)

lemma audited_run:
  "audited path states \<Longrightarrow> successively lifecycle_step (last path # added) \<Longrightarrow>
    audited (path @ added) (states @ added)"
proof (induction added rule: rev_induct)
  case (snoc s added)
  have split: "successively lifecycle_step ((last path # added) @ [s])" using snoc.prems(2) by simp
  then have "successively lifecycle_step (last path # added)"
    "lifecycle_step (last (last path # added)) s"
    by (simp_all only: successively_snoc) simp_all
  moreover have "last (path @ added) = last (last path # added)"
    by (cases added rule: rev_cases) simp_all
  ultimately show ?case
    using audited.step [OF snoc.IH [OF snoc.prems(1)], of s] by simp
qed simp

text \<open>The log of a task tells its state once the aborted attempts are taken out.\<close>

definition audit_log :: "TaskView \<Rightarrow> bool" where
  "audit_log t \<longleftrightarrow> (\<exists>path. last path = tv_state t \<and> audited path (map ev_state (tv_events t)))"

lemma audited_self: "lifecycle_path path \<Longrightarrow> audited path path"
proof -
  assume p: "lifecycle_path path"
  then obtain added where a: "path = TaskState.RECEIVED # added"
    by (cases path) (auto simp: lifecycle_path_def)
  with p have "successively lifecycle_step (last [TaskState.RECEIVED] # added)"
    by (simp add: lifecycle_path_def)
  from audited_run [OF audited.received this] a show ?thesis by simp
qed

lemma tidy_audit_log:
  assumes "tidy_log (tv_events t) (tv_state t)"
  shows "audit_log t"
  unfolding audit_log_def
proof (intro exI conjI)
  have "tv_events t \<noteq> []" using assms by (auto simp: tidy_log_def lifecycle_path_def)
  then show "last (map ev_state (tv_events t)) = tv_state t"
    using assms by (simp add: tidy_log_def last_map)
  show "audited (map ev_state (tv_events t)) (map ev_state (tv_events t))"
    using assms audited_self by (simp add: tidy_log_def)
qed

lemma execute_log:
  assumes "execute_authorized_steps P C E t plan events now W = (Inr (state, results), events', W')"
    and "events \<noteq> []" "ev_state (last events) = s" "s \<in> {TaskState.PLANNED, TaskState.APPROVED}"
  shows "log_run events s events' state"
proof -
  have run: "log_run events s events' (last (s # ss))"
    if pre: "prefix events events'" and states: "map ev_state events' = map ev_state events @ ss"
      and path: "successively lifecycle_step (s # ss)" for ss
  proof -
    from pre obtain added where "events' = events @ added" by (rule prefixE)
    moreover have "map ev_state added = ss" using states calculation by simp
    ultimately show ?thesis using path by (intro log_run_def [THEN iffD2] exI [of _ added]) simp
  qed
  have start: "lifecycle_step s TaskState.EXECUTING" using assms(4) by (auto simp: lifecycle_step_allowed)
  have ends: "successively lifecycle_step [s, TaskState.EXECUTING, TaskState.FAILED]"
    "successively lifecycle_step [s, TaskState.EXECUTING, TaskState.VERIFYING,
       (if v then TaskState.COMPLETED else TaskState.FAILED)]" for v
    using start by (simp_all add: lifecycle_step_allowed)
  have "ev_state (last events) \<in> {TaskState.PLANNED, TaskState.APPROVED}" using assms(3,4) by simp
  with assms(2) show ?thesis
  proof (cases rule: execute_cases [where P = P and C = C and E = E and t = t and now = now and plan = plan and W = W])
    case (refused e rs V ev)
    with assms(1) run [OF _ _ ends(1)] show ?thesis by simp
  next
    case (verified rs V ev st)
    with assms(1) run [OF _ _ ends(2), of "all_verified rs"] show ?thesis by (simp split: if_splits)
  qed (use assms(1) in simp_all)
qed

lemma tidy_created:
  assumes "plan_or_refuse P t i = Inr (plan, refused)"
    and "create_outcome P C E t sid plan (policy_decisions plan refused)
      (planned_events P E t plan) W = (Inr (state, approval, results), events, W')"
  shows "tidy_log events state \<and> state \<in> INITIAL_STATES"
  using assms(1)
proof (cases rule: create_outcome_cases [where C = C and E = E and sid = sid and W = W])
  case executed
  then obtain ev V where ex: "execute_authorized_steps P C E t plan (planned_events P E t plan) (se_now E) W =
      (Inr (state, results), ev, V)" "events = ev"
    using assms(2) by (auto split: prod.splits sum.splits)
  have "log_run (planned_events P E t plan) TaskState.PLANNED ev state"
    by (rule execute_log [OF ex(1)]) simp_all
  from tidy_log_run [OF tidy_planned this] ex(2) execute_Inr [OF ex(1)] show ?thesis
    by (auto simp: INITIAL_STATES_def)
qed (use assms(2) tidy_append [OF tidy_planned] in \<open>auto simp: INITIAL_STATES_def\<close>)

subsection \<open>The simulation\<close>

lemma commit_at:
  "dget (sv_tasks (snd (commit P t S))) (tv_task_id t) = Some t"
  by (simp add: commit_tasks dict_laws)

text \<open>What an operation may do to the task it addresses.\<close>

definition grown :: "TaskView \<Rightarrow> TaskView \<Rightarrow> bool" where
  "grown t t' \<longleftrightarrow>
     (\<exists>added. t' = t\<lparr>tv_events := tv_events t @ added\<rparr> \<and>
        aborted_attempt (tv_state t) (map ev_state added))"

definition moved :: "TaskView \<Rightarrow> TaskView \<Rightarrow> bool" where
  "moved t t' \<longleftrightarrow>
     task_move (tv_state t) (tv_state t') \<and> tv_request_id t' = tv_request_id t \<and>
     tv_user_session_id t' = tv_user_session_id t \<and> tv_plan t' = tv_plan t \<and>
     log_run (tv_events t) (tv_state t) (tv_events t') (tv_state t')"

lemma grown_audit_log:
  assumes "grown t t'" "audit_log t"
  shows "audit_log t'"
proof -
  from assms(2) obtain path where path: "last path = tv_state t" "audited path (map ev_state (tv_events t))"
    by (auto simp: audit_log_def)
  from assms(1) obtain added where added: "t' = t\<lparr>tv_events := tv_events t @ added\<rparr>"
    "aborted_attempt (tv_state t) (map ev_state added)" by (auto simp: grown_def)
  from audited.aborted [OF path(2), of "map ev_state added"] added path(1) show ?thesis
    by (auto simp: audit_log_def)
qed

lemma grownI:
  "aborted_attempt (tv_state t) (map ev_state added) \<Longrightarrow> grown t (t\<lparr>tv_events := tv_events t @ added\<rparr>)"
  by (auto simp: grown_def)

lemma moved_audit_log:
  assumes "moved t t'" "audit_log t"
  shows "audit_log t'"
proof -
  from assms(2) obtain path where path: "last path = tv_state t" "audited path (map ev_state (tv_events t))"
    by (auto simp: audit_log_def)
  from assms(1) obtain added where added: "tv_events t' = tv_events t @ added"
    "successively lifecycle_step (tv_state t # map ev_state added)"
    "last (tv_state t # map ev_state added) = tv_state t'"
    by (auto simp: moved_def log_run_def)
  have "audited (path @ map ev_state added) (map ev_state (tv_events t'))"
    using audited_run [OF path(2), of "map ev_state added"] path(1) added(1,2) by simp
  moreover have "last (path @ map ev_state added) = tv_state t'"
    using path(1) added(3) by (cases "added = []") simp_all
  ultimately show ?thesis unfolding audit_log_def by blast
qed

definition fresh :: "operation \<Rightarrow> TaskView \<Rightarrow> bool" where
  "fresh op t \<longleftrightarrow>
     (case op of Create E request session \<Rightarrow>
        tv_request_id t = rq_request_id request \<and> ses_authenticated session \<and>
        tv_user_session_id t = ses_session_id session \<and>
        tv_state t \<in> INITIAL_STATES \<and> tidy_log (tv_events t) (tv_state t)
      | _ \<Rightarrow> False)"

lemma deny_moved:
  assumes "service_inv P S" "dget (sv_tasks S) tid = Some task" "tv_state task = TaskState.AWAITING_APPROVAL"
  shows "\<exists>t'. dget (sv_tasks (snd (deny_task P task c ty de now S))) tid = Some t' \<and> moved task t'"
proof -
  have "tv_task_id task = tid" using service_invD(2) [OF assms(1,2)] by (simp add: task_inv_def)
  with assms(3) show ?thesis
    by (simp add: deny_task_def commit_tasks dict_laws moved_def task_move_iff)
      (rule log_run_append [OF log_run_refl], simp)
qed

lemma grant_moved:
  assumes "service_inv P S" "dget (sv_tasks S) tid = Some task" "tv_state task = TaskState.AWAITING_APPROVAL"
  shows "(\<exists>t'. dget (sv_tasks (snd (grant_task P C E ch task a S))) tid = Some t' \<and> moved task t') \<or>
    (\<exists>t'. dget (sv_tasks (snd (grant_task P C E ch task a S))) tid = Some t' \<and> grown task t' \<and>
       sv_ledger (snd (grant_task P C E ch task a S)) = sv_ledger S)"
proof -
  let ?de = "if ch = PHONE
    then str ''The exact payload was approved from the paired phone session.''
    else str ''The exact payload was approved by the authenticated desktop session.''"
  let ?ev = "append_event P (tv_task_id task) (tv_events task) TaskState.APPROVED ''approval_granted'' ?de (se_now E)"
  have tid: "tv_task_id task = tid" using service_invD(2) [OF assms(1,2)] by (simp add: task_inv_def)
  obtain r ev W where ex: "execute_authorized_steps P C E (tv_task_id task) (tv_plan task) ?ev (se_now E)
      (sv_world S) = (r, ev, W)" by (rule prod_cases3)
  show ?thesis
  proof (cases r)
    case (Inl e)
    have "ev = append_event P (tv_task_id task) ?ev TaskState.EXECUTING ''execution_started''
        (str ''Authorized capabilities entered bounded execution.'') (se_now E)"
      by (rule execute_cases [of ?ev P C E "tv_task_id task" "se_now E" "tv_plan task" "sv_world S"])
        (use ex Inl in simp_all)
    then obtain e1 e2 where "ev = tv_events task @ [e1, e2]" "ev_state e1 = TaskState.APPROVED"
      "ev_state e2 = TaskState.EXECUTING" by (simp add: append_event_def Let_def)
    then have "grown task (task\<lparr>tv_events := ev\<rparr>)"
      using grownI [of task "[e1, e2]"] assms(3) by (simp add: aborted_attempt.approval)
    then show ?thesis
      using assms(3) ex Inl tid by (simp add: grant_task_def Let_def with_events_def dict_laws)
  next
    case (Inr x)
    obtain state results where x: "r = Inr (state, results)" using Inr by (cases x) simp
    let ?v = "task\<lparr>tv_events := ev, tv_state := state, tv_results := results,
      tv_approval := Some (close_approval ApprovalStatus.CONSUMED a), tv_updated_at := se_updated_at E\<rparr>"
    have "log_run ?ev TaskState.APPROVED ev state" by (rule execute_log [OF ex [unfolded x]]) simp_all
    moreover have "log_run (tv_events task) TaskState.AWAITING_APPROVAL ?ev TaskState.APPROVED"
      by (rule log_run_append [OF log_run_refl]) simp
    ultimately have "log_run (tv_events task) TaskState.AWAITING_APPROVAL ev state" by (blast intro: log_run_trans)
    moreover have "state \<in> {TaskState.COMPLETED, TaskState.FAILED}"
      using execute_Inr [OF ex [unfolded x]] by simp
    ultimately have "moved task ?v" using assms(3) by (auto simp: moved_def task_move_iff)
    then show ?thesis
      using assms(3) ex x tid by (simp add: grant_task_def Let_def commit_tasks dict_laws)
  qed
qed

lemma finish_moved:
  assumes "tv_task_id task = tid" "tv_state task = TaskState.COMPLETED"
    "ev = tv_events task @ [e]" "ev_state e = TaskState.ROLLING_BACK"
  shows "(\<exists>t'. dget (sv_tasks (snd (finish_rollback P E task ev outcome S))) tid = Some t' \<and> moved task t') \<or>
    (\<exists>t'. dget (sv_tasks (snd (finish_rollback P E task ev outcome S))) tid = Some t' \<and> grown task t' \<and>
       sv_ledger (snd (finish_rollback P E task ev outcome S)) = sv_ledger S)"
proof (cases "\<exists>exc. outcome = Inl exc \<and> \<not> is_rollback_failure exc")
  case True
  have "grown task (task\<lparr>tv_events := ev\<rparr>)"
    using grownI [of task "[e]"] assms(2-4) by (simp add: aborted_attempt.rollback)
  with True show ?thesis
    using assms(1) by (auto simp: finish_rollback_def with_events_def dict_laws)
next
  case False
  then have "\<exists>s ty de rs. snd (finish_rollback P E task ev outcome S) = snd (commit P
      (task\<lparr>tv_events := append_event P (tv_task_id task) ev s ty de (se_outcome_at E), tv_state := s,
        tv_results := rs, tv_updated_at := se_updated_at E\<rparr>) S) \<and>
      s \<in> {TaskState.ROLLED_BACK, TaskState.FAILED}"
  proof (cases outcome)
    case (Inl exc)
    with False show ?thesis
      by (intro exI [of _ TaskState.FAILED] exI [of _ "''rollback_failed''"] exI [of _ "exn_str exc"]
          exI [of _ "tv_results task"])
        (simp add: finish_rollback_def case_prod_beta split: sum.split)
  next
    case (Inr x)
    then show ?thesis
      by (intro exI [of _ TaskState.ROLLED_BACK] exI [of _ "''rollback_verified''"] exI [of _ "snd x"]
          exI [of _ "tv_results task @ [fst x]"])
        (simp add: finish_rollback_def case_prod_beta)
  qed
  then obtain s ty de rs where c: "snd (finish_rollback P E task ev outcome S) = snd (commit P
      (task\<lparr>tv_events := append_event P (tv_task_id task) ev s ty de (se_outcome_at E), tv_state := s,
        tv_results := rs, tv_updated_at := se_updated_at E\<rparr>) S)"
    "s \<in> {TaskState.ROLLED_BACK, TaskState.FAILED}" by blast
  have "log_run (tv_events task) TaskState.COMPLETED ev TaskState.ROLLING_BACK"
    using assms(3,4) by (auto simp: log_run_def lifecycle_step_allowed)
  then have "log_run (tv_events task) TaskState.COMPLETED
      (append_event P (tv_task_id task) ev s ty de (se_outcome_at E)) s"
    by (rule log_run_append) (use c(2) in auto)
  then show ?thesis
    using c assms(1,2) by (auto simp: commit_tasks dict_laws moved_def task_move_iff)
qed

lemma step_task:
  assumes "service_inv P S" "tid = touches P op"
  obtains
    (same) "dget (sv_tasks (service_step P C S op)) tid = dget (sv_tasks S) tid"
  | (grown) t t' where "dget (sv_tasks S) tid = Some t" "dget (sv_tasks (service_step P C S op)) tid = Some t'"
      "grown t t'" "sv_ledger (service_step P C S op) = sv_ledger S"
  | (created) t' where "dget (sv_tasks (service_step P C S op)) tid = Some t'" "fresh op t'"
      "dget (sv_request_index S) (tv_request_id t') = None"
  | (moved) t t' where "dget (sv_tasks S) tid = Some t" "dget (sv_tasks (service_step P C S op)) tid = Some t'"
      "moved t t'"
proof (cases op)
  case (Create E request session)
  show ?thesis
  proof (cases rule: create_task_cases [of S request P C E session])
    case (stored plan refused state approval results events)
    have sid: "rq_user_session_id request = ses_session_id session" "ses_authenticated session"
      using stored(2) by (simp_all add: validate_session_Inr)
    define v where "v = \<lparr>tv_task_id = task_id_of P (rq_request_id request),
      tv_request_id = rq_request_id request, tv_user_session_id = rq_user_session_id request,
      tv_state = state, tv_intent = classify_intent P (rq_utterance request), tv_plan = plan,
      tv_policy_decisions = policy_decisions plan refused, tv_results = results,
      tv_events = events, tv_approval = approval, tv_created_at = se_now E,
      tv_updated_at = se_updated_at E\<rparr>"
    have id: "tv_task_id v = tid" using Create assms(2) by (simp add: v_def touches_def)
    have "fresh op v"
      using tidy_created [OF stored(3,4)] sid by (simp add: fresh_def Create v_def)
    moreover have "dget (sv_tasks (service_step P C S op)) tid = Some v"
      using commit_at [of P v] stored(5) [folded v_def] id Create by simp
    moreover have "dget (sv_request_index S) (tv_request_id v) = None"
      using stored(1) by (simp add: v_def)
    ultimately show ?thesis using created by blast
  qed (use same Create in \<open>simp_all split: option.splits\<close>)
next
  case (Decide E k dec session channel)
  have k: "tid = k" using assms(2) Decide by (simp add: touches_def)
  show ?thesis
  proof (cases rule: approve_task_cases [of P C E k dec session channel S])
    case (expired task a)
    have "\<exists>t'. dget (sv_tasks (service_step P C S op)) tid = Some t' \<and> moved task t'"
      by (simp only: Decide service_step.simps expired(7) k deny_moved [OF assms(1) expired(1,4)])
    with moved expired(1) k show ?thesis by blast
  next
    case (rejected task a)
    have "\<exists>t'. dget (sv_tasks (service_step P C S op)) tid = Some t' \<and> moved task t'"
      by (simp only: Decide service_step.simps rejected(8) k deny_moved [OF assms(1) rejected(1,4)])
    with moved rejected(1) k show ?thesis by blast
  next
    case (granted task a)
    have step: "service_step P C S op = snd (grant_task P C E channel task a S)"
      by (simp add: Decide granted(3))
    have "tv_state task = TaskState.AWAITING_APPROVAL" using granted(2) by (simp add: authorised_def)
    from grant_moved [OF assms(1) granted(1) this, of C E channel a, folded step]
    show ?thesis using granted(1) moved grown unfolding k by blast
  qed (use same Decide in simp)
next
  case (Undo E k session)
  have k: "tid = k" using assms(2) Undo by (simp add: touches_def)
  show ?thesis
  proof (cases rule: rollback_task_cases [of P C E k session S])
    case (attempted task source outcome W)
    let ?ev = "append_event P k (tv_events task) TaskState.ROLLING_BACK ''rollback_started''
      (str ''Receipt-bound rollback started after explicit user Undo.'') (se_now E)"
    let ?S = "S\<lparr>sv_world := W\<rparr>"
    have tid: "tv_task_id task = k" using service_invD(2) [OF assms(1) attempted(1)] by (simp add: task_inv_def)
    obtain e where e: "?ev = tv_events task @ [e]" "ev_state e = TaskState.ROLLING_BACK"
      by (simp add: append_event_def Let_def)
    have step: "service_step P C S op = snd (finish_rollback P E task ?ev outcome ?S)"
      using attempted(8) by (simp add: Undo)
    from finish_moved [OF tid attempted(4) e, of P E outcome ?S, folded step]
    show ?thesis using attempted(1) moved grown unfolding k by auto
  qed (use same Undo in simp)
qed

subsection \<open>The logs of reachable states\<close>

definition audited_service :: "platform \<Rightarrow> 'd service \<Rightarrow> bool" where
  "audited_service P S \<longleftrightarrow>
     service_inv P S \<and> (\<forall>tid t. dget (sv_tasks S) tid = Some t \<longrightarrow> audit_log t)"

lemma audited_service_step:
  assumes "audited_service P S"
  shows "audited_service P (service_step P C S op)"
proof -
  have inv: "service_inv P S" and old: "audit_log t" if "dget (sv_tasks S) tid = Some t" for tid t
    using assms that by (auto simp: audited_service_def)
  have "audit_log t" if t: "dget (sv_tasks (service_step P C S op)) tid = Some t" for tid t
  proof (cases "tid = touches P op")
    case False
    with t step_other_tasks [OF _ False, of S C] assms show ?thesis by (auto simp: audited_service_def)
  next
    case True
    have "service_inv P S" using assms by (simp add: audited_service_def)
    from this True show ?thesis
    proof (cases rule: step_task [where C = C])
      case (created t')
      then show ?thesis using t by (auto simp: fresh_def intro: tidy_audit_log split: operation.splits)
    qed (use t old grown_audit_log moved_audit_log in auto)
  qed
  moreover have "service_inv P (service_step P C S op)"
    using assms by (simp add: audited_service_def nexuss.step_inv)
  ultimately show ?thesis by (simp add: audited_service_def)
qed

interpretation audit: invariant_machine "service_step P C" "audited_service P" history_le for P C
proof unfold_locales
  fix S op
  show "audited_service P S \<Longrightarrow> audited_service P (service_step P C S op)"
    by (rule audited_service_step)
  show "audited_service P S \<Longrightarrow> history_le S (service_step P C S op)"
    by (simp add: audited_service_def nexuss.step_le)
  show "history_le S T \<Longrightarrow> history_le T U \<Longrightarrow> history_le S U" for S T U :: "'c service"
    by (rule history_le_trans)
qed simp

lemma run_audited: "audited_service P (run P C (init_service N d) ops)"
  by (rule audit.run_inv)
    (simp add: audited_service_def service_inv_init, simp add: init_service_def dict_laws)

end
