(* ===== verification/ServiceEffects.thy ===== *)
theory ServiceEffects
  imports ServiceMoves
begin

section \<open>What the service does to the world\<close>

text \<open>
  The note store and the device change in two places only: the single step of an approved
  plan and the rollback of a receipt. \<open>step_world\<close> is the case rule; the lemmas after
  it say what each can change, and that over any run the note store only makes a sequence of
  operations of the confined store of \<open>Notes\<close>.
\<close>

subsection \<open>The two effects\<close>

lemma execute_world:
  assumes "events \<noteq> []" "ev_state (last events) \<in> {TaskState.PLANNED, TaskState.APPROVED}"
  shows "snd (snd (execute_authorized_steps P C E t plan events now W)) =
    snd (snd (run_steps P C E t now (pl_steps plan) [] W))"
  by (cases rule: execute_cases [OF assms, of P C E t now plan W]) simp_all

lemma run_steps_single:
  "snd (snd (run_steps P C E t now [step] [] W)) =
     snd (execute_step P (se_exec E (ps_order step)) step now True (Some C) (Some t) W)"
  by (simp split: prod.split sum.split)

lemma deny_world [simp]: "sv_world (snd (deny_task P task c ty de now S)) = sv_world S"
  by (simp add: deny_task_def split: sum.split)

lemma finish_world [simp]: "sv_world (snd (finish_rollback P E task ev outcome S)) = sv_world S"
  by (cases rule: finish_rollback_snd [of P E task ev outcome S]) (simp_all add: with_events_def)

lemma grant_world:
  assumes "tv_state task = TaskState.AWAITING_APPROVAL"
  shows "sv_world (snd (grant_task P C E ch task a S)) =
    snd (snd (run_steps P C E (tv_task_id task) (se_now E) (pl_steps (tv_plan task)) [] (sv_world S)))"
proof -
  let ?de = "if ch = PHONE
    then str ''The exact payload was approved from the paired phone session.''
    else str ''The exact payload was approved by the authenticated desktop session.''"
  let ?ev = "append_event P (tv_task_id task) (tv_events task) TaskState.APPROVED ''approval_granted'' ?de (se_now E)"
  obtain r ev W where ex: "execute_authorized_steps P C E (tv_task_id task) (tv_plan task) ?ev (se_now E)
      (sv_world S) = (r, ev, W)" by (rule prod_cases3)
  have "W = snd (snd (run_steps P C E (tv_task_id task) (se_now E) (pl_steps (tv_plan task)) [] (sv_world S)))"
    using execute_world [of ?ev P C E "tv_task_id task" "tv_plan task" "se_now E" "sv_world S"] ex by simp
  then show ?thesis
    using ex assms by (cases r) (auto simp: grant_task_def Let_def with_events_def)
qed

lemma step_world:
  assumes "service_inv P S"
  obtains
    (same) "sv_world (service_step P C S op) = sv_world S"
  | (executed) E tid dec session channel task a step where
      "op = Decide E tid dec session channel" "dget (sv_tasks S) tid = Some task"
      "authorised E dec session channel task a" "approval_inv P task a" "pl_steps (tv_plan task) = [step]"
      "sv_world (service_step P C S op) =
         snd (execute_step P (se_exec E (ps_order step)) step (se_now E) True (Some C) (Some tid) (sv_world S))"
  | (undone) E tid session task source where
      "op = Undo E tid session" "dget (sv_tasks S) tid = Some task" "ses_authenticated session"
      "ses_session_id session = tv_user_session_id task" "tv_state task = TaskState.COMPLETED"
      "source \<in> set (tv_results task)" "rollback_source source"
      "sv_world (service_step P C S op) =
         snd (perform_rollback P C (se_exec E 0) tid source (se_now E) (sv_world S))"
proof (cases op)
  case (Create E request session)
  then show ?thesis using same by (simp add: create_task_world)
next
  case (Decide E tid dec session channel)
  show ?thesis
  proof (cases rule: approve_task_cases [of P C E tid dec session channel S])
    case (granted task a)
    note inv = service_invD(2) [OF assms granted(1)]
    have st: "tv_state task = TaskState.AWAITING_APPROVAL" "tv_approval task = Some a"
      using granted(2) by (simp_all add: authorised_def)
    then have ap: "approval_inv P task a" using inv by (simp add: task_inv_def)
    then obtain step where step: "pl_steps (tv_plan task) = [step]" by (auto simp: approval_inv_def)
    have tid: "tv_task_id task = tid" using inv by (simp add: task_inv_def)
    have "sv_world (service_step P C S op) = sv_world (snd (grant_task P C E channel task a S))"
      by (simp add: Decide granted(3))
    also have "\<dots> = snd (execute_step P (se_exec E (ps_order step)) step (se_now E) True (Some C) (Some tid)
        (sv_world S))"
      by (simp only: grant_world [OF st(1)] step tid run_steps_single)
    finally show ?thesis by (rule executed [OF Decide granted(1,2) ap step])
  qed (use same Decide in simp_all)
next
  case (Undo E tid session)
  show ?thesis
  proof (cases rule: rollback_task_cases [of P C E tid session S])
    case (attempted task source outcome W)
    have "sv_world (service_step P C S op) = W" by (simp add: Undo attempted(8))
    then have w: "sv_world (service_step P C S op) =
        snd (perform_rollback P C (se_exec E 0) tid source (se_now E) (sv_world S))"
      using attempted(7) by simp
    show ?thesis by (rule undone [OF Undo attempted(1-6) w])
  qed (use same Undo in simp)
qed

subsection \<open>Notes\<close>

lemma rollback_note_store:
  "snd (rollback_note P os source now N) =
     fst (store_rollback P os N (get_str (er_attributes (hd (cr_evidence source))) ''filename'' [])
       (get_str (er_attributes (hd (cr_evidence source))) ''sha256'' []))"
  by (auto simp: rollback_note_def Let_def split: prod.split sum.split)

lemma perform_rollback_world:
  "wd_notes (snd (perform_rollback P C X tid source now W)) =
     (if cr_capability_id source = str ''workspace.create_note''
      then fst (store_rollback P (xe_os X) (wd_notes W)
        (get_str (er_attributes (hd (cr_evidence source))) ''filename'' [])
        (get_str (er_attributes (hd (cr_evidence source))) ''sha256'' []))
      else wd_notes W)"
  "cr_capability_id source = str ''workspace.create_note'' \<Longrightarrow>
     wd_device (snd (perform_rollback P C X tid source now W)) = wd_device W"
  by (simp_all add: perform_rollback_def case_prod_beta rollback_note_store)

lemma execute_create_note_store:
  "snd (execute_create_note P os step now N) = N \<or>
   (\<exists>n. prepared_from_step step = Inr n \<and>
      snd (execute_create_note P os step now N) = fst (store_create P os N n))"
  by (auto simp: execute_create_note_def split: sum.split prod.split)

lemma execute_step_store:
  "wd_notes (snd (execute_step P X step now hs C t W)) = wd_notes W \<or>
   (\<exists>n. prepared_from_step step = Inr n \<and> ps_capability_id step = str ''workspace.create_note'' \<and>
      wd_notes (snd (execute_step P X step now hs C t W)) = fst (store_create P (xe_os X) (wd_notes W) n))"
proof (cases "ps_capability_id step = str ''workspace.create_note''")
  case True
  then show ?thesis
    using execute_create_note_store [of P "xe_os X" step now "wd_notes W"]
    by (auto simp: execute_step_def case_prod_beta)
qed (simp add: execute_step_frame)

lemma step_store:
  assumes "service_inv P S"
  shows "\<exists>xs. wd_notes (sv_world (service_step P C S op)) = foldl (vault.apply_op P) (wd_notes (sv_world S)) xs"
  using assms
proof (cases rule: step_world [where C = C and op = op])
  case same
  then show ?thesis by (intro exI [of _ "[]"]) simp
next
  case (executed E tid dec session channel task a step)
  let ?X = "se_exec E (ps_order step)"
  from execute_step_store [of P ?X step "se_now E" True "Some C" "Some tid" "sv_world S"] executed(6)
  show ?thesis
  proof (elim disjE exE conjE)
    fix n assume "wd_notes (snd (execute_step P ?X step (se_now E) True (Some C) (Some tid) (sv_world S))) =
        fst (store_create P (xe_os ?X) (wd_notes (sv_world S)) n)"
    with executed(6) show ?thesis
      by (intro exI [of _ "[(xe_os ?X, Inl n)]"]) (simp add: vault.apply_op_def)
  qed (intro exI [of _ "[]"], simp)
next
  case (undone E tid session task source)
  show ?thesis
    unfolding undone(8) perform_rollback_world(1)
    by (cases "cr_capability_id source = str ''workspace.create_note''")
      (auto intro: exI [of _ "[]"] exI [of _ "[(xe_os (se_exec E 0), Inr (f, h))]" for f h]
        simp: vault.apply_op_def)
qed

text \<open>The trace of a run in the confined store.\<close>

lemma run_store:
  "service_inv P S \<Longrightarrow>
     \<exists>xs. wd_notes (sv_world (run P C S ops)) = foldl (vault.apply_op P) (wd_notes (sv_world S)) xs"
proof (induction ops arbitrary: S)
  case Nil
  show ?case by (intro exI [of _ "[]"]) simp
next
  case (Cons op ops)
  obtain xs ys where
    "wd_notes (sv_world (service_step P C S op)) = foldl (vault.apply_op P) (wd_notes (sv_world S)) xs"
    "wd_notes (sv_world (run P C (service_step P C S op) ops)) =
       foldl (vault.apply_op P) (wd_notes (sv_world (service_step P C S op))) ys"
    using step_store [OF Cons.prems] Cons.IH [OF nexuss.step_inv [OF Cons.prems]] by blast
  then show ?case by (intro exI [of _ "xs @ ys"]) simp
qed

subsection \<open>The device\<close>

lemma execute_step_device:
  assumes "wd_device (snd (execute_step P X step now hs C t W)) \<noteq> wd_device W"
  shows "ps_capability_id step = str ''device.launch_notepad''"
  using assms execute_step_frame(2) by blast

text \<open>A controlled result that is stored was produced under an approval that is now consumed.\<close>

lemma source_consumed:
  assumes "service_inv P S" "dget (sv_tasks S) tid = Some task" "source \<in> set (tv_results task)"
    "rollback_source source"
  shows "\<exists>a. tv_approval task = Some a \<and> ap_status a = ApprovalStatus.CONSUMED"
  using service_invD(2) [OF assms(1,2)] assms(3,4) by (auto simp: task_inv_def rollback_source_def)

subsection \<open>Settled tasks stay settled\<close>

lemma settled_step:
  assumes "service_inv P S" "dget (sv_tasks S) tid = Some t" "tv_state t \<noteq> TaskState.AWAITING_APPROVAL"
    and "\<forall>rid. task_id_of P rid = tid \<longrightarrow> rid = tv_request_id t"
  shows "\<exists>t'. dget (sv_tasks (service_step P C S op)) tid = Some t' \<and>
    tv_state t' \<noteq> TaskState.AWAITING_APPROVAL \<and> tv_request_id t' = tv_request_id t"
proof (cases "tid = touches P op")
  case False
  with step_other_tasks [OF assms(1) False, of C] assms(2,3) show ?thesis by auto
next
  case True
  with assms(1) show ?thesis
  proof (cases rule: step_task [where C = C])
    case (created t')
    then obtain E request session where op: "op = Create E request session"
      "tv_request_id t' = rq_request_id request" by (auto simp: fresh_def split: operation.splits)
    then have "rq_request_id request = tv_request_id t" using True assms(4) by (simp add: touches_def)
    with created(3) op(2) service_invD(4) [OF assms(1,2)] show ?thesis by simp
  qed (use assms(2,3) in \<open>auto simp: grown_def moved_def task_move_iff\<close>)
qed

lemma settled_run:
  assumes "service_inv P S" "dget (sv_tasks S) tid = Some t" "tv_state t \<noteq> TaskState.AWAITING_APPROVAL"
    and "\<forall>rid. task_id_of P rid = tid \<longrightarrow> rid = tv_request_id t"
  shows "\<exists>t'. dget (sv_tasks (run P C S ops)) tid = Some t' \<and> tv_state t' \<noteq> TaskState.AWAITING_APPROVAL"
  using assms
proof (induction ops arbitrary: S t)
  case (Cons op ops)
  obtain t' where "dget (sv_tasks (service_step P C S op)) tid = Some t'"
    "tv_state t' \<noteq> TaskState.AWAITING_APPROVAL" "tv_request_id t' = tv_request_id t"
    using settled_step [OF Cons.prems, of C op] by blast
  with Cons.IH [OF nexuss.step_inv [OF Cons.prems(1)]] Cons.prems(4) show ?case by simp
qed auto

text \<open>A decision on a task that awaits nothing is refused before anything else is looked at.\<close>

lemma settled_refused:
  assumes "dget (sv_tasks S) tid = Some t" "tv_state t \<noteq> TaskState.AWAITING_APPROVAL"
  shows "\<exists>e. approve_task P C E tid dec session channel S = (Inl e, S)"
  using assms by (auto simp: approve_task_def split: sum.split)

subsection \<open>Decisions that end with an exception, and rejections\<close>

lemma grant_raised:
  assumes "service_inv P S" "dget (sv_tasks S) tid = Some task" "tv_state task = TaskState.AWAITING_APPROVAL"
    "tv_approval task = Some a"
    "grant_task P C E ch task a S = (Inl e, S')"
  shows "\<exists>events. dget (sv_tasks S') tid = Some (task\<lparr>tv_events := events\<rparr>) \<and>
    map ev_state events = map ev_state (tv_events task) @ [TaskState.APPROVED, TaskState.EXECUTING] \<and>
    sv_ledger S' = sv_ledger S"
proof -
  let ?de = "if ch = PHONE
    then str ''The exact payload was approved from the paired phone session.''
    else str ''The exact payload was approved by the authenticated desktop session.''"
  let ?ev = "append_event P (tv_task_id task) (tv_events task) TaskState.APPROVED ''approval_granted'' ?de (se_now E)"
  have tid: "tv_task_id task = tid" using service_invD(2) [OF assms(1,2)] by (simp add: task_inv_def)
  obtain r ev W where ex: "execute_authorized_steps P C E (tv_task_id task) (tv_plan task) ?ev (se_now E)
      (sv_world S) = (r, ev, W)" by (rule prod_cases3)
  show ?thesis
  proof (cases r)
    case (Inl e')
    have "ev = append_event P (tv_task_id task) ?ev TaskState.EXECUTING ''execution_started''
        (str ''Authorized capabilities entered bounded execution.'') (se_now E)"
      by (rule execute_cases [of ?ev P C E "tv_task_id task" "se_now E" "tv_plan task" "sv_world S"])
        (use ex Inl in simp_all)
    then have "map ev_state ev = map ev_state (tv_events task) @ [TaskState.APPROVED, TaskState.EXECUTING]"
      by simp
    moreover have "S' = with_events task ev (S\<lparr>sv_world := W\<rparr>)"
      using assms(3,5) ex Inl by (simp add: grant_task_def Let_def)
    ultimately show ?thesis by (auto simp: with_events_def dict_laws tid)
  next
    case (Inr x)
    obtain state results where x: "r = Inr (state, results)" using Inr by (cases x) simp
    let ?v = "task\<lparr>tv_events := ev, tv_state := state, tv_results := results,
      tv_approval := Some (close_approval ApprovalStatus.CONSUMED a), tv_updated_at := se_updated_at E\<rparr>"
    obtain L where "commit P ?v (S\<lparr>sv_world := W\<rparr>) = (Inr ?v, L)"
      by (rule commit_ok [of "S\<lparr>sv_world := W\<rparr>" P ?v]) (use service_invD(1) [OF assms(1)] in auto)
    then show ?thesis
      using assms(3,5) ex x by (simp add: grant_task_def Let_def)
  qed
qed

lemma approve_raised:
  assumes "service_inv P S" "dget (sv_tasks S) tid = Some task" "authorised E dec session ch task a"
    "approve_task P C E tid dec session ch S = (Inl e, S')" "S' \<noteq> S"
  shows "\<exists>events. dget (sv_tasks S') tid = Some (task\<lparr>tv_events := events\<rparr>) \<and>
    authorised E dec session ch (task\<lparr>tv_events := events\<rparr>) a \<and>
    map ev_state events = map ev_state (tv_events task) @ [TaskState.APPROVED, TaskState.EXECUTING] \<and>
    sv_ledger S' = sv_ledger S"
proof (cases rule: approve_task_cases [of P C E tid dec session ch S])
  case (granted task' a')
  then have same: "task' = task" "a' = a" using assms(2,3) by (simp_all add: authorised_def)
  have "authorised E dec session ch (task\<lparr>tv_events := ev\<rparr>) a" for ev
    using assms(3) by (simp add: authorised_def)
  moreover have "tv_state task = TaskState.AWAITING_APPROVAL" "tv_approval task = Some a"
    using assms(3) by (simp_all add: authorised_def)
  ultimately show ?thesis
    using grant_raised [OF assms(1,2)] granted(3) assms(4) same by metis
qed (use assms(2-5) in \<open>auto simp: authorised_def\<close>)

text \<open>A task whose approval ran out: denied, and the token is gone.\<close>

definition lapsed :: "TaskView \<Rightarrow> bool" where
  "lapsed t \<longleftrightarrow>
     tv_state t = TaskState.DENIED \<and>
     (\<exists>a. tv_approval t = Some a \<and> ap_status a = ApprovalStatus.EXPIRED \<and> ap_approval_token a = None)"

lemma deny_expired:
  assumes "service_inv P S" "dget (sv_tasks S) tid = Some task" "tv_state task = TaskState.AWAITING_APPROVAL"
  shows "\<exists>t. dget (sv_tasks (snd (deny_task P task (close_approval ApprovalStatus.EXPIRED a) ty de now S))) tid =
    Some t \<and> lapsed t"
proof -
  have "tv_task_id task = tid" using service_invD(2) [OF assms(1,2)] by (simp add: task_inv_def)
  with assms(3) show ?thesis
    by (simp add: deny_task_def commit_tasks dict_laws lapsed_def close_approval_def)
qed

lemma late_decision:
  assumes "service_inv P S" "dget (sv_tasks S) tid = Some task" "tv_created_at task + APPROVAL_LIFETIME \<le> se_now E"
    "approve_task P C E tid dec session channel S = (r, S')"
  shows "(\<exists>e. r = Inl e) \<and> sv_world S' = sv_world S \<and>
    (S' = S \<or> tv_state task = TaskState.AWAITING_APPROVAL \<and> (\<exists>t. dget (sv_tasks S') tid = Some t \<and> lapsed t))"
proof -
  have expiry: "ap_expires_at a \<le> se_now E" if "tv_approval task = Some a" for a
    using service_invD(2) [OF assms(1,2)] assms(3) that by (simp add: task_inv_def approval_inv_def)
  show ?thesis
  proof (cases rule: approve_task_cases [of P C E tid dec session channel S])
    case (expired t a)
    then show ?thesis
      using assms(2,4) deny_expired [OF assms(1) expired(1,4)] by simp
  next
    case (rejected t a)
    with expiry [of a] assms(2) show ?thesis by simp
  next
    case (granted t a)
    with expiry [of a] assms(2) show ?thesis by (simp add: authorised_def)
  qed (use assms(4) in simp)
qed

lemma late_decision_closes:
  assumes "service_inv P S" "dget (sv_tasks S) tid = Some task" "tv_created_at task + APPROVAL_LIFETIME \<le> se_now E"
    "approve_task P C E tid dec session channel S = (r, S')"
    "tv_state task = TaskState.AWAITING_APPROVAL" "tv_approval task = Some a"
    "ses_authenticated session" "ses_session_id session = tv_user_session_id task"
    "ad_decision dec = REJECT \<or> ap_approval_channel a = channel"
  shows "r = Inl (ApprovalValidationError (str ''APPROVAL_EXPIRED'')) \<and>
    (\<exists>t. dget (sv_tasks S') tid = Some t \<and> lapsed t)"
proof -
  have expiry: "ap_expires_at a \<le> se_now E"
    using service_invD(2) [OF assms(1,2)] assms(3,6) by (simp add: task_inv_def approval_inv_def)
  let ?deny = "deny_task P task (close_approval ApprovalStatus.EXPIRED a) ''approval_expired''
      ''The approval window expired before authorization.'' (se_now E) S"
  have "ApprovalStatus.EXPIRED \<noteq> ApprovalStatus.PENDING" by simp
  from deny_task_inv(2) [OF assms(1,2,5,6) this] obtain v where "fst ?deny = Inr v" by blast
  then obtain D where D: "?deny = (Inr v, D)" by (cases ?deny) simp
  have "ad_decision dec \<noteq> APPROVE \<or> ap_approval_channel a = channel" using assms(9) by auto
  then have "(r, S') = (Inl (ApprovalValidationError (str ''APPROVAL_EXPIRED'')), D)"
    using assms(4) [symmetric] assms(2,5-8) expiry D
    by (simp add: approve_task_def validate_session_def if_not_P)
  moreover have "\<exists>t. dget (sv_tasks D) tid = Some t \<and> lapsed t"
    using deny_expired [OF assms(1,2,5)] D by (metis snd_conv)
  ultimately show ?thesis by simp
qed

text \<open>A rejection by the owner denies the task, before the expiry or after it.\<close>

lemma deny_denies:
  assumes "service_inv P S" "dget (sv_tasks S) tid = Some task" "tv_state task = TaskState.AWAITING_APPROVAL"
  shows "\<exists>t'. dget (sv_tasks (snd (deny_task P task c ty de now S))) tid = Some t' \<and>
    tv_state t' = TaskState.DENIED"
proof -
  have "tv_task_id task = tid" using service_invD(2) [OF assms(1,2)] by (simp add: task_inv_def)
  with assms(3) show ?thesis by (simp add: deny_task_def commit_tasks dict_laws)
qed

lemma reject_denies:
  assumes "service_inv P S" "dget (sv_tasks S) tid = Some task"
    "tv_state task = TaskState.AWAITING_APPROVAL" "tv_approval task = Some a"
    "ap_approval_token a = Some token" "is_ascii token" "is_ascii (ap_payload_sha256 a)"
    "ses_authenticated session" "ses_session_id session = tv_user_session_id task"
  shows "\<exists>task'. dget (sv_tasks (snd (approve_task P C E tid
        \<lparr>ad_approval_id = ap_approval_id a, ad_approval_token = token,
         ad_payload_sha256 = ap_payload_sha256 a, ad_decision = REJECT\<rparr> session channel S))) tid = Some task' \<and>
      tv_state task' = TaskState.DENIED"
proof -
  let ?dec = "\<lparr>ad_approval_id = ap_approval_id a, ad_approval_token = token,
         ad_payload_sha256 = ap_payload_sha256 a, ad_decision = REJECT\<rparr>"
  have "approval_inv P task a" using service_invD(2) [OF assms(1,2)] assms(4) by (simp add: task_inv_def)
  then have "ap_status a = ApprovalStatus.PENDING" using assms(3) by (simp add: approval_inv_def)
  then have "check_decision ?dec a = Inr ()"
    using assms(5-7) by (simp add: check_decision_def compare_digest_def)
  then have "\<exists>c ty de now. snd (approve_task P C E tid ?dec session channel S) = snd (deny_task P task c ty de now S)"
    using assms(2-4,8,9)
    by (cases "ap_expires_at a \<le> se_now E")
      (auto simp: approve_task_def validate_session_def case_prod_beta split: sum.split)
  with deny_denies [OF assms(1-3)] show ?thesis by metis
qed

subsection \<open>The pending list\<close>

lemma pending_sorted: "sorted (map ms_expires_at (list_pending_phone_approvals sid S))"
  by (simp add: list_pending_phone_approvals_def)

lemma phone_summary_iff:
  assumes "task_inv P tid task"
  shows "(\<exists>m. phone_summary sid task = Some m \<and> ms_task_id m = tid') \<longleftrightarrow>
    tid' = tid \<and> tv_user_session_id task = sid \<and> tv_state task = TaskState.AWAITING_APPROVAL \<and>
    (\<exists>a. tv_approval task = Some a \<and> ap_approval_channel a = PHONE)"
  using assms
  by (auto simp: phone_summary_def task_inv_def approval_inv_def split: option.splits)

lemma phone_summary_id: "phone_summary sid task = Some m \<Longrightarrow> ms_task_id m = tv_task_id task"
  by (auto simp: phone_summary_def split: option.splits if_splits)

lemma set_map_filter_Some: "y \<in> set (List.map_filter f xs) \<longleftrightarrow> (\<exists>x\<in>set xs. f x = Some y)"
  by (induction xs) (auto simp: List.map_filter_simps split: option.splits)

lemma pending_tasks:
  assumes "service_inv P S"
  shows "set (map ms_task_id (list_pending_phone_approvals sid S)) =
    {tid. \<exists>task a. dget (sv_tasks S) tid = Some task \<and> tv_user_session_id task = sid \<and>
       tv_state task = TaskState.AWAITING_APPROVAL \<and> tv_approval task = Some a \<and>
       ap_approval_channel a = PHONE}" (is "?L = ?R")
proof -
  have d: "distinct (dkeys (sv_tasks S))" using assms by (simp add: service_inv_def)
  have "tid \<in> ?L \<longleftrightarrow> (\<exists>k task m. dget (sv_tasks S) k = Some task \<and> phone_summary sid task = Some m \<and>
      ms_task_id m = tid)" for tid
    unfolding list_pending_phone_approvals_def set_map set_sort image_iff Bex_def set_map_filter_Some
    using in_dvals_iff [OF d] by blast
  then have "tid \<in> ?L \<longleftrightarrow> tid \<in> ?R" for tid
    using phone_summary_iff [OF service_invD(2) [OF assms], of _ _ sid tid] by blast
  then show ?thesis by blast
qed

lemma map_filter_key:
  assumes "\<And>x m. f x = Some m \<Longrightarrow> g m = h x"
  shows "map g (List.map_filter f xs) = map h (filter (\<lambda>x. f x \<noteq> None) xs)"
  using assms by (induction xs) (auto simp: List.map_filter_simps split: option.splits)

lemma pending_distinct:
  assumes "service_inv P S"
  shows "distinct (map ms_task_id (list_pending_phone_approvals sid S))"
proof -
  have d: "distinct (dkeys (sv_tasks S))" using assms by (simp add: service_inv_def)
  have key: "tv_task_id t = k" if "(k, t) \<in> set (sv_tasks S)" for k t
  proof -
    have "dget (sv_tasks S) k = Some t" using that in_dget_iff [OF d] by blast
    then show ?thesis using service_invD(2) [OF assms] by (auto simp: task_inv_def)
  qed
  then have "map tv_task_id (dvals (sv_tasks S)) = dkeys (sv_tasks S)"
    by (auto simp: dvals_def dkeys_def)
  then have "distinct (map tv_task_id (dvals (sv_tasks S)))" using d by simp
  then have "distinct (map ms_task_id (List.map_filter (phone_summary sid) (dvals (sv_tasks S))))"
    by (simp add: map_filter_key [of _ ms_task_id tv_task_id, OF phone_summary_id] distinct_map_filter)
  then show ?thesis
    by (simp add: list_pending_phone_approvals_def distinct_map inj_on_def distinct_sort)
qed

end
