(* ===== verification/NoteRuns.thy ===== *)
theory NoteRuns
  imports Runs ServiceEffects
begin

section \<open>A concrete run with a note\<close>

text \<open>
  The second scenario of the witnesses, from the sentence to the file and back: a request to
  make a note, its approval on the desktop, the write, and the undo that removes it. The
  pattern, the title rules and the store are evaluated; digests stay symbolic.
\<close>

definition note_text :: ustr where
  "note_text = str ''# a'' @ [10, 10] @ str ''Created with Nexuss.'' @ [10]"

definition note_bytes :: "byte list" where
  "note_bytes = map of_nat note_text"

definition note_prepared :: PreparedNote where
  "note_prepared =
     \<lparr>pn_title = str ''a'', pn_filename = str ''a.md'', pn_content = note_text,
      pn_content_bytes = note_bytes, pn_content_sha256 = pf_sha256 ascii_platform note_bytes\<rparr>"

definition note_intent :: Intent where
  "note_intent =
     \<lparr>in_kind = CREATE_NOTE, in_normalized_text = str ''make note named a'', in_confidence = 99 / 100,
      in_entities = [(str ''title'', str ''a''), (str ''content'', note_text)]\<rparr>"

lemma classify_note: "classify_intent run_platform (str ''make note named a'') = note_intent"
proof -
  have "re_match NOTE_PATTERN (strip (str ''make note named a'')) = Some ([], [(TITLE, str ''a'')])"
    by (simp add: NOTE_PATTERN_def NOTE_HEAD_def NOTE_BODY_def word_i_def spaces_def evaluate)
  moreover have "note_entities [(TITLE, str ''a'')] = [(str ''title'', str ''a''), (str ''content'', note_text)]"
    by (simp add: note_entities_def group_text_def TITLE_def BODY_def format_note_content_def note_text_def evaluate)
  moreover have "normalize_text run_platform (str ''make note named a'') = str ''make note named a''"
    by (simp add: normalize_text_def run_platform_tables evaluate)
  ultimately show ?thesis by (simp add: classify_intent_note note_intent_def)
qed

lemma prepare_note_run: "prepare_note run_platform (str ''a'') note_text = Inr note_prepared"
  by (simp add: prepare_note_def normalize_title_def collapse_spaces_def title_char_def MAX_TITLE_LENGTH_def
      PATH_SEPARATORS_def RESERVED_WINDOWS_NAMES_def upt_rec note_prepared_def normalize_content_def
      MAX_NOTE_BYTES_def run_platform_tables note_text_def note_bytes_def evaluate)

definition note_step :: PlanStep where
  "note_step = plan_step run_platform 6 1 (note_spec note_prepared)"

definition note_plan :: TaskPlan where
  "note_plan =
     \<lparr>pl_plan_id = pf_uuid5 run_platform (str ''nexuss:'' @ uuid_str 6 @ str '':plan:create_note''),
      pl_task_id = 6, pl_intent = note_intent, pl_steps = [note_step]\<rparr>"

lemma build_note_plan: "build_plan run_platform 6 note_intent = Inr note_plan"
  by (simp add: build_plan_def note_plan_def note_step_def plan_specs_if note_intent_def plan_steps_def
      assistant_kinds_def str_append [symmetric] entity_def dget_def prepare_note_run)

lemma note_step_simps:
  "ps_capability_id note_step = str ''workspace.create_note''" "ps_order note_step = 1"
  "ps_parameters note_step = note_parameters note_prepared"
  "ps_risk_tier note_step = MEDIUM" "ps_reversible note_step"
  by (simp_all add: note_step_def plan_step_def note_spec_def spec_def)

definition note_hash :: ustr where
  "note_hash = pf_sha256 ascii_platform (map of_nat (dumps (payload_json note_step)))"

lemma note_payload: "payload_sha256 run_platform note_step = Inr note_hash"
proof -
  have "is_ascii (pn_content_sha256 note_prepared)"
    using ascii_platform_digests valid_sha256_ascii by (simp add: note_prepared_def digests_ok_def valid_sha256_def)
  then have "\<forall>s\<in>json_strs (payload_json note_step). \<forall>c\<in>set s. c < 128"
    by (simp add: payload_json_def note_step_simps jstr_def json_attributes_def note_parameters_def
        is_ascii_def list_all_iff) (simp add: note_prepared_def note_text_def str_def)
  then show ?thesis
    by (simp add: payload_sha256_def encode_utf8_def dumps_ascii note_hash_def run_platform_tables)
qed

lemma note_hash_ascii: "is_ascii note_hash"
  using ascii_platform_digests valid_sha256_ascii by (simp add: note_hash_def digests_ok_def valid_sha256_def)

subsection \<open>The request\<close>

definition note_approval :: ApprovalRequest where
  "note_approval = (case approval_for run_platform (replicate 43 116) 6 9 note_step 0 of Inr a \<Rightarrow> a)"

lemma approval_note: "approval_for run_platform (replicate 43 116) 6 9 note_step 0 = Inr note_approval"
  by (simp add: note_approval_def approval_for_def note_payload Let_def)

lemma note_approval_simps:
  "ap_status note_approval = ApprovalStatus.PENDING"
  "ap_approval_token note_approval = Some (replicate 43 116)" "ap_payload_sha256 note_approval = note_hash"
  "ap_expires_at note_approval = APPROVAL_LIFETIME" "ap_approval_channel note_approval = DESKTOP"
  using approval_for_Inr [OF approval_note] note_payload by (simp_all add: note_step_simps)

definition note_request :: TaskRequest where
  "note_request =
     \<lparr>rq_request_id = 6, rq_channel = TEXT, rq_utterance = str ''make note named a'', rq_user_session_id = 9,
      rq_target_devices = [], rq_requested_at = 0, rq_client_context = []\<rparr>"

definition note_awaiting :: TaskView where
  "note_awaiting =
     \<lparr>tv_task_id = 6, tv_request_id = 6, tv_user_session_id = 9, tv_state = TaskState.AWAITING_APPROVAL,
      tv_intent = note_intent, tv_plan = note_plan, tv_policy_decisions = [evaluate_step note_step],
      tv_results = [],
      tv_events = append_event run_platform 6 (planned_events run_platform (env_at 0) 6 note_plan)
        TaskState.AWAITING_APPROVAL ''approval_requested''
        (str ''Execution is paused pending explicit approval of the exact payload.'') 0,
      tv_approval = Some note_approval, tv_created_at = 0, tv_updated_at = 0\<rparr>"

lemma note_awaiting_simps:
  "tv_state note_awaiting = TaskState.AWAITING_APPROVAL" "tv_task_id note_awaiting = 6"
  "tv_plan note_awaiting = note_plan" "tv_user_session_id note_awaiting = 9"
  "tv_approval note_awaiting = Some note_approval"
  by (simp_all add: note_awaiting_def)

definition note_service1 :: "nat service" where
  "note_service1 = snd (create_task run_platform counting_client (env_at 0) note_request sample_session service0)"

lemma note_service1_inv: "service_inv run_platform note_service1"
  by (simp add: note_service1_def create_task_inv service0_inv)

lemma create_note_run:
  "dget (sv_tasks note_service1) 6 = Some note_awaiting"
  "wd_notes (sv_world note_service1) = sample_store"
proof -
  let ?S = "service0\<lparr>sv_request_index := dput 6 6 (sv_request_index service0)\<rparr>"
  have out: "pd_outcome (evaluate_step note_step) = REQUIRE_APPROVAL"
    by (simp add: outcome_REQUIRE_iff note_step_simps approval_capabilities_def)
  have c: "create_task run_platform counting_client (env_at 0) note_request sample_session service0 =
      commit run_platform note_awaiting ?S"
    by (simp add: create_task_def note_request_def sample_session_def validate_session_def service0_def
        init_service_def dict_laws run_platform_task_id classify_note plan_or_refuse_def build_note_plan
        policy_decisions_def create_outcome_def note_plan_def out approval_note note_awaiting_def env_at_def
        Let_def cong: if_cong)
  obtain L where "commit run_platform note_awaiting ?S =
      (Inr note_awaiting, ?S\<lparr>sv_tasks := dput 6 note_awaiting (sv_tasks ?S), sv_ledger := L\<rparr>)"
  proof (rule commit_ok [of ?S run_platform note_awaiting])
    show "receipts.versioned (sv_ledger ?S)" by (simp add: service0_def init_service_def)
  qed (simp add: note_awaiting_simps)
  with c have eq: "note_service1 =
      ?S\<lparr>sv_tasks := dput 6 note_awaiting (sv_tasks ?S), sv_ledger := L\<rparr>"
    by (simp only: note_service1_def snd_conv)
  show "dget (sv_tasks note_service1) 6 = Some note_awaiting"
    "wd_notes (sv_world note_service1) = sample_store"
    by (simp_all add: eq dict_laws service0_def init_service_def)
qed

subsection \<open>The approval and the write\<close>

definition note_decision :: ApprovalDecision where
  "note_decision =
     \<lparr>ad_approval_id = ap_approval_id note_approval, ad_approval_token = replicate 43 116,
      ad_payload_sha256 = note_hash, ad_decision = APPROVE\<rparr>"

lemma note_decision_checked: "check_decision note_decision note_approval = Inr ()"
  by (simp add: check_decision_def note_decision_def note_approval_simps compare_digest_def note_hash_ascii)
    (simp add: is_ascii_def list_all_iff)

definition note_path :: path where
  "note_path = [str ''w'', str ''a.md'']"

definition note_store_after :: note_store where
  "note_store_after =
     sample_store\<lparr>ns_files := (mkdirs [str ''w''] (\<lambda>p. None))(note_path \<mapsto> File note_bytes)\<rparr>"

definition note_created :: CreatedNote where
  "note_created =
     \<lparr>cn_path = note_path, cn_filename = str ''a.md'', cn_byte_count = length note_bytes,
      cn_sha256 = pf_sha256 ascii_platform note_bytes\<rparr>"

lemma join_note_path: "path_join [str ''w''] (str ''a.md'') = note_path"
  unfolding note_path_def by code_simp

lemma store_note:
  "store_create run_platform plain_os sample_store note_prepared = (note_store_after, Inr note_created)"
  by (simp add: store_create_def write_and_verify_def target_path_def sample_store_def note_prepared_def
      note_created_def note_store_after_def plain_os_def mkdirs_def blocked_def join_note_path
      run_platform_tables Let_def)
    (simp add: note_path_def)

lemma prepared_note_step: "prepared_from_step note_step = Inr note_prepared"
proof -
  have "utf8 note_text = Some note_bytes" by (simp add: note_text_def note_bytes_def evaluate)
  then have "encode_utf8 note_text = Inr note_bytes" by (simp add: encode_utf8_def)
  then show ?thesis
    by (simp add: prepared_from_step_def param_def note_step_simps note_parameters_def dget_def
        note_prepared_def)
qed

definition note_run_result :: CapabilityResult where
  "note_run_result = note_result note_step 1 note_created"

definition note_service2 :: "nat service" where
  "note_service2 = snd (approve_task run_platform counting_client (env_at 1) 6 note_decision sample_session
     DESKTOP note_service1)"

lemma note_service2_inv: "service_inv run_platform note_service2"
  by (simp add: note_service2_def approve_task_inv note_service1_inv)

lemma note_result_simps:
  "cr_status note_run_result = StepStatus.VERIFIED" "cr_evidence note_run_result \<noteq> []"
  "cr_capability_id note_run_result = str ''workspace.create_note''"
  by (simp_all add: note_run_result_def note_result_def note_step_simps)

lemma approve_note_run:
  "\<exists>v. dget (sv_tasks note_service2) 6 = Some v \<and> tv_state v = TaskState.COMPLETED \<and>
     tv_results v = [note_run_result] \<and> tv_user_session_id v = 9"
  "wd_notes (sv_world note_service2) = note_store_after"
proof -
  let ?W = "(sv_world note_service1)\<lparr>wd_notes := note_store_after\<rparr>"
  let ?S = "note_service1\<lparr>sv_world := ?W\<rparr>"
  let ?ev = "append_event run_platform 6 (tv_events note_awaiting) TaskState.APPROVED ''approval_granted''
    (str ''The exact payload was approved by the authenticated desktop session.'') 1"
  have step: "execute_step run_platform (se_exec (env_at 1) k) note_step 1 True (Some counting_client) (Some 6)
      (sv_world note_service1) = (Inr note_run_result, ?W)" for k
    by (simp add: execute_step_def note_step_simps execute_create_note_def prepared_note_step env_at_def
        create_note_run(2) store_note note_run_result_def)
  obtain ev where ex: "execute_authorized_steps run_platform counting_client (env_at 1) 6 note_plan ?ev 1
      (sv_world note_service1) = (Inr (TaskState.COMPLETED, [note_run_result]), ev, ?W)"
    by (simp add: execute_authorized_steps_def note_plan_def note_step_simps step note_result_simps Let_def)
  define v where "v = note_awaiting\<lparr>tv_events := ev, tv_state := TaskState.COMPLETED,
    tv_results := [note_run_result],
    tv_approval := Some (close_approval ApprovalStatus.CONSUMED note_approval), tv_updated_at := 1\<rparr>"
  have v: "tv_task_id v = 6" by (simp add: v_def note_awaiting_simps)
  have "approve_task run_platform counting_client (env_at 1) 6 note_decision sample_session DESKTOP
      note_service1 = grant_task run_platform counting_client (env_at 1) DESKTOP note_awaiting note_approval
      note_service1"
    by (simp add: approve_task_def create_note_run(1) validate_session_def sample_session_def
        note_awaiting_simps note_approval_simps APPROVAL_LIFETIME_def note_decision_checked)
      (simp add: note_decision_def)
  also have "\<dots> = commit run_platform v ?S"
    using ex by (simp add: grant_task_def note_awaiting_simps v_def Let_def)
  finally have eq: "approve_task run_platform counting_client (env_at 1) 6 note_decision sample_session DESKTOP
      note_service1 = commit run_platform v ?S" .
  obtain L where "commit run_platform v ?S = (Inr v, ?S\<lparr>sv_tasks := dput 6 v (sv_tasks ?S), sv_ledger := L\<rparr>)"
  proof (rule commit_ok [of ?S run_platform v])
    show "receipts.versioned (sv_ledger ?S)" using service_invD(1) [OF note_service1_inv] by simp
  qed (simp add: v)
  with eq show "\<exists>v. dget (sv_tasks note_service2) 6 = Some v \<and> tv_state v = TaskState.COMPLETED \<and>
     tv_results v = [note_run_result] \<and> tv_user_session_id v = 9"
    "wd_notes (sv_world note_service2) = note_store_after"
    by (simp_all add: note_service2_def dict_laws v_def note_awaiting_simps)
qed

subsection \<open>The undo\<close>

definition note_service3 :: "nat service" where
  "note_service3 = snd (rollback_task run_platform counting_client (env_at 2) 6 sample_session note_service2)"

lemma rollback_note_store_run:
  "store_rollback run_platform plain_os note_store_after (str ''a.md'') (pf_sha256 ascii_platform note_bytes) =
     (sample_store\<lparr>ns_files := mkdirs [str ''w''] (\<lambda>p. None)\<rparr>, Inr note_path)"
  by (simp add: store_rollback_def target_path_def sample_store_def note_store_after_def plain_os_def
      mkdirs_def join_note_path run_platform_tables Let_def) (simp add: note_path_def fun_upd_idem)

lemma rollback_note_run:
  "ns_files (wd_notes (sv_world note_service3)) note_path = None"
  "ns_files (wd_notes (sv_world note_service2)) note_path = Some (File note_bytes)"
proof -
  show "ns_files (wd_notes (sv_world note_service2)) note_path = Some (File note_bytes)"
    by (simp add: approve_note_run(2) note_store_after_def)
  obtain v where v: "dget (sv_tasks note_service2) 6 = Some v" "tv_state v = TaskState.COMPLETED"
    "tv_results v = [note_run_result]" "tv_user_session_id v = 9"
    using approve_note_run(1) by blast
  have src: "List.find rollback_source (tv_results v) = Some note_run_result"
    using note_result_simps by (simp add: v(3) rollback_source_def REVERSIBLE_CAPABILITIES_def)
  have attrs: "get_str (er_attributes (hd (cr_evidence note_run_result))) ''filename'' [] = str ''a.md''"
    "get_str (er_attributes (hd (cr_evidence note_run_result))) ''sha256'' [] = pf_sha256 ascii_platform note_bytes"
    by (simp_all add: note_run_result_def note_result_def get_str_def dget_def note_created_def)
  have "xe_os (se_exec (env_at 2) 0) = plain_os" by (simp add: env_at_def)
  then have "wd_notes (snd (perform_rollback run_platform counting_client (se_exec (env_at 2) 0) 6
      note_run_result 2 (sv_world note_service2))) = sample_store\<lparr>ns_files := mkdirs [str ''w''] (\<lambda>p. None)\<rparr>"
    by (simp add: perform_rollback_world(1) note_result_simps attrs approve_note_run(2)
        rollback_note_store_run)
  then have "wd_notes (sv_world note_service3) = sample_store\<lparr>ns_files := mkdirs [str ''w''] (\<lambda>p. None)\<rparr>"
    using src v by (simp add: note_service3_def rollback_task_def validate_session_def sample_session_def
        case_prod_beta)
  then show "ns_files (wd_notes (sv_world note_service3)) note_path = None"
    by (simp add: mkdirs_def note_path_def)
qed

end
