(* ===== verification/ServiceProps.thy ===== *)
theory ServiceProps
  imports NoteRuns
begin

section \<open>Properties of the service\<close>

text \<open>
  What the orchestration service guarantees over every sequence of operations from its initial
  state: the approval gate, the finality of decisions, the audit trail, the rollback binding,
  the separation of the two approval channels and of the sessions. Each theorem is a few
  steps over the case rules of \<open>ServiceOps\<close>, \<open>ServiceMoves\<close> and \<open>ServiceEffects\<close>.
\<close>

subsection \<open>Consent\<close>

text \<open>C1. The approval gate. In every reachable state an operation that changes the note store or the
  device is either the approval, by the owner's authenticated session on the right channel,
  within its window, with the approval's token, of a pending task whose only step has
  exactly the payload hash the user approved; or the undo, by the owner, of a verified result
  that such an approval, now consumed, produced. Creating a task never acts.\<close>

theorem approval_gate:
  assumes "S = run P C (init_service N d) ops"
    and "sv_world (service_step P C S op) \<noteq> sv_world S"
  shows "(\<exists>E tid dec session channel task a step.
      op = Decide E tid dec session channel \<and> dget (sv_tasks S) tid = Some task \<and>
      authorised E dec session channel task a \<and> pl_steps (tv_plan task) = [step] \<and>
      payload_sha256 P step = Inr (ad_payload_sha256 dec)) \<or>
    (\<exists>E tid session task source a.
      op = Undo E tid session \<and> dget (sv_tasks S) tid = Some task \<and> ses_authenticated session \<and>
      ses_session_id session = tv_user_session_id task \<and> source \<in> set (tv_results task) \<and>
      cr_status source = StepStatus.VERIFIED \<and> cr_capability_id source \<in> REVERSIBLE_CAPABILITIES \<and>
      tv_approval task = Some a \<and> ap_status a = ApprovalStatus.CONSUMED)"
proof -
  have inv: "service_inv P S" unfolding assms(1) by (rule run_init_inv)
  then show ?thesis
  proof (cases rule: step_world [where C = C and op = op])
    case (executed E tid dec session channel task a step)
    then have "payload_sha256 P step = Inr (ad_payload_sha256 dec)"
      by (auto simp: authorised_def decision_matches_def approval_inv_def)
    with executed show ?thesis by blast
  next
    case (undone E tid session task source)
    with source_consumed [OF inv undone(2,6,7)] show ?thesis
      by (auto simp: rollback_source_def)
  qed (use assms(2) in simp)
qed

theorem approval_gate_witness:
  "\<exists>dec task a step. dget (sv_tasks service1) 5 = Some task \<and>
     authorised (env_at 1) dec sample_session PHONE task a \<and> pl_steps (tv_plan task) = [step] \<and>
     payload_sha256 run_platform step = Inr (ad_payload_sha256 dec)"
proof -
  have s: "service1 = run run_platform counting_client (init_service sample_store 0)
      [Create (env_at 0) sample_request sample_session]"
    by (simp add: service1_def service0_def)
  have "sv_world (service_step run_platform counting_client service1
      (Decide (env_at 1) 5 (sample_decision APPROVE) sample_session PHONE)) \<noteq> sv_world service1"
    using approve_run by (metis n_not_Suc_n service_step.simps(2) snd_conv)
  from approval_gate [OF s this] show ?thesis by auto
qed

text \<open>C16. Channels do not mix: only an approval from the phone, or the undo of what one launched,
  changes the device; only a decision of the desktop, or an undo, changes the note store.\<close>

theorem channels_separate:
  assumes "S = run P C (init_service N d) ops"
    and "service_step P C S (Decide E tid dec session channel) = S'"
  shows "(wd_device (sv_world S') \<noteq> wd_device (sv_world S) \<longrightarrow> channel = PHONE) \<and>
    (wd_notes (sv_world S') \<noteq> wd_notes (sv_world S) \<longrightarrow> channel = DESKTOP)"
proof -
  have "service_inv P S" unfolding assms(1) by (rule run_init_inv)
  then show ?thesis
  proof (cases rule: step_world [where C = C and op = "Decide E tid dec session channel"])
    case (executed E' tid' dec' session' channel' task a step)
    then have ch: "channel =
        (if ps_capability_id step = str ''device.launch_notepad'' then PHONE else DESKTOP)"
      by (auto simp: authorised_def approval_inv_def)
    let ?X = "se_exec E (ps_order step)"
    have w: "sv_world S' = snd (execute_step P ?X step (se_now E) True (Some C) (Some tid) (sv_world S))"
      using executed(1,6) assms(2) by simp
    show ?thesis
    proof (intro conjI impI)
      assume "wd_device (sv_world S') \<noteq> wd_device (sv_world S)"
      with w ch show "channel = PHONE" using execute_step_device by metis
    next
      assume "wd_notes (sv_world S') \<noteq> wd_notes (sv_world S)"
      with w have "ps_capability_id step = str ''workspace.create_note''"
        using execute_step_store [of P ?X step "se_now E" True "Some C" "Some tid" "sv_world S"] by auto
      with ch show "channel = DESKTOP" by simp
    qed
  qed (use assms(2) in simp_all)
qed

theorem channels_separate_witness:
  "wd_device (sv_world service2) \<noteq> wd_device (sv_world service1) \<and>
     wd_notes (sv_world service2) = wd_notes (sv_world service1)"
proof -
  have s: "service1 = run run_platform counting_client (init_service sample_store 0)
      [Create (env_at 0) sample_request sample_session]"
    by (simp add: service1_def service0_def)
  have t: "service_step run_platform counting_client service1
      (Decide (env_at 1) 5 (sample_decision APPROVE) sample_session PHONE) = service2"
    by (simp add: service2_def)
  from channels_separate [OF s t] approve_run(3) show ?thesis by auto
qed

text \<open>C21. An approval is short-lived. From five minutes (300 million microseconds) after its task was
  created, no decision on it, of any session, kind and channel, does anything but fail: note
  store and device stay as they are, and either nothing changes at all or the task, which was
  awaiting approval, is denied, its approval expired and its token gone. The latter is what any
  rejection by the owner and any approval by the owner on the right channel then leads to.\<close>

theorem approval_window:
  assumes "S = run P C (init_service N d) ops" and "dget (sv_tasks S) tid = Some task"
    and "tv_created_at task + 300000000 \<le> se_now E"
    and "approve_task P C E tid dec session channel S = (r, S')"
  shows "(\<exists>e. r = Inl e) \<and> sv_world S' = sv_world S \<and>
    (S' = S \<or>
       tv_state task = TaskState.AWAITING_APPROVAL \<and> (\<exists>t. dget (sv_tasks S') tid = Some t \<and> lapsed t)) \<and>
    (\<forall>a. tv_state task = TaskState.AWAITING_APPROVAL \<and> tv_approval task = Some a \<and>
       ses_authenticated session \<and> ses_session_id session = tv_user_session_id task \<and>
       (ad_decision dec = REJECT \<or> ap_approval_channel a = channel) \<longrightarrow>
       r = Inl (ApprovalValidationError (str ''APPROVAL_EXPIRED'')) \<and>
       (\<exists>t. dget (sv_tasks S') tid = Some t \<and> lapsed t))"
proof -
  have inv: "service_inv P S" unfolding assms(1) by (rule run_init_inv)
  have late: "tv_created_at task + APPROVAL_LIFETIME \<le> se_now E"
    using assms(3) by (simp add: APPROVAL_LIFETIME_def)
  show ?thesis
    using late_decision [OF inv assms(2) late assms(4)] late_decision_closes [OF inv assms(2) late assms(4)]
    by blast
qed

theorem approval_window_witness:
  "\<exists>S' t. approve_task run_platform counting_client (env_at 300000000) 5 (sample_decision APPROVE)
       sample_session PHONE service1 = (Inl (ApprovalValidationError (str ''APPROVAL_EXPIRED'')), S') \<and>
     sv_world S' = sv_world service1 \<and> dget (sv_tasks S') 5 = Some t \<and> lapsed t"
proof -
  obtain r S' where d: "approve_task run_platform counting_client (env_at 300000000) 5 (sample_decision APPROVE)
      sample_session PHONE service1 = (r, S')" by (rule prod.exhaust)
  have s: "service1 = run run_platform counting_client (init_service sample_store 0)
      [Create (env_at 0) sample_request sample_session]"
    by (simp add: service1_def service0_def)
  have late: "tv_created_at awaiting_view + 300000000 \<le> se_now (env_at 300000000)"
    by (simp add: awaiting_view_def env_at_def)
  have v: "tv_state awaiting_view = TaskState.AWAITING_APPROVAL" "tv_approval awaiting_view = Some run_approval"
    "ses_authenticated sample_session" "ses_session_id sample_session = tv_user_session_id awaiting_view"
    by (simp_all add: awaiting_view_def sample_session_def)
  from approval_window [OF s create_run(2) late d] v run_approval_simps(7) d show ?thesis by blast
qed

subsection \<open>Receipts\<close>

text \<open>C13. Truthful receipts. In every reachable state each task has a receipt history, versioned
  from one, whose last entry reports the task's state and results; a completed task has
  results, all of them verified with evidence; and every result of a controlled capability
  was produced under an approval that is consumed.\<close>

theorem receipts_truthful:
  assumes "S = run P C (init_service N d) ops" and "dget (sv_tasks S) tid = Some task"
  shows "\<exists>history r. get_receipt_history tid S = Inr history \<and> get_receipt tid S = Inr r \<and>
      last history = r \<and> map rc_receipt_version history = map Suc [0..<length history] \<and>
      rc_task_id r = tid \<and> rc_state r = tv_state task \<and> rc_results r = tv_results task \<and>
      (rc_state r = TaskState.COMPLETED \<longrightarrow> rc_results r \<noteq> [] \<and>
        (\<forall>x\<in>set (rc_results r). cr_status x = StepStatus.VERIFIED \<and> cr_evidence x \<noteq> [])) \<and>
      (\<forall>x\<in>set (rc_results r). cr_capability_id x \<in> REVERSIBLE_CAPABILITIES \<longrightarrow>
        (\<exists>a. tv_approval task = Some a \<and> ap_status a = ApprovalStatus.CONSUMED))"
proof -
  have inv: "service_inv P S" unfolding assms(1) by (rule run_init_inv)
  note task = service_invD(2) [OF inv assms(2)]
  obtain r where r: "ledger_get (sv_ledger S) tid = Some r" "receipt_matches r task"
    using service_invD(5) [OF inv assms(2)] by blast
  let ?h = "ledger_history (sv_ledger S) tid"
  have h: "?h \<noteq> []" "last ?h = r"
    using r(1) receipts.get_history [of "sv_ledger S" tid] by (auto split: if_splits)
  have v: "map rc_receipt_version ?h = map Suc [0..<length ?h]" "\<forall>x\<in>set ?h. rc_task_id x = tid"
    using service_invD(1) [OF inv] by (auto simp: receipts.versioned_def)
  have "rc_task_id r = tid" using v(2) h by auto
  with h v r task show ?thesis
    by (auto simp: get_receipt_history_def get_receipt_def receipt_matches_def task_inv_def
        all_verified_def list_all_iff)
qed

theorem receipts_truthful_witness:
  "\<exists>history r. get_receipt_history 5 service2 = Inr history \<and> get_receipt 5 service2 = Inr r \<and>
     last history = r \<and> rc_state r = TaskState.COMPLETED \<and> rc_results r = [run_result]"
proof -
  have s: "service2 = run run_platform counting_client (init_service sample_store 0)
      [Create (env_at 0) sample_request sample_session,
       Decide (env_at 1) 5 (sample_decision APPROVE) sample_session PHONE]"
    by (simp add: service2_def service1_def service0_def)
  have v: "tv_state completed_view = TaskState.COMPLETED" "tv_results completed_view = [run_result]"
    by (simp_all add: completed_view_def)
  from receipts_truthful [OF s approve_run(2)] show ?thesis unfolding v by blast
qed

text \<open>C25. The audit trail is append-only: whatever operations follow, with any outcome, the receipt
  history of every task keeps its entries and only grows at the end.\<close>

theorem history_append_only:
  "prefix (ledger_history (sv_ledger (run P C (init_service N d) ops)) tid)
     (ledger_history (sv_ledger (run P C (init_service N d) (ops @ later))) tid)"
  using nexuss.run_split_le [OF service_inv_init, of P C N d ops later] by (simp add: history_le_def)

text \<open>C17. The state of the service is well formed after any sequence of operations: tasks are filed
  under their own identifier, logs are numbered from the received request, an approval is
  bound to its task, pending with its token exactly while the task awaits it, and index,
  tasks and ledger refer to each other.\<close>

theorem service_invariant: "service_inv P (run P C (init_service N d) ops)"
  by (rule run_init_inv)

text \<open>C26. Idempotent requests: once a request has created a task, creating it again, later and in
  whatever session, returns the stored task and changes nothing.\<close>

theorem create_idempotent:
  assumes "dget (sv_request_index (run P C (init_service N d) ops)) (rq_request_id request) = Some tid"
    and "S = run P C (init_service N d) (ops @ later)"
  shows "\<exists>task. dget (sv_tasks S) tid = Some task \<and> tid = task_id_of P (rq_request_id request) \<and>
    create_task P C E request session S = (Inr task, S)"
proof -
  have inv: "service_inv P S" unfolding assms(2) by (rule run_init_inv)
  have ix: "dget (sv_request_index S) (rq_request_id request) = Some tid"
    using nexuss.run_split_le [OF service_inv_init, of P C N d ops later] assms by (simp add: history_le_def)
  then have "tid = task_id_of P (rq_request_id request)" "dget (sv_tasks S) tid \<noteq> None"
    using inv by (auto simp: service_inv_def)
  with ix show ?thesis by (auto simp: create_task_def)
qed

theorem create_idempotent_witness:
  "create_task run_platform counting_client (env_at 7) sample_request
     \<lparr>ses_session_id = 0, ses_authenticated = False, ses_assurance_level = BASIC\<rparr> service1 =
   (Inr awaiting_view, service1)"
proof -
  have s: "service1 = run run_platform counting_client (init_service sample_store 0)
      ([Create (env_at 0) sample_request sample_session] @ [])"
    by (simp add: service1_def service0_def)
  have "dget (sv_request_index service1) (tv_request_id awaiting_view) = Some 5"
    by (rule service_invD(4) [OF service1_inv create_run(2)])
  then have ix: "dget (sv_request_index (run run_platform counting_client (init_service sample_store 0)
      [Create (env_at 0) sample_request sample_session])) (rq_request_id sample_request) = Some 5"
    by (simp add: service1_def service0_def awaiting_view_def sample_request_def)
  from create_idempotent [OF ix s] show ?thesis by (simp add: create_run(2))
qed

subsection \<open>States\<close>

text \<open>C9. A decision is final. Once a task is settled, whatever operations follow, every further
  approval or rejection of it is refused and changes nothing; no task is ever approved
  twice. (Task identifiers are \<open>uuid5\<close> hashes of request identifiers: the hypothesis is that
  no other request hashes to this task.)\<close>

theorem decision_is_final:
  assumes "dget (sv_tasks (run P C (init_service N d) ops)) tid = Some task"
    and "tv_state task \<noteq> TaskState.AWAITING_APPROVAL"
    and "\<forall>rid. task_id_of P rid = tid \<longrightarrow> rid = tv_request_id task"
    and "S = run P C (init_service N d) (ops @ later)"
  shows "\<exists>e. approve_task P C E tid dec session channel S = (Inl e, S)"
proof -
  have "S = run P C (run P C (init_service N d) ops) later" using assms(4) by simp
  with settled_run [OF run_init_inv assms(1-3), of C later] obtain t' where
    "dget (sv_tasks S) tid = Some t'" "tv_state t' \<noteq> TaskState.AWAITING_APPROVAL" by blast
  then show ?thesis by (rule settled_refused)
qed

theorem decision_is_final_witness:
  "\<exists>e. approve_task run_platform counting_client (env_at 3) 5 (sample_decision APPROVE) sample_session PHONE
     service3 = (Inl e, service3)"
proof -
  have t: "dget (sv_tasks (run run_platform counting_client (init_service sample_store 0)
      [Create (env_at 0) sample_request sample_session,
       Decide (env_at 1) 5 (sample_decision APPROVE) sample_session PHONE])) 5 = Some completed_view"
    using approve_run(2) by (simp add: service2_def service1_def service0_def)
  have s: "service3 = run run_platform counting_client (init_service sample_store 0)
      ([Create (env_at 0) sample_request sample_session,
        Decide (env_at 1) 5 (sample_decision APPROVE) sample_session PHONE] @
       [Undo (env_at 2) 5 sample_session])"
    by (simp add: service3_def service2_def service1_def service0_def)
  have "tv_state completed_view \<noteq> TaskState.AWAITING_APPROVAL"
    "\<forall>rid. task_id_of run_platform rid = 5 \<longrightarrow> rid = tv_request_id completed_view"
    by (simp_all add: completed_view_def awaiting_view_def run_platform_task_id)
  from decision_is_final [OF t this s] show ?thesis .
qed

text \<open>The run in which the client raises: the log says executing, the task still awaits approval.\<close>

lemma crash_log:
  "\<exists>events. dget (sv_tasks (service_step run_platform crashing_client service1
       (Decide (env_at 1) 5 (sample_decision APPROVE) sample_session PHONE))) 5 =
       Some (awaiting_view\<lparr>tv_events := events\<rparr>) \<and>
     map ev_state events = [TaskState.RECEIVED, TaskState.PLANNED, TaskState.AWAITING_APPROVAL,
       TaskState.APPROVED, TaskState.EXECUTING]"
proof -
  obtain S where S: "approve_task run_platform crashing_client (env_at 1) 5 (sample_decision APPROVE)
      sample_session PHONE service1 = (Inl (ValueError (str ''not JSON'')), S)" "S \<noteq> service1"
    using crash_run by blast
  obtain events where "dget (sv_tasks S) 5 = Some (awaiting_view\<lparr>tv_events := events\<rparr>)"
    "map ev_state events = map ev_state (tv_events awaiting_view) @ [TaskState.APPROVED, TaskState.EXECUTING]"
    using approve_raised [OF service1_inv create_run(2) authorised_run S] by blast
  then show ?thesis using S(1) by (simp add: awaiting_view_def)
qed

text \<open>C11. Refinement. Projected to the states of its tasks, the service is a small machine: an
  operation leaves every task but one alone, and that one is unchanged; or keeps everything
  but its log, to which an attempt ended by an exception was added; or makes a move of
  \<open>task_move\<close> (deny, complete, fail, undo, failed undo) and adds to its log a path of the
  transition table from the old state to the new one; or is new, by a \<open>Create\<close> of an
  authenticated session, in an initial state, with a log that is a path from received to it.
  So, in every reachable state, the log of every task is a path of the transition table from
  received to the state of the task, with aborted attempts in between.\<close>

theorem service_refines_lifecycle:
  assumes "S = run P C (init_service N d) ops" and "S' = service_step P C S op"
  shows "(\<forall>tid. tid \<noteq> touches P op \<longrightarrow> dget (sv_tasks S') tid = dget (sv_tasks S) tid) \<and>
    (dget (sv_tasks S') (touches P op) = dget (sv_tasks S) (touches P op) \<or>
     (\<exists>t attempt. dget (sv_tasks S) (touches P op) = Some t \<and>
        dget (sv_tasks S') (touches P op) = Some (t\<lparr>tv_events := tv_events t @ attempt\<rparr>) \<and>
        aborted_attempt (tv_state t) (map ev_state attempt)) \<or>
     (\<exists>t t'. dget (sv_tasks S) (touches P op) = Some t \<and> dget (sv_tasks S') (touches P op) = Some t' \<and>
        task_move (tv_state t) (tv_state t') \<and>
        log_run (tv_events t) (tv_state t) (tv_events t') (tv_state t')) \<or>
     (\<exists>E request session t'. op = Create E request session \<and> ses_authenticated session \<and>
        dget (sv_request_index S) (rq_request_id request) = None \<and>
        dget (sv_tasks S') (touches P op) = Some t' \<and> tv_user_session_id t' = ses_session_id session \<and>
        tv_state t' \<in> INITIAL_STATES \<and> tidy_log (tv_events t') (tv_state t'))) \<and>
    (\<forall>tid t. dget (sv_tasks S') tid = Some t \<longrightarrow>
       (\<exists>path. lifecycle_path path \<and> last path = tv_state t \<and> audited path (map ev_state (tv_events t))))"
    (is "?others \<and> ?touched \<and> ?logs")
proof (intro conjI)
  have inv: "service_inv P S" unfolding assms(1) by (rule run_init_inv)
  then show ?others using step_other_tasks [OF inv] assms(2) by blast
  from inv refl [of "touches P op"] show ?touched
  proof (cases rule: step_task [where C = C])
    case (created t')
    then show ?thesis
      using assms(2) by (cases op) (simp_all add: fresh_def)
  qed (use assms(2) in \<open>auto simp: grown_def moved_def\<close>)
  have "S' = run P C (init_service N d) (ops @ [op])" using assms by simp
  then have "audited_service P S'" using run_audited by metis
  then have "audit_log t" if "dget (sv_tasks S') tid = Some t" for tid t
    using that by (simp add: audited_service_def)
  then show ?logs unfolding audit_log_def by (metis audited_path)
qed

theorem service_refines_lifecycle_witness:
  "log_run (tv_events awaiting_view) TaskState.AWAITING_APPROVAL completed_events TaskState.COMPLETED \<and>
   (\<exists>path. lifecycle_path path \<and> last path = TaskState.COMPLETED \<and> audited path (map ev_state completed_events)) \<and>
   (\<exists>t path. dget (sv_tasks (service_step run_platform crashing_client service1
        (Decide (env_at 1) 5 (sample_decision APPROVE) sample_session PHONE))) 5 = Some t \<and>
      map ev_state (tv_events t) = [TaskState.RECEIVED, TaskState.PLANNED, TaskState.AWAITING_APPROVAL,
        TaskState.APPROVED, TaskState.EXECUTING] \<and>
      tv_state t = TaskState.AWAITING_APPROVAL \<and> lifecycle_path path \<and> last path = tv_state t \<and>
      audited path (map ev_state (tv_events t)))"
proof -
  have s: "service1 = run run_platform counting_client (init_service sample_store 0)
      [Create (env_at 0) sample_request sample_session]"
    by (simp add: service1_def service0_def)
  have t: "service2 = service_step run_platform counting_client service1
      (Decide (env_at 1) 5 (sample_decision APPROVE) sample_session PHONE)"
    by (simp add: service2_def)
  have v: "tv_state awaiting_view = TaskState.AWAITING_APPROVAL" "tv_state completed_view = TaskState.COMPLETED"
    "tv_events completed_view = completed_events"
    by (simp_all add: awaiting_view_def completed_view_def)
  then have ne: "completed_view \<noteq> awaiting_view\<lparr>tv_events := ev\<rparr>" "completed_view \<noteq> awaiting_view" for ev
    by (auto dest: arg_cong [where f = tv_state])
  from service_refines_lifecycle [OF s t] create_run(2) approve_run(2) ne v have completed:
    "log_run (tv_events awaiting_view) TaskState.AWAITING_APPROVAL completed_events TaskState.COMPLETED"
    "\<exists>path. lifecycle_path path \<and> last path = TaskState.COMPLETED \<and> audited path (map ev_state completed_events)"
    by (simp_all add: touches_def) (metis v(2,3))
  have s': "service1 = run run_platform crashing_client (init_service sample_store 0)
      [Create (env_at 0) sample_request sample_session]"
    using create_run(1) [of crashing_client] by (simp add: service0_def)
  obtain S where t': "S = service_step run_platform crashing_client service1
      (Decide (env_at 1) 5 (sample_decision APPROVE) sample_session PHONE)" by blast
  from crash_log [folded t'] obtain events where events: "dget (sv_tasks S) 5 = Some (awaiting_view\<lparr>tv_events := events\<rparr>)"
    "map ev_state events = [TaskState.RECEIVED, TaskState.PLANNED, TaskState.AWAITING_APPROVAL,
       TaskState.APPROVED, TaskState.EXECUTING]"
    by (elim exE conjE)
  from service_refines_lifecycle [OF s' t'] events(1) obtain path where "lifecycle_path path"
    "last path = TaskState.AWAITING_APPROVAL" "audited path (map ev_state events)"
    using v(1) by fastforce
  with completed events v(1) show ?thesis unfolding t' [symmetric]
    by (intro conjI completed exI [of _ "awaiting_view\<lparr>tv_events := events\<rparr>"] exI [of _ path]) simp_all
qed

subsection \<open>Files\<close>

text \<open>C15. Containment: over any sequence of operations and whatever the operating system answers, a
  file that does not lie directly in the managed directory is never created, changed or
  removed.\<close>

theorem files_outside_untouched:
  assumes "butlast p \<noteq> ns_root N"
  shows "ns_files (wd_notes (sv_world (run P C (init_service N d) ops))) p = Some (File b) \<longleftrightarrow>
    ns_files N p = Some (File b)"
proof -
  obtain xs where "wd_notes (sv_world (run P C (init_service N d) ops)) = foldl (vault.apply_op P) N xs"
    using run_store [OF service_inv_init, of P C N d ops] by (auto simp: init_service_def)
  with vault.run_outside [OF assms] show ?thesis by simp
qed

theorem files_outside_untouched_witness:
  "\<forall>ops. ns_files (wd_notes (sv_world (run run_platform counting_client service0 ops))) [str ''etc'', str ''hosts''] \<noteq>
     Some (File [1])"
proof -
  have "butlast [str ''etc'', str ''hosts''] \<noteq> ns_root sample_store"
    by (simp add: sample_store_def str_def)
  from files_outside_untouched [OF this, of run_platform counting_client 0 _ "[1]"] show ?thesis
    by (simp add: service0_def sample_store_def)
qed

text \<open>C10. Undo is receipt-bound: an undo that changes a file changes only the one named by the
  evidence of the task's verified note, in the managed directory, and only while the content
  read back still has the digest that evidence recorded.\<close>

theorem undo_receipt_bound:
  assumes "S = run P C (init_service N d) ops" and "S' = service_step P C S (Undo E tid session)"
    and "ns_files (wd_notes (sv_world S')) p \<noteq> ns_files (wd_notes (sv_world S)) p"
  shows "\<exists>task source stored actual.
      dget (sv_tasks S) tid = Some task \<and> ses_session_id session = tv_user_session_id task \<and>
      tv_state task = TaskState.COMPLETED \<and> source \<in> set (tv_results task) \<and>
      cr_capability_id source = str ''workspace.create_note'' \<and> cr_status source = StepStatus.VERIFIED \<and>
      butlast p = ns_root (wd_notes (sv_world S)) \<and>
      p = os_real (xe_os (se_exec E 0)) (path_join (ns_root (wd_notes (sv_world S)))
        (get_str (er_attributes (hd (cr_evidence source))) ''filename'' [])) \<and>
      ns_files (wd_notes (sv_world S)) p = Some (File stored) \<and>
      os_read (xe_os (se_exec E 0)) stored = Inr actual \<and>
      pf_sha256 P actual = get_str (er_attributes (hd (cr_evidence source))) ''sha256'' []"
proof -
  have inv: "service_inv P S" unfolding assms(1) by (rule run_init_inv)
  then show ?thesis
  proof (cases rule: step_world [where C = C and op = "Undo E tid session"])
    case (undone E' tid' session' task source)
    from assms(2,3) undone(1,8) have
      "ns_files (wd_notes (snd (perform_rollback P C (se_exec E 0) tid source (se_now E) (sv_world S)))) p \<noteq>
         ns_files (wd_notes (sv_world S)) p" by simp
    then have cap: "cr_capability_id source = str ''workspace.create_note''"
      and change: "ns_files (fst (store_rollback P (xe_os (se_exec E 0)) (wd_notes (sv_world S))
        (get_str (er_attributes (hd (cr_evidence source))) ''filename'' [])
        (get_str (er_attributes (hd (cr_evidence source))) ''sha256'' []))) p \<noteq>
        ns_files (wd_notes (sv_world S)) p"
      unfolding perform_rollback_world(1) by (auto split: if_splits)
    from change show ?thesis
    proof (rule store_rollback_change)
      fix stored actual
      assume "p = os_real (xe_os (se_exec E 0)) (path_join (ns_root (wd_notes (sv_world S)))
          (get_str (er_attributes (hd (cr_evidence source))) ''filename'' []))"
        "butlast p = ns_root (wd_notes (sv_world S))"
        "ns_files (wd_notes (sv_world S)) p = Some (File stored)"
        "os_read (xe_os (se_exec E 0)) stored = Inr actual"
        "pf_sha256 P actual = get_str (er_attributes (hd (cr_evidence source))) ''sha256'' []"
      with undone cap show ?thesis by (auto simp: rollback_source_def)
    qed
  qed (use assms in simp_all)
qed

theorem undo_receipt_bound_witness:
  "\<exists>task source actual. dget (sv_tasks note_service2) 6 = Some task \<and> source \<in> set (tv_results task) \<and>
     cr_capability_id source = str ''workspace.create_note'' \<and>
     butlast note_path = ns_root (wd_notes (sv_world note_service2)) \<and>
     pf_sha256 run_platform actual = get_str (er_attributes (hd (cr_evidence source))) ''sha256'' []"
proof -
  have s: "note_service2 = run run_platform counting_client (init_service sample_store 0)
      [Create (env_at 0) note_request sample_session,
       Decide (env_at 1) 6 note_decision sample_session DESKTOP]"
    by (simp add: note_service2_def note_service1_def service0_def)
  have t: "note_service3 = service_step run_platform counting_client note_service2 (Undo (env_at 2) 6 sample_session)"
    by (simp add: note_service3_def)
  have d: "ns_files (wd_notes (sv_world note_service3)) note_path \<noteq> ns_files (wd_notes (sv_world note_service2)) note_path"
    by (simp add: rollback_note_run)
  from undo_receipt_bound [OF s t d] show ?thesis by blast
qed

subsection \<open>Sessions and refusals\<close>

text \<open>C27. Sessions are isolated: a session that is not authenticated, or is not the one that owns the
  task, can neither decide nor undo it; the refusal names the session and nothing changes.\<close>

theorem foreign_session_refused:
  assumes "dget (sv_tasks S) tid = Some task"
    and "\<not> ses_authenticated session \<or> ses_session_id session \<noteq> tv_user_session_id task"
  shows "approve_task P C E tid dec session channel S =
      (Inl (InvalidSessionError (str ''Authenticated session does not match the task'')), S) \<and>
    rollback_task P C E tid session S =
      (Inl (InvalidSessionError (str ''Authenticated session does not match the task'')), S)"
  using assms by (auto simp: approve_task_def rollback_task_def validate_session_def)

theorem foreign_session_refused_witness:
  "approve_task run_platform counting_client (env_at 1) 5 (sample_decision APPROVE)
     (sample_session\<lparr>ses_session_id := 8\<rparr>) PHONE service1 =
   (Inl (InvalidSessionError (str ''Authenticated session does not match the task'')), service1)"
proof -
  have "ses_session_id (sample_session\<lparr>ses_session_id := 8\<rparr>) \<noteq> tv_user_session_id awaiting_view"
    by (simp add: awaiting_view_def)
  with foreign_session_refused [OF create_run(2)] show ?thesis by blast
qed

text \<open>C28. The phone sees exactly what awaits it: in every reachable state the pending list of a
  session has one entry per task of that session that awaits an approval on the phone
  channel, ordered by expiry.\<close>

theorem pending_list_exact:
  assumes "S = run P C (init_service N d) ops"
  shows "sorted (map ms_expires_at (list_pending_phone_approvals sid S)) \<and>
    distinct (map ms_task_id (list_pending_phone_approvals sid S)) \<and>
    set (map ms_task_id (list_pending_phone_approvals sid S)) =
      {tid. \<exists>task a. dget (sv_tasks S) tid = Some task \<and> tv_user_session_id task = sid \<and>
         tv_state task = TaskState.AWAITING_APPROVAL \<and> tv_approval task = Some a \<and>
         ap_approval_channel a = PHONE}"
proof -
  have "service_inv P S" unfolding assms by (rule run_init_inv)
  then show ?thesis by (simp only: pending_sorted pending_distinct pending_tasks simp_thms)
qed

theorem pending_list_exact_witness:
  "5 \<in> set (map ms_task_id (list_pending_phone_approvals 9 service1))"
proof -
  have s: "service1 = run run_platform counting_client (init_service sample_store 0)
      [Create (env_at 0) sample_request sample_session]"
    by (simp add: service1_def service0_def)
  have "tv_user_session_id awaiting_view = 9" "tv_state awaiting_view = TaskState.AWAITING_APPROVAL"
    "tv_approval awaiting_view = Some run_approval" "ap_approval_channel run_approval = PHONE"
    by (simp_all add: awaiting_view_def run_approval_simps)
  with pending_list_exact [OF s, of 9] create_run(2) show ?thesis by blast
qed

text \<open>C19. What an exception that the service does not handle leaves behind: when an authorised
  decision ends with one after it changed anything, the task still awaits approval with the same pending token, and
  the very same decision is still authorised; only the event log of the task has grown, so it
  says approved and executing while the task does not.\<close>

theorem approval_survives_exception:
  assumes "S = run P C (init_service N d) ops" and "dget (sv_tasks S) tid = Some task"
    and "authorised E dec session channel task a"
    and "approve_task P C E tid dec session channel S = (Inl e, S')" and "S' \<noteq> S"
  shows "\<exists>events. dget (sv_tasks S') tid = Some (task\<lparr>tv_events := events\<rparr>) \<and>
    authorised E dec session channel (task\<lparr>tv_events := events\<rparr>) a \<and>
    map ev_state events = map ev_state (tv_events task) @ [TaskState.APPROVED, TaskState.EXECUTING] \<and>
    sv_ledger S' = sv_ledger S"
proof -
  have "service_inv P S" unfolding assms(1) by (rule run_init_inv)
  from approve_raised [OF this assms(2-5)] show ?thesis .
qed

theorem approval_survives_exception_witness:
  "\<exists>S events. dget (sv_tasks S) 5 = Some (awaiting_view\<lparr>tv_events := events\<rparr>) \<and>
     approve_task run_platform crashing_client (env_at 1) 5 (sample_decision APPROVE) sample_session PHONE
       service1 = (Inl (ValueError (str ''not JSON'')), S) \<and>
     authorised (env_at 1) (sample_decision APPROVE) sample_session PHONE
       (awaiting_view\<lparr>tv_events := events\<rparr>) run_approval"
proof -
  have s: "service1 = run run_platform crashing_client (init_service sample_store 0)
      [Create (env_at 0) sample_request sample_session]"
    using create_run(1) [of crashing_client] by (simp add: service0_def)
  obtain S where S: "approve_task run_platform crashing_client (env_at 1) 5 (sample_decision APPROVE)
      sample_session PHONE service1 = (Inl (ValueError (str ''not JSON'')), S)" "S \<noteq> service1"
    using crash_run by blast
  from approval_survives_exception [OF s create_run(2) authorised_run S] S(1) show ?thesis by blast
qed

text \<open>C20. A pending approval can always be closed: at any time, before its expiry or after it, and
  on either channel, its owner's rejection leaves the task denied. (Tokens and digests are
  ASCII, as \<open>token_urlsafe\<close> and \<open>hexdigest\<close> are.)\<close>

theorem awaiting_can_be_closed:
  assumes "S = run P C (init_service N d) ops" and "dget (sv_tasks S) tid = Some task"
    and "tv_state task = TaskState.AWAITING_APPROVAL" and "tv_approval task = Some a"
    and "ap_approval_token a = Some token" "is_ascii token" "is_ascii (ap_payload_sha256 a)"
    and "ses_authenticated session" "ses_session_id session = tv_user_session_id task"
  shows "\<exists>task'. dget (sv_tasks (snd (approve_task P C E tid
        \<lparr>ad_approval_id = ap_approval_id a, ad_approval_token = token,
         ad_payload_sha256 = ap_payload_sha256 a, ad_decision = REJECT\<rparr> session channel S))) tid = Some task' \<and>
      tv_state task' = TaskState.DENIED"
proof -
  have "service_inv P S" unfolding assms(1) by (rule run_init_inv)
  from reject_denies [OF this assms(2-)] show ?thesis .
qed

theorem awaiting_can_be_closed_witness:
  "\<exists>task'. dget (sv_tasks (snd (approve_task run_platform counting_client (env_at 400000000) 5
      (sample_decision REJECT) sample_session DESKTOP service1))) 5 = Some task' \<and>
     tv_state task' = TaskState.DENIED"
proof -
  have s: "service1 = run run_platform counting_client (init_service sample_store 0)
      [Create (env_at 0) sample_request sample_session]"
    by (simp add: service1_def service0_def)
  have v: "tv_state awaiting_view = TaskState.AWAITING_APPROVAL" "tv_approval awaiting_view = Some run_approval"
    "ses_authenticated sample_session" "ses_session_id sample_session = tv_user_session_id awaiting_view"
    by (simp_all add: awaiting_view_def sample_session_def)
  have a: "is_ascii (replicate 43 116)" "is_ascii (ap_payload_sha256 run_approval)"
    by (simp add: is_ascii_def list_all_iff) (simp add: run_approval_simps run_hash_ascii)
  from awaiting_can_be_closed [OF s create_run(2) v(1,2) run_approval_simps(4) a v(3,4)] show ?thesis
    by (simp add: sample_decision_def run_approval_simps)
qed

end
