(* ===== verification/ServiceProgress.thy ===== *)
theory ServiceProgress
  imports ServiceEffects
begin

section \<open>What the service achieves when its parts cooperate\<close>

text \<open>
  The safety lemmas say what an operation may do at most; the two lemmas of this theory say what
  an authorised decision and an owner's undo do when the executed step, or the rollback,
  succeeds: the task is stored as completed or rolled back with exactly the new result, the
  world is the one the step left, and the last receipt reports it.
\<close>

lemma payload_hash_ascii:
  assumes "digests_ok P" "payload_sha256 P step = Inr h"
  shows "is_ascii h"
proof -
  obtain b where "h = pf_sha256 P b" using assms(2) by (auto simp: payload_sha256_def rbind_Inr_iff)
  with assms(1) show ?thesis
    using valid_sha256_ascii by (simp add: digests_ok_def valid_sha256_def)
qed

lemma authorised_grants:
  assumes "dget (sv_tasks S) tid = Some task" "authorised E dec session channel task a"
    and "is_ascii (ad_approval_token dec)" "is_ascii (ad_payload_sha256 dec)"
  shows "approve_task P C E tid dec session channel S = grant_task P C E channel task a S"
proof -
  have m: "decision_matches dec a" using assms(2) by (simp add: authorised_def)
  then have "check_decision dec a = Inr ()"
    using assms(3,4) by (auto simp: decision_matches_def check_decision_def compare_digest_def guard_def)
  then show ?thesis
    using assms(1,2) by (auto simp: approve_task_def validate_session_def authorised_def)
qed

lemma commit_receipt:
  assumes "service_inv P S" "dget (sv_tasks S) (tv_task_id t) = Some t'"
  shows "\<exists>L. commit P t S = (Inr t, S\<lparr>sv_tasks := dput (tv_task_id t) t (sv_tasks S), sv_ledger := L\<rparr>) \<and>
    (\<exists>v. ledger_get L (tv_task_id t) = Some (receipt_of P v t))"
proof -
  obtain L r where c: "commit P t S =
      (Inr t, S\<lparr>sv_tasks := dput (tv_task_id t) t (sv_tasks S), sv_ledger := L\<rparr>)"
    "r = receipt_of P (length (ledger_history (sv_ledger S) (tv_task_id t)) + 1) t"
    "ledger_history L = (ledger_history (sv_ledger S))
       (tv_task_id t := ledger_history (sv_ledger S) (tv_task_id t) @ [r])"
    by (rule commit_ok [OF service_invD(1) [OF assms(1)]])
  have "ledger_get L (tv_task_id t) = Some r"
    using c(3) by (simp add: receipts.get_history)
  with c show ?thesis by blast
qed

lemma granted_completes:
  assumes inv: "service_inv P S" and task: "dget (sv_tasks S) tid = Some task"
    and auth: "authorised E dec session channel task a"
    and ascii: "is_ascii (ad_approval_token dec)" "is_ascii (ad_payload_sha256 dec)"
    and step: "pl_steps (tv_plan task) = [step]"
    and ex: "execute_step P (se_exec E (ps_order step)) step (se_now E) True (Some C) (Some tid) (sv_world S) = (Inr r, W)"
    and ok: "cr_status r = StepStatus.VERIFIED" "cr_evidence r \<noteq> []"
  shows "\<exists>task' S' v. approve_task P C E tid dec session channel S = (Inr task', S') \<and>
    dget (sv_tasks S') tid = Some task' \<and> tv_state task' = TaskState.COMPLETED \<and> tv_results task' = [r] \<and>
    tv_user_session_id task' = tv_user_session_id task \<and>
    sv_world S' = W \<and> get_receipt tid S' = Inr (receipt_of P v task')"
proof -
  have st: "tv_state task = TaskState.AWAITING_APPROVAL" using auth by (simp add: authorised_def)
  have tid: "tv_task_id task = tid" using service_invD(2) [OF inv task] by (simp add: task_inv_def)
  let ?de = "if channel = PHONE
    then str ''The exact payload was approved from the paired phone session.''
    else str ''The exact payload was approved by the authenticated desktop session.''"
  let ?ev = "append_event P tid (tv_events task) TaskState.APPROVED ''approval_granted'' ?de (se_now E)"
  have run: "run_steps P C E tid (se_now E) (pl_steps (tv_plan task)) [] (sv_world S) = (None, [r], W)"
    using ex by (simp add: step)
  have all: "all_verified [r]" using ok by (simp add: all_verified_def)
  have e: "?ev \<noteq> []" "ev_state (last ?ev) \<in> {TaskState.PLANNED, TaskState.APPROVED}" by simp_all
  obtain ev where ev: "execute_authorized_steps P C E tid (tv_plan task) ?ev (se_now E) (sv_world S) =
      (Inr (TaskState.COMPLETED, [r]), ev, W)"
    by (cases rule: execute_cases [OF e, of P C E tid "se_now E" "tv_plan task" "sv_world S"])
      (use run all in auto)
  let ?v = "task\<lparr>tv_events := ev, tv_state := TaskState.COMPLETED, tv_results := [r],
    tv_approval := Some (close_approval ApprovalStatus.CONSUMED a), tv_updated_at := se_updated_at E\<rparr>"
  have "approve_task P C E tid dec session channel S = commit P ?v (S\<lparr>sv_world := W\<rparr>)"
    unfolding authorised_grants [OF task auth ascii]
    using ev st tid by (simp add: grant_task_def Let_def)
  moreover obtain L v where "commit P ?v (S\<lparr>sv_world := W\<rparr>) = (Inr ?v,
      S\<lparr>sv_world := W, sv_tasks := dput tid ?v (sv_tasks S), sv_ledger := L\<rparr>)"
    "ledger_get L tid = Some (receipt_of P v ?v)"
    using commit_receipt [of P "S\<lparr>sv_world := W\<rparr>" ?v task] inv task tid by auto
  ultimately show ?thesis
    by (intro exI [of _ ?v] exI [of _ "S\<lparr>sv_world := W, sv_tasks := dput tid ?v (sv_tasks S), sv_ledger := L\<rparr>"]
        exI [of _ v]) (simp add: dict_laws get_receipt_def)
qed

lemma undone_rolls_back:
  assumes inv: "service_inv P S" and task: "dget (sv_tasks S) tid = Some task"
    and owner: "ses_authenticated session" "ses_session_id session = tv_user_session_id task"
    and st: "tv_state task = TaskState.COMPLETED" and res: "tv_results task = [source]" "rollback_source source"
    and ex: "perform_rollback P C (se_exec E 0) tid source (se_now E) (sv_world S) = (Inr (result, detail), W)"
  shows "\<exists>task' S' v. rollback_task P C E tid session S = (Inr task', S') \<and>
    dget (sv_tasks S') tid = Some task' \<and> tv_state task' = TaskState.ROLLED_BACK \<and>
    tv_results task' = [source, result] \<and> sv_world S' = W \<and> get_receipt tid S' = Inr (receipt_of P v task')"
proof -
  have tid: "tv_task_id task = tid" using service_invD(2) [OF inv task] by (simp add: task_inv_def)
  let ?ev = "append_event P tid (tv_events task) TaskState.ROLLING_BACK ''rollback_started''
    (str ''Receipt-bound rollback started after explicit user Undo.'') (se_now E)"
  let ?v = "task\<lparr>tv_events := append_event P tid ?ev TaskState.ROLLED_BACK ''rollback_verified'' detail (se_outcome_at E),
    tv_state := TaskState.ROLLED_BACK, tv_results := [source, result], tv_updated_at := se_updated_at E\<rparr>"
  have "rollback_task P C E tid session S = finish_rollback P E task ?ev (Inr (result, detail)) (S\<lparr>sv_world := W\<rparr>)"
    using task owner st res ex by (simp add: rollback_task_def validate_session_def Let_def)
  also have "\<dots> = commit P ?v (S\<lparr>sv_world := W\<rparr>)"
    using res(1) tid by (simp add: finish_rollback_def)
  finally have eq: "rollback_task P C E tid session S = commit P ?v (S\<lparr>sv_world := W\<rparr>)" .
  obtain L v where "commit P ?v (S\<lparr>sv_world := W\<rparr>) = (Inr ?v,
      S\<lparr>sv_world := W, sv_tasks := dput tid ?v (sv_tasks S), sv_ledger := L\<rparr>)"
    "ledger_get L tid = Some (receipt_of P v ?v)"
    using commit_receipt [of P "S\<lparr>sv_world := W\<rparr>" ?v task] inv task tid by auto
  with eq show ?thesis
    by (intro exI [of _ ?v] exI [of _ "S\<lparr>sv_world := W, sv_tasks := dput tid ?v (sv_tasks S), sv_ledger := L\<rparr>"]
        exI [of _ v]) (simp add: dict_laws get_receipt_def)
qed

end
