(* ===== verification/NoteLifecycle.thy ===== *)
theory NoteLifecycle
  imports ServiceProgress NoteRuns
begin

section \<open>A note from the sentence to the file and back\<close>

text \<open>
  The progress property of the note capability: a request that the classifier understands as a
  note becomes a task that awaits the approval of exactly the prepared content; the approval on
  the desktop writes that content and nothing else; the undo restores the files. Each lemma is
  one of the three operations, over any platform, device client and store; only the last steps
  ask the operating system to cooperate.
\<close>

subsection \<open>The request\<close>

lemma note_plan_built:
  assumes "in_kind i = CREATE_NOTE" "entity i ''title'' = Inr title" "entity i ''content'' = Inr content"
    "prepare_note P title content = Inr n"
  shows "\<exists>plan. build_plan P t i = Inr plan \<and> pl_steps plan = [plan_step P t 1 (note_spec n)]"
  using assms by (simp add: build_plan_def plan_specs_if plan_steps_def assistant_kinds_def)

lemma note_step_facts:
  "ps_capability_id (plan_step P t k (note_spec n)) = str ''workspace.create_note''"
  "ps_order (plan_step P t k (note_spec n)) = k"
  "ps_parameters (plan_step P t k (note_spec n)) = note_parameters n"
  "pd_outcome (evaluate_step (plan_step P t k (note_spec n))) = REQUIRE_APPROVAL"
  by (simp_all add: plan_step_def note_spec_def spec_def outcome_REQUIRE_iff approval_capabilities_def)

lemma note_requested:
  assumes inv: "service_inv P S" and new: "dget (sv_request_index S) (rq_request_id request) = None"
    and owner: "ses_authenticated session" "rq_user_session_id request = ses_session_id session"
    and i: "i = classify_intent P (rq_utterance request)" "in_kind i = CREATE_NOTE" "entity i ''title'' = Inr title"
      "entity i ''content'' = Inr content" "prepare_note P title content = Inr n"
    and t: "t = task_id_of P (rq_request_id request)" "step = plan_step P t 1 (note_spec n)"
    and hash: "payload_sha256 P step = Inr h"
  shows "\<exists>task S0 a. create_task P C E request session S = (Inr task, S0) \<and> dget (sv_tasks S0) t = Some task \<and>
    tv_task_id task = t \<and> tv_state task = TaskState.AWAITING_APPROVAL \<and> tv_approval task = Some a \<and>
    approval_for P (se_token E) t (ses_session_id session) step (se_now E) = Inr a \<and>
    pl_steps (tv_plan task) = [step] \<and> tv_user_session_id task = ses_session_id session \<and>
    sv_world S0 = sv_world S"
proof -
  obtain plan where plan: "build_plan P t i = Inr plan" "pl_steps plan = [step]"
    using note_plan_built [OF i(2-5), of t] t(2) by blast
  obtain a where a: "approval_for P (se_token E) t (ses_session_id session) step (se_now E) = Inr a"
    using hash by (simp add: approval_for_def Let_def)
  have out: "pd_outcome (evaluate_step step) = REQUIRE_APPROVAL" unfolding t(2) by (rule note_step_facts)
  define v where "v = \<lparr>tv_task_id = t, tv_request_id = rq_request_id request,
    tv_user_session_id = rq_user_session_id request, tv_state = TaskState.AWAITING_APPROVAL, tv_intent = i,
    tv_plan = plan, tv_policy_decisions = [evaluate_step step], tv_results = [],
    tv_events = append_event P t (planned_events P E t plan) TaskState.AWAITING_APPROVAL ''approval_requested''
      (str ''Execution is paused pending explicit approval of the exact payload.'') (se_now E),
    tv_approval = Some a, tv_created_at = se_now E, tv_updated_at = se_updated_at E\<rparr>"
  let ?S = "S\<lparr>sv_request_index := dput (rq_request_id request) t (sv_request_index S)\<rparr>"
  have "validate_session session (rq_user_session_id request) = Inr ()"
    using owner by (simp add: validate_session_def)
  then have "create_task P C E request session S = commit P v ?S"
    using new plan a out i(1) t(1)
    by (simp add: create_task_def plan_or_refuse_def policy_decisions_def create_outcome_def v_def Let_def)
  moreover obtain L where "commit P v ?S = (Inr v, ?S\<lparr>sv_tasks := dput (tv_task_id v) v (sv_tasks ?S), sv_ledger := L\<rparr>)"
    by (rule commit_ok [of ?S P v]) (use service_invD(1) [OF inv] in auto)
  ultimately show ?thesis
    using plan(2) a owner(2)
    by (intro exI [of _ v] exI [of _ "?S\<lparr>sv_tasks := dput (tv_task_id v) v (sv_tasks ?S), sv_ledger := L\<rparr>"]
        exI [of _ a]) (simp add: dict_laws v_def)
qed

subsection \<open>The write and its undo\<close>

lemma prepared_round:
  assumes "prepare_note P title content = Inr n" "ps_parameters step = note_parameters n"
  shows "prepared_from_step step = Inr n"
proof -
  from assms(1) have "utf8 (pn_content n) = Some (pn_content_bytes n)"
    by (rule prepare_note_InrE) simp
  then show ?thesis
    by (simp add: prepared_from_step_def param_def assms(2) note_parameters_def dget_def encode_utf8_def)
qed

lemma store_create_ready:
  assumes "prepare_note P title content = Inr n" "honest_os os"
    and "target_path os (ns_root N) (pn_filename n) = Inr p"
    and "\<not> blocked (ns_root N) (ns_files N)" "mkdirs (ns_root N) (ns_files N) p = None"
  shows "\<exists>c. store_create P os N n =
      (N\<lparr>ns_files := (mkdirs (ns_root N) (ns_files N))(p \<mapsto> File (pn_content_bytes n))\<rparr>, Inr c) \<and>
    cn_filename c = pn_filename n \<and> cn_path c = p"
proof -
  from assms(1) have "pn_content_sha256 n = pf_sha256 P (pn_content_bytes n)"
    by (rule prepare_note_InrE) simp
  then show ?thesis
    using assms(2-) by (simp add: store_create_def write_and_verify_def honest_os_def Let_def)
qed

lemma note_undone:
  assumes "store_create P os N n = (wd_notes W, Inr c)" "r = note_result step now c"
    and "ps_capability_id step = str ''workspace.create_note''"
    and "honest_os (xe_os X)" "\<forall>p. os_real (xe_os X) p = os_real os p"
  shows "\<exists>result detail W'. perform_rollback P C X t r observed W = (Inr (result, detail), W') \<and>
    ns_files (wd_notes W') = mkdirs (ns_root N) (ns_files N) \<and> wd_device W' = wd_device W"
proof -
  obtain N'' where N'': "store_rollback P (xe_os X) (wd_notes W) (cn_filename c) (cn_sha256 c) = (N'', Inr (cn_path c))"
    "ns_files N'' = mkdirs (ns_root N) (ns_files N)"
    using store_undo [OF assms(1,4,5)] by blast
  have "cr_capability_id r = str ''workspace.create_note''"
    "get_str (er_attributes (hd (cr_evidence r))) ''filename'' [] = cn_filename c"
    "get_str (er_attributes (hd (cr_evidence r))) ''sha256'' [] = cn_sha256 c"
    using assms(3) by (simp_all add: assms(2) note_result_def evidenced_result_def get_str_def dget_def)
  with N'' show ?thesis
    by (simp add: perform_rollback_def rollback_note_def)
qed

subsection \<open>The lifecycle\<close>

text \<open>C30. A note runs to its end. In any reachable state, let the owner's new request be one that is
  understood as a note whose preparation and payload encoding succeed. It becomes a task that
  awaits approval and shows exactly the prepared content. Given the issued token and digest on
  the desktop within five minutes, and a store whose target is free on a host without faults,
  the approval returns the task as completed, with exactly the approved bytes at that target,
  every other file as before, and a verified, reversible receipt; and the owner's undo returns
  it as rolled back with the files as they were. The device is not involved.\<close>

theorem note_lifecycle:
  assumes "digests_ok P" and "S = run P C (init_service store d) ops"
    and new: "dget (sv_request_index S) (rq_request_id request) = None"
    and owner: "ses_authenticated session" "rq_user_session_id request = ses_session_id session"
    and i: "i = classify_intent P (rq_utterance request)" "in_kind i = CREATE_NOTE" "entity i ''title'' = Inr title"
      "entity i ''content'' = Inr content" "prepare_note P title content = Inr n"
    and hash: "t = task_id_of P (rq_request_id request)" "payload_sha256 P (plan_step P t 1 (note_spec n)) = Inr h"
    and time: "is_ascii (se_token E0)" "se_now E1 < se_now E0 + 300000000"
    and N: "N = wd_notes (sv_world S)" "\<not> blocked (ns_root N) (ns_files N)"
    and host: "os = xe_os (se_exec E1 1)" "honest_os os" "target_path os (ns_root N) (pn_filename n) = Inr p"
      "mkdirs (ns_root N) (ns_files N) p = None"
    and undo: "honest_os (xe_os (se_exec E2 0))" "\<forall>q. os_real (xe_os (se_exec E2 0)) q = os_real os q"
  shows "\<exists>task0 S0 a task1 S1 r task2 S2.
      create_task P C E0 request session S = (Inr task0, S0) \<and> tv_task_id task0 = t \<and>
      tv_state task0 = TaskState.AWAITING_APPROVAL \<and> tv_approval task0 = Some a \<and>
      ap_exact_preview a = pn_content n \<and> sv_world S0 = sv_world S \<and>
      approve_task P C E1 t \<lparr>ad_approval_id = ap_approval_id a, ad_approval_token = se_token E0,
        ad_payload_sha256 = h, ad_decision = APPROVE\<rparr> session DESKTOP S0 = (Inr task1, S1) \<and>
      tv_state task1 = TaskState.COMPLETED \<and>
      ns_files (wd_notes (sv_world S1)) = (mkdirs (ns_root N) (ns_files N))(p \<mapsto> File (pn_content_bytes n)) \<and>
      get_receipt t S1 = Inr r \<and> rc_state r = TaskState.COMPLETED \<and> rc_verified r \<and> rc_reversible r \<and>
      rollback_task P C E2 t session S1 = (Inr task2, S2) \<and> tv_state task2 = TaskState.ROLLED_BACK \<and>
      ns_files (wd_notes (sv_world S2)) = mkdirs (ns_root N) (ns_files N) \<and>
      wd_device (sv_world S2) = wd_device (sv_world S)"
proof -
  let ?step = "plan_step P t 1 (note_spec n)"
  have inv: "service_inv P S" unfolding assms(2) by (rule run_init_inv)
  obtain task0 S0 a where zero: "create_task P C E0 request session S = (Inr task0, S0)"
    "dget (sv_tasks S0) t = Some task0" "tv_task_id task0 = t" "tv_state task0 = TaskState.AWAITING_APPROVAL"
    "tv_approval task0 = Some a" "approval_for P (se_token E0) t (ses_session_id session) ?step (se_now E0) = Inr a"
    "pl_steps (tv_plan task0) = [?step]" "tv_user_session_id task0 = ses_session_id session"
    "sv_world S0 = sv_world S"
    using note_requested [OF inv new owner i hash(1) refl hash(2), of C E0] by blast
  have inv0: "service_inv P S0" using create_task_inv [OF inv, of C E0 request session] zero(1) by simp
  let ?dec = "\<lparr>ad_approval_id = ap_approval_id a, ad_approval_token = se_token E0,
    ad_payload_sha256 = h, ad_decision = APPROVE\<rparr>"
  note a = approval_for_Inr [OF zero(6)]
  have preview: "ap_exact_preview a = pn_content n"
    using zero(6) hash(2) by (auto simp: approval_for_def note_step_facts get_str_def note_parameters_def dget_def Let_def)
  have auth: "authorised E1 ?dec session DESKTOP task0 a"
    using a zero(4,5,8) owner(1) hash(2) time(2)
    by (simp add: authorised_def decision_matches_def note_step_facts APPROVAL_LIFETIME_def)
  have ascii: "is_ascii (ad_approval_token ?dec)" "is_ascii (ad_payload_sha256 ?dec)"
    using time(1) payload_hash_ascii [OF assms(1) hash(2)] by simp_all
  obtain c where c: "store_create P os N n =
      (N\<lparr>ns_files := (mkdirs (ns_root N) (ns_files N))(p \<mapsto> File (pn_content_bytes n))\<rparr>, Inr c)"
    using store_create_ready [OF i(5) host(2,3) N(2) host(4)] by blast
  define W r where "W = (sv_world S)\<lparr>wd_notes := N\<lparr>ns_files := (mkdirs (ns_root N) (ns_files N))
      (p \<mapsto> File (pn_content_bytes n))\<rparr>\<rparr>" and "r = note_result ?step (se_now E1) c"
  have "execute_step P (se_exec E1 (ps_order ?step)) ?step (se_now E1) True (Some C) (Some t) (sv_world S0) = (Inr r, W)"
    using c prepared_round [OF i(5) note_step_facts(3)] N(1) host(1)
    by (simp add: execute_step_def note_step_facts execute_create_note_def zero(9) W_def r_def)
  moreover have r: "cr_status r = StepStatus.VERIFIED" "cr_evidence r \<noteq> []" "rollback_source r"
    by (simp_all add: r_def note_result_def evidenced_result_def rollback_source_def REVERSIBLE_CAPABILITIES_def
        note_step_facts)
  ultimately obtain task1 S1 v where one: "approve_task P C E1 t ?dec session DESKTOP S0 = (Inr task1, S1)"
    "dget (sv_tasks S1) t = Some task1" "tv_state task1 = TaskState.COMPLETED" "tv_results task1 = [r]"
    "tv_user_session_id task1 = tv_user_session_id task0" "sv_world S1 = W"
    "get_receipt t S1 = Inr (receipt_of P v task1)"
    using granted_completes [OF inv0 zero(2) auth ascii zero(7)] by blast
  have inv1: "service_inv P S1"
    using approve_task_inv [OF inv0, of C E1 t ?dec session DESKTOP] one(1) by simp
  obtain result detail W2 where u: "perform_rollback P C (se_exec E2 0) t r (se_now E2) (sv_world S1) =
      (Inr (result, detail), W2)" "ns_files (wd_notes W2) = mkdirs (ns_root N) (ns_files N)"
    "wd_device W2 = wd_device (sv_world S)"
    using note_undone [of P os N n W c r ?step "se_now E1" "se_exec E2 0" C t "se_now E2"] c undo
    by (auto simp: W_def r_def one(6) note_step_facts)
  obtain task2 S2 where two: "rollback_task P C E2 t session S1 = (Inr task2, S2)"
    "tv_state task2 = TaskState.ROLLED_BACK" "sv_world S2 = W2"
    using undone_rolls_back [OF inv1 one(2) owner(1) _ one(3,4) r(3) u(1)] one(5) zero(8) by auto
  have "rc_state (receipt_of P v task1) = TaskState.COMPLETED" "rc_verified (receipt_of P v task1)"
    "rc_reversible (receipt_of P v task1)"
    using one(3,4) r(3) by (simp_all add: receipt_of_def rollback_source_def)
  then show ?thesis
    using zero preview one two u
    by (intro exI [of _ task0] exI [of _ S0] exI [of _ a] exI [of _ task1] exI [of _ S1]
        exI [of _ "receipt_of P v task1"] exI [of _ task2] exI [of _ S2]) (simp add: W_def)
qed

theorem note_lifecycle_witness:
  "\<exists>dec task1 S1 task2 S2.
     approve_task run_platform counting_client (env_at 1) 6 dec sample_session DESKTOP note_service1 =
       (Inr task1, S1) \<and> tv_state task1 = TaskState.COMPLETED \<and>
     ns_files (wd_notes (sv_world S1)) note_path = Some (File note_bytes) \<and>
     rollback_task run_platform counting_client (env_at 2) 6 sample_session S1 = (Inr task2, S2) \<and>
     tv_state task2 = TaskState.ROLLED_BACK \<and> ns_files (wd_notes (sv_world S2)) note_path = None"
proof -
  have s: "service0 = run run_platform counting_client (init_service sample_store 0) []"
    by (simp add: service0_def)
  have new: "dget (sv_request_index service0) (rq_request_id note_request) = None"
    by (simp add: service0_def init_service_def dict_laws)
  have owner: "ses_authenticated sample_session" "rq_user_session_id note_request = ses_session_id sample_session"
    by (simp_all add: sample_session_def note_request_def)
  have i: "note_intent = classify_intent run_platform (rq_utterance note_request)" "in_kind note_intent = CREATE_NOTE"
    "entity note_intent ''title'' = Inr (str ''a'')" "entity note_intent ''content'' = Inr note_text"
    by (simp add: note_request_def classify_note) (simp_all add: note_intent_def entity_def dget_def)
  have hash: "6 = task_id_of run_platform (rq_request_id note_request)"
    "payload_sha256 run_platform (plan_step run_platform 6 1 (note_spec note_prepared)) = Inr note_hash"
    using note_payload by (simp_all add: run_platform_task_id note_request_def note_step_def)
  have time: "is_ascii (se_token (env_at 0))" "se_now (env_at 1) < se_now (env_at 0) + 300000000"
    by (simp_all add: env_at_def is_ascii_def list_all_iff)
  have n: "wd_notes (sv_world service0) = sample_store" by (simp add: service0_def init_service_def)
  have store: "\<not> blocked (ns_root sample_store) (ns_files sample_store)"
    "target_path plain_os (ns_root sample_store) (pn_filename note_prepared) = Inr note_path"
    "mkdirs (ns_root sample_store) (ns_files sample_store) note_path = None"
    by (simp_all add: sample_store_def blocked_def target_path_def plain_os_def note_prepared_def join_note_path mkdirs_def)
      (simp_all add: note_path_def)
  have os: "plain_os = xe_os (se_exec (env_at 1) 1)" "honest_os (xe_os (se_exec (env_at 2) 0))"
    "\<forall>q. os_real (xe_os (se_exec (env_at 2) 0)) q = os_real plain_os q"
    using honest_plain_os by (simp_all add: env_at_def)
  have "S0 = note_service1" if "create_task run_platform counting_client (env_at 0) note_request sample_session
      service0 = (Inr v, S0)" for v S0 using that by (simp add: note_service1_def)
  moreover have "(fs(note_path \<mapsto> File b)) note_path = Some (File b)" for fs b by simp
  moreover have "pn_content_bytes note_prepared = note_bytes" by (simp add: note_prepared_def)
  ultimately show ?thesis
    using note_lifecycle [OF run_platform_digests s new owner i prepare_note_run hash time n [symmetric] store(1)
        os(1) honest_plain_os store(2,3) os(2,3)] store(3)
    by (elim exE conjE) metis
qed

end
