(* ===== verification/Node.thy ===== *)
theory Node
  imports Device
begin

section \<open>The device node: \<^verbatim>\<open>device_node/executor.py\<close> and \<^verbatim>\<open>device_node/app.py\<close>\<close>

text \<open>
  The trusted node that starts and stops the one allowlisted program. Its state is the table
  of launched processes, the cache of seen nonces, and, for the statements, the log of what it
  asked the operating system to do. What a request reads from outside (clocks, the shared
  secret, process identifiers, polls) is the record \<open>node_env\<close>; \<open>pathlib\<close> is a parameter. A
  handler returns an exception or a value, and FastAPI turns the former into a status.
\<close>

subsection \<open>Configuration, environment, state\<close>

record node_config =
  nc_node_id :: ustr
  nc_executable :: ustr
  nc_absolute :: bool        \<comment> \<open>\<open>executable.is_absolute()\<close>\<close>
  nc_subprocess :: bool      \<comment> \<open>the runner is a \<open>SubprocessRunner\<close>\<close>

text \<open>\<open>a or b\<close> on optional strings.\<close>

definition or_else :: "ustr option \<Rightarrow> ustr option \<Rightarrow> ustr option" where
  "or_else a b = (if a = None \<or> a = Some [] then b else a)"

definition make_executor ::
  "(ustr \<Rightarrow> ustr) \<Rightarrow> (ustr \<Rightarrow> bool) \<Rightarrow> ustr option \<Rightarrow> ustr option \<Rightarrow> ustr option \<Rightarrow> ustr option \<Rightarrow> bool \<Rightarrow>
     node_config" where
  "make_executor notepad_under is_absolute node_id node_id_var windir_var executable has_runner =
     (let windows_directory = (case windir_var of None \<Rightarrow> str ''C:'' @ [92] @ str ''Windows'' | Some w \<Rightarrow> w);
          path = (case executable of None \<Rightarrow> notepad_under windows_directory | Some p \<Rightarrow> p)
      in \<lparr>nc_node_id =
            (case or_else node_id (or_else node_id_var (Some (str ''windows-primary''))) of
               None \<Rightarrow> [] | Some n \<Rightarrow> n),
          nc_executable = path, nc_absolute = is_absolute path, nc_subprocess = \<not> has_runner\<rparr>)"

record node_env =
  ne_now :: time
  ne_secret :: "ustr option"         \<comment> \<open>\<open>os.getenv("NEXUSS_DEVICE_NODE_SECRET")\<close>\<close>
  ne_windows :: bool                 \<comment> \<open>\<open>os.name == "nt"\<close>\<close>
  ne_is_file :: bool
  ne_hostname :: ustr
  ne_started_at :: time
  ne_start :: "ustr + int"           \<comment> \<open>\<open>Popen\<close>: an operating-system error or a process identifier\<close>
  ne_running :: bool                 \<comment> \<open>the first \<open>poll() is None\<close> of the request\<close>
  ne_terminate :: "ustr option"      \<comment> \<open>the error of \<open>terminate()\<close>, if any\<close>
  ne_exited :: bool                  \<comment> \<open>\<open>wait\<close> returns before its timeout\<close>
  ne_running_after :: bool           \<comment> \<open>the \<open>poll() is None\<close> after the termination\<close>
  ne_observed_at :: time

text \<open>A handle is the position of its start in the log.\<close>

datatype effect = Started ustr | Terminated nat

record launched =
  lp_task_id :: uuid
  lp_command_id :: uuid
  lp_executable :: ustr
  lp_handle :: nat
  lp_pid :: int
  lp_started_at :: time

record node_state =
  nd_launched :: "(uuid, launched) dict"
  nd_seen :: "(ustr, time) dict"
  nd_effects :: "effect list"

definition init_node :: node_state where
  "init_node = \<lparr>nd_launched = [], nd_seen = [], nd_effects = []\<rparr>"

subsection \<open>The executor\<close>

definition node_evidence :: "node_config \<Rightarrow> node_env \<Rightarrow> launched \<Rightarrow> DeviceCommandEvidence" where
  "node_evidence cfg X r =
     \<lparr>de_command_id = lp_command_id r, de_node_id = nc_node_id cfg, de_node_hostname = ne_hostname X,
      de_capability_id = str ''device.launch_notepad'', de_executable = lp_executable r,
      de_process_id = lp_pid r, de_started_at = lp_started_at r, de_verified_running = ne_running X,
      de_source_mode = str ''live_trusted_device_node''\<rparr>"

definition node_launch ::
  "node_config \<Rightarrow> node_env \<Rightarrow> uuid \<Rightarrow> uuid \<Rightarrow> ustr \<Rightarrow> node_state \<Rightarrow> DeviceCommandEvidence res \<times> node_state" where
  "node_launch cfg X task_id command_id target_node_id N =
     (if \<not> ne_windows X \<and> nc_subprocess cfg
      then (Inl (NodeExecutionError (str ''WINDOWS_NODE_REQUIRED'')), N)
      else if target_node_id \<noteq> nc_node_id cfg
      then (Inl (NodeExecutionError (str ''TARGET_NODE_ID_MISMATCH'')), N)
      else if \<not> nc_absolute cfg
      then (Inl (NodeExecutionError (str ''NOTEPAD_EXECUTABLE_NOT_ABSOLUTE'')), N)
      else if nc_subprocess cfg \<and> \<not> ne_is_file X
      then (Inl (NodeExecutionError (str ''NOTEPAD_EXECUTABLE_NOT_FOUND'')), N)
      else
        (case dget (nd_launched N) command_id of
           Some existing \<Rightarrow> (Inr (node_evidence cfg X existing), N)
         | None \<Rightarrow>
             (case ne_start X of
                Inl e \<Rightarrow> (Inl (OSError e), N)
              | Inr pid \<Rightarrow>
                  (let handle = length (nd_effects N);
                       N1 = N\<lparr>nd_effects := nd_effects N @ [Started (nc_executable cfg)]\<rparr>
                   in if pid \<le> 0
                      then (Inl (NodeExecutionError (str ''DEVICE_PROCESS_ID_INVALID'')), N1)
                      else
                        (let r = \<lparr>lp_task_id = task_id, lp_command_id = command_id,
                                  lp_executable = nc_executable cfg, lp_handle = handle, lp_pid = pid,
                                  lp_started_at = ne_started_at X\<rparr>
                         in (Inr (node_evidence cfg X r),
                             N1\<lparr>nd_launched := dput command_id r (nd_launched N1)\<rparr>))))))"

definition node_rollback ::
  "node_config \<Rightarrow> node_env \<Rightarrow> uuid \<Rightarrow> uuid \<Rightarrow> uuid \<Rightarrow> ustr \<Rightarrow> node_state \<Rightarrow> DeviceRollbackEvidence res \<times> node_state" where
  "node_rollback cfg X rollback_id task_id command_id target_node_id N =
     (if target_node_id \<noteq> nc_node_id cfg
      then (Inl (NodeExecutionError (str ''TARGET_NODE_ID_MISMATCH'')), N)
      else
        (case dget (nd_launched N) command_id of
           None \<Rightarrow> (Inl (NodeExecutionError (str ''RECEIPT_BOUND_COMMAND_NOT_FOUND'')), N)
         | Some r \<Rightarrow>
             if lp_task_id r \<noteq> task_id
             then (Inl (NodeExecutionError (str ''RECEIPT_BOUND_TASK_MISMATCH'')), N)
             else
               (let was_running = ne_running X;
                    N1 = (if was_running
                          then N\<lparr>nd_effects := nd_effects N @ [Terminated (lp_handle r)]\<rparr> else N)
                in if was_running \<and> ne_terminate X \<noteq> None
                   then (Inl (OSError (the (ne_terminate X))), N1)
                   else if was_running \<and> \<not> ne_exited X
                   then (Inl (NodeExecutionError (str ''DEVICE_PROCESS_TERMINATION_TIMEOUT'')), N1)
                   else
                     (let verified_absent = (\<not> ne_running_after X)
                      in (Inr \<lparr>re_rollback_id = rollback_id, re_command_id = command_id,
                               re_node_id = nc_node_id cfg, re_process_id = lp_pid r,
                               re_terminated = was_running, re_verified_absent = verified_absent,
                               re_observed_at = ne_observed_at X,
                               re_source_mode = str ''live_trusted_device_node_rollback''\<rparr>,
                          if verified_absent
                          then N1\<lparr>nd_launched := ddel command_id (nd_launched N1)\<rparr> else N1)))))"

subsection \<open>The handlers\<close>

definition reset_nonce_cache :: "node_state \<Rightarrow> node_state" where
  "reset_nonce_cache N = N\<lparr>nd_seen := []\<rparr>"

definition shared_secret :: "node_env \<Rightarrow> ustr res" where
  "shared_secret X =
     (let secret = (case ne_secret X of None \<Rightarrow> [] | Some s \<Rightarrow> s)
      in if length secret < 32 then Inl (HTTPException 503 (str ''DEVICE_NODE_SECRET_NOT_CONFIGURED''))
         else Inr secret)"

fun is_DeviceSignatureError :: "exn \<Rightarrow> bool" where
  "is_DeviceSignatureError (DeviceSignatureError _) = True"
| "is_DeviceSignatureError _ = False"

fun is_NodeExecutionError :: "exn \<Rightarrow> bool" where
  "is_NodeExecutionError (NodeExecutionError _) = True"
| "is_NodeExecutionError _ = False"

text \<open>The nonces that are not pruned at a time.\<close>

definition live_nonces :: "time \<Rightarrow> (ustr, time) dict \<Rightarrow> (ustr, time) dict" where
  "live_nonces now seen = filter (\<lambda>(nonce, expires_at). \<not> expires_at \<le> now) seen"

definition authorize :: "platform \<Rightarrow> node_env \<Rightarrow> envelope \<Rightarrow> ustr \<Rightarrow> node_state \<Rightarrow> unit res \<times> node_state" where
  "authorize P X e signature N =
     (if env_issued_at e > ne_now X \<or> ne_now X \<ge> env_expires_at e
      then (Inl (HTTPException 409 (str ''DEVICE_ENVELOPE_EXPIRED'')), N)
      else
        (case rbind (shared_secret X) (\<lambda>secret. verify_signature P e secret signature) of
           Inl exc \<Rightarrow>
             (Inl (if is_DeviceSignatureError exc then HTTPException 401 (exn_str exc) else exc), N)
         | Inr _ \<Rightarrow>
             (let seen = live_nonces (ne_now X) (nd_seen N)
              in if env_nonce e \<in> set (dkeys seen)
                 then (Inl (HTTPException 409 (str ''DEVICE_NONCE_REPLAYED'')), N\<lparr>nd_seen := seen\<rparr>)
                 else (Inr (), N\<lparr>nd_seen := dput (env_nonce e) (env_expires_at e) seen\<rparr>))))"

text \<open>\<open>except NodeExecutionError\<close>.\<close>

definition conflict_of :: "'a res \<Rightarrow> 'a res" where
  "conflict_of r =
     (case r of
        Inl exc \<Rightarrow> Inl (if is_NodeExecutionError exc then HTTPException 409 (exn_str exc) else exc)
      | Inr v \<Rightarrow> Inr v)"

definition execute_command ::
  "platform \<Rightarrow> node_config \<Rightarrow> node_env \<Rightarrow> DeviceCommandEnvelope \<Rightarrow> ustr \<Rightarrow> node_state \<Rightarrow>
     DeviceCommandEvidence res \<times> node_state" where
  "execute_command P cfg X e signature N =
     (case authorize P X (Command e) signature N of
        (Inl exc, N') \<Rightarrow> (Inl exc, N')
      | (Inr _, N') \<Rightarrow>
          if dc_capability_id e \<noteq> str ''device.launch_notepad''
          then (Inl (HTTPException 403 (str ''CAPABILITY_NOT_ALLOWLISTED'')), N')
          else apfst conflict_of
                 (node_launch cfg X (dc_task_id e) (dc_command_id e) (dc_target_node_id e) N'))"

definition rollback_command ::
  "platform \<Rightarrow> node_config \<Rightarrow> node_env \<Rightarrow> DeviceRollbackEnvelope \<Rightarrow> ustr \<Rightarrow> node_state \<Rightarrow>
     DeviceRollbackEvidence res \<times> node_state" where
  "rollback_command P cfg X e signature N =
     (case authorize P X (Rollback e) signature N of
        (Inl exc, N') \<Rightarrow> (Inl exc, N')
      | (Inr _, N') \<Rightarrow>
          apfst conflict_of
            (node_rollback cfg X (dr_rollback_id e) (dr_task_id e) (dr_command_id e)
               (dr_target_node_id e) N'))"

definition node_health_ready :: "node_config \<Rightarrow> (ustr \<times> ustr) list" where
  "node_health_ready cfg =
     [(str ''status'', str ''ready''), (str ''mode'', str ''p4_trusted_windows_node''),
      (str ''node_id'', nc_node_id cfg)]"

text \<open>
  The node over HTTP: FastAPI validates the body (status 422), turns an \<open>HTTPException\<close> into
  its status and any other exception into 500.
\<close>

definition reply_of :: "body res \<Rightarrow> reply" where
  "reply_of r =
     (case r of
        Inr b \<Rightarrow> Reply 200 b
      | Inl exc \<Rightarrow> (case exc of HTTPException code _ \<Rightarrow> Reply code BodyOther | _ \<Rightarrow> Reply 500 BodyNotJson))"

definition serve :: "platform \<Rightarrow> node_config \<Rightarrow> node_env \<Rightarrow> envelope \<Rightarrow> ustr \<Rightarrow> node_state \<Rightarrow> reply \<times> node_state" where
  "serve P cfg X e signature N =
     (case e of
        Command c \<Rightarrow>
          if \<not> valid_DeviceCommandEnvelope c then (Reply 422 BodyOther, N)
          else apfst (\<lambda>r. reply_of (map_sum id BodyCommand r)) (execute_command P cfg X c signature N)
      | Rollback r \<Rightarrow>
          if \<not> valid_DeviceRollbackEnvelope r then (Reply 422 BodyOther, N)
          else apfst (\<lambda>v. reply_of (map_sum id BodyRollback v)) (rollback_command P cfg X r signature N))"

definition node_step :: "platform \<Rightarrow> node_config \<Rightarrow> node_state \<Rightarrow> node_env \<times> envelope \<times> ustr \<Rightarrow> node_state" where
  "node_step P cfg N = (\<lambda>(X, e, signature). snd (serve P cfg X e signature N))"

end
