(* ===== verification/NodeProps.thy ===== *)
theory NodeProps
  imports Node
begin

section \<open>Properties of the device node\<close>

text \<open>
  Case rules for the handlers, the invariant of the node as an instance of the locale
  \<open>invariant_machine\<close> (the effect log only grows), and the properties: replay protection over
  any sequence of requests, the conditions of every effect, and the agreement with the
  client of \<open>Device\<close>.
\<close>

subsection \<open>Authorisation\<close>

text \<open>What a request must satisfy before the node acts.\<close>

definition admitted :: "platform \<Rightarrow> node_env \<Rightarrow> envelope \<Rightarrow> ustr \<Rightarrow> node_state \<Rightarrow> bool" where
  "admitted P X e signature N \<longleftrightarrow>
     env_issued_at e \<le> ne_now X \<and> ne_now X < env_expires_at e \<and>
     (\<exists>secret. ne_secret X = Some secret \<and> 32 \<le> length secret \<and>
        verify_signature P e secret signature = Inr ()) \<and>
     env_nonce e \<notin> set (dkeys (live_nonces (ne_now X) (nd_seen N)))"

lemma shared_secret_Inr: "shared_secret X = Inr s \<longleftrightarrow> ne_secret X = Some s \<and> 32 \<le> length s"
  by (auto simp: shared_secret_def Let_def split: option.splits)

lemma authorize_cases:
  obtains
    (refused) exc seen where "authorize P X e sig N = (Inl exc, N\<lparr>nd_seen := seen\<rparr>)"
      "seen = nd_seen N \<or> seen = live_nonces (ne_now X) (nd_seen N)" "\<not> admitted P X e sig N"
  | (granted) "admitted P X e sig N"
      "authorize P X e sig N =
         (Inr (), N\<lparr>nd_seen := dput (env_nonce e) (env_expires_at e) (live_nonces (ne_now X) (nd_seen N))\<rparr>)"
proof (cases "env_issued_at e > ne_now X \<or> ne_now X \<ge> env_expires_at e")
  case True
  then show ?thesis by (intro refused [of _ "nd_seen N"]) (auto simp: authorize_def admitted_def)
next
  case False
  show ?thesis
  proof (cases "rbind (shared_secret X) (\<lambda>secret. verify_signature P e secret sig)")
    case (Inl exc)
    moreover have "\<not> admitted P X e sig N"
    proof
      assume "admitted P X e sig N"
      then obtain secret where "shared_secret X = Inr secret" "verify_signature P e secret sig = Inr ()"
        by (auto simp: admitted_def shared_secret_Inr)
      with Inl show False by simp
    qed
    ultimately show ?thesis using False by (intro refused [of _ "nd_seen N"]) (auto simp: authorize_def)
  next
    case (Inr u)
    then obtain secret where s: "ne_secret X = Some secret" "32 \<le> length secret"
      "verify_signature P e secret sig = Inr ()"
      by (auto simp: rbind_Inr_iff shared_secret_Inr)
    show ?thesis
    proof (cases "env_nonce e \<in> set (dkeys (live_nonces (ne_now X) (nd_seen N)))")
      case True
      with False Inr show ?thesis
        by (intro refused [of _ "live_nonces (ne_now X) (nd_seen N)"])
          (auto simp: authorize_def admitted_def Let_def)
    next
      case fresh: False
      have "admitted P X e sig N"
        using False s fresh by (auto simp: admitted_def)
      with False Inr fresh show ?thesis by (intro granted) (auto simp: authorize_def Let_def)
    qed
  qed
qed

lemma authorize_frame [simp]:
  "nd_effects (snd (authorize P X e sig N)) = nd_effects N"
  "nd_launched (snd (authorize P X e sig N)) = nd_launched N"
  by (cases rule: authorize_cases [of P X e sig N]; simp)+

lemma live_nonces_get:
  assumes "distinct (dkeys seen)"
  shows "dget (live_nonces now seen) n = (case dget seen n of Some x \<Rightarrow> if x \<le> now then None else Some x | None \<Rightarrow> None)"
    and "distinct (dkeys (live_nonces now seen))"
proof -
  show d: "distinct (dkeys (live_nonces now seen))"
    using assms by (auto simp: live_nonces_def dkeys_def distinct_map intro: inj_on_subset)
  have "dget (live_nonces now seen) n = Some x \<longleftrightarrow> dget seen n = Some x \<and> \<not> x \<le> now" for x
    unfolding in_dget_iff [OF d, symmetric] in_dget_iff [OF assms, symmetric]
    by (auto simp: live_nonces_def)
  note iff = this
  show "dget (live_nonces now seen) n =
      (case dget seen n of Some x \<Rightarrow> if x \<le> now then None else Some x | None \<Rightarrow> None)"
  proof (cases "dget (live_nonces now seen) n")
    case None
    with iff have "dget seen n = Some x \<Longrightarrow> x \<le> now" for x by (metis option.discI)
    with None show ?thesis by (simp split: option.split)
  next
    case (Some x)
    with iff [of x] show ?thesis by simp
  qed
qed

subsection \<open>How a request can end\<close>

primrec valid_envelope :: "envelope \<Rightarrow> bool" where
  "valid_envelope (Command c) = valid_DeviceCommandEnvelope c"
| "valid_envelope (Rollback r) = valid_DeviceRollbackEnvelope r"

definition marked :: "node_env \<Rightarrow> envelope \<Rightarrow> node_state \<Rightarrow> (ustr, time) dict" where
  "marked X e N = dput (env_nonce e) (env_expires_at e) (live_nonces (ne_now X) (nd_seen N))"

lemma serve_cases:
  obtains
    (unchanged) seen where "snd (serve P cfg X e sig N) = N\<lparr>nd_seen := seen\<rparr>"
      "seen = nd_seen N \<or> seen = live_nonces (ne_now X) (nd_seen N)"
      "\<not> (admitted P X e sig N \<and> valid_envelope e)"
  | (forbidden) c where "e = Command c" "dc_capability_id c \<noteq> str ''device.launch_notepad''"
      "admitted P X e sig N" "snd (serve P cfg X e sig N) = N\<lparr>nd_seen := marked X e N\<rparr>"
  | (launch) c where "e = Command c" "dc_capability_id c = str ''device.launch_notepad''"
      "admitted P X e sig N"
      "snd (serve P cfg X e sig N) =
         snd (node_launch cfg X (dc_task_id c) (dc_command_id c) (dc_target_node_id c)
           (N\<lparr>nd_seen := marked X e N\<rparr>))"
  | (rollback) r where "e = Rollback r" "admitted P X e sig N"
      "snd (serve P cfg X e sig N) =
         snd (node_rollback cfg X (dr_rollback_id r) (dr_task_id r) (dr_command_id r) (dr_target_node_id r)
           (N\<lparr>nd_seen := marked X e N\<rparr>))"
proof (cases e)
  case (Command c)
  show ?thesis
  proof (cases "valid_DeviceCommandEnvelope c")
    case False
    then show ?thesis by (intro unchanged [of "nd_seen N"]) (simp_all add: serve_def Command)
  next
    case True
    show ?thesis
    proof (cases rule: authorize_cases [of P X e sig N])
      case (refused exc seen)
      with True show ?thesis
        by (intro unchanged [of seen]) (simp_all add: serve_def Command execute_command_def)
    next
      case granted
      show ?thesis
      proof (cases "dc_capability_id c = str ''device.launch_notepad''")
        case False
        with True granted show ?thesis
          by (intro forbidden [OF Command]) (simp_all add: serve_def Command execute_command_def marked_def)
      next
        case cap: True
        with True granted show ?thesis
          by (intro launch [OF Command]) (simp_all add: serve_def Command execute_command_def marked_def)
      qed
    qed
  qed
next
  case (Rollback r)
  show ?thesis
  proof (cases "valid_DeviceRollbackEnvelope r")
    case False
    then show ?thesis by (intro unchanged [of "nd_seen N"]) (simp_all add: serve_def Rollback)
  next
    case True
    show ?thesis
    proof (cases rule: authorize_cases [of P X e sig N])
      case (refused exc seen)
      with True show ?thesis
        by (intro unchanged [of seen]) (simp_all add: serve_def Rollback rollback_command_def)
    next
      case granted
      with True show ?thesis
        by (intro rollback [OF Rollback]) (simp_all add: serve_def Rollback rollback_command_def marked_def)
    qed
  qed
qed

lemma node_launch_cases:
  obtains
    (same) "snd (node_launch cfg X t k g N) = N"
  | (untracked) "g = nc_node_id cfg" "dget (nd_launched N) k = None"
      "snd (node_launch cfg X t k g N) =
         N\<lparr>nd_effects := nd_effects N @ [Started (nc_executable cfg)]\<rparr>"
  | (launched) r pid where "g = nc_node_id cfg" "dget (nd_launched N) k = None" "0 < pid"
      "r = \<lparr>lp_task_id = t, lp_command_id = k, lp_executable = nc_executable cfg,
            lp_handle = length (nd_effects N), lp_pid = pid, lp_started_at = ne_started_at X\<rparr>"
      "node_launch cfg X t k g N = (Inr (node_evidence cfg X r),
         N\<lparr>nd_effects := nd_effects N @ [Started (nc_executable cfg)],
           nd_launched := dput k r (nd_launched N)\<rparr>)"
proof (cases "dget (nd_launched N) k = None \<and> g = nc_node_id cfg \<and> \<not> (\<not> ne_windows X \<and> nc_subprocess cfg) \<and>
    nc_absolute cfg \<and> \<not> (nc_subprocess cfg \<and> \<not> ne_is_file X)")
  case False
  then have "snd (node_launch cfg X t k g N) = N"
    by (auto simp: node_launch_def split: option.split)
  then show ?thesis by (rule same)
next
  case True
  show ?thesis
  proof (cases "ne_start X")
    case (Inl e)
    with True show ?thesis by (intro same) (auto simp: node_launch_def)
  next
    case (Inr pid)
    with True show ?thesis
      by (cases "pid \<le> 0")
        (intro untracked, auto simp: node_launch_def Let_def intro: launched [of pid])
  qed
qed

lemma node_rollback_cases:
  obtains
    (same) "snd (node_rollback cfg X i t k g N) = N"
  | (closed_out) r where "g = nc_node_id cfg" "dget (nd_launched N) k = Some r" "lp_task_id r = t"
      "\<not> ne_running X" "snd (node_rollback cfg X i t k g N) = N\<lparr>nd_launched := ddel k (nd_launched N)\<rparr>"
  | (stopped) r L where "g = nc_node_id cfg" "dget (nd_launched N) k = Some r" "lp_task_id r = t"
      "ne_running X" "L = nd_launched N \<or> L = ddel k (nd_launched N)"
      "snd (node_rollback cfg X i t k g N) =
         N\<lparr>nd_effects := nd_effects N @ [Terminated (lp_handle r)], nd_launched := L\<rparr>"
proof (cases "g = nc_node_id cfg \<and> (\<exists>r. dget (nd_launched N) k = Some r \<and> lp_task_id r = t)")
  case False
  then have "snd (node_rollback cfg X i t k g N) = N"
    by (auto simp: node_rollback_def split: option.split)
  then show ?thesis by (rule same)
next
  case True
  then obtain r where r: "g = nc_node_id cfg" "dget (nd_launched N) k = Some r" "lp_task_id r = t" by blast
  show ?thesis
  proof (cases "ne_running X")
    case False
    with r show ?thesis
      by (cases "ne_running_after X")
        (intro same closed_out [OF r], auto simp: node_rollback_def Let_def)+
  next
    case running: True
    let ?L = "if ne_terminate X = None \<and> ne_exited X \<and> \<not> ne_running_after X then ddel k (nd_launched N)
      else nd_launched N"
    show ?thesis
      by (rule stopped [OF r running, of ?L])
        (use r running in \<open>auto simp: node_rollback_def Let_def\<close>)
  qed
qed

subsection \<open>The invariant\<close>

text \<open>Every start is of the configured program, every termination is of a handle started before,
  and every entry of the table points at its own start.\<close>

definition own_effect :: "ustr \<Rightarrow> effect list \<Rightarrow> nat \<Rightarrow> effect \<Rightarrow> bool" where
  "own_effect exe trace i x \<longleftrightarrow>
     (case x of Started p \<Rightarrow> p = exe | Terminated h \<Rightarrow> h < i \<and> trace ! h = Started exe)"

definition own_effects :: "ustr \<Rightarrow> effect list \<Rightarrow> bool" where
  "own_effects exe trace \<longleftrightarrow> (\<forall>i<length trace. own_effect exe trace i (trace ! i))"

definition own_entry :: "ustr \<Rightarrow> effect list \<Rightarrow> uuid \<Rightarrow> launched \<Rightarrow> bool" where
  "own_entry exe trace k r \<longleftrightarrow>
     lp_command_id r = k \<and> lp_executable r = exe \<and> 0 < lp_pid r \<and>
     lp_handle r < length trace \<and> trace ! lp_handle r = Started exe"

definition node_inv :: "node_config \<Rightarrow> node_state \<Rightarrow> bool" where
  "node_inv cfg N \<longleftrightarrow>
     distinct (dkeys (nd_seen N)) \<and> own_effects (nc_executable cfg) (nd_effects N) \<and>
     (\<forall>k r. dget (nd_launched N) k = Some r \<longrightarrow> own_entry (nc_executable cfg) (nd_effects N) k r)"

lemma own_effect_snoc: "i \<le> length trace \<Longrightarrow> own_effect exe (trace @ [x]) i y = own_effect exe trace i y"
  by (auto simp: own_effect_def nth_append split: effect.splits)

lemma own_effects_snoc:
  "own_effects exe (trace @ [x]) \<longleftrightarrow> own_effects exe trace \<and> own_effect exe trace (length trace) x"
proof -
  have "own_effect exe (trace @ [x]) i ((trace @ [x]) ! i) \<longleftrightarrow> own_effect exe trace i (trace ! i)"
    if "i < length trace" for i
    using that by (simp add: own_effect_snoc nth_append)
  then show ?thesis by (auto simp: own_effects_def less_Suc_eq own_effect_snoc)
qed

lemma own_entry_snoc: "own_entry exe trace k r \<Longrightarrow> own_entry exe (trace @ [x]) k r"
  by (simp add: own_entry_def nth_append)

lemma node_inv_seen: "node_inv cfg N \<Longrightarrow> distinct (dkeys seen) \<Longrightarrow> node_inv cfg (N\<lparr>nd_seen := seen\<rparr>)"
  by (simp add: node_inv_def)

lemma node_inv_started:
  "node_inv cfg N \<Longrightarrow> node_inv cfg (N\<lparr>nd_effects := nd_effects N @ [Started (nc_executable cfg)]\<rparr>)"
  by (simp add: node_inv_def own_effects_snoc own_entry_snoc own_effect_def)

lemma node_inv_launch:
  assumes "node_inv cfg N"
  shows "node_inv cfg (snd (node_launch cfg X t k g N))"
proof (cases rule: node_launch_cases [of cfg X t k g N])
  case untracked
  with node_inv_started [OF assms] show ?thesis by simp
next
  case (launched r pid)
  have "own_entry (nc_executable cfg) (nd_effects N @ [Started (nc_executable cfg)]) k r"
    using launched(3,4) by (simp add: own_entry_def)
  with launched(5) node_inv_started [OF assms] show ?thesis
    by (simp add: node_inv_def dict_laws)
qed (use assms in simp)

lemma node_inv_rollback:
  assumes "node_inv cfg N"
  shows "node_inv cfg (snd (node_rollback cfg X i t k g N))"
proof (cases rule: node_rollback_cases [of cfg X i t k g N])
  case (closed_out r)
  with assms show ?thesis by (simp add: node_inv_def dict_laws)
next
  case (stopped r L)
  have L: "dget L k' = Some r' \<Longrightarrow> dget (nd_launched N) k' = Some r'" for k' r'
    using stopped(5) by (auto simp: dict_laws split: if_splits)
  have "own_entry (nc_executable cfg) (nd_effects N) k r"
    using stopped(2) assms by (simp add: node_inv_def)
  then have "own_effect (nc_executable cfg) (nd_effects N) (length (nd_effects N)) (Terminated (lp_handle r))"
    by (simp add: own_entry_def own_effect_def)
  with stopped(6) assms L show ?thesis
    by (simp add: node_inv_def own_effects_snoc own_entry_snoc)
qed (use assms in simp)

lemma node_inv_step:
  assumes "node_inv cfg N"
  shows "node_inv cfg (node_step P cfg N x)"
proof -
  obtain X e sig where x: "x = (X, e, sig)" by (rule prod_cases3)
  have seen: "distinct (dkeys (nd_seen N))" using assms by (simp add: node_inv_def)
  note live = live_nonces_get(2) [OF seen, of "ne_now X"]
  have m: "node_inv cfg (N\<lparr>nd_seen := marked X e N\<rparr>)"
    using assms live by (intro node_inv_seen) (simp_all add: marked_def)
  show ?thesis
    by (cases rule: serve_cases [of P cfg X e sig N])
      (use assms seen live m in \<open>auto simp: x node_step_def node_inv_seen node_inv_launch node_inv_rollback\<close>)
qed

lemma node_effects_grow: "prefix (nd_effects N) (nd_effects (node_step P cfg N x))"
proof -
  obtain X e sig where x: "x = (X, e, sig)" by (rule prod_cases3)
  have l: "prefix (nd_effects M) (nd_effects (snd (node_launch cfg X t k g M)))" for t k g M
    by (cases rule: node_launch_cases [of cfg X t k g M]) simp_all
  have r: "prefix (nd_effects M) (nd_effects (snd (node_rollback cfg X i t k g M)))" for i t k g M
    by (cases rule: node_rollback_cases [of cfg X i t k g M]) simp_all
  show ?thesis
    using l [of "N\<lparr>nd_seen := marked X e N\<rparr>"] r [of "N\<lparr>nd_seen := marked X e N\<rparr>"]
    by (cases rule: serve_cases [of P cfg X e sig N]) (auto simp: x node_step_def)
qed

interpretation device_node: invariant_machine "node_step P cfg" "node_inv cfg"
  "\<lambda>N N'. prefix (nd_effects N) (nd_effects N')" for P cfg
  by unfold_locales (auto simp: node_inv_step node_effects_grow intro: prefix_order.trans)

lemma node_inv_init: "node_inv cfg init_node"
  by (simp add: node_inv_def init_node_def own_effects_def dict_laws dkeys_def)

abbreviation node_run :: "platform \<Rightarrow> node_config \<Rightarrow> node_state \<Rightarrow> (node_env \<times> envelope \<times> ustr) list \<Rightarrow> node_state" where
  "node_run P cfg N reqs \<equiv> foldl (node_step P cfg) N reqs"

lemma node_run_inv: "node_inv cfg (node_run P cfg init_node reqs)"
  by (rule device_node.run_inv [OF node_inv_init])

subsection \<open>Nonces\<close>

lemma launch_seen [simp]: "nd_seen (snd (node_launch cfg X t k g N)) = nd_seen N"
  by (cases rule: node_launch_cases [of cfg X t k g N]) simp_all

lemma rollback_seen [simp]: "nd_seen (snd (node_rollback cfg X i t k g N)) = nd_seen N"
  by (cases rule: node_rollback_cases [of cfg X i t k g N]) simp_all

lemma seen_step:
  assumes "distinct (dkeys (nd_seen N))" "dget (nd_seen N) n = Some x" "ne_now X < x"
  shows "dget (nd_seen (node_step P cfg N (X, e, sig))) n = Some x"
proof -
  have live: "dget (live_nonces (ne_now X) (nd_seen N)) n = Some x"
    using assms by (simp add: live_nonces_get)
  then have "n \<in> set (dkeys (live_nonces (ne_now X) (nd_seen N)))" by (metis dget_None_iff option.discI)
  then have m: "dget (marked X e N) n = Some x" if "admitted P X e sig N"
    using that live by (auto simp: marked_def admitted_def dict_laws)
  show ?thesis
    by (cases rule: serve_cases [of P cfg X e sig N])
      (use assms(2) live m in \<open>auto simp: node_step_def\<close>)
qed

lemma seen_run:
  assumes "node_inv cfg N" "dget (nd_seen N) n = Some x" "\<forall>r\<in>set reqs. ne_now (fst r) < x"
  shows "dget (nd_seen (node_run P cfg N reqs)) n = Some x"
  using assms
proof (induction reqs arbitrary: N)
  case (Cons r reqs)
  obtain X e sig where r: "r = (X, e, sig)" by (rule prod_cases3)
  have "distinct (dkeys (nd_seen N))" using Cons.prems(1) by (simp add: node_inv_def)
  from seen_step [OF this Cons.prems(2), of X P cfg e sig] Cons.prems(3) r
  have "dget (nd_seen (node_step P cfg N r)) n = Some x" by simp
  from Cons.IH [OF node_inv_step [OF Cons.prems(1)] this] Cons.prems(3) show ?case by simp
qed simp

lemma seen_not_admitted:
  assumes "distinct (dkeys (nd_seen N))" "dget (nd_seen N) (env_nonce e) = Some x" "ne_now X < x"
  shows "\<not> admitted P X e sig N"
proof -
  have "dget (live_nonces (ne_now X) (nd_seen N)) (env_nonce e) = Some x"
    using assms by (simp add: live_nonces_get)
  then show ?thesis by (metis admitted_def dget_None_iff option.discI)
qed

lemma not_admitted_inert:
  assumes "\<not> admitted P X e sig N"
  shows "nd_effects (node_step P cfg N (X, e, sig)) = nd_effects N \<and>
    nd_launched (node_step P cfg N (X, e, sig)) = nd_launched N"
  by (cases rule: serve_cases [of P cfg X e sig N]) (use assms in \<open>auto simp: node_step_def\<close>)

lemma admitted_marks:
  assumes "admitted P X e sig N" "valid_envelope e"
  shows "dget (nd_seen (node_step P cfg N (X, e, sig))) (env_nonce e) = Some (env_expires_at e)"
  by (cases rule: serve_cases [of P cfg X e sig N])
    (use assms in \<open>simp_all add: node_step_def marked_def dict_laws\<close>)

subsection \<open>The properties\<close>

text \<open>C6. An envelope takes effect at most once. Once a request was admitted, no later request with its
  nonce that expires no later is admitted, whatever its signature and whatever was served
  in between, as long as the clock does not run backwards; and such a request neither
  starts nor stops anything.\<close>

theorem no_replay:
  assumes "N = node_run P cfg init_node before"
    and "admitted P X e sig N" "valid_envelope e"
    and "M = node_run P cfg N ((X, e, sig) # later)"
    and "\<forall>r\<in>set later. ne_now (fst r) \<le> ne_now Y"
    and "env_nonce e' = env_nonce e" "env_expires_at e' \<le> env_expires_at e"
  shows "\<not> admitted P Y e' sig' M \<and>
    nd_effects (node_step P cfg M (Y, e', sig')) = nd_effects M \<and>
    nd_launched (node_step P cfg M (Y, e', sig')) = nd_launched M"
proof -
  have inv: "node_inv cfg N" unfolding assms(1) by (rule node_run_inv)
  have "\<not> admitted P Y e' sig' M"
  proof (cases "ne_now Y < env_expires_at e")
    case False
    with assms(7) show ?thesis by (simp add: admitted_def)
  next
    case True
    then have "\<forall>r\<in>set later. ne_now (fst r) < env_expires_at e" using assms(5) by force
    from seen_run [OF node_inv_step [OF inv] admitted_marks [OF assms(2,3)] this]
    have "dget (nd_seen M) (env_nonce e') = Some (env_expires_at e)"
      unfolding assms(4,6) by simp
    moreover have "node_inv cfg M" unfolding assms(4) by (rule device_node.run_inv [OF inv])
    then have "distinct (dkeys (nd_seen M))" by (simp add: node_inv_def)
    ultimately show ?thesis using seen_not_admitted True by blast
  qed
  with not_admitted_inert show ?thesis by blast
qed

text \<open>C18. The node acts only for the core. A request that starts or stops a process was admitted: it
  came inside its time window, under a valid signature of the configured secret, with an
  unseen nonce, addressed to this node; it started the one configured program, as a command
  for the allowlisted capability; or it stopped the process recorded for the command it
  names, launched for the same task.\<close>

theorem node_acts_only_when_admitted:
  assumes "nd_effects (node_step P cfg N (X, e, sig)) \<noteq> nd_effects N"
  shows "admitted P X e sig N \<and>
    ((\<exists>c. e = Command c \<and> dc_capability_id c = str ''device.launch_notepad'' \<and>
        dc_target_node_id c = nc_node_id cfg \<and>
        nd_effects (node_step P cfg N (X, e, sig)) = nd_effects N @ [Started (nc_executable cfg)]) \<or>
     (\<exists>r rec. e = Rollback r \<and> dr_target_node_id r = nc_node_id cfg \<and>
        dget (nd_launched N) (dr_command_id r) = Some rec \<and> lp_task_id rec = dr_task_id r \<and>
        nd_effects (node_step P cfg N (X, e, sig)) = nd_effects N @ [Terminated (lp_handle rec)]))"
proof (cases rule: serve_cases [of P cfg X e sig N])
  case (launch c)
  then show ?thesis
    using assms
    by (cases rule: node_launch_cases [of cfg X "dc_task_id c" "dc_command_id c" "dc_target_node_id c"
          "N\<lparr>nd_seen := marked X e N\<rparr>"])
      (auto simp: node_step_def)
next
  case (rollback r)
  then show ?thesis
    using assms
    by (cases rule: node_rollback_cases [of cfg X "dr_rollback_id r" "dr_task_id r" "dr_command_id r"
          "dr_target_node_id r" "N\<lparr>nd_seen := marked X e N\<rparr>"])
      (auto simp: node_step_def)
qed (use assms in \<open>simp_all add: node_step_def\<close>)

text \<open>The node only ever touches its own processes: over any sequence of requests, everything it
  starts is the configured program and everything it terminates is a process it started.\<close>

theorem node_own_processes:
  "own_effects (nc_executable cfg) (nd_effects (node_run P cfg init_node reqs))"
  using node_run_inv [of cfg P reqs] by (simp add: node_inv_def)

text \<open>Concrete requests, for the witnesses: the signed sample envelope of \<open>Device\<close> against a table
  that holds its command.\<close>

definition sample_config :: node_config where
  "sample_config =
     \<lparr>nc_node_id = str ''w'', nc_executable = str ''notepad.exe'', nc_absolute = True, nc_subprocess = True\<rparr>"

definition sample_node_env :: "time \<Rightarrow> node_env" where
  "sample_node_env now =
     \<lparr>ne_now = now, ne_secret = Some sample_secret, ne_windows = True, ne_is_file = True,
      ne_hostname = str ''host'', ne_started_at = now, ne_start = Inr 42, ne_running = True,
      ne_terminate = None, ne_exited = True, ne_running_after = False, ne_observed_at = now\<rparr>"

lemma admitted_sample:
  assumes "env_nonce sample_rollback \<notin> set (dkeys (nd_seen N))"
  shows "admitted ascii_platform (sample_node_env 5) sample_rollback sample_signature N"
proof -
  have "env_nonce sample_rollback \<notin> set (dkeys (live_nonces 5 (nd_seen N)))"
    using assms by (auto simp: live_nonces_def dkeys_def)
  moreover have "ne_now (sample_node_env 5) = 5" "ne_secret (sample_node_env 5) = Some sample_secret"
    "length sample_secret = 32" by (simp_all add: sample_node_env_def sample_secret_def)
  moreover have "env_issued_at sample_rollback = 0" "env_expires_at sample_rollback = 30000000"
    by (simp_all add: sample_rollback_def)
  ultimately show ?thesis by (simp add: admitted_def verify_sample)
qed

theorem no_replay_witness:
  "\<forall>sig. \<not> admitted ascii_platform (sample_node_env 6) sample_rollback sig
     (node_run ascii_platform sample_config init_node [(sample_node_env 5, sample_rollback, sample_signature)])"
proof -
  have n: "init_node = node_run ascii_platform sample_config init_node []" by simp
  have a: "admitted ascii_platform (sample_node_env 5) sample_rollback sample_signature init_node"
    by (rule admitted_sample) (simp add: init_node_def dkeys_def)
  have v: "valid_envelope sample_rollback"
    by (simp add: sample_rollback_def valid_DeviceRollbackEnvelope_def valid_target_def valid_nonce_def)
  show ?thesis
    using no_replay [OF n a v refl, of "[]" "sample_node_env 6" sample_rollback] by simp
qed

definition sample_launched :: launched where
  "sample_launched =
     \<lparr>lp_task_id = 2, lp_command_id = 3, lp_executable = str ''notepad.exe'', lp_handle = 0, lp_pid = 42,
      lp_started_at = 0\<rparr>"

definition sample_node :: node_state where
  "sample_node =
     \<lparr>nd_launched = [(3, sample_launched)], nd_seen = [], nd_effects = [Started (str ''notepad.exe'')]\<rparr>"

lemma rollback_sample_node:
  "nd_effects (node_step ascii_platform sample_config sample_node
     (sample_node_env 5, sample_rollback, sample_signature)) = [Started (str ''notepad.exe''), Terminated 0]"
proof -
  have a: "admitted ascii_platform (sample_node_env 5) sample_rollback sample_signature sample_node"
    by (rule admitted_sample) (simp add: sample_node_def dkeys_def)
  have v: "valid_envelope sample_rollback"
    by (simp add: sample_rollback_def valid_DeviceRollbackEnvelope_def valid_target_def valid_nonce_def)
  show ?thesis
  proof (cases rule: serve_cases [of ascii_platform sample_config "sample_node_env 5" sample_rollback
        sample_signature sample_node])
    case (rollback r)
    have r: "r = \<lparr>dr_rollback_id = 1, dr_task_id = 2, dr_command_id = 3, dr_target_node_id = str ''w'',
        dr_issued_at = 0, dr_expires_at = 30000000, dr_nonce = replicate 32 110\<rparr>"
      using rollback(1) by (simp add: sample_rollback_def)
    show ?thesis
      unfolding node_step_def prod.case rollback(3) r
      by (simp add: node_rollback_def sample_config_def sample_node_def sample_launched_def
          sample_node_env_def dget_def Let_def)
  qed (use a v in \<open>auto simp: sample_rollback_def\<close>)
qed

theorem node_acts_only_when_admitted_witness:
  "admitted ascii_platform (sample_node_env 5) sample_rollback sample_signature sample_node"
proof -
  have "nd_effects (node_step ascii_platform sample_config sample_node
      (sample_node_env 5, sample_rollback, sample_signature)) \<noteq> nd_effects sample_node"
    by (simp add: rollback_sample_node) (simp add: sample_node_def)
  from node_acts_only_when_admitted [OF this] show ?thesis by blast
qed

subsection \<open>The client and the node together\<close>

text \<open>The node as the transport of the HTTP client: the two routes, under the base address.\<close>

primrec route_of :: "envelope \<Rightarrow> ustr" where
  "route_of (Command _) = str ''/v1/commands''"
| "route_of (Rollback _) = str ''/v1/rollbacks''"

definition node_transport :: "platform \<Rightarrow> node_config \<Rightarrow> node_env \<Rightarrow> ustr \<Rightarrow> node_state transport" where
  "node_transport P cfg X base url e signature N =
     (if url = base @ route_of e then serve P cfg X e signature N else (Reply 404 BodyOther, N))"

text \<open>What makes a call of the client arrive: one secret, encodable text, a clock inside the window,
  a fresh nonce, a valid envelope.\<close>

definition deliverable :: "platform \<Rightarrow> http_client \<Rightarrow> node_env \<Rightarrow> envelope \<Rightarrow> node_state \<Rightarrow> bool" where
  "deliverable P c X e N \<longleftrightarrow>
     ne_secret X = Some (hc_shared_secret c) \<and> (\<exists>sg. sign_payload P e (hc_shared_secret c) = Inr sg) \<and>
     env_issued_at e \<le> ne_now X \<and> ne_now X < env_expires_at e \<and>
     env_nonce e \<notin> set (dkeys (nd_seen N)) \<and> valid_envelope e"

lemma verify_signed:
  assumes "digests_ok P" "sign_payload P e secret = Inr sg"
  shows "verify_signature P e secret sg = Inr ()" "32 \<le> length secret"
proof -
  obtain key payload where k: "32 \<le> length secret" "sg = pf_hmac_sha256 P key payload"
    using assms(2) by (auto simp: sign_payload_def rbind_Inr_iff split: if_splits)
  then have "is_ascii sg" using assms(1) valid_sha256_ascii by (simp add: digests_ok_def valid_sha256_def)
  then show "verify_signature P e secret sg = Inr ()"
    by (simp add: verify_signature_def assms(2) compare_digest_def)
  show "32 \<le> length secret" by (rule k(1))
qed

lemma deliverable_admitted:
  assumes "digests_ok P" "deliverable P c X e N"
  obtains sg where "sign_payload P e (hc_shared_secret c) = Inr sg" "admitted P X e sg N"
    "authorize P X e sg N = (Inr (), N\<lparr>nd_seen := marked X e N\<rparr>)"
proof -
  obtain sg where sg: "sign_payload P e (hc_shared_secret c) = Inr sg"
    using assms(2) by (auto simp: deliverable_def)
  have "env_nonce e \<notin> set (dkeys (live_nonces (ne_now X) (nd_seen N)))"
    using assms(2) by (auto simp: deliverable_def live_nonces_def dkeys_def)
  then have a: "admitted P X e sg N"
    using assms(2) verify_signed [OF assms(1) sg] by (auto simp: deliverable_def admitted_def)
  then have "authorize P X e sg N = (Inr (), N\<lparr>nd_seen := marked X e N\<rparr>)"
    by (cases rule: authorize_cases [of P X e sg N]) (simp_all add: marked_def)
  with sg a show ?thesis by (rule that)
qed

lemma dkeys_dput: "set (dkeys (dput k v d)) = insert k (set (dkeys d))"
  by (simp add: dput_def dkeys_def AList.dom_update [unfolded dom_map_of_conv_image_fst])

lemma client_launch:
  assumes "digests_ok P" "deliverable P c X (Command (launch_envelope P cx t g)) N"
  shows "http_launch_notepad P (node_transport P cfg X (hc_base_url c)) c cx t g N =
    (case node_launch cfg X t (command_id_of P t g) g
        (N\<lparr>nd_seen := marked X (Command (launch_envelope P cx t g)) N\<rparr>) of
       (Inr ev, N') \<Rightarrow> (if valid_DeviceCommandEvidence ev then Inr ev else Inl validation_error, N')
     | (Inl exc, N') \<Rightarrow>
         (Inl (DeviceCommandError (str ''TRUSTED_DEVICE_NODE_REJECTED_'' @
            dec_nat (if is_NodeExecutionError exc then 409 else 500))), N'))"
proof -
  let ?e = "launch_envelope P cx t g"
  obtain sg where sg: "sign_payload P (Command ?e) (hc_shared_secret c) = Inr sg"
    "authorize P X (Command ?e) sg N = (Inr (), N\<lparr>nd_seen := marked X (Command ?e) N\<rparr>)"
    using deliverable_admitted [OF assms] by metis
  have v: "valid_DeviceCommandEnvelope ?e" using assms(2) by (simp add: deliverable_def)
  obtain r N' where l: "node_launch cfg X t (command_id_of P t g) g
      (N\<lparr>nd_seen := marked X (Command ?e) N\<rparr>) = (r, N')" by (rule prod.exhaust)
  have e: "dc_task_id ?e = t" "dc_command_id ?e = command_id_of P t g" "dc_target_node_id ?e = g"
    "dc_capability_id ?e = str ''device.launch_notepad''"
    by (simp_all add: launch_envelope_def)
  have http: "\<forall>code m. exc \<noteq> HTTPException code m" if "r = Inl exc" for exc
    using l that by (auto simp: node_launch_def Let_def split: if_splits option.splits sum.splits)
  have "serve P cfg X (Command ?e) sg N = (reply_of (map_sum id BodyCommand (conflict_of r)), N')"
    using v sg(2) l e by (simp add: serve_def execute_command_def)
  then show ?thesis
    using sg(1) l v http
    by (cases r)
      (auto simp: http_launch_notepad_def http_post_def node_transport_def reply_of_def conflict_of_def
        Let_def split: exn.split)
qed

lemma client_rollback:
  assumes "digests_ok P" "deliverable P c X (Rollback (rollback_envelope P cx t k g)) N"
    and "dget (nd_launched N) k = Some r" "lp_task_id r = t" "g = nc_node_id cfg" "0 < lp_pid r"
    and "ne_running X" "ne_terminate X = None" "ne_exited X" "\<not> ne_running_after X"
  shows "\<exists>ev N'. http_rollback_command P (node_transport P cfg X (hc_base_url c)) c cx t k g N = (Inr ev, N') \<and>
    re_terminated ev \<and> re_verified_absent ev \<and> re_command_id ev = k \<and>
    nd_effects N' = nd_effects N @ [Terminated (lp_handle r)] \<and>
    nd_launched N' = ddel k (nd_launched N)"
proof -
  let ?e = "rollback_envelope P cx t k g"
  let ?N = "N\<lparr>nd_seen := marked X (Rollback ?e) N\<rparr>"
  obtain sg where sg: "sign_payload P (Rollback ?e) (hc_shared_secret c) = Inr sg"
    "authorize P X (Rollback ?e) sg N = (Inr (), ?N)"
    using deliverable_admitted [OF assms(1,2)] by metis
  have v: "valid_DeviceRollbackEnvelope ?e" using assms(2) by (simp add: deliverable_def)
  have e: "dr_task_id ?e = t" "dr_command_id ?e = k" "dr_target_node_id ?e = g"
    by (simp_all add: rollback_envelope_def)
  let ?ev = "\<lparr>re_rollback_id = dr_rollback_id ?e, re_command_id = k, re_node_id = nc_node_id cfg,
    re_process_id = lp_pid r, re_terminated = True, re_verified_absent = True,
    re_observed_at = ne_observed_at X, re_source_mode = str ''live_trusted_device_node_rollback''\<rparr>"
  let ?N' = "?N\<lparr>nd_effects := nd_effects N @ [Terminated (lp_handle r)],
    nd_launched := ddel k (nd_launched N)\<rparr>"
  have "node_rollback cfg X (dr_rollback_id ?e) t k g ?N = (Inr ?ev, ?N')"
    using assms(3-) by (simp add: node_rollback_def Let_def)
  then have "serve P cfg X (Rollback ?e) sg N = (Reply 200 (BodyRollback ?ev), ?N')"
    using v sg(2) e by (simp add: serve_def rollback_command_def conflict_of_def reply_of_def)
  then have "http_rollback_command P (node_transport P cfg X (hc_base_url c)) c cx t k g N = (Inr ?ev, ?N')"
    using sg(1) v assms(6)
    by (simp add: http_rollback_command_def http_post_def node_transport_def
        valid_DeviceRollbackEvidence_def Let_def)
  then show ?thesis by simp
qed

text \<open>What a successful launch leaves: the table entry and the next state.\<close>

definition launch_entry :: "node_config \<Rightarrow> node_env \<Rightarrow> uuid \<Rightarrow> uuid \<Rightarrow> int \<Rightarrow> node_state \<Rightarrow> launched" where
  "launch_entry cfg X t k pid N =
     \<lparr>lp_task_id = t, lp_command_id = k, lp_executable = nc_executable cfg,
      lp_handle = length (nd_effects N), lp_pid = pid, lp_started_at = ne_started_at X\<rparr>"

definition after_launch :: "node_config \<Rightarrow> node_env \<Rightarrow> envelope \<Rightarrow> launched \<Rightarrow> node_state \<Rightarrow> node_state" where
  "after_launch cfg X e r N =
     N\<lparr>nd_seen := marked X e N, nd_effects := nd_effects N @ [Started (nc_executable cfg)],
       nd_launched := dput (lp_command_id r) r (nd_launched N)\<rparr>"

lemma client_launch_starts:
  assumes "digests_ok P" "deliverable P c X (Command (launch_envelope P cx t g)) N" "g = nc_node_id cfg"
    and "nc_absolute cfg" "nc_subprocess cfg \<longrightarrow> ne_windows X \<and> ne_is_file X"
    and "ne_start X = Inr pid" "0 < pid" "dget (nd_launched N) (command_id_of P t g) = None"
    and "r = launch_entry cfg X t (command_id_of P t g) pid N"
  shows "http_launch_notepad P (node_transport P cfg X (hc_base_url c)) c cx t g N =
    (Inr (node_evidence cfg X r), after_launch cfg X (Command (launch_envelope P cx t g)) r N)"
proof -
  let ?e = "Command (launch_envelope P cx t g)"
  have "node_launch cfg X t (command_id_of P t g) g (N\<lparr>nd_seen := marked X ?e N\<rparr>) =
      (Inr (node_evidence cfg X r), after_launch cfg X ?e r N)"
    using assms(3-9) by (auto simp: node_launch_def after_launch_def launch_entry_def Let_def)
  then show ?thesis
    using assms(7,9) by (simp add: client_launch [OF assms(1,2)] valid_DeviceCommandEvidence_def
        node_evidence_def launch_entry_def)
qed

text \<open>Marking one nonce leaves another one fresh.\<close>

lemma deliverable_after_launch:
  assumes "deliverable P c Y e' N" "env_nonce e' \<noteq> env_nonce e"
  shows "deliverable P c Y e' (after_launch cfg X e r N)"
proof -
  have "set (dkeys (live_nonces now seen)) \<subseteq> set (dkeys seen)" for now seen
    by (auto simp: dkeys_def live_nonces_def)
  then have "set (dkeys (nd_seen (after_launch cfg X e r N))) \<subseteq> insert (env_nonce e) (set (dkeys (nd_seen N)))"
    by (auto simp: after_launch_def marked_def dkeys_dput)
  with assms show ?thesis by (auto simp: deliverable_def)
qed

text \<open>C14. The client and the node agree, end to end. Over a node that shares its secret, with calls
  that arrive in time and with fresh nonces, a launch through the HTTP client starts the
  configured program and returns its evidence, and the undo of that command returns
  verified absence; the node has then terminated exactly the process it started and its
  table is what it was.\<close>

theorem device_roundtrip:
  assumes "digests_ok P" "C1 = HttpDeviceNodeClient P (node_transport P cfg X (hc_base_url c)) c"
    and "C2 = HttpDeviceNodeClient P (node_transport P cfg Y (hc_base_url c)) c"
    and "deliverable P c X (Command (launch_envelope P cx t g)) N"
    and "deliverable P c Y (Rollback (rollback_envelope P cy t (command_id_of P t g) g)) N"
    and "ce_nonce cx \<noteq> ce_nonce cy" "g = nc_node_id cfg"
    and "nc_absolute cfg" "nc_subprocess cfg \<longrightarrow> ne_windows X \<and> ne_is_file X"
    and "ne_start X = Inr pid" "0 < pid" "dget (nd_launched N) (command_id_of P t g) = None"
    and "ne_running Y" "ne_terminate Y = None" "ne_exited Y" "\<not> ne_running_after Y"
  shows "\<exists>ev N1 rev N2.
      cl_launch_notepad C1 cx t g N = (Inr ev, N1) \<and> de_command_id ev = command_id_of P t g \<and>
      de_executable ev = nc_executable cfg \<and> de_verified_running ev = ne_running X \<and>
      cl_rollback_command C2 cy t (de_command_id ev) g N1 = (Inr rev, N2) \<and>
      re_terminated rev \<and> re_verified_absent rev \<and>
      nd_effects N2 = nd_effects N @ [Started (nc_executable cfg), Terminated (length (nd_effects N))] \<and>
      (\<forall>k. dget (nd_launched N2) k = dget (nd_launched N) k)"
proof -
  let ?k = "command_id_of P t g"
  let ?e = "Command (launch_envelope P cx t g)"
  define r where "r = launch_entry cfg X t ?k pid N"
  define N1 where "N1 = after_launch cfg X ?e r N"
  have l: "cl_launch_notepad C1 cx t g N = (Inr (node_evidence cfg X r), N1)"
    using client_launch_starts [OF assms(1,4,7-12) r_def] by (simp add: assms(2) HttpDeviceNodeClient_def N1_def)
  have "deliverable P c Y (Rollback (rollback_envelope P cy t ?k g)) N1"
    unfolding N1_def by (rule deliverable_after_launch [OF assms(5)])
      (use assms(6) in \<open>simp add: rollback_envelope_def launch_envelope_def\<close>)
  moreover have "dget (nd_launched N1) ?k = Some r" "lp_task_id r = t" "0 < lp_pid r"
    using assms(11) by (simp_all add: N1_def after_launch_def r_def launch_entry_def dict_laws)
  ultimately obtain rev N2 where u: "cl_rollback_command C2 cy t ?k g N1 = (Inr rev, N2)"
    "re_terminated rev" "re_verified_absent rev" "nd_effects N2 = nd_effects N1 @ [Terminated (lp_handle r)]"
    "nd_launched N2 = ddel ?k (nd_launched N1)"
    using client_rollback [OF assms(1), of c Y cy t ?k g N1 r cfg] assms(7,13-16)
    by (auto simp: assms(3) HttpDeviceNodeClient_def)
  then have "\<forall>k. dget (nd_launched N2) k = dget (nd_launched N) k"
    using assms(12) by (simp add: N1_def after_launch_def r_def launch_entry_def dict_laws)
  with l u show ?thesis by (simp add: node_evidence_def r_def N1_def after_launch_def launch_entry_def)
qed

subsubsection \<open>A concrete pair of calls\<close>

definition sample_http_client :: http_client where
  "sample_http_client = \<lparr>hc_base_url = str ''http://127.0.0.1:8101'', hc_shared_secret = sample_secret\<rparr>"

definition sample_call :: "time \<Rightarrow> nat \<Rightarrow> call_env" where
  "sample_call now n = \<lparr>ce_now = now, ce_nonce = replicate 32 n\<rparr>"

lemma sign_ascii_sample:
  assumes "\<forall>s\<in>json_strs (env_json P e). \<forall>x\<in>set s. x < 128"
  shows "\<exists>sg. sign_payload P e sample_secret = Inr sg"
proof -
  have "canonical_payload P e = Inr (map of_nat (dumps (env_json P e)))"
    using assms by (simp add: canonical_payload_def encode_utf8_def dumps_ascii)
  moreover have "utf8 sample_secret = Some (replicate 32 115)"
    by (subst utf8_ascii) (simp_all add: sample_secret_def)
  ultimately show ?thesis
    by (simp add: sign_payload_def encode_utf8_def) (simp add: sample_secret_def)
qed

lemma deliverable_launch_sample:
  "deliverable ascii_platform sample_http_client (sample_node_env 5)
     (Command (launch_envelope ascii_platform (sample_call 5 97) 2 (str ''w''))) init_node"
proof -
  let ?e = "Command (launch_envelope ascii_platform (sample_call 5 97) 2 (str ''w''))"
  have "\<forall>s\<in>json_strs (env_json ascii_platform ?e). \<forall>x\<in>set s. x < 128"
    using uuid_str_ascii
    by (auto simp: launch_envelope_def sample_call_def jstr_def json_attributes_def ascii_platform_def
        str_def dest: dec_int_ascii)
  moreover have "valid_device_capability (str ''device.launch_notepad'')" by code_simp
  ultimately show ?thesis
    using sign_ascii_sample [of ascii_platform ?e]
    by (simp add: deliverable_def sample_node_env_def sample_http_client_def init_node_def dkeys_def
        launch_envelope_def sample_call_def DEVICE_COMMAND_LIFETIME_def valid_DeviceCommandEnvelope_def
        valid_target_def valid_nonce_def)
qed

lemma deliverable_rollback_sample:
  "deliverable ascii_platform sample_http_client (sample_node_env 9)
     (Rollback (rollback_envelope ascii_platform (sample_call 8 98) 2 k (str ''w''))) init_node"
proof -
  let ?e = "Rollback (rollback_envelope ascii_platform (sample_call 8 98) 2 k (str ''w''))"
  have "\<forall>s\<in>json_strs (env_json ascii_platform ?e). \<forall>x\<in>set s. x < 128"
    using uuid_str_ascii
    by (auto simp: rollback_envelope_def sample_call_def jstr_def ascii_platform_def str_def
        dest: dec_int_ascii)
  from sign_ascii_sample [OF this] show ?thesis
    by (simp add: deliverable_def sample_node_env_def sample_http_client_def init_node_def dkeys_def
        rollback_envelope_def sample_call_def DEVICE_COMMAND_LIFETIME_def
        valid_DeviceRollbackEnvelope_def valid_target_def valid_nonce_def)
qed

theorem device_roundtrip_witness:
  "\<exists>ev N1 rev N2.
     cl_launch_notepad (HttpDeviceNodeClient ascii_platform
       (node_transport ascii_platform sample_config (sample_node_env 5) (hc_base_url sample_http_client))
       sample_http_client) (sample_call 5 97) 2 (str ''w'') init_node = (Inr ev, N1) \<and>
     cl_rollback_command (HttpDeviceNodeClient ascii_platform
       (node_transport ascii_platform sample_config (sample_node_env 9) (hc_base_url sample_http_client))
       sample_http_client) (sample_call 8 98) 2 (de_command_id ev) (str ''w'') N1 = (Inr rev, N2) \<and>
     nd_effects N2 = [Started (str ''notepad.exe''), Terminated 0]"
proof -
  have "ce_nonce (sample_call 5 97) \<noteq> ce_nonce (sample_call 8 98)" by (simp add: sample_call_def)
  from device_roundtrip [OF ascii_platform_digests refl refl deliverable_launch_sample
      deliverable_rollback_sample this, of sample_config 42]
  show ?thesis by (auto simp: sample_config_def sample_node_env_def init_node_def dict_laws)
qed

end
