(* ===== verification/DeviceContract.thy ===== *)
theory DeviceContract
  imports ServiceEffects
begin

section \<open>The contract of a device client\<close>

text \<open>
  The service calls the two functions of the protocol class \<open>DeviceNodeClient\<close> and relies on
  little: seen through a log of what happened on the device, a launch adds at most one start
  and a rollback at most one stop. The locale \<open>device_contract\<close> states this for any client, and
  its lemma says which operation of the service can be behind an entry of the log. It is
  interpreted on the disabled client here and on the HTTP client over the device node in
  \<open>Deployment\<close>.
\<close>

lemma execute_step_call:
  assumes "wd_device (snd (execute_step P X step now True (Some C) (Some t) W)) \<noteq> wd_device W"
  shows "\<exists>g. wd_device (snd (execute_step P X step now True (Some C) (Some t) W)) =
    snd (cl_launch_notepad C (xe_call X) t g (wd_device W))"
proof -
  have "ps_capability_id step = str ''device.launch_notepad''" by (rule execute_step_device [OF assms])
  then show ?thesis
    by (intro exI [of _ "get_str (ps_parameters step) ''target_node_id'' (str ''windows-primary'')"])
      (auto simp: execute_step_def execute_launch_notepad_def Let_def split: prod.split sum.split)
qed

lemma perform_rollback_call:
  assumes "wd_device (snd (perform_rollback P C X t source now W)) \<noteq> wd_device W"
  shows "\<exists>k g. wd_device (snd (perform_rollback P C X t source now W)) =
    snd (cl_rollback_command C (xe_call X) t k g (wd_device W))"
  using assms
  by (auto simp: perform_rollback_def rollback_device_command_def Let_def case_prod_beta
      split: if_splits option.splits sum.splits)

subsection \<open>Who is behind an effect\<close>

fun phone_decision :: "operation \<Rightarrow> bool" where
  "phone_decision (Decide E tid dec session channel) = (channel = PHONE)"
| "phone_decision _ = False"

locale device_contract =
  fixes C :: "'d device_client"
    and device_log :: "'d \<Rightarrow> 'x list"
    and start :: 'x
    and stops :: "'d \<Rightarrow> uuid \<Rightarrow> 'x \<Rightarrow> bool"
  assumes launch_log: "device_log (snd (cl_launch_notepad C X t g d)) \<in> {device_log d, device_log d @ [start]}"
    and rollback_log: "device_log (snd (cl_rollback_command C X t k g d)) = device_log d \<or>
      (\<exists>x. stops d t x \<and> device_log (snd (cl_rollback_command C X t k g d)) = device_log d @ [x])"
    and stop_not_start: "stops d t x \<Longrightarrow> x \<noteq> start"
begin

lemma service_effect:
  assumes "S = run P C (init_service store d0) ops" and "S' = service_step P C S op"
    and "d = wd_device (sv_world S)" and "d' = wd_device (sv_world S')"
    and "device_log d' \<noteq> device_log d"
  obtains
    (started) E tid dec session task a where "op = Decide E tid dec session PHONE"
      "dget (sv_tasks S) tid = Some task" "authorised E dec session PHONE task a"
      "device_log d' = device_log d @ [start]"
  | (stopped) E tid session task x where "op = Undo E tid session" "dget (sv_tasks S) tid = Some task"
      "ses_authenticated session" "ses_session_id session = tv_user_session_id task"
      "tv_state task = TaskState.COMPLETED" "stops d tid x" "device_log d' = device_log d @ [x]"
proof -
  have inv: "service_inv P S" unfolding assms(1) by (rule run_init_inv)
  have dev: "wd_device (sv_world S') \<noteq> wd_device (sv_world S)" using assms(3-5) by auto
  from inv show ?thesis
  proof (cases rule: step_world [where C = C and op = op])
    case same
    with dev assms(2) show ?thesis by simp
  next
    case (executed E tid dec session channel task a step)
    let ?X = "se_exec E (ps_order step)"
    have w: "sv_world S' = snd (execute_step P ?X step (se_now E) True (Some C) (Some tid) (sv_world S))"
      using executed(6) assms(2) by simp
    have "ps_capability_id step = str ''device.launch_notepad''"
      using execute_step_device dev unfolding w by blast
    then have ch: "channel = PHONE"
      using executed(3-5) by (auto simp: authorised_def approval_inv_def)
    obtain g where "d' = snd (cl_launch_notepad C (xe_call ?X) tid g d)"
      using execute_step_call dev assms(3,4) unfolding w by blast
    with launch_log [of "xe_call ?X" tid g d] assms(5) have "device_log d' = device_log d @ [start]" by auto
    with executed(1-3) show ?thesis unfolding ch by (rule started)
  next
    case (undone E tid session task source)
    have w: "sv_world S' = snd (perform_rollback P C (se_exec E 0) tid source (se_now E) (sv_world S))"
      using undone(8) assms(2) by simp
    obtain k g where "d' = snd (cl_rollback_command C (xe_call (se_exec E 0)) tid k g d)"
      using perform_rollback_call dev assms(3,4) unfolding w by blast
    with rollback_log [of "xe_call (se_exec E 0)" tid k g d] assms(5)
    obtain x where "stops d tid x" "device_log d' = device_log d @ [x]" by auto
    with undone(1-5) show ?thesis by (rule stopped)
  qed
qed

text \<open>Over a run, no more programs are started than phone decisions were made.\<close>

lemma starts_bounded:
  "count_list (device_log (wd_device (sv_world (run P C (init_service store d0) ops)))) start \<le>
     count_list (device_log d0) start + length (filter phone_decision ops)"
proof (induction ops rule: rev_induct)
  case Nil
  show ?case by (simp add: init_service_def)
next
  case (snoc op ops)
  let ?S = "run P C (init_service store d0) ops"
  show ?case
  proof (cases "device_log (wd_device (sv_world (service_step P C ?S op))) = device_log (wd_device (sv_world ?S))")
    case True
    with snoc show ?thesis by simp
  next
    case False
    from refl refl refl refl this show ?thesis
    proof (cases rule: service_effect)
      case (started E tid dec session task a)
      with snoc show ?thesis by simp
    next
      case (stopped E tid session task x)
      with snoc stop_not_start [OF stopped(6)] show ?thesis by simp
    qed
  qed
qed

end

subsection \<open>The disabled client\<close>

text \<open>It fails every call and leaves the other side alone.\<close>

interpretation disabled: device_contract DisabledDeviceNodeClient "\<lambda>d. [d]" start "\<lambda>_ _ _. False" for start
  by unfold_locales (simp_all add: DisabledDeviceNodeClient_def)

end
