(* ===== verification/Deployment.thy ===== *)
theory Deployment
  imports NodeProps DeviceContract Runs
begin

section \<open>The service over the device node\<close>

text \<open>
  The two processes together: the core service with its HTTP client, whose transport is the
  device node. The device part of the world is the node and the node environments of the
  requests still to be served; when they are used up, the transport fails.
\<close>

type_synonym link = "node_env list \<times> node_state"

fun link_transport :: "platform \<Rightarrow> node_config \<Rightarrow> ustr \<Rightarrow> link transport" where
  "link_transport P cfg base url e signature ([], N) = (TransportFailed, ([], N))"
| "link_transport P cfg base url e signature (X # Xs, N) =
     (case node_transport P cfg X base url e signature N of (r, N') \<Rightarrow> (r, (Xs, N')))"

definition linked_client :: "platform \<Rightarrow> node_config \<Rightarrow> http_client \<Rightarrow> link device_client" where
  "linked_client P cfg c = HttpDeviceNodeClient P (link_transport P cfg (hc_base_url c)) c"

subsection \<open>What a call can do to the node\<close>

definition node_acted :: "node_config \<Rightarrow> envelope \<Rightarrow> node_state \<Rightarrow> node_state \<Rightarrow> bool" where
  "node_acted cfg e N N' \<longleftrightarrow>
     nd_effects N' = nd_effects N \<or>
     (\<exists>c. e = Command c \<and> nd_effects N' = nd_effects N @ [Started (nc_executable cfg)]) \<or>
     (\<exists>r rec. e = Rollback r \<and> dget (nd_launched N) (dr_command_id r) = Some rec \<and>
        lp_task_id rec = dr_task_id r \<and> nd_effects N' = nd_effects N @ [Terminated (lp_handle rec)])"

lemma serve_acted: "node_acted cfg e N (snd (serve P cfg X e sig N))"
proof (cases rule: serve_cases [of P cfg X e sig N])
  case (launch c)
  then show ?thesis
    by (cases rule: node_launch_cases [of cfg X "dc_task_id c" "dc_command_id c" "dc_target_node_id c"
          "N\<lparr>nd_seen := marked X e N\<rparr>"])
      (auto simp: node_acted_def)
next
  case (rollback r)
  then show ?thesis
    by (cases rule: node_rollback_cases [of cfg X "dr_rollback_id r" "dr_task_id r" "dr_command_id r"
          "dr_target_node_id r" "N\<lparr>nd_seen := marked X e N\<rparr>"])
      (auto simp: node_acted_def)
qed (simp_all add: node_acted_def)

lemma link_acted: "node_acted cfg e (snd d) (snd (snd (link_transport P cfg base url e sig d)))"
proof (cases "(P, cfg, base, url, e, sig, d)" rule: link_transport.cases)
  case (1 P cfg base url e sig N)
  then show ?thesis by (simp add: node_acted_def)
next
  case (2 P cfg base url e sig X Xs N)
  then show ?thesis
    by (simp add: node_transport_def node_acted_def [of _ _ N N] case_prod_beta serve_acted)
qed

lemma http_post_acted:
  "node_acted cfg e (snd d) (snd (snd (http_post P (link_transport P cfg base) c endpoint e d)))"
  using link_acted [of cfg e d P base "hc_base_url c @ endpoint"]
  by (auto simp: http_post_def node_acted_def [of _ _ "snd d" "snd d"] case_prod_beta
      split: sum.split prod.split reply.split)

lemma client_acted:
  "node_acted cfg (Command (launch_envelope P X t g)) (snd d)
     (snd (snd (cl_launch_notepad (linked_client P cfg c) X t g d)))"
  "node_acted cfg (Rollback (rollback_envelope P X t k g)) (snd d)
     (snd (snd (cl_rollback_command (linked_client P cfg c) X t k g d)))"
proof -
  have n: "node_acted cfg e N N" for e N by (simp add: node_acted_def)
  show "node_acted cfg (Command (launch_envelope P X t g)) (snd d)
     (snd (snd (cl_launch_notepad (linked_client P cfg c) X t g d)))"
    using http_post_acted [of cfg "Command (launch_envelope P X t g)" d P "hc_base_url c" c "str ''/v1/commands''"] n
    by (auto simp: linked_client_def HttpDeviceNodeClient_def http_launch_notepad_def Let_def
        split: prod.split sum.split body.split)
  show "node_acted cfg (Rollback (rollback_envelope P X t k g)) (snd d)
     (snd (snd (cl_rollback_command (linked_client P cfg c) X t k g d)))"
    using http_post_acted [of cfg "Rollback (rollback_envelope P X t k g)" d P "hc_base_url c" c "str ''/v1/rollbacks''"] n
    by (auto simp: linked_client_def HttpDeviceNodeClient_def http_rollback_command_def Let_def
        split: prod.split sum.split body.split)
qed

subsection \<open>The chain of consent\<close>

interpretation linked: device_contract "linked_client P cfg c" "\<lambda>d. nd_effects (snd d)" "Started (nc_executable cfg)"
  "\<lambda>d t x. \<exists>k rec. dget (nd_launched (snd d)) k = Some rec \<and> lp_task_id rec = t \<and> x = Terminated (lp_handle rec)"
  for P cfg c
proof
  show "nd_effects (snd (snd (cl_launch_notepad (linked_client P cfg c) X t g d)))
      \<in> {nd_effects (snd d), nd_effects (snd d) @ [Started (nc_executable cfg)]}" for X t g d
    using client_acted(1) [of cfg P X t g d c] by (auto simp: node_acted_def)
  show "nd_effects (snd (snd (cl_rollback_command (linked_client P cfg c) X t k g d))) = nd_effects (snd d) \<or>
    (\<exists>x. (\<exists>k rec. dget (nd_launched (snd d)) k = Some rec \<and> lp_task_id rec = t \<and> x = Terminated (lp_handle rec)) \<and>
      nd_effects (snd (snd (cl_rollback_command (linked_client P cfg c) X t k g d))) = nd_effects (snd d) @ [x])"
    for X t k g d
    using client_acted(2) [of cfg P X t k g d c] by (auto simp: node_acted_def rollback_envelope_def)
qed auto

text \<open>C4. From the user to the process. With the device node behind the service, over any sequence of
  operations and whatever the network and the operating system do: a process is started only
  by an authorised phone approval of a pending task, one per approval, and it is the
  configured program; a process is terminated only by the owner's undo of a completed task,
  and it is the one the node recorded for that task.\<close>

theorem process_needs_phone_consent:
  assumes "S = run P (linked_client P cfg c) (init_service notes (Xs, init_node)) ops"
    and "S' = service_step P (linked_client P cfg c) S op"
    and "N = snd (wd_device (sv_world S))" and "N' = snd (wd_device (sv_world S'))"
    and "nd_effects N' \<noteq> nd_effects N"
  shows "(\<exists>E tid dec session task a. op = Decide E tid dec session PHONE \<and>
      dget (sv_tasks S) tid = Some task \<and> authorised E dec session PHONE task a \<and>
      nd_effects N' = nd_effects N @ [Started (nc_executable cfg)]) \<or>
    (\<exists>E tid session task k rec. op = Undo E tid session \<and> dget (sv_tasks S) tid = Some task \<and>
      ses_authenticated session \<and> ses_session_id session = tv_user_session_id task \<and>
      tv_state task = TaskState.COMPLETED \<and> dget (nd_launched N) k = Some rec \<and> lp_task_id rec = tid \<and>
      nd_effects N' = nd_effects N @ [Terminated (lp_handle rec)])"
  using assms(1,2) refl refl assms(5) [unfolded assms(3,4)]
proof (cases rule: linked.service_effect)
  case (started E tid dec session task a)
  then show ?thesis unfolding assms(3,4) by blast
next
  case (stopped E tid session task x)
  then show ?thesis unfolding assms(3,4) by blast
qed

subsection \<open>A concrete chain\<close>

definition notepad_config :: node_config where
  "notepad_config = sample_config\<lparr>nc_node_id := str ''windows-primary''\<rparr>"

abbreviation sample_link_client :: "link device_client" where
  "sample_link_client \<equiv> linked_client run_platform notepad_config sample_http_client"

definition linked1 :: "link service" where
  "linked1 = run run_platform sample_link_client
     (init_service sample_store ([sample_node_env 5], init_node))
     [Create (env_at 0) sample_request sample_session]"

lemma created_facts:
  assumes S_def: "S = run run_platform C (init_service sample_store d) [Create (env_at 0) sample_request sample_session]"
  shows "dget (sv_tasks S) 5 = Some awaiting_view" "sv_world S = \<lparr>wd_notes = sample_store, wd_device = d\<rparr>"
proof -
  let ?S = "init_service sample_store d"
  have eq: "S = snd (commit run_platform awaiting_view
      (?S\<lparr>sv_request_index := dput 5 5 (sv_request_index ?S)\<rparr>))"
    by (simp add: S_def create_commit init_service_def dict_laws)
  have id: "tv_task_id awaiting_view = 5" by (simp add: awaiting_view_def)
  show "dget (sv_tasks S) 5 = Some awaiting_view" "sv_world S = \<lparr>wd_notes = sample_store, wd_device = d\<rparr>"
    by (simp_all add: eq commit_tasks dict_laws id init_service_def)
qed

lemmas linked1_facts = created_facts [OF linked1_def]

lemma link_launch_node:
  "snd (snd (cl_launch_notepad (linked_client P cfg c) X t g ([Y], N))) =
     snd (http_launch_notepad P (node_transport P cfg Y (hc_base_url c)) c X t g N)"
  by (simp add: linked_client_def HttpDeviceNodeClient_def http_launch_notepad_def http_post_def Let_def
      case_prod_beta split: sum.split reply.split body.split prod.split)

lemma deliverable_chain:
  "deliverable run_platform sample_http_client (sample_node_env 5)
     (Command (launch_envelope run_platform (xe_call (se_exec (env_at 1) k)) 5 (str ''windows-primary''))) init_node"
proof -
  let ?e = "Command (launch_envelope run_platform (xe_call (se_exec (env_at 1) k)) 5 (str ''windows-primary''))"
  have "\<forall>s\<in>json_strs (env_json run_platform ?e). \<forall>x\<in>set s. x < 128"
    using uuid_str_ascii
    by (auto simp: launch_envelope_def env_at_def jstr_def json_attributes_def run_platform_def
        ascii_platform_def str_def dest: dec_int_ascii)
  moreover have "valid_device_capability (str ''device.launch_notepad'')" by code_simp
  ultimately show ?thesis
    using sign_ascii_sample [of run_platform ?e]
    by (simp add: deliverable_def sample_node_env_def sample_http_client_def init_node_def dkeys_def
        launch_envelope_def env_at_def DEVICE_COMMAND_LIFETIME_def valid_DeviceCommandEnvelope_def
        valid_target_def valid_nonce_def)
qed

lemma linked_start:
  "nd_effects (snd (wd_device (sv_world (service_step run_platform sample_link_client linked1
     (Decide (env_at 1) 5 (sample_decision APPROVE) sample_session PHONE))))) = [Started (str ''notepad.exe'')]"
proof -
  let ?X = "xe_call (se_exec (env_at 1) 1)"
  let ?N = "init_node\<lparr>nd_seen := marked (sample_node_env 5)
    (Command (launch_envelope run_platform ?X 5 (str ''windows-primary''))) init_node\<rparr>"
  have st: "tv_state awaiting_view = TaskState.AWAITING_APPROVAL" "tv_task_id awaiting_view = 5"
    "pl_steps (tv_plan awaiting_view) = [run_step]"
    by (simp_all add: awaiting_view_def run_plan_def)
  have "nd_effects (snd (node_launch notepad_config (sample_node_env 5) 5 k (str ''windows-primary'') ?N)) =
      [Started (str ''notepad.exe'')]" for k
    by (simp add: node_launch_def notepad_config_def sample_config_def sample_node_env_def init_node_def
        dict_laws Let_def)
  then have "nd_effects (snd (http_launch_notepad run_platform
      (node_transport run_platform notepad_config (sample_node_env 5) (hc_base_url sample_http_client))
      sample_http_client ?X 5 (str ''windows-primary'') init_node)) = [Started (str ''notepad.exe'')]"
    by (simp add: client_launch [OF run_platform_digests deliverable_chain] case_prod_beta split: sum.split)
  then show ?thesis
    by (simp add: approve_grant [OF linked1_facts(1)] grant_world [OF st(1)] st(2,3)
        execute_step_def run_step_simps execute_launch_notepad_def link_launch_node linked1_facts(2)
        get_str_def dget_def case_prod_beta Let_def split: sum.split)
qed

theorem process_needs_phone_consent_witness:
  "\<exists>task a. dget (sv_tasks linked1) 5 = Some task \<and>
     authorised (env_at 1) (sample_decision APPROVE) sample_session PHONE task a"
proof -
  have "nd_effects (snd (wd_device (sv_world (service_step run_platform sample_link_client linked1
     (Decide (env_at 1) 5 (sample_decision APPROVE) sample_session PHONE))))) \<noteq>
     nd_effects (snd (wd_device (sv_world linked1)))"
    unfolding linked_start by (simp add: linked1_facts(2) init_node_def)
  from process_needs_phone_consent [OF linked1_def refl refl refl this] show ?thesis by auto
qed

end
