(* ===== verification/Gateway.thy ===== *)
theory Gateway
  imports Device
begin

section \<open>The phone gateway: \<^verbatim>\<open>mobile/gateway.py\<close> and \<^verbatim>\<open>mobile/models.py\<close>\<close>

text \<open>
  Pairing codes and phone sessions. The state is the table of pairing records by code and the
  table of device records by identifier; the clock, the random draws and the random token are
  arguments. The properties are about traces of operations: every session a phone is given
  goes back to one pairing code that an authenticated desktop session asked for.
\<close>

subsection \<open>Contracts\<close>

record MobilePairingChallenge =
  mc_pairing_id :: uuid
  mc_pairing_code :: ustr
  mc_mobile_url :: ustr
  mc_expires_at :: time

record MobilePairRequest =
  mp_pairing_code :: ustr
  mp_device_label :: ustr

record MobileDeviceSession =
  md_device_id :: uuid
  md_device_label :: ustr
  md_device_token :: ustr
  md_expires_at :: time

record MobileDecisionRequest =
  mr_approval_id :: uuid
  mr_approval_token :: ustr
  mr_payload_sha256 :: ustr
  mr_decision :: ApprovalDecisionKind

definition valid_pairing_code :: "ustr \<Rightarrow> bool" where
  "valid_pairing_code s \<longleftrightarrow> length s = 8 \<and> list_all (\<lambda>c. 48 \<le> c \<and> c \<le> 57) s"

text \<open>\<open>str_strip_whitespace\<close> applies before the constraints.\<close>

definition parse_MobilePairRequest :: "ustr \<Rightarrow> ustr \<Rightarrow> MobilePairRequest option" where
  "parse_MobilePairRequest code label =
     (let r = \<lparr>mp_pairing_code = strip code, mp_device_label = strip label\<rparr>
      in if valid_pairing_code (mp_pairing_code r) \<and> 1 \<le> length (mp_device_label r) \<and>
            length (mp_device_label r) \<le> 80
         then Some r else None)"

definition valid_MobileDecisionRequest :: "MobileDecisionRequest \<Rightarrow> bool" where
  "valid_MobileDecisionRequest r \<longleftrightarrow>
     32 \<le> length (mr_approval_token r) \<and> length (mr_approval_token r) \<le> 256 \<and>
     valid_sha256 (mr_payload_sha256 r)"

subsection \<open>State\<close>

definition PAIRING_LIFETIME :: time where
  "PAIRING_LIFETIME = 10 * 60 * 1000000"

definition DEVICE_SESSION_LIFETIME :: time where
  "DEVICE_SESSION_LIFETIME = 8 * 60 * 60 * 1000000"

record PairingRecord =
  pr_pairing_id :: uuid
  pr_code :: ustr
  pr_session_id :: uuid
  pr_mobile_url :: ustr
  pr_expires_at :: time
  pr_consumed :: bool

record DeviceRecord =
  dv_device_id :: uuid
  dv_device_label :: ustr
  dv_session_id :: uuid
  dv_token_sha256 :: ustr
  dv_expires_at :: time

record gateway =
  gw_mobile_url :: ustr
  gw_pairings :: "(ustr, PairingRecord) dict"
  gw_devices :: "(uuid, DeviceRecord) dict"

definition init_gateway :: "ustr \<Rightarrow> gateway" where
  "init_gateway mobile_url =
     \<lparr>gw_mobile_url = rstrip_chars ''/'' mobile_url, gw_pairings = [], gw_devices = []\<rparr>"

definition hash_token :: "platform \<Rightarrow> ustr \<Rightarrow> ustr res" where
  "hash_token P token = rbind (encode_utf8 token) (\<lambda>b. Inr (pf_sha256 P b))"

subsection \<open>Operations\<close>

text \<open>The format \<open>08d\<close>.\<close>

definition format_code :: "nat \<Rightarrow> ustr" where
  "format_code n = replicate (8 - length (dec_nat n)) 48 @ dec_nat n"

text \<open>The loop of twenty attempts: the first drawn code that is not in use.\<close>

definition draw_code :: "(nat \<Rightarrow> nat) \<Rightarrow> (ustr, PairingRecord) dict \<Rightarrow> ustr option" where
  "draw_code draws pairings =
     List.find (\<lambda>code. dget pairings code = None) (map (\<lambda>attempt. format_code (draws attempt)) [0..<20])"

definition live_pairings :: "time \<Rightarrow> (ustr, PairingRecord) dict \<Rightarrow> (ustr, PairingRecord) dict" where
  "live_pairings now pairings = filter (\<lambda>(code, r). \<not> pr_expires_at r \<le> now) pairings"

definition create_pairing ::
  "platform \<Rightarrow> uuid \<Rightarrow> time \<Rightarrow> (nat \<Rightarrow> nat) \<Rightarrow> gateway \<Rightarrow> MobilePairingChallenge res \<times> gateway" where
  "create_pairing P session_id issued_at draws G =
     (let pairings = live_pairings issued_at (gw_pairings G)
      in case draw_code draws pairings of
           None \<Rightarrow>
             (Inl (MobilePairingError (str ''PAIRING_CODE_GENERATION_FAILED'')), G\<lparr>gw_pairings := pairings\<rparr>)
         | Some code \<Rightarrow>
             (let r = \<lparr>pr_pairing_id = pf_uuid5 P (str ''nexuss:mobile-pairing:'' @ uuid_str session_id @
                         str '':'' @ code @ str '':'' @ pf_isoformat P issued_at),
                       pr_code = code, pr_session_id = session_id, pr_mobile_url = gw_mobile_url G,
                       pr_expires_at = issued_at + PAIRING_LIFETIME, pr_consumed = False\<rparr>
              in (Inr \<lparr>mc_pairing_id = pr_pairing_id r, mc_pairing_code = pr_code r,
                       mc_mobile_url = pr_mobile_url r, mc_expires_at = pr_expires_at r\<rparr>,
                  G\<lparr>gw_pairings := dput code r pairings\<rparr>)))"

definition pair_device ::
  "platform \<Rightarrow> ustr \<Rightarrow> ustr \<Rightarrow> time \<Rightarrow> ustr \<Rightarrow> gateway \<Rightarrow> MobileDeviceSession res \<times> gateway" where
  "pair_device P pairing_code device_label paired_at token G =
     (case dget (gw_pairings G) pairing_code of
        None \<Rightarrow> (Inl (MobilePairingError (str ''PAIRING_CODE_INVALID'')), G)
      | Some r \<Rightarrow>
          if pr_consumed r then (Inl (MobilePairingError (str ''PAIRING_CODE_ALREADY_USED'')), G)
          else if paired_at \<ge> pr_expires_at r
          then (Inl (MobilePairingError (str ''PAIRING_CODE_EXPIRED'')), G)
          else
            (let device_id = pf_uuid5 P (str ''nexuss:mobile-device:'' @ uuid_str (pr_session_id r) @
                   str '':'' @ device_label @ str '':'' @ token)
             in case hash_token P token of
                  Inl e \<Rightarrow> (Inl e, G)
                | Inr token_sha256 \<Rightarrow>
                    (let d = \<lparr>dv_device_id = device_id, dv_device_label = strip device_label,
                              dv_session_id = pr_session_id r, dv_token_sha256 = token_sha256,
                              dv_expires_at = paired_at + DEVICE_SESSION_LIFETIME\<rparr>
                     in (Inr \<lparr>md_device_id = dv_device_id d, md_device_label = dv_device_label d,
                              md_device_token = token, md_expires_at = dv_expires_at d\<rparr>,
                         G\<lparr>gw_devices := dput device_id d (gw_devices G),
                           gw_pairings := dput pairing_code (r\<lparr>pr_consumed := True\<rparr>) (gw_pairings G)\<rparr>))))"

definition authenticate ::
  "platform \<Rightarrow> uuid \<Rightarrow> ustr \<Rightarrow> time \<Rightarrow> gateway \<Rightarrow> uuid res \<times> gateway" where
  "authenticate P device_id device_token checked_at G =
     (case dget (gw_devices G) device_id of
        None \<Rightarrow> (Inl (MobilePairingError (str ''MOBILE_DEVICE_NOT_PAIRED'')), G)
      | Some r \<Rightarrow>
          if checked_at \<ge> dv_expires_at r
          then (Inl (MobilePairingError (str ''MOBILE_DEVICE_SESSION_EXPIRED'')),
                G\<lparr>gw_devices := ddel device_id (gw_devices G)\<rparr>)
          else
            (rbind (hash_token P device_token) (\<lambda>h.
             rbind (compare_digest (dv_token_sha256 r) h) (\<lambda>same.
             rbind (guard same (MobilePairingError (str ''MOBILE_DEVICE_TOKEN_INVALID''))) (\<lambda>_.
               Inr (dv_session_id r)))), G))"

definition revoke :: "uuid \<Rightarrow> gateway \<Rightarrow> gateway" where
  "revoke device_id G = G\<lparr>gw_devices := ddel device_id (gw_devices G)\<rparr>"

subsection \<open>Traces\<close>

datatype gateway_op =
    Challenge uuid time "nat \<Rightarrow> nat"
  | Pairing ustr ustr time ustr
  | Login uuid ustr time
  | Revocation uuid

primrec gateway_step :: "platform \<Rightarrow> gateway \<Rightarrow> gateway_op \<Rightarrow> gateway" where
  "gateway_step P G (Challenge sid now draws) = snd (create_pairing P sid now draws G)"
| "gateway_step P G (Pairing code label now token) = snd (pair_device P code label now token G)"
| "gateway_step P G (Login did token now) = snd (authenticate P did token now G)"
| "gateway_step P G (Revocation did) = revoke did G"

abbreviation gateway_run :: "platform \<Rightarrow> gateway \<Rightarrow> gateway_op list \<Rightarrow> gateway" where
  "gateway_run P G ops \<equiv> foldl (gateway_step P) G ops"

lemma live_pairings_sub: "dget (live_pairings now d) code = Some r \<Longrightarrow> distinct (dkeys d) \<Longrightarrow> dget d code = Some r"
proof -
  assume d: "distinct (dkeys d)" and g: "dget (live_pairings now d) code = Some r"
  have "(code, r) \<in> set (live_pairings now d)" by (rule dget_Some_in [OF g])
  then have "(code, r) \<in> set d" by (auto simp: live_pairings_def)
  then show "dget d code = Some r" using in_dget_iff [OF d] by blast
qed

lemma create_pairing_cases:
  obtains
    (failed) "fst (create_pairing P sid now draws G) =
        Inl (MobilePairingError (str ''PAIRING_CODE_GENERATION_FAILED''))"
      "snd (create_pairing P sid now draws G) = G\<lparr>gw_pairings := live_pairings now (gw_pairings G)\<rparr>"
  | (issued) code r where
      "\<exists>ch. fst (create_pairing P sid now draws G) = Inr ch \<and> mc_pairing_code ch = code"
      "dget (live_pairings now (gw_pairings G)) code = None"
      "pr_code r = code" "pr_session_id r = sid" "pr_expires_at r = now + PAIRING_LIFETIME" "\<not> pr_consumed r"
      "snd (create_pairing P sid now draws G) =
         G\<lparr>gw_pairings := dput code r (live_pairings now (gw_pairings G))\<rparr>"
proof (cases "draw_code draws (live_pairings now (gw_pairings G))")
  case None
  then show ?thesis by (intro failed) (simp_all add: create_pairing_def Let_def)
next
  case (Some code)
  then have "dget (live_pairings now (gw_pairings G)) code = None"
    by (auto simp: draw_code_def find_Some_iff)
  with Some show ?thesis by (intro issued [of code]) (simp_all add: create_pairing_def Let_def)
qed

lemma pair_device_cases:
  obtains
    (refused) e where "pair_device P code label now token G = (Inl e, G)"
  | (paired) r h d s where "dget (gw_pairings G) code = Some r" "\<not> pr_consumed r" "now < pr_expires_at r"
      "hash_token P token = Inr h" "fst (pair_device P code label now token G) = Inr s"
      "md_device_id s = dv_device_id d" "md_device_token s = token"
      "dv_session_id d = pr_session_id r" "dv_token_sha256 d = h"
      "dv_expires_at d = now + DEVICE_SESSION_LIFETIME"
      "snd (pair_device P code label now token G) =
         G\<lparr>gw_devices := dput (dv_device_id d) d (gw_devices G),
           gw_pairings := dput code (r\<lparr>pr_consumed := True\<rparr>) (gw_pairings G)\<rparr>"
proof (cases "dget (gw_pairings G) code")
  case None
  then show ?thesis by (intro refused) (simp add: pair_device_def)
next
  case (Some r)
  show ?thesis
  proof (cases "pr_consumed r \<or> now \<ge> pr_expires_at r")
    case True
    with Some show ?thesis
      by (cases "pr_consumed r") (intro refused, simp add: pair_device_def)+
  next
    case False
    show ?thesis
    proof (cases "hash_token P token")
      case (Inl e)
      with Some False show ?thesis by (intro refused) (auto simp: pair_device_def Let_def)
    next
      case (Inr h)
      let ?d = "\<lparr>dv_device_id = pf_uuid5 P (str ''nexuss:mobile-device:'' @ uuid_str (pr_session_id r) @
           str '':'' @ label @ str '':'' @ token), dv_device_label = strip label,
         dv_session_id = pr_session_id r, dv_token_sha256 = h,
         dv_expires_at = now + DEVICE_SESSION_LIFETIME\<rparr>"
      let ?s = "\<lparr>md_device_id = dv_device_id ?d, md_device_label = strip label, md_device_token = token,
        md_expires_at = now + DEVICE_SESSION_LIFETIME\<rparr>"
      from Some False Inr show ?thesis
        by (intro paired [of r h ?s ?d]) (simp_all add: pair_device_def Let_def)
    qed
  qed
qed

lemma authenticate_Inr:
  assumes "authenticate P did token now G = (Inr sid, G')"
  shows "\<exists>d. dget (gw_devices G) did = Some d \<and> now < dv_expires_at d \<and> dv_session_id d = sid \<and>
    hash_token P token = Inr (dv_token_sha256 d) \<and> G' = G"
  using assms
  by (auto simp: authenticate_def rbind_Inr_iff guard_Inr_iff compare_digest_def
      split: option.splits if_splits)

lemma login_devices:
  "dget (gw_devices (snd (authenticate P did token now G))) k = Some d \<Longrightarrow> dget (gw_devices G) k = Some d"
  "gw_pairings (snd (authenticate P did token now G)) = gw_pairings G"
  by (auto simp: authenticate_def dict_laws split: option.splits if_splits)

end
