(* ===== verification/Api.thy ===== *)
theory Api
  imports Gateway ServiceEffects
begin

section \<open>The HTTP surface: \<^verbatim>\<open>api/app.py\<close>\<close>

text \<open>
  The handlers of the core API over the state they share: the service, the phone gateway and
  the attempts of the pairing rate limiter. A handler returns a value or an exception; FastAPI
  answers an \<open>HTTPException\<close> with its status. What a request brings besides its content (the
  peer address, clocks, random draws) is the record \<open>api_env\<close>. IPv4 addresses are parsed as
  \<open>ipaddress\<close> does; whether another text is a loopback IPv6 address, or no address, is a
  parameter.
\<close>

subsection \<open>State and environment\<close>

record 'd api =
  hs_service :: "'d service"
  hs_gateway :: gateway
  hs_attempts :: "(ustr, time list) dict"

record api_env =
  ae_host :: "ustr option"              \<comment> \<open>\<open>request.client.host\<close>\<close>
  ae_loopback6 :: "ustr \<Rightarrow> bool option"  \<comment> \<open>\<open>IPv6Address(host).is_loopback\<close>, or a \<open>ValueError\<close>\<close>
  ae_now :: time                        \<comment> \<open>the clock of the rate limiter\<close>
  ae_gateway_now :: time
  ae_draws :: "nat \<Rightarrow> nat"
  ae_device_token :: ustr
  ae_service :: service_env

definition init_api :: "note_store \<Rightarrow> 'd \<Rightarrow> ustr option \<Rightarrow> 'd api" where
  "init_api notes device mobile_url =
     \<lparr>hs_service = init_service notes device,
      hs_gateway = init_gateway
        (case mobile_url of None \<Rightarrow> str ''http://127.0.0.1:8100/mobile'' | Some u \<Rightarrow> u),
      hs_attempts = []\<rparr>"

definition PAIR_ATTEMPT_WINDOW :: time where
  "PAIR_ATTEMPT_WINDOW = 5 * 60 * 1000000"

definition PAIR_ATTEMPT_LIMIT :: nat where
  "PAIR_ATTEMPT_LIMIT = 5"

subsection \<open>Local control\<close>

text \<open>One decimal octet of a dotted address: up to three digits, no leading zero, at most 255.\<close>

definition parse_octet :: "ustr \<Rightarrow> nat option" where
  "parse_octet s =
     (if s = [] \<or> \<not> list_all (\<lambda>c. 48 \<le> c \<and> c \<le> 57) s \<or> 3 < length s \<or> (s \<noteq> [48] \<and> hd s = 48)
      then None
      else (let n = foldl (\<lambda>n c. 10 * n + (c - 48)) 0 s in if n > 255 then None else Some n))"

definition parse_ipv4 :: "ustr \<Rightarrow> nat list option" where
  "parse_ipv4 s =
     (let octets = map parse_octet (split_on 46 s)
      in if length octets = 4 \<and> None \<notin> set octets then Some (map the octets) else None)"

text \<open>\<open>ipaddress.ip_address(host).is_loopback\<close>; \<^const>\<open>None\<close> is the \<open>ValueError\<close>.\<close>

definition is_loopback :: "(ustr \<Rightarrow> bool option) \<Rightarrow> ustr \<Rightarrow> bool option" where
  "is_loopback loopback6 host =
     (case parse_ipv4 host of Some octets \<Rightarrow> Some (hd octets = 127) | None \<Rightarrow> loopback6 host)"

definition client_host :: "api_env \<Rightarrow> ustr" where
  "client_host A = (case ae_host A of None \<Rightarrow> [] | Some h \<Rightarrow> h)"

definition require_local_control :: "api_env \<Rightarrow> unit res" where
  "require_local_control A =
     (if client_host A = str ''testclient'' then Inr ()
      else if is_loopback (ae_loopback6 A) (client_host A) = Some True then Inr ()
      else Inl (HTTPException 403 (str ''LOCAL_CONTROL_ENDPOINT_REQUIRED'')))"

subsection \<open>The pairing rate limit\<close>

definition enforce_pair_rate_limit ::
  "api_env \<Rightarrow> (ustr, time list) dict \<Rightarrow> unit res \<times> (ustr, time list) dict" where
  "enforce_pair_rate_limit A all_attempts =
     (let host = (if client_host A = [] then str ''unknown'' else client_host A);
          cutoff = ae_now A - PAIR_ATTEMPT_WINDOW;
          known = (case dget all_attempts host of None \<Rightarrow> [] | Some d \<Rightarrow> d);
          attempts = dropWhile (\<lambda>t. t \<le> cutoff) known
      in if length attempts \<ge> PAIR_ATTEMPT_LIMIT
         then (Inl (HTTPException 429 (str ''MOBILE_PAIRING_RATE_LIMITED'')), dput host attempts all_attempts)
         else (Inr (), dput host (attempts @ [ae_now A]) all_attempts))"

subsection \<open>Identities\<close>

definition session_of :: "uuid \<Rightarrow> bool \<Rightarrow> AssuranceLevel \<Rightarrow> IdentitySession" where
  "session_of session_id authenticated assurance_level =
     \<lparr>ses_session_id = session_id, ses_authenticated = authenticated, ses_assurance_level = assurance_level\<rparr>"

text \<open>An \<open>except\<close> clause that translates exceptions.\<close>

definition except :: "(exn \<Rightarrow> exn) \<Rightarrow> 'a res \<Rightarrow> 'a res" where
  "except f r = (case r of Inl e \<Rightarrow> Inl (f e) | Inr v \<Rightarrow> Inr v)"

fun pairing_error_as :: "nat \<Rightarrow> exn \<Rightarrow> exn" where
  "pairing_error_as code (MobilePairingError m) = HTTPException code m"
| "pairing_error_as code e = e"

definition mobile_identity ::
  "platform \<Rightarrow> api_env \<Rightarrow> uuid \<Rightarrow> ustr \<Rightarrow> gateway \<Rightarrow> IdentitySession res \<times> gateway" where
  "mobile_identity P A device_id device_token G =
     (case authenticate P device_id device_token (ae_gateway_now A) G of
        (r, G') \<Rightarrow> (rbind (except (pairing_error_as 401) r) (\<lambda>sid. Inr (session_of sid True STRONG)), G'))"

subsection \<open>Handlers of the desktop\<close>

text \<open>A handler that changes the service alone.\<close>

definition on_service :: "('d service \<Rightarrow> 'a res \<times> 'd service) \<Rightarrow> (exn \<Rightarrow> exn) \<Rightarrow> 'd api \<Rightarrow> 'a res \<times> 'd api" where
  "on_service f errors S =
     (case f (hs_service S) of (r, V) \<Rightarrow> (except errors r, S\<lparr>hs_service := V\<rparr>))"

definition get_capabilities :: "api_env \<Rightarrow> CapabilityManifest list res" where
  "get_capabilities A = rbind (require_local_control A) (\<lambda>_. Inr list_capabilities)"

fun create_errors :: "exn \<Rightarrow> exn" where
  "create_errors (InvalidSessionError m) = HTTPException 401 m"
| "create_errors e = e"

definition api_create_task ::
  "platform \<Rightarrow> 'd device_client \<Rightarrow> api_env \<Rightarrow> TaskRequest \<Rightarrow> uuid \<Rightarrow> bool \<Rightarrow> 'd api \<Rightarrow> TaskView res \<times> 'd api" where
  "api_create_task P C A request session_id authenticated S =
     (case require_local_control A of
        Inl e \<Rightarrow> (Inl e, S)
      | Inr _ \<Rightarrow>
          on_service (create_task P C (ae_service A) request (session_of session_id authenticated BASIC))
            create_errors S)"

fun approval_errors :: "exn \<Rightarrow> exn" where
  "approval_errors (InvalidSessionError m) = HTTPException 401 m"
| "approval_errors (TaskNotFoundError m) = HTTPException 404 (str ''Task not found'')"
| "approval_errors (ApprovalValidationError m) = HTTPException 409 m"
| "approval_errors e = e"

definition decide_task_approval ::
  "platform \<Rightarrow> 'd device_client \<Rightarrow> api_env \<Rightarrow> uuid \<Rightarrow> ApprovalDecision \<Rightarrow> uuid \<Rightarrow> bool \<Rightarrow> 'd api \<Rightarrow>
     TaskView res \<times> 'd api" where
  "decide_task_approval P C A task_id dec session_id authenticated S =
     (case require_local_control A of
        Inl e \<Rightarrow> (Inl e, S)
      | Inr _ \<Rightarrow>
          on_service (approve_task P C (ae_service A) task_id dec
              (session_of session_id authenticated BASIC) DESKTOP)
            approval_errors S)"

fun rollback_errors :: "exn \<Rightarrow> exn" where
  "rollback_errors (InvalidSessionError m) = HTTPException 401 m"
| "rollback_errors (TaskNotFoundError m) = HTTPException 404 (str ''Task not found'')"
| "rollback_errors (RollbackValidationError m) = HTTPException 409 m"
| "rollback_errors e = e"

definition api_rollback_task ::
  "platform \<Rightarrow> 'd device_client \<Rightarrow> api_env \<Rightarrow> uuid \<Rightarrow> uuid \<Rightarrow> bool \<Rightarrow> 'd api \<Rightarrow> TaskView res \<times> 'd api" where
  "api_rollback_task P C A task_id session_id authenticated S =
     (case require_local_control A of
        Inl e \<Rightarrow> (Inl e, S)
      | Inr _ \<Rightarrow>
          on_service (rollback_task P C (ae_service A) task_id (session_of session_id authenticated BASIC))
            rollback_errors S)"

fun not_found_as :: "ustr \<Rightarrow> exn \<Rightarrow> exn" where
  "not_found_as detail (TaskNotFoundError m) = HTTPException 404 detail"
| "not_found_as detail e = e"

definition api_get_task :: "api_env \<Rightarrow> uuid \<Rightarrow> 'd api \<Rightarrow> TaskView res" where
  "api_get_task A task_id S =
     rbind (require_local_control A) (\<lambda>_.
       except (not_found_as (str ''Task not found'')) (get_task task_id (hs_service S)))"

definition get_task_receipt :: "api_env \<Rightarrow> uuid \<Rightarrow> 'd api \<Rightarrow> ActionReceipt res" where
  "get_task_receipt A task_id S =
     rbind (require_local_control A) (\<lambda>_.
       except (not_found_as (str ''Receipt not found'')) (get_receipt task_id (hs_service S)))"

definition get_task_receipt_history :: "api_env \<Rightarrow> uuid \<Rightarrow> 'd api \<Rightarrow> ActionReceipt list res" where
  "get_task_receipt_history A task_id S =
     rbind (require_local_control A) (\<lambda>_.
       except (not_found_as (str ''Receipt history not found'')) (get_receipt_history task_id (hs_service S)))"

definition create_mobile_pairing ::
  "platform \<Rightarrow> api_env \<Rightarrow> uuid \<Rightarrow> bool \<Rightarrow> 'd api \<Rightarrow> MobilePairingChallenge res \<times> 'd api" where
  "create_mobile_pairing P A session_id authenticated S =
     (case require_local_control A of
        Inl e \<Rightarrow> (Inl e, S)
      | Inr _ \<Rightarrow>
          if \<not> authenticated then (Inl (HTTPException 401 (str ''SESSION_NOT_AUTHENTICATED'')), S)
          else
            (case create_pairing P session_id (ae_gateway_now A) (ae_draws A) (hs_gateway S) of
               (r, G) \<Rightarrow> (except (pairing_error_as 409) r, S\<lparr>hs_gateway := G\<rparr>)))"

subsection \<open>Handlers of the phone\<close>

definition pair_mobile_device ::
  "platform \<Rightarrow> api_env \<Rightarrow> MobilePairRequest \<Rightarrow> 'd api \<Rightarrow> MobileDeviceSession res \<times> 'd api" where
  "pair_mobile_device P A request S =
     (case enforce_pair_rate_limit A (hs_attempts S) of
        (Inl e, attempts) \<Rightarrow> (Inl e, S\<lparr>hs_attempts := attempts\<rparr>)
      | (Inr _, attempts) \<Rightarrow>
          (case pair_device P (mp_pairing_code request) (mp_device_label request) (ae_gateway_now A)
                 (ae_device_token A) (hs_gateway S) of
             (r, G) \<Rightarrow> (except (pairing_error_as 409) r, S\<lparr>hs_attempts := attempts, hs_gateway := G\<rparr>)))"

definition get_mobile_pending_approvals ::
  "platform \<Rightarrow> api_env \<Rightarrow> uuid \<Rightarrow> ustr \<Rightarrow> 'd api \<Rightarrow> MobileApprovalSummary list res \<times> 'd api" where
  "get_mobile_pending_approvals P A device_id device_token S =
     (case mobile_identity P A device_id device_token (hs_gateway S) of
        (r, G) \<Rightarrow>
          (rbind r (\<lambda>identity. Inr (list_pending_phone_approvals (ses_session_id identity) (hs_service S))),
           S\<lparr>hs_gateway := G\<rparr>))"

fun mobile_decision_errors :: "exn \<Rightarrow> exn" where
  "mobile_decision_errors (TaskNotFoundError m) = HTTPException 404 (str ''Task not found'')"
| "mobile_decision_errors (InvalidSessionError m) = HTTPException 409 m"
| "mobile_decision_errors (ApprovalValidationError m) = HTTPException 409 m"
| "mobile_decision_errors e = e"

definition decision_of :: "MobileDecisionRequest \<Rightarrow> ApprovalDecision" where
  "decision_of request =
     \<lparr>ad_approval_id = mr_approval_id request, ad_approval_token = mr_approval_token request,
      ad_payload_sha256 = mr_payload_sha256 request, ad_decision = mr_decision request\<rparr>"

definition decide_mobile_approval ::
  "platform \<Rightarrow> 'd device_client \<Rightarrow> api_env \<Rightarrow> uuid \<Rightarrow> MobileDecisionRequest \<Rightarrow> uuid \<Rightarrow> ustr \<Rightarrow> 'd api \<Rightarrow>
     TaskView res \<times> 'd api" where
  "decide_mobile_approval P C A task_id request device_id device_token S =
     (case mobile_identity P A device_id device_token (hs_gateway S) of
        (Inl e, G) \<Rightarrow> (Inl e, S\<lparr>hs_gateway := G\<rparr>)
      | (Inr identity, G) \<Rightarrow>
          on_service (approve_task P C (ae_service A) task_id (decision_of request) identity PHONE)
            mobile_decision_errors (S\<lparr>hs_gateway := G\<rparr>))"

subsection \<open>Pages and health\<close>

definition ui_index :: "api_env \<Rightarrow> ustr res" where
  "ui_index A = rbind (require_local_control A) (\<lambda>_. Inr (str ''index.html''))"

definition mobile_index :: ustr where
  "mobile_index = str ''mobile.html''"

definition health_live :: "(ustr \<times> ustr) list" where
  "health_live =
     [(str ''status'', str ''alive''), (str ''service'', str ''nexuss-core-api''),
      (str ''version'', str ''0.4.0'')]"

definition api_health_ready :: "(ustr \<times> ustr) list" where
  "api_health_ready =
     [(str ''status'', str ''ready''), (str ''mode'', str ''p4_trusted_device_mesh''),
      (str ''phone_approval'', str ''enabled'')]"

subsection \<open>Requests\<close>

text \<open>The requests that have a session come with its identifier and the authenticated flag.\<close>

datatype http_request =
    UiIndex | MobileIndex | HealthLive | HealthReady | GetCapabilities
  | PostTask TaskRequest uuid bool
  | PostApproval uuid ApprovalDecision uuid bool
  | PostRollback uuid uuid bool
  | GetTask uuid | GetReceipt uuid | GetReceiptHistory uuid
  | PostPairing uuid bool
  | PostPair MobilePairRequest
  | GetPending uuid ustr
  | PostMobileDecision uuid MobileDecisionRequest uuid ustr

datatype content =
    Page ustr | Facts "(ustr \<times> ustr) list" | Capabilities "CapabilityManifest list" | Task TaskView
  | Receipt ActionReceipt | Receipts "ActionReceipt list" | Pairing_challenge MobilePairingChallenge
  | Device_session MobileDeviceSession | Pending "MobileApprovalSummary list"

definition handle ::
  "platform \<Rightarrow> 'd device_client \<Rightarrow> api_env \<Rightarrow> http_request \<Rightarrow> 'd api \<Rightarrow> content res \<times> 'd api" where
  "handle P C A request S =
     (case request of
        UiIndex \<Rightarrow> (map_sum id Page (ui_index A), S)
      | MobileIndex \<Rightarrow> (Inr (Page mobile_index), S)
      | HealthLive \<Rightarrow> (Inr (Facts health_live), S)
      | HealthReady \<Rightarrow> (Inr (Facts api_health_ready), S)
      | GetCapabilities \<Rightarrow> (map_sum id Capabilities (get_capabilities A), S)
      | PostTask r sid auth \<Rightarrow> apfst (map_sum id Task) (api_create_task P C A r sid auth S)
      | PostApproval tid dec sid auth \<Rightarrow>
          apfst (map_sum id Task) (decide_task_approval P C A tid dec sid auth S)
      | PostRollback tid sid auth \<Rightarrow> apfst (map_sum id Task) (api_rollback_task P C A tid sid auth S)
      | GetTask tid \<Rightarrow> (map_sum id Task (api_get_task A tid S), S)
      | GetReceipt tid \<Rightarrow> (map_sum id Receipt (get_task_receipt A tid S), S)
      | GetReceiptHistory tid \<Rightarrow> (map_sum id Receipts (get_task_receipt_history A tid S), S)
      | PostPairing sid auth \<Rightarrow> apfst (map_sum id Pairing_challenge) (create_mobile_pairing P A sid auth S)
      | PostPair r \<Rightarrow> apfst (map_sum id Device_session) (pair_mobile_device P A r S)
      | GetPending did token \<Rightarrow> apfst (map_sum id Pending) (get_mobile_pending_approvals P A did token S)
      | PostMobileDecision tid r did token \<Rightarrow>
          apfst (map_sum id Task) (decide_mobile_approval P C A tid r did token S))"

text \<open>The statuses FastAPI answers with: 202 for a created task, 500 for an unhandled exception.\<close>

definition http_status :: "http_request \<Rightarrow> content res \<Rightarrow> nat" where
  "http_status request r =
     (case r of
        Inr _ \<Rightarrow> (case request of PostTask _ _ _ \<Rightarrow> 202 | _ \<Rightarrow> 200)
      | Inl e \<Rightarrow> (case e of HTTPException code _ \<Rightarrow> code | _ \<Rightarrow> 500))"

definition api_step :: "platform \<Rightarrow> 'd device_client \<Rightarrow> 'd api \<Rightarrow> api_env \<times> http_request \<Rightarrow> 'd api" where
  "api_step P C S x = snd (handle P C (fst x) (snd x) S)"

abbreviation api_run :: "platform \<Rightarrow> 'd device_client \<Rightarrow> 'd api \<Rightarrow> (api_env \<times> http_request) list \<Rightarrow> 'd api" where
  "api_run P C S reqs \<equiv> foldl (api_step P C) S reqs"

end
