(* ===== verification/GatewayProps.thy ===== *)
theory GatewayProps
  imports Gateway
begin

section \<open>Properties of the phone gateway\<close>

text \<open>
  Where the pairing and device records of a gateway come from, over any sequence of its
  operations, and the round trip of one pairing. The lemmas trace a record back to the
  operation that stored it; the two theorems put the traces together.
\<close>

subsection \<open>Where records come from\<close>

text \<open>An operation redeems a code when it is a pairing with that code that succeeds.\<close>

definition redeems :: "platform \<Rightarrow> ustr \<Rightarrow> gateway \<Rightarrow> gateway_op \<Rightarrow> bool" where
  "redeems P code G op \<longleftrightarrow>
     (\<exists>label now token s. op = Pairing code label now token \<and>
        fst (pair_device P code label now token G) = Inr s)"

fun unredeemed :: "platform \<Rightarrow> ustr \<Rightarrow> gateway \<Rightarrow> gateway_op list \<Rightarrow> bool" where
  "unredeemed P code G [] = True"
| "unredeemed P code G (op # ops) =
     (\<not> redeems P code G op \<and> unredeemed P code (gateway_step P G op) ops)"

lemma unredeemed_snoc:
  "unredeemed P code G (ops @ [op]) \<longleftrightarrow> unredeemed P code G ops \<and> \<not> redeems P code (gateway_run P G ops) op"
  by (induction ops arbitrary: G) auto

text \<open>A challenge that issued a code, and what happened since: the origin of an unconsumed record.\<close>

definition code_origin ::
  "platform \<Rightarrow> gateway \<Rightarrow> gateway_op list \<Rightarrow> ustr \<Rightarrow> PairingRecord \<Rightarrow> gateway_op list \<Rightarrow> time \<Rightarrow>
     (nat \<Rightarrow> nat) \<Rightarrow> gateway_op list \<Rightarrow> bool" where
  "code_origin P G0 ops code r pre t draws mid \<longleftrightarrow>
     ops = pre @ Challenge (pr_session_id r) t draws # mid \<and>
     (\<exists>ch. fst (create_pairing P (pr_session_id r) t draws (gateway_run P G0 pre)) = Inr ch \<and>
        mc_pairing_code ch = code) \<and>
     pr_expires_at r = t + PAIRING_LIFETIME \<and>
     unredeemed P code (gateway_run P G0 (pre @ [Challenge (pr_session_id r) t draws])) mid"

lemma code_origin_snoc:
  assumes "code_origin P G0 ops code r pre t draws mid" "\<not> redeems P code (gateway_run P G0 ops) op"
  shows "code_origin P G0 (ops @ [op]) code r pre t draws (mid @ [op])"
  using assms by (auto simp: code_origin_def unredeemed_snoc)

lemma gateway_keys:
  "distinct (dkeys (gw_pairings G)) \<Longrightarrow> distinct (dkeys (gw_pairings (gateway_step P G op)))"
proof (cases op)
  case (Challenge sid now draws)
  assume d: "distinct (dkeys (gw_pairings G))"
  then have "distinct (dkeys (live_pairings now (gw_pairings G)))"
    by (auto simp: live_pairings_def dkeys_def distinct_map intro: inj_on_subset)
  then show ?thesis
    by (cases rule: create_pairing_cases [of P sid now draws G]) (simp_all add: Challenge)
next
  case (Pairing code label now token)
  assume "distinct (dkeys (gw_pairings G))"
  then show ?thesis
    by (cases rule: pair_device_cases [of P code label now token G]) (simp_all add: Pairing)
qed (simp_all add: login_devices revoke_def)

lemma gateway_run_keys: "distinct (dkeys (gw_pairings (gateway_run P (init_gateway url) ops)))"
  by (induction ops rule: rev_induct) (simp_all add: gateway_keys, simp add: init_gateway_def dkeys_def)

lemma unconsumed_origin:
  assumes "dget (gw_pairings (gateway_run P (init_gateway url) ops)) code = Some r" "\<not> pr_consumed r"
  shows "\<exists>pre t draws mid. code_origin P (init_gateway url) ops code r pre t draws mid"
  using assms
proof (induction ops arbitrary: r rule: rev_induct)
  case Nil
  then show ?case by (simp add: init_gateway_def dict_laws)
next
  case (snoc op ops)
  let ?G0 = "init_gateway url"
  let ?G = "gateway_run P ?G0 ops"
  have keep: ?case if "dget (gw_pairings ?G) code = Some r" "\<not> redeems P code ?G op"
    using snoc.IH [OF that(1) snoc.prems(2)] code_origin_snoc that(2) by blast
  show ?case
  proof (cases op)
    case (Challenge sid now draws)
    have nr: "\<not> redeems P code ?G op" by (simp add: redeems_def Challenge)
    show ?thesis
    proof (cases rule: create_pairing_cases [of P sid now draws ?G])
      case failed
      with snoc.prems(1) have "dget (gw_pairings ?G) code = Some r"
        by (auto simp: Challenge intro: live_pairings_sub gateway_run_keys)
      with nr show ?thesis by (rule keep [rotated])
    next
      case (issued code' r')
      show ?thesis
      proof (cases "code = code'")
        case True
        with snoc.prems(1) issued have "r = r'" by (simp add: Challenge dict_laws)
        with True issued show ?thesis
          by (intro exI [of _ ops] exI [of _ now] exI [of _ draws] exI [of _ "[]"])
            (simp add: code_origin_def Challenge)
      next
        case False
        with snoc.prems(1) issued have "dget (gw_pairings ?G) code = Some r"
          by (auto simp: Challenge dict_laws intro: live_pairings_sub gateway_run_keys)
        with nr show ?thesis by (rule keep [rotated])
      qed
    qed
  next
    case (Pairing code' label now token)
    show ?thesis
    proof (cases rule: pair_device_cases [of P code' label now token ?G])
      case (refused e)
      with snoc.prems(1) show ?thesis by (intro keep) (auto simp: Pairing redeems_def)
    next
      case (paired r' h d s)
      with snoc.prems have "code \<noteq> code'" "dget (gw_pairings ?G) code = Some r"
        by (auto simp: Pairing dict_laws split: if_splits)
      then show ?thesis by (intro keep) (auto simp: Pairing redeems_def)
    qed
  next
    case (Login did token now)
    with snoc.prems(1) show ?thesis by (intro keep) (auto simp: redeems_def login_devices)
  next
    case (Revocation did)
    with snoc.prems(1) show ?thesis by (intro keep) (auto simp: redeems_def revoke_def)
  qed
qed

text \<open>A device record goes back to the pairing that created it, and was not revoked since.\<close>

definition device_origin ::
  "platform \<Rightarrow> gateway \<Rightarrow> gateway_op list \<Rightarrow> uuid \<Rightarrow> DeviceRecord \<Rightarrow> gateway_op list \<Rightarrow> ustr \<Rightarrow> ustr \<Rightarrow>
     time \<Rightarrow> ustr \<Rightarrow> gateway_op list \<Rightarrow> bool" where
  "device_origin P G0 ops did d pre code label t token mid \<longleftrightarrow>
     ops = pre @ Pairing code label t token # mid \<and>
     (\<exists>s. fst (pair_device P code label t token (gateway_run P G0 pre)) = Inr s \<and> md_device_id s = did) \<and>
     (\<exists>r. dget (gw_pairings (gateway_run P G0 pre)) code = Some r \<and> \<not> pr_consumed r \<and>
        t < pr_expires_at r \<and> pr_session_id r = dv_session_id d) \<and>
     hash_token P token = Inr (dv_token_sha256 d) \<and>
     dv_expires_at d = t + DEVICE_SESSION_LIFETIME \<and> Revocation did \<notin> set mid"

lemma device_origin_snoc:
  "device_origin P G0 ops did d pre code label t token mid \<Longrightarrow> op \<noteq> Revocation did \<Longrightarrow>
     device_origin P G0 (ops @ [op]) did d pre code label t token (mid @ [op])"
  by (auto simp: device_origin_def)

lemma paired_origin:
  assumes "dget (gw_devices (gateway_run P (init_gateway url) ops)) did = Some d"
  shows "\<exists>pre code label t token mid.
    device_origin P (init_gateway url) ops did d pre code label t token mid"
  using assms
proof (induction ops arbitrary: d rule: rev_induct)
  case Nil
  then show ?case by (simp add: init_gateway_def dict_laws)
next
  case (snoc op ops)
  let ?G = "gateway_run P (init_gateway url) ops"
  have keep: ?case if "dget (gw_devices ?G) did = Some d" "op \<noteq> Revocation did"
    using snoc.IH [OF that(1)] device_origin_snoc that(2) by blast
  show ?case
  proof (cases op)
    case (Challenge sid now draws)
    with snoc.prems show ?thesis
      by (intro keep; cases rule: create_pairing_cases [of P sid now draws ?G]) auto
  next
    case (Pairing code label now token)
    show ?thesis
    proof (cases rule: pair_device_cases [of P code label now token ?G])
      case (refused e)
      with snoc.prems show ?thesis by (intro keep) (auto simp: Pairing)
    next
      case (paired r h d' s)
      show ?thesis
      proof (cases "did = dv_device_id d'")
        case True
        with snoc.prems paired have "d = d'" by (simp add: Pairing dict_laws)
        with True paired show ?thesis
          by (intro exI [of _ ops] exI [of _ code] exI [of _ label] exI [of _ now] exI [of _ token]
              exI [of _ "[]"])
            (simp add: device_origin_def Pairing)
      next
        case False
        with snoc.prems paired show ?thesis by (intro keep) (auto simp: Pairing dict_laws)
      qed
    qed
  next
    case (Login did' token now)
    with snoc.prems show ?thesis by (intro keep) (auto dest: login_devices(1))
  next
    case (Revocation did')
    with snoc.prems show ?thesis by (intro keep) (auto simp: revoke_def dict_laws split: if_splits)
  qed
qed

subsection \<open>The properties\<close>

text \<open>C12. Where a phone session comes from. If a device is authenticated for a session, then a desktop of
  that session asked for a pairing code, that code was redeemed once and not before, within ten
  minutes, by the pairing that created the device; the presented token has the digest of the
  token that pairing returned, is less than eight hours old, and the device has not been
  revoked since.\<close>

theorem phone_session_provenance:
  assumes "authenticate P did token now (gateway_run P (init_gateway url) ops) = (Inr sid, G')"
  shows "\<exists>pre t draws mid code label t' token' later.
    ops = pre @ [Challenge sid t draws] @ mid @ [Pairing code label t' token'] @ later \<and>
    (\<exists>ch. fst (create_pairing P sid t draws (gateway_run P (init_gateway url) pre)) = Inr ch \<and>
       mc_pairing_code ch = code) \<and>
    unredeemed P code (gateway_run P (init_gateway url) (pre @ [Challenge sid t draws])) mid \<and>
    (\<exists>s. fst (pair_device P code label t' token'
            (gateway_run P (init_gateway url) (pre @ [Challenge sid t draws] @ mid))) = Inr s \<and>
       md_device_id s = did) \<and>
    t' < t + PAIRING_LIFETIME \<and> now < t' + DEVICE_SESSION_LIFETIME \<and>
    hash_token P token = hash_token P token' \<and> Revocation did \<notin> set later"
proof -
  let ?G0 = "init_gateway url"
  obtain d where d: "dget (gw_devices (gateway_run P ?G0 ops)) did = Some d" "now < dv_expires_at d"
    "dv_session_id d = sid" "hash_token P token = Inr (dv_token_sha256 d)"
    using authenticate_Inr [OF assms] by blast
  obtain p1 code label t' token' later where dev:
    "device_origin P ?G0 ops did d p1 code label t' token' later"
    using paired_origin [OF d(1)] by blast
  then obtain r where r: "dget (gw_pairings (gateway_run P ?G0 p1)) code = Some r" "\<not> pr_consumed r"
    "t' < pr_expires_at r" "pr_session_id r = dv_session_id d" by (auto simp: device_origin_def)
  obtain pre t draws mid where "code_origin P ?G0 p1 code r pre t draws mid"
    using unconsumed_origin [OF r(1,2)] by blast
  then have "p1 = pre @ [Challenge sid t draws] @ mid"
    "\<exists>ch. fst (create_pairing P sid t draws (gateway_run P ?G0 pre)) = Inr ch \<and> mc_pairing_code ch = code"
    "unredeemed P code (gateway_run P ?G0 (pre @ [Challenge sid t draws])) mid"
    "t' < t + PAIRING_LIFETIME"
    using r(3,4) d(3) by (simp_all add: code_origin_def)
  moreover have "ops = p1 @ [Pairing code label t' token'] @ later"
    "\<exists>s. fst (pair_device P code label t' token' (gateway_run P ?G0 p1)) = Inr s \<and> md_device_id s = did"
    "now < t' + DEVICE_SESSION_LIFETIME" "hash_token P token = hash_token P token'"
    "Revocation did \<notin> set later"
    using dev d(2,4) by (simp_all add: device_origin_def)
  ultimately show ?thesis
    by (intro exI [of _ pre] exI [of _ t] exI [of _ draws] exI [of _ mid] exI [of _ code] exI [of _ label]
        exI [of _ t'] exI [of _ token'] exI [of _ later]) simp
qed

text \<open>From a fresh code to an authenticated phone.\<close>

lemma paired_login:
  assumes "digests_ok P" "create_pairing P sid t draws G = (Inr ch, G1)"
    and "t' < t + PAIRING_LIFETIME" "utf8 token = Some bytes"
  shows "\<exists>s G2. pair_device P (mc_pairing_code ch) label t' token G1 = (Inr s, G2) \<and>
    (\<forall>now < t' + DEVICE_SESSION_LIFETIME.
       authenticate P (md_device_id s) (md_device_token s) now G2 = (Inr sid, G2)) \<and>
    (\<forall>label' now token'. pair_device P (mc_pairing_code ch) label' now token' G2 =
       (Inl (MobilePairingError (str ''PAIRING_CODE_ALREADY_USED'')), G2)) \<and>
    (\<forall>now token'. fst (authenticate P (md_device_id s) token' now (revoke (md_device_id s) G2)) =
       Inl (MobilePairingError (str ''MOBILE_DEVICE_NOT_PAIRED'')))"
proof (cases rule: create_pairing_cases [of P sid t draws G])
  case failed
  with assms(2) show ?thesis by simp
next
  case (issued code r)
  with assms(2) have g: "mc_pairing_code ch = code" "dget (gw_pairings G1) code = Some r"
    by (auto simp: dict_laws)
  have h: "hash_token P token = Inr (pf_sha256 P bytes)"
    using assms(4) by (simp add: hash_token_def encode_utf8_def)
  show ?thesis
  proof (cases rule: pair_device_cases [of P code label t' token G1])
    case (refused e)
    with g(2) issued assms(3) h show ?thesis by (simp add: pair_device_def Let_def)
  next
    case (paired r' h' d s)
    obtain G2 where p: "pair_device P code label t' token G1 = (Inr s, G2)"
      "G2 = G1\<lparr>gw_devices := dput (dv_device_id d) d (gw_devices G1),
           gw_pairings := dput code (r'\<lparr>pr_consumed := True\<rparr>) (gw_pairings G1)\<rparr>"
      using paired(5,11) by (metis prod.collapse)
    have "is_ascii (pf_sha256 P bytes)"
      using assms(1) valid_sha256_ascii by (simp add: digests_ok_def valid_sha256_def)
    then have "authenticate P (md_device_id s) (md_device_token s) now G2 = (Inr sid, G2)"
      if "now < t' + DEVICE_SESSION_LIFETIME" for now
      using that paired g(2) issued(4) h
      by (simp add: authenticate_def p(2) dict_laws compare_digest_def)
    moreover have "pair_device P code label' now token' G2 =
        (Inl (MobilePairingError (str ''PAIRING_CODE_ALREADY_USED'')), G2)" for label' now token'
      by (simp add: pair_device_def p(2) dict_laws)
    moreover have "fst (authenticate P (md_device_id s) token' now (revoke (md_device_id s) G2)) =
       Inl (MobilePairingError (str ''MOBILE_DEVICE_NOT_PAIRED''))" for now token'
      by (simp add: authenticate_def revoke_def dict_laws)
    ultimately show ?thesis using p(1) g(1) by auto
  qed
qed

text \<open>C24. Pairing round trip: a code that was just issued can be redeemed at any time before it
  expires, the token the pairing returns authenticates its device for the session of the
  desktop until the phone session expires, the code cannot be redeemed again, and after a
  revocation the device is refused.\<close>

theorem pairing_roundtrip:
  assumes "digests_ok P" "create_pairing P sid t draws G = (Inr ch, G1)"
    and "t' < t + PAIRING_LIFETIME" "utf8 token = Some bytes"
  shows "\<exists>s G2. pair_device P (mc_pairing_code ch) label t' token G1 = (Inr s, G2) \<and>
    (\<forall>now < t' + DEVICE_SESSION_LIFETIME.
       authenticate P (md_device_id s) (md_device_token s) now G2 = (Inr sid, G2)) \<and>
    (\<forall>label' now token'. pair_device P (mc_pairing_code ch) label' now token' G2 =
       (Inl (MobilePairingError (str ''PAIRING_CODE_ALREADY_USED'')), G2)) \<and>
    (\<forall>now token'. fst (authenticate P (md_device_id s) token' now (revoke (md_device_id s) G2)) =
       Inl (MobilePairingError (str ''MOBILE_DEVICE_NOT_PAIRED'')))"
  using assms by (rule paired_login)

subsection \<open>A concrete pairing\<close>

definition sample_gateway_ops :: "gateway_op list" where
  "sample_gateway_ops =
     [Challenge 9 0 (\<lambda>_. 7), Pairing (str ''00000007'') (str ''phone'') 5 (replicate 64 116)]"

lemma create_sample_pairing:
  "\<exists>ch. fst (create_pairing P 9 0 (\<lambda>_. 7) (init_gateway url)) = Inr ch \<and> mc_pairing_code ch = str ''00000007''"
proof -
  have c: "format_code 7 = str ''00000007''" by code_simp
  have "draw_code (\<lambda>_. 7) [] = Some (str ''00000007'')"
    by (simp add: draw_code_def c dict_laws upt_rec)
  then show ?thesis
    by (simp add: create_pairing_def live_pairings_def init_gateway_def Let_def)
qed

lemma create_sample_challenge:
  obtains ch where "create_pairing P 9 0 (\<lambda>_. 7) (init_gateway url) =
      (Inr ch, snd (create_pairing P 9 0 (\<lambda>_. 7) (init_gateway url)))" "mc_pairing_code ch = str ''00000007''"
  using create_sample_pairing [of P url] by (metis prod.collapse)

lemma sample_pairing_facts:
  "(5::int) < 0 + PAIRING_LIFETIME" "utf8 (replicate 64 116) = Some (map of_nat (replicate 64 116))"
  by (simp add: PAIRING_LIFETIME_def, rule utf8_ascii, simp)

theorem pairing_roundtrip_witness:
  "\<exists>s G2. pair_device ascii_platform (str ''00000007'') (str ''phone'') 5 (replicate 64 116)
       (snd (create_pairing ascii_platform 9 0 (\<lambda>_. 7) (init_gateway []))) = (Inr s, G2) \<and>
     authenticate ascii_platform (md_device_id s) (md_device_token s) 6 G2 = (Inr 9, G2)"
proof -
  obtain ch where c: "create_pairing ascii_platform 9 0 (\<lambda>_. 7) (init_gateway []) =
      (Inr ch, snd (create_pairing ascii_platform 9 0 (\<lambda>_. 7) (init_gateway [])))"
    "mc_pairing_code ch = str ''00000007''"
    by (rule create_sample_challenge)
  from pairing_roundtrip [OF ascii_platform_digests c(1) sample_pairing_facts, of "str ''phone''"]
  show ?thesis by (auto simp: c(2) DEVICE_SESSION_LIFETIME_def)
qed

lemma sample_login:
  assumes "digests_ok P"
  shows "\<exists>did G. authenticate P did (replicate 64 116) 6
     (gateway_run P (init_gateway url) sample_gateway_ops) = (Inr 9, G)"
proof -
  let ?G1 = "snd (create_pairing P 9 0 (\<lambda>_. 7) (init_gateway url))"
  obtain ch where c: "create_pairing P 9 0 (\<lambda>_. 7) (init_gateway url) = (Inr ch, ?G1)"
    "mc_pairing_code ch = str ''00000007''"
    by (rule create_sample_challenge)
  obtain s G2 where p: "pair_device P (str ''00000007'') (str ''phone'') 5 (replicate 64 116) ?G1 =
      (Inr s, G2)" "\<forall>now < 5 + DEVICE_SESSION_LIFETIME.
       authenticate P (md_device_id s) (md_device_token s) now G2 = (Inr 9, G2)"
    using paired_login [OF assms c(1) sample_pairing_facts, of "str ''phone''"] c(2) by auto
  have "md_device_token s = replicate 64 116"
    by (rule pair_device_cases [of P "str ''00000007''" "str ''phone''" 5 "replicate 64 116" ?G1])
      (use p(1) in auto)
  moreover have "authenticate P (md_device_id s) (md_device_token s) 6 G2 = (Inr 9, G2)"
    using p(2) by (simp add: DEVICE_SESSION_LIFETIME_def)
  moreover have "gateway_run P (init_gateway url) sample_gateway_ops = G2"
    using p(1) by (simp add: sample_gateway_ops_def)
  ultimately show ?thesis by metis
qed

theorem phone_session_provenance_witness:
  "\<exists>pre t draws later. sample_gateway_ops = pre @ [Challenge 9 t draws] @ later"
proof -
  obtain did G where "authenticate ascii_platform did (replicate 64 116) 6
      (gateway_run ascii_platform (init_gateway []) sample_gateway_ops) = (Inr 9, G)"
    using sample_login [OF ascii_platform_digests] by blast
  from phone_session_provenance [OF this] show ?thesis by blast
qed

end
