(* ===== verification/ApiProps.thy ===== *)
theory ApiProps
  imports Api NoteRuns GatewayProps
begin

section \<open>Properties of the HTTP surface\<close>

text \<open>
  The API drives the service and the gateway only through their operations, so every property
  of their runs holds of a run of requests. The theorems here are about the whole: what a
  request from another machine can do, and how often a code can be tried.
\<close>

subsection \<open>A run of requests is a run of the parts\<close>

definition local_control :: "api_env \<Rightarrow> bool" where
  "local_control A \<longleftrightarrow> require_local_control A = Inr ()"

lemma require_local_control_cases:
  "require_local_control A =
     (if local_control A then Inr () else Inl (HTTPException 403 (str ''LOCAL_CONTROL_ENDPOINT_REQUIRED'')))"
  by (auto simp: local_control_def require_local_control_def)

text \<open>The operation of the service that a request performs, if any.\<close>

definition service_op :: "platform \<Rightarrow> api_env \<Rightarrow> http_request \<Rightarrow> gateway \<Rightarrow> operation option" where
  "service_op P A request G =
     (case request of
        PostTask r sid auth \<Rightarrow>
          if local_control A then Some (Create (ae_service A) r (session_of sid auth BASIC)) else None
      | PostApproval tid dec sid auth \<Rightarrow>
          if local_control A then Some (Decide (ae_service A) tid dec (session_of sid auth BASIC) DESKTOP)
          else None
      | PostRollback tid sid auth \<Rightarrow>
          if local_control A then Some (Undo (ae_service A) tid (session_of sid auth BASIC)) else None
      | PostMobileDecision tid r did token \<Rightarrow>
          (case fst (authenticate P did token (ae_gateway_now A) G) of
             Inl _ \<Rightarrow> None
           | Inr sid \<Rightarrow> Some (Decide (ae_service A) tid (decision_of r) (session_of sid True STRONG) PHONE))
      | _ \<Rightarrow> None)"

definition gateway_op_of :: "api_env \<Rightarrow> http_request \<Rightarrow> (ustr, time list) dict \<Rightarrow> gateway_op option" where
  "gateway_op_of A request attempts =
     (case request of
        PostPairing sid auth \<Rightarrow>
          if local_control A \<and> auth then Some (Challenge sid (ae_gateway_now A) (ae_draws A)) else None
      | PostPair r \<Rightarrow>
          if fst (enforce_pair_rate_limit A attempts) = Inr ()
          then Some (Pairing (mp_pairing_code r) (mp_device_label r) (ae_gateway_now A) (ae_device_token A))
          else None
      | GetPending did token \<Rightarrow> Some (Login did token (ae_gateway_now A))
      | PostMobileDecision tid r did token \<Rightarrow> Some (Login did token (ae_gateway_now A))
      | _ \<Rightarrow> None)"

lemma on_service_snd: "snd (on_service f errors S) = S\<lparr>hs_service := snd (f (hs_service S))\<rparr>"
  by (simp add: on_service_def split: prod.split)

lemma mobile_identity_simps:
  "snd (mobile_identity P A did token G) = snd (authenticate P did token (ae_gateway_now A) G)"
  "fst (mobile_identity P A did token G) =
     (case fst (authenticate P did token (ae_gateway_now A) G) of
        Inl e \<Rightarrow> Inl (pairing_error_as 401 e) | Inr sid \<Rightarrow> Inr (session_of sid True STRONG))"
  by (simp_all add: mobile_identity_def except_def split: prod.split sum.split)

lemma decide_mobile_snd:
  "snd (decide_mobile_approval P C A tid r did token S) =
     (case fst (authenticate P did token (ae_gateway_now A) (hs_gateway S)) of
        Inl e \<Rightarrow> S\<lparr>hs_gateway := snd (authenticate P did token (ae_gateway_now A) (hs_gateway S))\<rparr>
      | Inr sid \<Rightarrow>
          S\<lparr>hs_gateway := snd (authenticate P did token (ae_gateway_now A) (hs_gateway S)),
            hs_service := snd (approve_task P C (ae_service A) tid (decision_of r)
              (session_of sid True STRONG) PHONE (hs_service S))\<rparr>)"
  using mobile_identity_simps [of P A did token "hs_gateway S"]
  by (auto simp: decide_mobile_approval_def on_service_snd split: prod.split sum.split)

lemma api_step_service:
  "hs_service (api_step P C S (A, request)) =
     (case service_op P A request (hs_gateway S) of
        None \<Rightarrow> hs_service S | Some op \<Rightarrow> service_step P C (hs_service S) op)"
  by (cases request)
    (simp_all add: api_step_def handle_def service_op_def api_create_task_def decide_task_approval_def
      api_rollback_task_def create_mobile_pairing_def pair_mobile_device_def
      get_mobile_pending_approvals_def require_local_control_cases on_service_snd decide_mobile_snd
      case_prod_beta split: sum.split prod.split)

lemma api_step_gateway:
  "hs_gateway (api_step P C S (A, request)) =
     (case gateway_op_of A request (hs_attempts S) of
        None \<Rightarrow> hs_gateway S | Some op \<Rightarrow> gateway_step P (hs_gateway S) op)"
  by (cases request)
    (simp_all add: api_step_def handle_def gateway_op_of_def api_create_task_def decide_task_approval_def
      api_rollback_task_def create_mobile_pairing_def pair_mobile_device_def
      get_mobile_pending_approvals_def require_local_control_cases on_service_snd decide_mobile_snd
      mobile_identity_simps case_prod_beta split: sum.split prod.split)

lemma api_run_service:
  "\<exists>ops. hs_service (api_run P C (init_api N d url) reqs) = run P C (init_service N d) ops"
proof (induction reqs rule: rev_induct)
  case Nil
  show ?case by (intro exI [of _ "[]"]) (simp add: init_api_def)
next
  case (snoc x reqs)
  then obtain ops where ops: "hs_service (api_run P C (init_api N d url) reqs) = run P C (init_service N d) ops"
    by blast
  obtain A request where x: "x = (A, request)" by (rule prod.exhaust)
  show ?case
    by (cases "service_op P A request (hs_gateway (api_run P C (init_api N d url) reqs))")
      (auto simp: x api_step_service ops intro: exI [of _ ops] exI [of _ "ops @ [op]" for op])
qed

text \<open>Every challenge of the gateway was requested from the local machine by an authenticated session.\<close>

lemma api_run_gateway:
  "\<exists>url' ops. hs_gateway (api_run P C (init_api N d url) reqs) = gateway_run P (init_gateway url') ops \<and>
     (\<forall>sid t draws. Challenge sid t draws \<in> set ops \<longrightarrow>
        (\<exists>A. (A, PostPairing sid True) \<in> set reqs \<and> local_control A))"
proof (induction reqs rule: rev_induct)
  case Nil
  show ?case
    by (intro exI [of _ "case url of None \<Rightarrow> str ''http://127.0.0.1:8100/mobile'' | Some u \<Rightarrow> u"]
        exI [of _ "[]"]) (simp add: init_api_def)
next
  case (snoc x reqs)
  let ?S = "api_run P C (init_api N d url) reqs"
  obtain url' ops where ops: "hs_gateway ?S = gateway_run P (init_gateway url') ops"
    "\<forall>sid t draws. Challenge sid t draws \<in> set ops \<longrightarrow>
       (\<exists>A. (A, PostPairing sid True) \<in> set reqs \<and> local_control A)"
    using snoc.IH by blast
  obtain A request where x: "x = (A, request)" by (rule prod.exhaust)
  show ?case
  proof (cases "gateway_op_of A request (hs_attempts ?S)")
    case None
    with ops show ?thesis
      by (intro exI [of _ url'] exI [of _ ops]) (auto simp: x api_step_gateway)
  next
    case (Some op)
    have "\<exists>A. (A, PostPairing sid True) \<in> set (reqs @ [x]) \<and> local_control A"
      if "op = Challenge sid t draws" for sid t draws
      using Some that by (cases request) (auto simp: x gateway_op_of_def split: if_splits)
    moreover have "\<exists>A. (A, PostPairing sid True) \<in> set (reqs @ [x]) \<and> local_control A"
      if "Challenge sid t draws \<in> set ops" for sid t draws
      using ops(2) that by auto
    moreover have "hs_gateway (api_run P C (init_api N d url) (reqs @ [x])) =
        gateway_run P (init_gateway url') (ops @ [op])"
      using Some ops(1) by (simp add: x api_step_gateway)
    ultimately show ?thesis
      by (intro exI [of _ url'] exI [of _ "ops @ [op]"]) (auto simp del: foldl_append)
  qed
qed

lemma login_challenge:
  assumes "fst (authenticate P did token now (gateway_run P (init_gateway url) ops)) = Inr sid"
  shows "\<exists>t draws. Challenge sid t draws \<in> set ops"
proof -
  obtain G' where "authenticate P did token now (gateway_run P (init_gateway url) ops) = (Inr sid, G')"
    using assms by (metis prod.collapse)
  then obtain d where d: "dget (gw_devices (gateway_run P (init_gateway url) ops)) did = Some d"
    "dv_session_id d = sid" using authenticate_Inr by blast
  obtain pre code label t token' mid where o: "device_origin P (init_gateway url) ops did d pre code label t token' mid"
    using paired_origin [OF d(1)] by blast
  then obtain r where r: "dget (gw_pairings (gateway_run P (init_gateway url) pre)) code = Some r"
    "\<not> pr_consumed r" "pr_session_id r = sid" "set pre \<subseteq> set ops"
    using d(2) by (auto simp: device_origin_def)
  obtain p t draws m where "code_origin P (init_gateway url) pre code r p t draws m"
    using unconsumed_origin [OF r(1,2)] by blast
  then have "Challenge sid t draws \<in> set pre" using r(3) by (auto simp: code_origin_def)
  with r(4) show ?thesis by blast
qed

lemma phone_was_paired:
  assumes "fst (authenticate P did token now (hs_gateway (api_run P C (init_api N d url) reqs))) = Inr sid"
  obtains B where "(B, PostPairing sid True) \<in> set reqs" "local_control B"
proof -
  obtain url' gops where g: "hs_gateway (api_run P C (init_api N d url) reqs) = gateway_run P (init_gateway url') gops"
    "\<forall>sid t draws. Challenge sid t draws \<in> set gops \<longrightarrow>
       (\<exists>A. (A, PostPairing sid True) \<in> set reqs \<and> local_control A)"
    using api_run_gateway [of P C N d url reqs] by blast
  with login_challenge [OF assms [unfolded g(1)]] show ?thesis by (blast intro: that)
qed

subsection \<open>Requests from another machine\<close>

text \<open>C5. Remote control needs a paired phone. Over any sequence of requests, a request that changes
  the note store or the device either comes from the local machine, or is the decision of an
  authenticated phone, for a task of the session that phone was paired for, that satisfies
  the approval gate on the phone channel; and an authenticated session on the local machine
  had asked for that pairing.\<close>

theorem remote_effects_need_pairing:
  assumes "S = api_run P C (init_api N d url) reqs" and "S' = api_step P C S (A, request)"
    and "sv_world (hs_service S') \<noteq> sv_world (hs_service S)"
  shows "local_control A \<or>
    (\<exists>tid r did token sid task a B.
       request = PostMobileDecision tid r did token \<and>
       fst (authenticate P did token (ae_gateway_now A) (hs_gateway S)) = Inr sid \<and>
       dget (sv_tasks (hs_service S)) tid = Some task \<and>
       authorised (ae_service A) (decision_of r) (session_of sid True STRONG) PHONE task a \<and>
       (B, PostPairing sid True) \<in> set reqs \<and> local_control B)"
proof (cases "local_control A")
  case False
  obtain ops where ops: "hs_service S = run P C (init_service N d) ops"
    using api_run_service [of P C N d url reqs] assms(1) by blast
  have inv: "service_inv P (hs_service S)" unfolding ops by (rule run_init_inv)
  obtain op where op: "service_op P A request (hs_gateway S) = Some op"
    "hs_service S' = service_step P C (hs_service S) op"
    using assms(2,3) by (cases "service_op P A request (hs_gateway S)") (auto simp: api_step_service)
  obtain tid r did token sid where q: "request = PostMobileDecision tid r did token"
    "fst (authenticate P did token (ae_gateway_now A) (hs_gateway S)) = Inr sid"
    "op = Decide (ae_service A) tid (decision_of r) (session_of sid True STRONG) PHONE"
    using op(1) False by (auto simp: service_op_def split: http_request.splits sum.splits)
  from inv obtain task a where t: "dget (sv_tasks (hs_service S)) tid = Some task"
    "authorised (ae_service A) (decision_of r) (session_of sid True STRONG) PHONE task a"
    by (cases rule: step_world [where C = C and op = op]) (use op(2) assms(3) q(3) in auto)
  obtain B where "(B, PostPairing sid True) \<in> set reqs" "local_control B"
    by (rule phone_was_paired [OF q(2) [unfolded assms(1)]])
  with q(1,2) t show ?thesis
    by (intro disjI2 exI [of _ tid] exI [of _ r] exI [of _ did] exI [of _ token] exI [of _ sid]
        exI [of _ task] exI [of _ a] exI [of _ B]) simp
qed simp

subsubsection \<open>A concrete exchange\<close>

text \<open>The desktop creates the task of \<open>Runs\<close> and asks for a code, the phone pairs and approves.\<close>

definition api_env_of :: "string \<Rightarrow> time \<Rightarrow> time \<Rightarrow> api_env" where
  "api_env_of host now gateway_now =
     \<lparr>ae_host = Some (str host), ae_loopback6 = (\<lambda>_. None), ae_now = now, ae_gateway_now = gateway_now,
      ae_draws = (\<lambda>_. 7), ae_device_token = replicate 64 116, ae_service = env_at now\<rparr>"

lemma api_env_of_local: "local_control (api_env_of ''127.0.0.1'' now t)" "\<not> local_control (api_env_of ''10.0.0.2'' now t)"
proof -
  have "parse_ipv4 (str ''127.0.0.1'') = Some [127, 0, 0, 1]" "parse_ipv4 (str ''10.0.0.2'') = Some [10, 0, 0, 2]"
    "str ''10.0.0.2'' \<noteq> str ''testclient''"
    by code_simp+
  then show "local_control (api_env_of ''127.0.0.1'' now t)" "\<not> local_control (api_env_of ''10.0.0.2'' now t)"
    by (simp_all add: local_control_def require_local_control_def client_host_def api_env_of_def is_loopback_def)
qed

definition sample_requests :: "(api_env \<times> http_request) list" where
  "sample_requests =
     [(api_env_of ''127.0.0.1'' 0 0, PostTask sample_request 9 True),
      (api_env_of ''127.0.0.1'' 0 0, PostPairing 9 True),
      (api_env_of ''10.0.0.2'' 0 5,
        PostPair \<lparr>mp_pairing_code = str ''00000007'', mp_device_label = str ''phone''\<rparr>)]"

definition sample_mobile_decision :: MobileDecisionRequest where
  "sample_mobile_decision =
     \<lparr>mr_approval_id = ap_approval_id run_approval, mr_approval_token = replicate 43 116,
      mr_payload_sha256 = run_hash, mr_decision = APPROVE\<rparr>"

lemma sample_requests_run:
  "hs_service (api_run run_platform C (init_api sample_store d None) sample_requests) =
     run run_platform C (init_service sample_store d) [Create (env_at 0) sample_request sample_session]"
  "hs_gateway (api_run run_platform C (init_api sample_store d None) sample_requests) =
     gateway_run run_platform (init_gateway (str ''http://127.0.0.1:8100/mobile'')) sample_gateway_ops"
proof -
  have s: "session_of 9 True BASIC = sample_session" by (simp add: session_of_def sample_session_def)
  have ok: "fst (enforce_pair_rate_limit A []) = Inr ()" for A
    by (simp add: enforce_pair_rate_limit_def PAIR_ATTEMPT_LIMIT_def dict_laws Let_def)
  have at: "hs_attempts (api_step run_platform C T (A, request)) = hs_attempts T"
    if "\<forall>r. request \<noteq> PostPair r" for A request T
    using that
    by (cases request)
      (simp_all add: api_step_def handle_def api_create_task_def decide_task_approval_def
        api_rollback_task_def create_mobile_pairing_def get_mobile_pending_approvals_def
        on_service_snd decide_mobile_snd case_prod_beta split: sum.split)
  show "hs_service (api_run run_platform C (init_api sample_store d None) sample_requests) =
     run run_platform C (init_service sample_store d) [Create (env_at 0) sample_request sample_session]"
    by (simp add: sample_requests_def api_step_service service_op_def api_env_of_local s)
      (simp add: init_api_def api_env_of_def)
  show "hs_gateway (api_run run_platform C (init_api sample_store d None) sample_requests) =
     gateway_run run_platform (init_gateway (str ''http://127.0.0.1:8100/mobile'')) sample_gateway_ops"
    by (simp add: sample_requests_def api_step_gateway gateway_op_of_def api_env_of_local at)
      (simp add: init_api_def api_env_of_def ok sample_gateway_ops_def)
qed

text \<open>The phone of that exchange decides the task.\<close>

lemma sample_phone_decides:
  obtains did where
    "fst (authenticate run_platform did (replicate 64 116) 6
       (hs_gateway (api_run run_platform C (init_api sample_store d None) sample_requests))) = Inr 9"
    "hs_service (api_step run_platform C (api_run run_platform C (init_api sample_store d None) sample_requests)
       (api_env_of ''10.0.0.2'' 1 6, PostMobileDecision 5 sample_mobile_decision did (replicate 64 116))) =
     service_step run_platform C
       (run run_platform C (init_service sample_store d) [Create (env_at 0) sample_request sample_session])
       (Decide (env_at 1) 5 (sample_decision APPROVE) sample_session PHONE)"
proof -
  let ?S = "api_run run_platform C (init_api sample_store d None) sample_requests"
  obtain did G where did: "authenticate run_platform did (replicate 64 116) 6 (hs_gateway ?S) = (Inr 9, G)"
    using sample_login [OF run_platform_digests] unfolding sample_requests_run(2) by blast
  have dec: "decision_of sample_mobile_decision = sample_decision APPROVE"
    by (simp add: decision_of_def sample_mobile_decision_def sample_decision_def)
  have "validate_session (session_of 9 True STRONG) = validate_session sample_session"
    by (rule ext) (simp add: validate_session_def session_of_def sample_session_def)
  then have "approve_task run_platform C (env_at 1) 5 (sample_decision APPROVE) (session_of 9 True STRONG) PHONE V =
      approve_task run_platform C (env_at 1) 5 (sample_decision APPROVE) sample_session PHONE V" for V
    by (simp only: approve_task_def)
  with did show ?thesis
    by (intro that [of did])
      (simp_all add: api_step_service service_op_def sample_requests_run(1) api_env_of_def dec)
qed

theorem remote_effects_need_pairing_witness:
  "\<exists>B. (B, PostPairing 9 True) \<in> set sample_requests \<and> local_control B"
proof -
  let ?S = "api_run run_platform counting_client (init_api sample_store 0 None) sample_requests"
  let ?A = "api_env_of ''10.0.0.2'' 1 6"
  obtain did where did: "fst (authenticate run_platform did (replicate 64 116) 6 (hs_gateway ?S)) = Inr 9"
    "hs_service (api_step run_platform counting_client ?S
       (?A, PostMobileDecision 5 sample_mobile_decision did (replicate 64 116))) =
     service_step run_platform counting_client (run run_platform counting_client (init_service sample_store 0)
       [Create (env_at 0) sample_request sample_session])
       (Decide (env_at 1) 5 (sample_decision APPROVE) sample_session PHONE)"
    by (rule sample_phone_decides)
  let ?r = "PostMobileDecision 5 sample_mobile_decision did (replicate 64 116)"
  have s: "run run_platform counting_client (init_service sample_store 0)
       [Create (env_at 0) sample_request sample_session] = service1"
    by (simp add: service1_def service0_def)
  have "sv_world (hs_service (api_step run_platform counting_client ?S (?A, ?r))) \<noteq> sv_world (hs_service ?S)"
    using approve_run(1,3) unfolding did(2) sample_requests_run(1) s
    by (metis fst_conv n_not_Suc_n service_step.simps(2) snd_conv)
  from remote_effects_need_pairing [OF refl refl this] api_env_of_local(2) did(1) show ?thesis
    by (auto simp: api_env_of_def)
qed

text \<open>What a request from elsewhere may reach.\<close>

fun phone_request :: "http_request \<Rightarrow> bool" where
  "phone_request MobileIndex = True"
| "phone_request HealthLive = True"
| "phone_request HealthReady = True"
| "phone_request (PostPair r) = True"
| "phone_request (GetPending did token) = True"
| "phone_request (PostMobileDecision tid r did token) = True"
| "phone_request _ = False"

text \<open>C23. Control endpoints are local: a request from an IPv4 address outside 127.0.0.0/8 to anything
  but the pages, health and phone endpoints is answered with 403 and changes nothing.\<close>

theorem control_endpoints_local:
  assumes "ae_host A = Some host" "parse_ipv4 host = Some octets" "hd octets \<noteq> 127"
    and "\<not> phone_request request"
  shows "snd (handle P C A request S) = S \<and> http_status request (fst (handle P C A request S)) = 403"
proof -
  have "parse_ipv4 (str ''testclient'') = None" by code_simp
  with assms(1-3) have "require_local_control A = Inl (HTTPException 403 (str ''LOCAL_CONTROL_ENDPOINT_REQUIRED''))"
    by (auto simp: require_local_control_def client_host_def is_loopback_def)
  with assms(4) show ?thesis
    by (cases request)
      (simp_all add: handle_def http_status_def api_create_task_def decide_task_approval_def
        api_rollback_task_def create_mobile_pairing_def ui_index_def get_capabilities_def
        api_get_task_def get_task_receipt_def get_task_receipt_history_def)
qed

theorem control_endpoints_local_witness:
  "\<forall>S. snd (handle run_platform counting_client (api_env_of ''10.0.0.2'' 0 0) (PostTask sample_request 9 True) S) = S"
proof -
  have h: "ae_host (api_env_of ''10.0.0.2'' 0 0) = Some (str ''10.0.0.2'')" by (simp add: api_env_of_def)
  have p: "parse_ipv4 (str ''10.0.0.2'') = Some [10, 0, 0, 2]" by code_simp
  have "hd [10, 0, 0, 2] \<noteq> (127::nat)" "\<not> phone_request (PostTask sample_request 9 True)" by simp_all
  from control_endpoints_local [OF h p this] show ?thesis by blast
qed

subsection \<open>The pairing rate limit\<close>

definition limiter_key :: "api_env \<Rightarrow> ustr" where
  "limiter_key A = (if client_host A = [] then str ''unknown'' else client_host A)"

definition known_attempts :: "ustr \<Rightarrow> (ustr, time list) dict \<Rightarrow> time list" where
  "known_attempts h attempts = (case dget attempts h of None \<Rightarrow> [] | Some d \<Rightarrow> d)"

text \<open>The times at which attempts of one host were let through, in a sequence of attempts.\<close>

fun accepted_times :: "ustr \<Rightarrow> (ustr, time list) dict \<Rightarrow> api_env list \<Rightarrow> time list" where
  "accepted_times h attempts [] = []"
| "accepted_times h attempts (A # As) =
     (case enforce_pair_rate_limit A attempts of
        (r, attempts') \<Rightarrow>
          (if r = Inr () \<and> limiter_key A = h then [ae_now A] else []) @ accepted_times h attempts' As)"

text \<open>Any six accepted attempts span the window.\<close>

definition spaced :: "time list \<Rightarrow> bool" where
  "spaced H \<longleftrightarrow> (\<forall>i. i + PAIR_ATTEMPT_LIMIT < length H \<longrightarrow>
     H ! i + PAIR_ATTEMPT_WINDOW \<le> H ! (i + PAIR_ATTEMPT_LIMIT))"

lemma spaced_snoc:
  assumes "spaced (old @ D)" "length D < PAIR_ATTEMPT_LIMIT" "\<forall>t\<in>set old. t + PAIR_ATTEMPT_WINDOW \<le> now"
  shows "spaced (old @ D @ [now])"
  unfolding spaced_def
proof (intro allI impI)
  fix i assume i: "i + PAIR_ATTEMPT_LIMIT < length (old @ D @ [now])"
  show "(old @ D @ [now]) ! i + PAIR_ATTEMPT_WINDOW \<le> (old @ D @ [now]) ! (i + PAIR_ATTEMPT_LIMIT)"
  proof (cases "i + PAIR_ATTEMPT_LIMIT < length (old @ D)")
    case True
    with assms(1) show ?thesis
      by (simp add: spaced_def nth_append_left flip: append_assoc)
  next
    case False
    with i have e: "i + PAIR_ATTEMPT_LIMIT = length (old @ D)" by simp
    with assms(2) have "i < length old" by simp
    then have "(old @ D @ [now]) ! i \<in> set old" by (simp add: nth_append)
    moreover have "(old @ D @ [now]) ! (i + PAIR_ATTEMPT_LIMIT) = now"
      unfolding e by (metis append_assoc nth_append_length)
    ultimately show ?thesis using assms(3) by auto
  qed
qed

lemma limiter_step:
  "known_attempts h (snd (enforce_pair_rate_limit A attempts)) =
     (if limiter_key A \<noteq> h then known_attempts h attempts
      else (let D = dropWhile (\<lambda>t. t \<le> ae_now A - PAIR_ATTEMPT_WINDOW) (known_attempts h attempts)
            in if length D \<ge> PAIR_ATTEMPT_LIMIT then D else D @ [ae_now A]))"
  "fst (enforce_pair_rate_limit A attempts) = Inr () \<longleftrightarrow>
     length (dropWhile (\<lambda>t. t \<le> ae_now A - PAIR_ATTEMPT_WINDOW)
       (known_attempts (limiter_key A) attempts)) < PAIR_ATTEMPT_LIMIT"
  unfolding enforce_pair_rate_limit_def limiter_key_def [symmetric] known_attempts_def [symmetric]
  by (simp_all add: known_attempts_def dict_laws Let_def)

lemma accepted_spaced:
  assumes "spaced (old @ known_attempts h attempts)" "\<forall>t\<in>set old. t + PAIR_ATTEMPT_WINDOW \<le> now"
    and "sorted (now # map ae_now As)"
  shows "spaced (old @ known_attempts h attempts @ accepted_times h attempts As)"
  using assms
proof (induction As arbitrary: old attempts now)
  case Nil
  then show ?case by simp
next
  case (Cons A As)
  obtain r attempts' where e: "enforce_pair_rate_limit A attempts = (r, attempts')" by (rule prod.exhaust)
  note step = limiter_step(1) [of h A attempts, unfolded e fst_conv snd_conv]
    limiter_step(2) [of A attempts, unfolded e fst_conv snd_conv]
  have now: "now \<le> ae_now A" "sorted (ae_now A # map ae_now As)" using Cons.prems(3) by simp_all
  then have old: "\<forall>t\<in>set old. t + PAIR_ATTEMPT_WINDOW \<le> ae_now A" using Cons.prems(2) by force
  show ?case
  proof (cases "limiter_key A = h")
    case False
    with step have "known_attempts h attempts' = known_attempts h attempts" by simp
    with Cons.IH [of old attempts' "ae_now A"] Cons.prems(1) old now(2) False e show ?thesis by simp
  next
    case True
    let ?p = "\<lambda>t. t \<le> ae_now A - PAIR_ATTEMPT_WINDOW"
    let ?T = "takeWhile ?p (known_attempts h attempts)"
    let ?D = "dropWhile ?p (known_attempts h attempts)"
    have split: "?T @ ?D @ zs = known_attempts h attempts @ zs" for zs
      by (metis append_assoc takeWhile_dropWhile_id)
    have old': "\<forall>t\<in>set (old @ ?T). t + PAIR_ATTEMPT_WINDOW \<le> ae_now A"
      using old by (auto dest: set_takeWhileD)
    have sp: "spaced ((old @ ?T) @ ?D)" using Cons.prems(1) by simp
    show ?thesis
    proof (cases "length ?D < PAIR_ATTEMPT_LIMIT")
      case False
      with step True have "known_attempts h attempts' = ?D" "r \<noteq> Inr ()" by simp_all
      with Cons.IH [of "old @ ?T" attempts' "ae_now A"] sp old' now(2) e
      have "spaced ((old @ ?T) @ ?D @ accepted_times h attempts' As)" by simp
      with \<open>r \<noteq> Inr ()\<close> e show ?thesis by (simp add: split)
    next
      case room: True
      with step True have k: "known_attempts h attempts' = ?D @ [ae_now A]" "r = Inr ()" by simp_all
      have "spaced ((old @ ?T) @ ?D @ [ae_now A])" by (rule spaced_snoc [OF sp room old'])
      with Cons.IH [of "old @ ?T" attempts' "ae_now A"] old' now(2) k
      have "spaced ((old @ ?T) @ (?D @ [ae_now A]) @ accepted_times h attempts' As)" by simp
      with k(2) True e show ?thesis by (simp add: split)
    qed
  qed
qed

text \<open>C22. Pairing codes cannot be tried fast: as long as the clock does not run backwards, from one
  host at most five attempts in any five minutes reach the gateway; each later one that is
  let through comes five minutes or more after the fifth before it.\<close>

theorem pairing_rate_bounded:
  assumes "sorted (map ae_now As)" and "i + 5 < length (accepted_times h [] As)"
  shows "accepted_times h [] As ! i + 300000000 \<le> accepted_times h [] As ! (i + 5)"
proof -
  have "spaced (accepted_times h [] As)"
  proof (cases As)
    case Nil
    then show ?thesis by (simp add: spaced_def)
  next
    case (Cons A Bs)
    have k: "known_attempts h [] = []" by (simp add: known_attempts_def dict_laws)
    have "sorted (ae_now A # map ae_now As)" using assms(1) Cons by simp
    then show ?thesis
      using accepted_spaced [of "[]" h "[]" "ae_now A" As] by (simp add: k spaced_def)
  qed
  with assms(2) show ?thesis by (simp add: spaced_def PAIR_ATTEMPT_LIMIT_def PAIR_ATTEMPT_WINDOW_def)
qed

theorem pairing_rate_bounded_witness:
  "accepted_times (str ''10.0.0.2'') []
     (map (\<lambda>t. api_env_of ''10.0.0.2'' t 0) [0, 1, 2, 3, 4, 5, 300000000]) ! 5 \<ge> 300000000"
proof -
  let ?As = "map (\<lambda>t. api_env_of ''10.0.0.2'' t 0) [0, 1, 2, 3, 4, 5, 300000000]"
  have k: "limiter_key (api_env_of ''10.0.0.2'' t 0) = str ''10.0.0.2''" "ae_now (api_env_of ''10.0.0.2'' t 0) = t"
    "client_host (api_env_of ''10.0.0.2'' t 0) = str ''10.0.0.2''" "str ''10.0.0.2'' \<noteq> []" for t
    by (simp_all add: limiter_key_def client_host_def api_env_of_def)
  have a: "accepted_times (str ''10.0.0.2'') [] ?As = [0, 1, 2, 3, 4, 300000000]"
    by (simp add: enforce_pair_rate_limit_def k Let_def dict_laws PAIR_ATTEMPT_LIMIT_def PAIR_ATTEMPT_WINDOW_def)
  have "sorted (map ae_now ?As)" by (simp add: k)
  from pairing_rate_bounded [OF this, of 0 "str ''10.0.0.2''"] a show ?thesis by simp
qed

end
