(* ===== verification/EndToEnd.thy ===== *)
theory EndToEnd
  imports Deployment ApiProps ServiceProgress
begin

section \<open>From the HTTP request to the process\<close>

text \<open>
  The whole system: requests of the core API, the service behind it, its HTTP client, and the
  device node. The first property says whose request starts or stops a process; the others
  say that, when the network and the node do their part, an approved command completes and
  its undo removes the process.
\<close>

subsection \<open>Whose request reaches the device\<close>

text \<open>C2. The chain of consent, end to end. Over any sequence of HTTP requests, and whatever the network
  and the operating system do: a request that starts a process is the decision of an
  authenticated phone on a pending task of its session, the process is the configured program,
  and an authenticated desktop session on the local machine had asked for the pairing of that
  phone; a request that terminates a process is the undo, from the local machine, by the
  session that owns the completed task, and the process is the one recorded for that task.\<close>

theorem process_needs_paired_phone:
  assumes "S = api_run P (linked_client P cfg c) (init_api store (Xs, init_node) url) reqs"
    and "S' = api_step P (linked_client P cfg c) S (A, request)"
    and "N = snd (wd_device (sv_world (hs_service S)))" and "N' = snd (wd_device (sv_world (hs_service S')))"
    and "nd_effects N' \<noteq> nd_effects N"
  shows "(\<exists>tid r did token sid task a B. request = PostMobileDecision tid r did token \<and>
      fst (authenticate P did token (ae_gateway_now A) (hs_gateway S)) = Inr sid \<and>
      dget (sv_tasks (hs_service S)) tid = Some task \<and>
      authorised (ae_service A) (decision_of r) (session_of sid True STRONG) PHONE task a \<and>
      (B, PostPairing sid True) \<in> set reqs \<and> local_control B \<and>
      nd_effects N' = nd_effects N @ [Started (nc_executable cfg)]) \<or>
    (\<exists>tid sid task k rec. request = PostRollback tid sid True \<and> local_control A \<and>
      dget (sv_tasks (hs_service S)) tid = Some task \<and> tv_user_session_id task = sid \<and>
      tv_state task = TaskState.COMPLETED \<and> dget (nd_launched N) k = Some rec \<and> lp_task_id rec = tid \<and>
      nd_effects N' = nd_effects N @ [Terminated (lp_handle rec)])"
proof -
  let ?C = "linked_client P cfg c"
  obtain ops where ops: "hs_service S = run P ?C (init_service store (Xs, init_node)) ops"
    using api_run_service [of P ?C store "(Xs, init_node)" url reqs] assms(1) by blast
  obtain op where op: "service_op P A request (hs_gateway S) = Some op"
    "hs_service S' = service_step P ?C (hs_service S) op"
    using assms(2-5) by (cases "service_op P A request (hs_gateway S)") (auto simp: api_step_service)
  from ops op(2) refl refl assms(5) [unfolded assms(3,4)] show ?thesis
  proof (cases rule: linked.service_effect)
    case (started E tid dec session task a)
    from op(1) started(1) obtain r did token sid where q: "request = PostMobileDecision tid r did token"
      "fst (authenticate P did token (ae_gateway_now A) (hs_gateway S)) = Inr sid"
      "E = ae_service A" "dec = decision_of r" "session = session_of sid True STRONG"
      by (auto simp: service_op_def split: http_request.splits sum.splits if_splits)
    obtain B where "(B, PostPairing sid True) \<in> set reqs" "local_control B"
      by (rule phone_was_paired [OF q(2) [unfolded assms(1)]])
    with q started(2-4) show ?thesis
      unfolding assms(3,4) by (intro disjI1 exI [of _ tid] exI [of _ r] exI [of _ did] exI [of _ token] exI [of _ sid]
          exI [of _ task] exI [of _ a] exI [of _ B]) simp
  next
    case (stopped E tid session task x)
    then obtain k rec where rec: "dget (nd_launched N) k = Some rec" "lp_task_id rec = tid"
      "nd_effects N' = nd_effects N @ [Terminated (lp_handle rec)]"
      unfolding assms(3,4) by blast
    from op(1) stopped(1) obtain sid auth where q: "request = PostRollback tid sid auth" "local_control A"
      "session = session_of sid auth BASIC"
      by (auto simp: service_op_def split: http_request.splits sum.splits if_splits)
    with stopped(3,4) have "auth" "tv_user_session_id task = sid" by (simp_all add: session_of_def)
    with q stopped(2,5) rec show ?thesis
      by (intro disjI2 exI [of _ tid] exI [of _ sid] exI [of _ task] exI [of _ k] exI [of _ rec]) simp
  qed
qed

theorem process_needs_paired_phone_witness:
  "\<exists>B. (B, PostPairing 9 True) \<in> set sample_requests \<and> local_control B"
proof -
  let ?S = "api_run run_platform sample_link_client (init_api sample_store ([sample_node_env 5], init_node) None)
    sample_requests"
  let ?A = "api_env_of ''10.0.0.2'' 1 6"
  obtain did where did: "fst (authenticate run_platform did (replicate 64 116) 6 (hs_gateway ?S)) = Inr 9"
    "hs_service (api_step run_platform sample_link_client ?S
       (?A, PostMobileDecision 5 sample_mobile_decision did (replicate 64 116))) =
     service_step run_platform sample_link_client linked1
       (Decide (env_at 1) 5 (sample_decision APPROVE) sample_session PHONE)"
    by (rule sample_phone_decides [of sample_link_client "([sample_node_env 5], init_node)"])
      (simp add: linked1_def)
  have "nd_effects (snd (wd_device (sv_world (hs_service (api_step run_platform sample_link_client ?S
      (?A, PostMobileDecision 5 sample_mobile_decision did (replicate 64 116))))))) \<noteq>
    nd_effects (snd (wd_device (sv_world (hs_service ?S))))"
    unfolding did(2) linked_start sample_requests_run(1)
    unfolding linked1_def [symmetric] by (simp add: linked1_facts(2) init_node_def)
  from process_needs_paired_phone [OF refl refl refl refl this] did(1) show ?thesis
    by (auto simp: api_env_of_def)
qed

subsection \<open>A command that succeeds\<close>

text \<open>With the queue of the link, the HTTP client behaves as over the node itself.\<close>

lemma link_http_post:
  assumes "sign_payload P e (hc_shared_secret c) = Inr sg"
  shows "http_post P (link_transport P cfg base) c endpoint e (X # Xs, N) =
     map_prod id (Pair Xs) (http_post P (node_transport P cfg X base) c endpoint e N)"
proof -
  obtain r N' where t: "node_transport P cfg X base (hc_base_url c @ endpoint) e sg N = (r, N')"
    by (rule prod.exhaust)
  with assms show ?thesis by (cases r) (simp_all add: http_post_def)
qed

lemma link_http_launch:
  assumes "deliverable P c X (Command (launch_envelope P cx t g)) N"
  shows "http_launch_notepad P (link_transport P cfg base) c cx t g (X # Xs, N) =
     map_prod id (Pair Xs) (http_launch_notepad P (node_transport P cfg X base) c cx t g N)"
  using assms
  by (auto simp: deliverable_def http_launch_notepad_def link_http_post Let_def case_prod_beta
      split: sum.split body.split)

lemma link_http_rollback:
  assumes "deliverable P c X (Rollback (rollback_envelope P cx t k g)) N"
  shows "http_rollback_command P (link_transport P cfg base) c cx t k g (X # Xs, N) =
     map_prod id (Pair Xs) (http_rollback_command P (node_transport P cfg X base) c cx t k g N)"
  using assms
  by (auto simp: deliverable_def http_rollback_command_def link_http_post Let_def case_prod_beta
      split: sum.split body.split)

lemma launch_step:
  assumes "ps_capability_id step = str ''device.launch_notepad''"
    and "cl_launch_notepad C (xe_call X) t (get_str (ps_parameters step) ''target_node_id'' (str ''windows-primary''))
      (wd_device W) = (Inr ev, d)"
  shows "execute_step P X step now True (Some C) (Some t) W = (Inr (launch_result P step now ev), W\<lparr>wd_device := d\<rparr>)"
  using assms by (simp add: execute_step_def execute_launch_notepad_def)

lemma rollback_launch:
  assumes "ps_capability_id step = str ''device.launch_notepad''"
    and "cl_rollback_command C (xe_call X) t (de_command_id ev) (de_node_id ev) (wd_device W) = (Inr rb, d)"
    and "re_verified_absent rb"
  shows "\<exists>result detail. perform_rollback P C X t (launch_result P step now ev) now' W =
    (Inr (result, detail), W\<lparr>wd_device := d\<rparr>)"
proof -
  let ?src = "launch_result P step now ev"
  have at: "get_str (er_attributes (hd (cr_evidence ?src))) ''command_id'' [] = uuid_str (de_command_id ev)"
    "get_str (er_attributes (hd (cr_evidence ?src))) ''node_id'' [] = de_node_id ev"
    by (simp_all add: launch_result_def evidenced_result_def get_str_def dget_def)
  have cap: "cr_capability_id ?src \<noteq> str ''workspace.create_note''"
    using assms(1) by (simp add: launch_result_def)
  show ?thesis
    using assms(2,3) cap by (simp add: perform_rollback_def rollback_device_command_def at uuid_roundtrip Let_def)
qed

text \<open>The host of the node starts the program, and stops it when asked.\<close>

definition starts_program :: "node_config \<Rightarrow> node_env \<Rightarrow> int \<Rightarrow> bool" where
  "starts_program cfg X pid \<longleftrightarrow>
     nc_absolute cfg \<and> (nc_subprocess cfg \<longrightarrow> ne_windows X \<and> ne_is_file X) \<and>
     ne_start X = Inr pid \<and> 0 < pid \<and> ne_running X"

definition stops_program :: "node_env \<Rightarrow> bool" where
  "stops_program Y \<longleftrightarrow> ne_running Y \<and> ne_terminate Y = None \<and> ne_exited Y \<and> \<not> ne_running_after Y"

abbreviation service_node :: "link service \<Rightarrow> node_state" where
  "service_node S \<equiv> snd (wd_device (sv_world S))"

text \<open>The two halves: what the approval leaves, and what the undo makes of it.\<close>

lemma approved_launch_completes:
  assumes "digests_ok P" and C: "C = linked_client P cfg c" and inv: "service_inv P S"
    and task: "dget (sv_tasks S) tid = Some task" "authorised E dec session PHONE task a"
    and token: "is_ascii (ad_approval_token dec)"
    and step: "pl_steps (tv_plan task) = [step]" "g = nc_node_id cfg"
      "get_str (ps_parameters step) ''target_node_id'' (str ''windows-primary'') = g"
    and link: "wd_device (sv_world S) = (X # Xs, N)" and host: "starts_program cfg X pid"
    and fresh: "dget (nd_launched N) (command_id_of P tid g) = None"
    and cx: "cx = xe_call (se_exec E (ps_order step))" "deliverable P c X (Command (launch_envelope P cx tid g)) N"
    and l: "l = launch_entry cfg X tid (command_id_of P tid g) pid N"
    and r: "r = launch_result P step (se_now E) (node_evidence cfg X l)"
  shows "ps_capability_id step = str ''device.launch_notepad''" "rollback_source r"
    and "\<exists>task1 S1 v. approve_task P C E tid dec session PHONE S = (Inr task1, S1) \<and>
      dget (sv_tasks S1) tid = Some task1 \<and> tv_state task1 = TaskState.COMPLETED \<and> tv_results task1 = [r] \<and>
      tv_user_session_id task1 = tv_user_session_id task \<and>
      wd_device (sv_world S1) = (Xs, after_launch cfg X (Command (launch_envelope P cx tid g)) l N) \<and>
      get_receipt tid S1 = Inr (receipt_of P v task1)"
proof -
  have "tv_state task = TaskState.AWAITING_APPROVAL" "tv_approval task = Some a"
    using task(2) by (simp_all add: authorised_def)
  then have ap: "approval_inv P task a" using service_invD(2) [OF inv task(1)] by (simp add: task_inv_def)
  show cap: "ps_capability_id step = str ''device.launch_notepad''"
    using ap task(2) step(1) by (auto simp: approval_inv_def authorised_def split: if_splits)
  have ok: "cr_status r = StepStatus.VERIFIED" "cr_evidence r \<noteq> []"
    using host by (simp_all add: r launch_result_def node_evidence_def starts_program_def)
  then show "rollback_source r"
    using cap by (simp add: rollback_source_def REVERSIBLE_CAPABILITIES_def r launch_result_def)
  have hash: "is_ascii (ad_payload_sha256 dec)"
    using ap step(1) task(2) payload_hash_ascii [OF assms(1)]
    by (auto simp: approval_inv_def authorised_def decision_matches_def)
  let ?N = "after_launch cfg X (Command (launch_envelope P cx tid g)) l N"
  have "http_launch_notepad P (node_transport P cfg X (hc_base_url c)) c cx tid g N =
      (Inr (node_evidence cfg X l), ?N)"
    by (rule client_launch_starts [OF assms(1) cx(2) step(2) _ _ _ _ fresh l])
      (use host in \<open>simp_all add: starts_program_def\<close>)
  then have "execute_step P (se_exec E (ps_order step)) step (se_now E) True (Some C) (Some tid) (sv_world S) =
      (Inr r, (sv_world S)\<lparr>wd_device := (Xs, ?N)\<rparr>)"
    unfolding r by (intro launch_step [OF cap])
      (simp add: C linked_client_def HttpDeviceNodeClient_def step(3) link link_http_launch [OF cx(2)]
        cx(1) [symmetric])
  from granted_completes [OF inv task token hash step(1) this ok] show
    "\<exists>task1 S1 v. approve_task P C E tid dec session PHONE S = (Inr task1, S1) \<and>
      dget (sv_tasks S1) tid = Some task1 \<and> tv_state task1 = TaskState.COMPLETED \<and> tv_results task1 = [r] \<and>
      tv_user_session_id task1 = tv_user_session_id task \<and> wd_device (sv_world S1) = (Xs, ?N) \<and>
      get_receipt tid S1 = Inr (receipt_of P v task1)"
    by fastforce
qed

lemma launched_command_undone:
  assumes "digests_ok P" and C: "C = linked_client P cfg c" and inv: "service_inv P S"
    and task: "dget (sv_tasks S) tid = Some task" "tv_state task = TaskState.COMPLETED" "tv_results task = [r]"
    and owner: "ses_authenticated owner" "ses_session_id owner = tv_user_session_id task"
    and cap: "ps_capability_id step = str ''device.launch_notepad''" "rollback_source r"
    and r: "r = launch_result P step now ev" "de_command_id ev = k" "de_node_id ev = nc_node_id cfg"
    and link: "wd_device (sv_world S) = (Y # Xs, N)" and host: "stops_program Y"
    and entry: "dget (nd_launched N) k = Some l" "lp_task_id l = tid" "0 < lp_pid l"
    and cy: "cy = xe_call (se_exec F 0)"
      "deliverable P c Y (Rollback (rollback_envelope P cy tid k (nc_node_id cfg))) N"
  shows "\<exists>task' S' N'. rollback_task P C F tid owner S = (Inr task', S') \<and> tv_state task' = TaskState.ROLLED_BACK \<and>
    wd_device (sv_world S') = (Xs, N') \<and> nd_effects N' = nd_effects N @ [Terminated (lp_handle l)] \<and>
    nd_launched N' = ddel k (nd_launched N)"
proof -
  obtain rb N' where rb:
    "http_rollback_command P (node_transport P cfg Y (hc_base_url c)) c cy tid k (nc_node_id cfg) N = (Inr rb, N')"
    "re_verified_absent rb" "nd_effects N' = nd_effects N @ [Terminated (lp_handle l)]"
    "nd_launched N' = ddel k (nd_launched N)"
    using client_rollback [OF assms(1) cy(2) entry(1,2) refl entry(3)] host
    by (auto simp: stops_program_def)
  then have "cl_rollback_command C (xe_call (se_exec F 0)) tid (de_command_id ev) (de_node_id ev) (wd_device (sv_world S)) =
      (Inr rb, (Xs, N'))"
    by (simp add: C linked_client_def HttpDeviceNodeClient_def link link_http_rollback [OF cy(2)]
        cy(1) [symmetric] r(2,3))
  from rollback_launch [OF cap(1) this rb(2)] obtain result detail where
    "perform_rollback P C (se_exec F 0) tid r (se_now F) (sv_world S) =
      (Inr (result, detail), (sv_world S)\<lparr>wd_device := (Xs, N')\<rparr>)" unfolding r(1) by blast
  from undone_rolls_back [OF inv task(1) owner task(2,3) cap(2) this] rb(3,4) show ?thesis by fastforce
qed

text \<open>C3. A phone command runs to its end. Let a task await a decision that is authorised on the phone
  channel. When the next two requests of the link arrive in time and with fresh nonces, and
  the host starts the program and later stops it, then the approval returns the task as
  completed, with the program started and a verified, reversible receipt; and the undo by the
  owner returns it as rolled back, with exactly that process terminated and the table of the
  node as before.\<close>

theorem phone_command_lifecycle:
  assumes "digests_ok P" and C: "C = linked_client P cfg c"
    and "S = run P C (init_service store d) ops"
    and task: "dget (sv_tasks S) tid = Some task" "authorised E dec session PHONE task a"
    and token: "is_ascii (ad_approval_token dec)"
    and step: "pl_steps (tv_plan task) = [step]" "g = nc_node_id cfg"
      "get_str (ps_parameters step) ''target_node_id'' (str ''windows-primary'') = g"
    and link: "wd_device (sv_world S) = (X # Y # Xs, N)"
    and host: "starts_program cfg X pid" "stops_program Y"
    and fresh: "dget (nd_launched N) (command_id_of P tid g) = None"
    and cx: "cx = xe_call (se_exec E (ps_order step))" "deliverable P c X (Command (launch_envelope P cx tid g)) N"
    and cy: "cy = xe_call (se_exec F 0)"
      "deliverable P c Y (Rollback (rollback_envelope P cy tid (command_id_of P tid g) g)) N"
    and nonces: "ce_nonce cx \<noteq> ce_nonce cy"
    and owner: "ses_authenticated owner" "ses_session_id owner = tv_user_session_id task"
  shows "\<exists>task1 S1 r task2 S2.
      approve_task P C E tid dec session PHONE S = (Inr task1, S1) \<and> tv_state task1 = TaskState.COMPLETED \<and>
      nd_effects (service_node S1) = nd_effects N @ [Started (nc_executable cfg)] \<and>
      get_receipt tid S1 = Inr r \<and> rc_state r = TaskState.COMPLETED \<and> rc_verified r \<and> rc_reversible r \<and>
      rollback_task P C F tid owner S1 = (Inr task2, S2) \<and> tv_state task2 = TaskState.ROLLED_BACK \<and>
      nd_effects (service_node S2) =
        nd_effects N @ [Started (nc_executable cfg), Terminated (length (nd_effects N))] \<and>
      (\<forall>k. dget (nd_launched (service_node S2)) k = dget (nd_launched N) k)"
proof -
  have inv: "service_inv P S" unfolding assms(3) by (rule run_init_inv)
  let ?k = "command_id_of P tid g" and ?e = "Command (launch_envelope P cx tid g)"
  define l where "l = launch_entry cfg X tid ?k pid N"
  define r where "r = launch_result P step (se_now E) (node_evidence cfg X l)"
  define N1 where "N1 = after_launch cfg X ?e l N"
  note up = approved_launch_completes [OF assms(1) C inv task token step link host(1) fresh cx l_def r_def]
  obtain task1 S1 v where one: "approve_task P C E tid dec session PHONE S = (Inr task1, S1)"
    "dget (sv_tasks S1) tid = Some task1" "tv_state task1 = TaskState.COMPLETED" "tv_results task1 = [r]"
    "tv_user_session_id task1 = tv_user_session_id task" "wd_device (sv_world S1) = (Y # Xs, N1)"
    "get_receipt tid S1 = Inr (receipt_of P v task1)"
    using up(3) unfolding N1_def by blast
  have inv1: "service_inv P S1"
    using approve_task_inv [OF inv, of C E tid dec session PHONE] one(1) by simp
  have l: "lp_command_id l = ?k" "lp_task_id l = tid" "0 < lp_pid l" "lp_handle l = length (nd_effects N)"
    and ev: "de_command_id (node_evidence cfg X l) = ?k" "de_node_id (node_evidence cfg X l) = nc_node_id cfg"
    using host(1) by (simp_all add: l_def launch_entry_def starts_program_def node_evidence_def)
  have n1: "nd_effects N1 = nd_effects N @ [Started (nc_executable cfg)]" "dget (nd_launched N1) ?k = Some l"
    by (simp_all add: N1_def after_launch_def dict_laws l(1))
  have "deliverable P c Y (Rollback (rollback_envelope P cy tid ?k g)) N1"
    unfolding N1_def by (rule deliverable_after_launch [OF cy(2)])
      (use nonces in \<open>simp add: rollback_envelope_def launch_envelope_def\<close>)
  then have "deliverable P c Y (Rollback (rollback_envelope P cy tid ?k (nc_node_id cfg))) N1"
    unfolding step(2) .
  from launched_command_undone [OF assms(1) C inv1 one(2-4) owner(1) _ up(1,2) r_def ev one(6) host(2) n1(2)
      l(2,3) cy(1) this] owner(2) one(5)
  obtain task2 S2 N2 where two: "rollback_task P C F tid owner S1 = (Inr task2, S2)"
    "tv_state task2 = TaskState.ROLLED_BACK" "wd_device (sv_world S2) = (Xs, N2)"
    "nd_effects N2 = nd_effects N1 @ [Terminated (lp_handle l)]" "nd_launched N2 = ddel ?k (nd_launched N1)"
    by auto
  have "\<forall>k. dget (nd_launched N2) k = dget (nd_launched N) k"
    using two(5) fresh l(1) by (simp add: N1_def after_launch_def dict_laws)
  moreover have "rc_state (receipt_of P v task1) = TaskState.COMPLETED" "rc_verified (receipt_of P v task1)"
    "rc_reversible (receipt_of P v task1)"
    using one(3,4) up(2) by (simp_all add: receipt_of_def rollback_source_def)
  ultimately show ?thesis
    using one(1,3,6,7) n1(1) two(1-4) l(4)
    by (intro exI [of _ task1] exI [of _ S1] exI [of _ "receipt_of P v task1"] exI [of _ task2] exI [of _ S2]) simp
qed

subsubsection \<open>A concrete command\<close>

definition undo_env :: service_env where
  "undo_env = (env_at 2)\<lparr>se_exec := (\<lambda>_. \<lparr>xe_os = plain_os, xe_probe = sample_probe,
     xe_call = \<lparr>ce_now = 2, ce_nonce = replicate 43 111\<rparr>\<rparr>)\<rparr>"

lemma deliverable_undo:
  "deliverable run_platform sample_http_client (sample_node_env 5)
     (Rollback (rollback_envelope run_platform (xe_call (se_exec undo_env 0)) 5 k (str ''windows-primary''))) init_node"
proof -
  let ?e = "Rollback (rollback_envelope run_platform (xe_call (se_exec undo_env 0)) 5 k (str ''windows-primary''))"
  have "\<forall>s\<in>json_strs (env_json run_platform ?e). \<forall>x\<in>set s. x < 128"
    using uuid_str_ascii
    by (auto simp: rollback_envelope_def undo_env_def jstr_def run_platform_def ascii_platform_def str_def
        dest: dec_int_ascii)
  then show ?thesis
    using sign_ascii_sample [of run_platform ?e]
    by (simp add: deliverable_def sample_node_env_def sample_http_client_def init_node_def dkeys_def
        rollback_envelope_def undo_env_def DEVICE_COMMAND_LIFETIME_def valid_DeviceRollbackEnvelope_def
        valid_target_def valid_nonce_def)
qed

theorem phone_command_lifecycle_witness:
  "\<exists>S task1 S1 task2 S2.
     S = run run_platform sample_link_client
       (init_service sample_store ([sample_node_env 5, sample_node_env 5], init_node))
       [Create (env_at 0) sample_request sample_session] \<and>
     approve_task run_platform sample_link_client (env_at 1) 5 (sample_decision APPROVE) sample_session PHONE S =
       (Inr task1, S1) \<and> tv_state task1 = TaskState.COMPLETED \<and>
     rollback_task run_platform sample_link_client undo_env 5 sample_session S1 = (Inr task2, S2) \<and>
     nd_effects (service_node S2) = [Started (str ''notepad.exe''), Terminated 0]"
proof -
  let ?C = sample_link_client and ?d = "([sample_node_env 5, sample_node_env 5], init_node)"
  define S where "S = run run_platform ?C (init_service sample_store ?d) [Create (env_at 0) sample_request sample_session]"
  note facts = created_facts [OF S_def]
  have link: "wd_device (sv_world S) = (sample_node_env 5 # sample_node_env 5 # [], init_node)"
    using facts(2) by simp
  have st: "pl_steps (tv_plan awaiting_view) = [run_step]" "ps_order run_step = 1"
    "ses_authenticated sample_session" "ses_session_id sample_session = tv_user_session_id awaiting_view"
    by (simp_all add: awaiting_view_def run_plan_def run_step_simps sample_session_def)
  have ok: "is_ascii (ad_approval_token (sample_decision APPROVE))" "str ''windows-primary'' = nc_node_id notepad_config"
    "get_str (ps_parameters run_step) ''target_node_id'' (str ''windows-primary'') = str ''windows-primary''"
    by (simp_all add: sample_decision_def is_ascii_def notepad_config_def run_step_simps get_str_def dget_def
        list_all_iff)
  have host: "starts_program notepad_config (sample_node_env 5) 42" "stops_program (sample_node_env 5)"
    by (simp_all add: starts_program_def stops_program_def notepad_config_def sample_config_def sample_node_env_def)
  have fresh: "dget (nd_launched init_node) k = None" for k by (simp add: init_node_def dict_laws)
  have nonces: "ce_nonce (xe_call (se_exec (env_at 1) (ps_order run_step))) \<noteq> ce_nonce (xe_call (se_exec undo_env 0))"
    by (simp add: env_at_def undo_env_def)
  from phone_command_lifecycle [OF run_platform_digests refl S_def facts(1) authorised_run ok(1) st(1) ok(2,3)
      link host fresh refl deliverable_chain refl deliverable_undo nonces st(3,4)]
  obtain task1 S1 task2 S2 where
    "approve_task run_platform ?C (env_at 1) 5 (sample_decision APPROVE) sample_session PHONE S = (Inr task1, S1)"
    "tv_state task1 = TaskState.COMPLETED"
    "rollback_task run_platform ?C undo_env 5 sample_session S1 = (Inr task2, S2)"
    "nd_effects (service_node S2) = nd_effects init_node @
       [Started (nc_executable notepad_config), Terminated (length (nd_effects init_node))]"
    by blast
  moreover have "nd_effects init_node = []" "nc_executable notepad_config = str ''notepad.exe''"
    by (simp_all add: init_node_def notepad_config_def sample_config_def)
  ultimately show ?thesis using S_def by (intro exI [of _ S] exI [of _ task1] exI [of _ S1] exI [of _ task2]
        exI [of _ S2]) simp
qed

end
