(* ===== verification/Threads.thy ===== *)
theory Threads
  imports NodeProps "HOL-Library.Multiset"
begin

section \<open>The device node with threads\<close>

text \<open>
  FastAPI runs the handlers of \<^verbatim>\<open>device_node/app.py\<close> in a pool of threads. A request takes two
  locks, one after the other: the nonce lock in \<open>_authorize\<close> and the lock of the executor in
  \<open>launch\<close> or \<open>rollback\<close>; its clock is read before the first. Here each locked section is one
  step, the admitted requests that have not reached the executor are a multiset, and the step
  relation picks any thread that can move. Clock readings are in no order, because a thread
  can be delayed between its reading and the lock.

  The two sections together are the handler of \<open>Node\<close> (\<open>serve_finish\<close>). The invariants bound the
  effects by the admissions and say when a nonce can be accepted again.
\<close>

subsection \<open>Steps\<close>

text \<open>The part of a handler after \<open>_authorize\<close>.\<close>

definition finish :: "node_config \<Rightarrow> node_env \<Rightarrow> envelope \<Rightarrow> node_state \<Rightarrow> node_state" where
  "finish cfg X e N =
     (case e of
        Command c \<Rightarrow>
          if dc_capability_id c \<noteq> str ''device.launch_notepad'' then N
          else snd (node_launch cfg X (dc_task_id c) (dc_command_id c) (dc_target_node_id c) N)
      | Rollback r \<Rightarrow>
          snd (node_rollback cfg X (dr_rollback_id r) (dr_task_id r) (dr_command_id r)
            (dr_target_node_id r) N))"

text \<open>The attempts in the order in which they took the nonce lock, for the statements.\<close>

record attempt =
  at_env :: node_env
  at_envelope :: envelope
  at_admitted :: bool

record node_threads =
  nt_node :: node_state
  nt_waiting :: "(node_env \<times> envelope) multiset"
  nt_attempts :: "attempt list"

definition init_threads :: node_threads where
  "init_threads = \<lparr>nt_node = init_node, nt_waiting = {#}, nt_attempts = []\<rparr>"

inductive thread_step :: "platform \<Rightarrow> node_config \<Rightarrow> node_threads \<Rightarrow> node_threads \<Rightarrow> bool"
  for P :: platform and cfg :: node_config where
  refuse: "authorize P X e sig (nt_node T) = (Inl exc, N) \<Longrightarrow> valid_envelope e \<Longrightarrow>
     thread_step P cfg T (T\<lparr>nt_node := N,
       nt_attempts := nt_attempts T @ [\<lparr>at_env = X, at_envelope = e, at_admitted = False\<rparr>]\<rparr>)"
| admit: "authorize P X e sig (nt_node T) = (Inr (), N) \<Longrightarrow> valid_envelope e \<Longrightarrow>
     thread_step P cfg T (T\<lparr>nt_node := N, nt_waiting := add_mset (X, e) (nt_waiting T),
       nt_attempts := nt_attempts T @ [\<lparr>at_env = X, at_envelope = e, at_admitted = True\<rparr>]\<rparr>)"
| act: "(X, e) \<in># nt_waiting T \<Longrightarrow>
     thread_step P cfg T (T\<lparr>nt_node := finish cfg X e (nt_node T),
       nt_waiting := nt_waiting T - {#(X, e)#}\<rparr>)"

inductive reachable :: "platform \<Rightarrow> node_config \<Rightarrow> node_threads \<Rightarrow> bool"
  for P :: platform and cfg :: node_config where
  start: "reachable P cfg init_threads"
| step: "reachable P cfg T \<Longrightarrow> thread_step P cfg T T' \<Longrightarrow> reachable P cfg T'"

subsection \<open>The executor section\<close>

lemma finish_seen [simp]: "nd_seen (finish cfg X e N) = nd_seen N"
  by (simp add: finish_def split: envelope.split)

lemma finish_inv: "node_inv cfg N \<Longrightarrow> node_inv cfg (finish cfg X e N)"
  by (simp add: finish_def node_inv_launch node_inv_rollback split: envelope.split)

lemma finish_effects:
  "nd_effects (finish cfg X e N) = nd_effects N \<or> (\<exists>x. nd_effects (finish cfg X e N) = nd_effects N @ [x])"
proof (cases e)
  case (Command c)
  then show ?thesis
    by (cases rule: node_launch_cases [of cfg X "dc_task_id c" "dc_command_id c" "dc_target_node_id c" N])
      (auto simp: finish_def)
next
  case (Rollback r)
  then show ?thesis
    by (cases rule: node_rollback_cases [of cfg X "dr_rollback_id r" "dr_task_id r" "dr_command_id r"
          "dr_target_node_id r" N])
      (auto simp: finish_def)
qed

text \<open>The handler of the sequential node is the nonce section followed by the executor section.\<close>

lemma serve_finish:
  "snd (serve P cfg X e sig N) =
     (if valid_envelope e
      then (case authorize P X e sig N of (Inl exc, N') \<Rightarrow> N' | (Inr _, N') \<Rightarrow> finish cfg X e N')
      else N)"
  by (cases e)
    (simp_all add: serve_def execute_command_def rollback_command_def finish_def case_prod_beta
      split: prod.split sum.split)

subsection \<open>The invariant\<close>

text \<open>\<open>expired_between T i j\<close>: some attempt after the \<open>i\<close>-th, up to the \<open>j\<close>-th, had read a clock at
  or past the expiry of the \<open>i\<close>-th envelope.\<close>

definition expired_between :: "attempt list \<Rightarrow> nat \<Rightarrow> nat \<Rightarrow> bool" where
  "expired_between A i j \<longleftrightarrow>
     (\<exists>k. i < k \<and> k \<le> j \<and> k < length A \<and> env_expires_at (at_envelope (A ! i)) \<le> ne_now (at_env (A ! k)))"

text \<open>The nonce of an admitted attempt is in the cache unless it has expired on some clock since.\<close>

definition remembered :: "attempt list \<Rightarrow> (ustr, time) dict \<Rightarrow> bool" where
  "remembered A seen \<longleftrightarrow>
     (\<forall>i<length A. at_admitted (A ! i) \<longrightarrow> expired_between A i (length A) \<or>
        dget seen (env_nonce (at_envelope (A ! i))) = Some (env_expires_at (at_envelope (A ! i))))"

definition reuse_expired :: "attempt list \<Rightarrow> bool" where
  "reuse_expired A \<longleftrightarrow>
     (\<forall>i j. i < j \<and> j < length A \<and> at_admitted (A ! i) \<and> at_admitted (A ! j) \<and>
        env_nonce (at_envelope (A ! i)) = env_nonce (at_envelope (A ! j)) \<longrightarrow> expired_between A i j)"

definition threads_inv :: "node_config \<Rightarrow> node_threads \<Rightarrow> bool" where
  "threads_inv cfg T \<longleftrightarrow>
     node_inv cfg (nt_node T) \<and>
     length (nd_effects (nt_node T)) + size (nt_waiting T) \<le> length (filter at_admitted (nt_attempts T)) \<and>
     remembered (nt_attempts T) (nd_seen (nt_node T)) \<and> reuse_expired (nt_attempts T)"

lemma expired_between_snoc:
  "i < length A \<Longrightarrow> j < length A \<Longrightarrow> expired_between (A @ [x]) i j = expired_between A i j"
  by (auto simp: expired_between_def nth_append)

lemma expired_between_end:
  assumes "i < length A"
  shows "expired_between (A @ [x]) i (length A) \<longleftrightarrow>
    expired_between A i (length A) \<or> env_expires_at (at_envelope (A ! i)) \<le> ne_now (at_env x)"
proof
  assume "expired_between (A @ [x]) i (length A)"
  then obtain k where k: "i < k" "k \<le> length A"
    "env_expires_at (at_envelope (A ! i)) \<le> ne_now (at_env ((A @ [x]) ! k))"
    using assms by (auto simp: expired_between_def nth_append)
  then show "expired_between A i (length A) \<or> env_expires_at (at_envelope (A ! i)) \<le> ne_now (at_env x)"
    by (cases "k = length A") (auto simp: expired_between_def nth_append)
next
  assume "expired_between A i (length A) \<or> env_expires_at (at_envelope (A ! i)) \<le> ne_now (at_env x)"
  then show "expired_between (A @ [x]) i (length A)"
  proof
    assume "expired_between A i (length A)"
    then show ?thesis using assms by (auto simp: expired_between_def nth_append)
  next
    assume "env_expires_at (at_envelope (A ! i)) \<le> ne_now (at_env x)"
    then show ?thesis
      using assms by (auto simp: expired_between_def nth_append intro!: exI [of _ "length A"])
  qed
qed

lemma expired_between_Suc:
  "expired_between (A @ [x]) i (Suc (length A)) = expired_between (A @ [x]) i (length A)"
proof -
  have "k \<le> Suc (length A) \<and> k < length (A @ [x]) \<longleftrightarrow> k \<le> length A \<and> k < length (A @ [x])" for k by auto
  then show ?thesis unfolding expired_between_def by (metis (no_types, lifting))
qed

text \<open>What an attempt does to the cache, seen through \<open>remembered\<close>.\<close>

lemma remembered_snoc:
  assumes "remembered A seen"
    and kept: "\<And>n t. dget seen n = Some t \<Longrightarrow> ne_now (at_env x) < t \<Longrightarrow> dget seen' n = Some t"
    and new: "at_admitted x \<Longrightarrow> dget seen' (env_nonce (at_envelope x)) = Some (env_expires_at (at_envelope x))"
  shows "remembered (A @ [x]) seen'"
  unfolding remembered_def
proof (intro allI impI)
  fix i assume i: "i < length (A @ [x])" and ad: "at_admitted ((A @ [x]) ! i)"
  show "expired_between (A @ [x]) i (length (A @ [x])) \<or>
    dget seen' (env_nonce (at_envelope ((A @ [x]) ! i))) = Some (env_expires_at (at_envelope ((A @ [x]) ! i)))"
  proof (cases "i < length A")
    case False
    with i have "i = length A" by simp
    with ad new show ?thesis by simp
  next
    case True
    have e: "expired_between (A @ [x]) i (length (A @ [x])) = expired_between (A @ [x]) i (length A)"
      by (simp add: expired_between_Suc)
    from assms(1) True ad have
      "expired_between A i (length A) \<or>
       dget seen (env_nonce (at_envelope (A ! i))) = Some (env_expires_at (at_envelope (A ! i)))"
      by (simp add: remembered_def nth_append)
    then show ?thesis
    proof
      assume "expired_between A i (length A)"
      then show ?thesis unfolding e expired_between_end [OF True] by simp
    next
      assume g: "dget seen (env_nonce (at_envelope (A ! i))) = Some (env_expires_at (at_envelope (A ! i)))"
      show ?thesis
        using kept [OF g] unfolding e expired_between_end [OF True]
        by (cases "env_expires_at (at_envelope (A ! i)) \<le> ne_now (at_env x)") (simp_all add: True nth_append)
    qed
  qed
qed

lemma reuse_expired_snoc:
  assumes "reuse_expired A"
    and new: "\<And>i. i < length A \<Longrightarrow> at_admitted x \<Longrightarrow> at_admitted (A ! i) \<Longrightarrow>
      env_nonce (at_envelope (A ! i)) = env_nonce (at_envelope x) \<Longrightarrow> expired_between (A @ [x]) i (length A)"
  shows "reuse_expired (A @ [x])"
  unfolding reuse_expired_def
proof (intro allI impI, elim conjE)
  fix i j
  assume ij: "i < j" "j < length (A @ [x])" and ad: "at_admitted ((A @ [x]) ! i)" "at_admitted ((A @ [x]) ! j)"
    and n: "env_nonce (at_envelope ((A @ [x]) ! i)) = env_nonce (at_envelope ((A @ [x]) ! j))"
  show "expired_between (A @ [x]) i j"
  proof (cases "j < length A")
    case True
    with ij ad n assms(1) show ?thesis
      by (simp add: expired_between_snoc reuse_expired_def nth_append)
  next
    case False
    with ij have j: "j = length A" "i < length A" by simp_all
    with new ad n show ?thesis by (simp add: nth_append)
  qed
qed

lemma authorize_kept:
  assumes "distinct (dkeys (nd_seen N))" "dget (nd_seen N) n = Some t" "ne_now X < t"
  shows "dget (nd_seen (snd (authorize P X e sig N))) n = Some t"
proof (cases rule: authorize_cases [of P X e sig N])
  case (refused exc seen)
  with assms show ?thesis by (auto simp: live_nonces_get)
next
  case granted
  have live: "dget (live_nonces (ne_now X) (nd_seen N)) n = Some t"
    using assms by (simp add: live_nonces_get)
  then have "n \<in> set (dkeys (live_nonces (ne_now X) (nd_seen N)))" by (metis dget_None_iff option.discI)
  with granted live show ?thesis by (auto simp: admitted_def dict_laws)
qed

lemma threads_inv_attempt:
  assumes inv: "threads_inv cfg T" and a: "authorize P X e sig (nt_node T) = (r, N)"
    and x: "x = \<lparr>at_env = X, at_envelope = e, at_admitted = (r = Inr ())\<rparr>"
    and W: "size W \<le> size (nt_waiting T) + (if r = Inr () then 1 else 0)"
  shows "threads_inv cfg (T\<lparr>nt_node := N, nt_waiting := W, nt_attempts := nt_attempts T @ [x]\<rparr>)"
proof -
  let ?N = "nt_node T" and ?A = "nt_attempts T"
  have ni: "node_inv cfg ?N" and d: "distinct (dkeys (nd_seen ?N))"
    using inv by (simp_all add: threads_inv_def node_inv_def)
  note live = live_nonces_get(2) [OF d, of "ne_now X"]
  have N: "node_inv cfg N" "nd_effects N = nd_effects ?N"
    using authorize_frame [of P X e sig ?N] a node_inv_seen [OF ni d] node_inv_seen [OF ni live] ni live
    by (cases rule: authorize_cases [of P X e sig ?N]; auto simp: node_inv_seen)+
  have rem: "remembered (?A @ [x]) (nd_seen N)"
  proof (rule remembered_snoc)
    show "remembered ?A (nd_seen ?N)" using inv by (simp add: threads_inv_def)
    show "dget (nd_seen ?N) n = Some t \<Longrightarrow> ne_now (at_env x) < t \<Longrightarrow> dget (nd_seen N) n = Some t" for n t
      using authorize_kept [OF d, of n t X P e sig] a by (simp add: x)
    show "at_admitted x \<Longrightarrow> dget (nd_seen N) (env_nonce (at_envelope x)) = Some (env_expires_at (at_envelope x))"
      using a by (cases rule: authorize_cases [of P X e sig ?N]) (auto simp: x dict_laws)
  qed
  have "reuse_expired (?A @ [x])"
  proof (rule reuse_expired_snoc)
    show "reuse_expired ?A" using inv by (simp add: threads_inv_def)
    fix i
    assume i: "i < length ?A" "at_admitted x" "at_admitted (?A ! i)"
      "env_nonce (at_envelope (?A ! i)) = env_nonce (at_envelope x)"
    have ad: "admitted P X e sig ?N"
      using a i(2) by (cases rule: authorize_cases [of P X e sig ?N]) (auto simp: x)
    show "expired_between (?A @ [x]) i (length ?A)"
    proof (rule ccontr)
      assume "\<not> expired_between (?A @ [x]) i (length ?A)"
      then have n: "\<not> expired_between ?A i (length ?A)" "ne_now X < env_expires_at (at_envelope (?A ! i))"
        unfolding expired_between_end [OF i(1)] by (simp_all add: x)
      from inv i n(1) have "dget (nd_seen ?N) (env_nonce e) = Some (env_expires_at (at_envelope (?A ! i)))"
        by (auto simp: threads_inv_def remembered_def x)
      from seen_not_admitted [OF d this n(2)] ad show False by blast
    qed
  qed
  with inv N rem W show ?thesis by (auto simp: threads_inv_def x)
qed

lemma thread_step_inv:
  assumes "thread_step P cfg T T'" "threads_inv cfg T"
  shows "threads_inv cfg T'"
  using assms(1)
proof cases
  case (refuse X e sig exc N)
  from threads_inv_attempt [OF assms(2) refuse(2) refl, of "nt_waiting T"] refuse(1) show ?thesis by simp
next
  case (admit X e sig N)
  from threads_inv_attempt [OF assms(2) admit(2) refl, of "add_mset (X, e) (nt_waiting T)"] admit(1)
  show ?thesis by simp
next
  case (act X e)
  have "size (nt_waiting T) = Suc (size (nt_waiting T - {#(X, e)#}))"
    using act(2) by (metis insert_DiffM size_add_mset)
  moreover have "length (nd_effects (finish cfg X e (nt_node T))) \<le> Suc (length (nd_effects (nt_node T)))"
    using finish_effects [of cfg X e "nt_node T"] by auto
  ultimately show ?thesis
    using assms(2) finish_inv [of cfg "nt_node T" X e] by (auto simp: act(1) threads_inv_def)
qed

lemma reachable_inv: "reachable P cfg T \<Longrightarrow> threads_inv cfg T"
proof (induction rule: reachable.induct)
  case start
  show ?case
    by (simp add: threads_inv_def init_threads_def node_inv_init remembered_def reuse_expired_def)
      (simp add: init_node_def)
next
  case (step T T')
  then show ?case by (blast intro: thread_step_inv)
qed


subsection \<open>The properties\<close>

text \<open>C7. Replay protection with threads. In every schedule, between two admissions with one nonce
  some request that took the nonce lock after the first one and no later than the second one
  had read a clock at or past the expiry of the first envelope. A second admission of the same
  envelope therefore needs a clock reading later than its own, taken before it.\<close>

theorem nonce_reuse_needs_expiry:
  assumes "reachable P cfg T" and "i < j" "j < length (nt_attempts T)"
    and "at_admitted (nt_attempts T ! i)" "at_admitted (nt_attempts T ! j)"
    and "env_nonce (at_envelope (nt_attempts T ! i)) = env_nonce (at_envelope (nt_attempts T ! j))"
  shows "\<exists>k. i < k \<and> k \<le> j \<and>
    env_expires_at (at_envelope (nt_attempts T ! i)) \<le> ne_now (at_env (nt_attempts T ! k))"
  using reachable_inv [OF assms(1)] assms(2-)
  by (auto simp: threads_inv_def reuse_expired_def expired_between_def)

text \<open>C8. In every schedule the node acts at most once per admission, and only on its own processes:
  what was started and terminated so far, together with the admitted requests still waiting
  for the executor, never outnumbers the admissions.\<close>

theorem effects_bounded_by_admissions:
  assumes "reachable P cfg T"
  shows "own_effects (nc_executable cfg) (nd_effects (nt_node T)) \<and>
    length (nd_effects (nt_node T)) + size (nt_waiting T) \<le> length (filter at_admitted (nt_attempts T))"
  using reachable_inv [OF assms] by (simp add: threads_inv_def node_inv_def)

subsection \<open>A delayed thread\<close>

text \<open>
  The clock reading is what the theorem above allows: a request that read its clock while the
  envelope was fresh, and takes the lock after another request pruned the expired nonce, is
  admitted although its envelope was admitted before.
\<close>

definition late_rollback :: envelope where
  "late_rollback = Rollback (rollback_envelope ascii_platform (sample_call 30000000 99) 2 3 (str ''w''))"

lemma late_rollback_deliverable:
  "deliverable ascii_platform sample_http_client (sample_node_env 30000000) late_rollback init_node"
proof -
  have "\<forall>s\<in>json_strs (env_json ascii_platform late_rollback). \<forall>x\<in>set s. x < 128"
    using uuid_str_ascii
    by (auto simp: late_rollback_def rollback_envelope_def sample_call_def jstr_def ascii_platform_def str_def
        dest: dec_int_ascii)
  from sign_ascii_sample [OF this] show ?thesis
    by (simp add: deliverable_def sample_node_env_def sample_http_client_def init_node_def dkeys_def)
      (simp add: late_rollback_def rollback_envelope_def sample_call_def DEVICE_COMMAND_LIFETIME_def
        valid_DeviceRollbackEnvelope_def valid_target_def valid_nonce_def)
qed

lemma admit_step:
  assumes "reachable P cfg T" "admitted P X e sig (nt_node T)" "valid_envelope e"
  obtains T' where "reachable P cfg T'" "nt_node T' = nt_node T\<lparr>nd_seen := marked X e (nt_node T)\<rparr>"
    "nt_attempts T' = nt_attempts T @ [\<lparr>at_env = X, at_envelope = e, at_admitted = True\<rparr>]"
proof -
  have "authorize P X e sig (nt_node T) = (Inr (), nt_node T\<lparr>nd_seen := marked X e (nt_node T)\<rparr>)"
    using assms(2) by (cases rule: authorize_cases [of P X e sig "nt_node T"]) (simp_all add: marked_def)
  from reachable.step [OF assms(1) thread_step.admit [OF this assms(3)]] show ?thesis
    by (rule that) simp_all
qed

lemma delayed_replay:
  "\<exists>T. reachable ascii_platform sample_config T \<and>
     map at_envelope (nt_attempts T) = [sample_rollback, late_rollback, sample_rollback] \<and>
     list_all at_admitted (nt_attempts T)"
proof -
  have v: "valid_envelope sample_rollback"
    by (simp add: sample_rollback_def valid_DeviceRollbackEnvelope_def valid_target_def valid_nonce_def)
  have nonces: "env_nonce sample_rollback = replicate 32 110" "env_nonce late_rollback = replicate 32 99"
    "env_expires_at sample_rollback = 30000000"
    by (simp_all add: sample_rollback_def late_rollback_def rollback_envelope_def sample_call_def)
  have now: "ne_now (sample_node_env t) = t" for t by (simp add: sample_node_env_def)
  have ne: "replicate 32 (99::nat) \<noteq> replicate 32 110" by simp
  have "admitted ascii_platform (sample_node_env 5) sample_rollback sample_signature (nt_node init_threads)"
    by (rule admitted_sample) (simp add: init_threads_def init_node_def dkeys_def)
  from admit_step [OF reachable.start this v] obtain T1 where T1: "reachable ascii_platform sample_config T1"
    "nt_node T1 = init_node\<lparr>nd_seen := marked (sample_node_env 5) sample_rollback init_node\<rparr>"
    "nt_attempts T1 = [\<lparr>at_env = sample_node_env 5, at_envelope = sample_rollback, at_admitted = True\<rparr>]"
    by (auto simp: init_threads_def)
  have s1: "nd_seen (nt_node T1) = [(replicate 32 110, 30000000)]"
    by (simp add: T1(2) marked_def init_node_def live_nonces_def dput_def nonces)
  have "deliverable ascii_platform sample_http_client (sample_node_env 30000000) late_rollback (nt_node T1)"
    using late_rollback_deliverable by (simp add: deliverable_def s1 dkeys_def nonces ne)
  from deliverable_admitted [OF ascii_platform_digests this] obtain sg where
    "admitted ascii_platform (sample_node_env 30000000) late_rollback sg (nt_node T1)" by blast
  moreover have "valid_envelope late_rollback" using late_rollback_deliverable by (simp add: deliverable_def)
  ultimately obtain T2 where T2: "reachable ascii_platform sample_config T2"
    "nt_node T2 = nt_node T1\<lparr>nd_seen := marked (sample_node_env 30000000) late_rollback (nt_node T1)\<rparr>"
    "nt_attempts T2 = nt_attempts T1 @
       [\<lparr>at_env = sample_node_env 30000000, at_envelope = late_rollback, at_admitted = True\<rparr>]"
    by (rule admit_step [OF T1(1)])
  have "env_nonce sample_rollback \<notin> set (dkeys (nd_seen (nt_node T2)))"
    by (simp add: T2(2) marked_def s1 live_nonces_def now dput_def dkeys_def nonces ne [symmetric])
  from admit_step [OF T2(1) admitted_sample [OF this] v] obtain T3 where
    "reachable ascii_platform sample_config T3" "nt_attempts T3 = nt_attempts T2 @
       [\<lparr>at_env = sample_node_env 5, at_envelope = sample_rollback, at_admitted = True\<rparr>]"
    by blast
  with T2(3) T1(3) show ?thesis by (intro exI [of _ T3]) simp
qed

theorem nonce_reuse_needs_expiry_witness:
  "\<exists>T k. reachable ascii_platform sample_config T \<and> length (nt_attempts T) = 3 \<and>
     0 < k \<and> k \<le> 2 \<and> 30000000 \<le> ne_now (at_env (nt_attempts T ! k))"
proof -
  obtain T where T: "reachable ascii_platform sample_config T"
    "map at_envelope (nt_attempts T) = [sample_rollback, late_rollback, sample_rollback]"
    "list_all at_admitted (nt_attempts T)"
    using delayed_replay by (elim exE conjE) (rule that)
  have "length (nt_attempts T) = length (map at_envelope (nt_attempts T))" by (simp only: length_map)
  then have len: "length (nt_attempts T) = 3" unfolding T(2) by simp
  have e: "at_envelope (nt_attempts T ! 0) = sample_rollback" "at_envelope (nt_attempts T ! 2) = sample_rollback"
    using nth_map [of 0 "nt_attempts T" at_envelope] nth_map [of 2 "nt_attempts T" at_envelope]
    unfolding T(2) len by simp_all
  have ad: "at_admitted (nt_attempts T ! 0)" "at_admitted (nt_attempts T ! 2)"
    using T(3) len by (simp_all add: list_all_length)
  have "\<exists>k. 0 < k \<and> k \<le> 2 \<and>
      env_expires_at (at_envelope (nt_attempts T ! 0)) \<le> ne_now (at_env (nt_attempts T ! k))"
    by (rule nonce_reuse_needs_expiry [OF T(1)]) (simp_all add: len e ad)
  moreover have "env_expires_at sample_rollback = 30000000" by (simp add: sample_rollback_def)
  ultimately show ?thesis using T(1) len e(1) by (intro exI [of _ T]) simp
qed

theorem effects_bounded_by_admissions_witness:
  "\<exists>T. reachable ascii_platform sample_config T \<and> length (nt_attempts T) = 3 \<and>
     length (nd_effects (nt_node T)) + size (nt_waiting T) \<le> 3"
proof -
  obtain T where T: "reachable ascii_platform sample_config T"
    "map at_envelope (nt_attempts T) = [sample_rollback, late_rollback, sample_rollback]"
    using delayed_replay by (elim exE conjE) (rule that)
  have "length (nt_attempts T) = length (map at_envelope (nt_attempts T))" by (simp only: length_map)
  then have len: "length (nt_attempts T) = 3" unfolding T(2) by simp
  have "length (filter at_admitted (nt_attempts T)) \<le> 3"
    using length_filter_le [of at_admitted "nt_attempts T"] len by simp
  with effects_bounded_by_admissions [OF T(1)] T(1) len show ?thesis by (intro exI [of _ T]) auto
qed

end
