(* ===== verification/Validation.thy ===== *)
theory Validation
  imports PyJson Domain
begin

section \<open>The repository check of \<^verbatim>\<open>scripts/validate_repository.py\<close>\<close>

text \<open>
  The script that \<^verbatim>\<open>make validate\<close> runs: it looks for required files, for files that must not be
  there, for schemas that are not closed, and for build artefacts in the file manifest, prints
  what it found and returns an exit status. The file tree is the record \<open>repository\<close>: what
  \<open>rglob\<close> enumerates, and what \<open>is_file\<close> and \<open>read_text\<close> answer for a path below the root.
  \<open>json.loads\<close> is a parameter; a loaded number keeps its text.
\<close>

datatype loaded =
    LNone | LBool bool | LInt ustr | LFloat ustr | LStr ustr | LList "loaded list"
  | LDict "(ustr \<times> loaded) list"

record repository =
  rp_is_file :: "ustr \<Rightarrow> bool"
  rp_walk :: "(ustr list \<times> bool) list"   \<comment> \<open>the parts below the root, and whether it is a file\<close>
  rp_read_text :: "ustr \<Rightarrow> ustr res"

definition REQUIRED :: "ustr list" where
  "REQUIRED = map str
     [''README.md'',
      ''CONFIDENTIALITY.md'',
      ''LICENSE'',
      ''SECURITY.md'',
      ''pyproject.toml'',
      ''contracts/openapi/core-api.yaml'',
      ''contracts/schemas/task-request.schema.json'',
      ''contracts/schemas/capability-result.schema.json'',
      ''contracts/schemas/action-receipt.schema.json'',
      ''contracts/schemas/approval-decision.schema.json'',
      ''docs/adr/ADR-0003-p1-core-simulator.md'',
      ''docs/adr/ADR-0004-ui-and-local-readonly-vertical-slice.md'',
      ''docs/adr/ADR-0005-approved-action-platform.md'',
      ''docs/requirements/p3-approved-action-platform-v0.1.md'',
      ''docs/security/p3-approved-actions-threat-model.md'',
      ''docs/adr/ADR-0006-trusted-device-mesh-and-phone-approval.md'',
      ''docs/requirements/p4-trusted-device-mesh-v0.1.md'',
      ''docs/security/p4-device-mesh-threat-model.md'',
      ''contracts/schemas/mobile-approval.schema.json'',
      ''contracts/schemas/device-command-envelope.schema.json'',
      ''src/nexuss/device/client.py'',
      ''src/nexuss/device/signing.py'',
      ''src/nexuss/device_node/app.py'',
      ''src/nexuss/device_node/executor.py'',
      ''src/nexuss/mobile/gateway.py'',
      ''src/nexuss/mobile/models.py'',
      ''src/nexuss/api/app.py'',
      ''src/nexuss/core/executor.py'',
      ''src/nexuss/core/managed_notes.py'',
      ''src/nexuss/core/registry.py'',
      ''src/nexuss/core/service.py'',
      ''src/nexuss/core/state_machine.py'',
      ''src/nexuss/ui/index.html'',
      ''src/nexuss/ui/app.js'',
      ''src/nexuss/ui/styles.css'',
      ''src/nexuss/ui/mobile.html'',
      ''src/nexuss/ui/mobile.js'',
      ''src/nexuss/ui/mobile.css'',
      ''scripts/start_p4.ps1'']"

definition FORBIDDEN_NAMES :: "ustr set" where
  "FORBIDDEN_NAMES = {str ''.env'', str ''id_rsa'', str ''credentials.json'', str ''secrets.json''}"

definition FORBIDDEN_SUFFIXES :: "ustr set" where
  "FORBIDDEN_SUFFIXES = {str ''.pyc'', str ''.pyo''}"

definition IGNORED_DIRECTORIES :: "ustr set" where
  "IGNORED_DIRECTORIES =
     {str ''.git'', str ''.mypy_cache'', str ''.pytest_cache'', str ''.ruff_cache'',
      str ''.venv'', str ''__pycache__'', str ''htmlcov'', str ''node_modules''}"

definition SCHEMAS :: "ustr list" where
  "SCHEMAS = map str
     [''contracts/schemas/task-request.schema.json'',
      ''contracts/schemas/capability-result.schema.json'',
      ''contracts/schemas/action-receipt.schema.json'',
      ''contracts/schemas/approval-decision.schema.json'',
      ''contracts/schemas/mobile-approval.schema.json'',
      ''contracts/schemas/device-command-envelope.schema.json'']"

text \<open>\<open>PurePath.suffix\<close>: from the last dot on, unless that is the first or the last character.\<close>

definition path_suffix :: "ustr \<Rightarrow> ustr" where
  "path_suffix name =
     (let ext = rev (takeWhile (\<lambda>c. c \<noteq> 46) (rev name))
      in if ext = [] \<or> length name \<le> length ext + 1 then [] else 46 # ext)"

subsection \<open>The four groups of errors\<close>

definition missing_errors :: "repository \<Rightarrow> ustr list" where
  "missing_errors R =
     map (\<lambda>p. str ''missing required file: '' @ p) (filter (\<lambda>p. \<not> rp_is_file R p) REQUIRED)"

definition candidate_errors :: "ustr list \<Rightarrow> ustr list" where
  "candidate_errors parts =
     (let name = last parts; relative = joinw (str ''/'') parts
      in (if name \<in> FORBIDDEN_NAMES then [str ''forbidden secret-like file: '' @ relative] else []) @
         (if path_suffix name \<in> FORBIDDEN_SUFFIXES then [str ''forbidden generated file: '' @ relative] else []))"

definition walk_errors :: "repository \<Rightarrow> ustr list" where
  "walk_errors R =
     concat (map (\<lambda>(parts, is_file).
       if \<not> is_file \<or> set parts \<inter> IGNORED_DIRECTORIES \<noteq> {} then [] else candidate_errors parts) (rp_walk R))"

text \<open>The text of the \<open>AttributeError\<close> of \<open>document.get\<close> on a value that is not a dictionary.\<close>

definition no_get :: "loaded \<Rightarrow> ustr" where
  "no_get v =
     [39] @ str (case v of LNone \<Rightarrow> ''NoneType'' | LBool _ \<Rightarrow> ''bool'' | LInt _ \<Rightarrow> ''int'' | LFloat _ \<Rightarrow> ''float''
       | LStr _ \<Rightarrow> ''str'' | LList _ \<Rightarrow> ''list'' | LDict _ \<Rightarrow> ''dict'') @ [39] @
     str '' object has no attribute '' @ [39] @ str ''get'' @ [39]"

definition schema_errors :: "(ustr \<Rightarrow> loaded res) \<Rightarrow> repository \<Rightarrow> ustr \<Rightarrow> ustr list" where
  "schema_errors loads R p =
     (case rbind (rp_read_text R p) loads of
        Inl exc \<Rightarrow> [str ''invalid JSON '' @ p @ str '': '' @ exn_str exc]
      | Inr document \<Rightarrow>
          (case document of
             LDict d \<Rightarrow>
               if dget d (str ''additionalProperties'') = Some (LBool False) then []
               else [str ''schema must fail closed with additionalProperties=false: '' @ p]
           | v \<Rightarrow> [str ''invalid JSON '' @ p @ str '': '' @ no_get v]))"

definition manifest_errors :: "ustr \<Rightarrow> ustr list" where
  "manifest_errors manifest =
     (if contains (str ''__pycache__'') manifest \<or> contains (str ''.pyc'') manifest \<or>
         contains (str ''.pyo'') manifest
      then [str ''FILE_MANIFEST.txt contains generated Python artifacts''] else [])"

text \<open>The exit status and the printed lines; reading the manifest is not guarded.\<close>

definition validate_main :: "(ustr \<Rightarrow> loaded res) \<Rightarrow> repository \<Rightarrow> (nat \<times> ustr list) res" where
  "validate_main loads R =
     rbind (rp_read_text R (str ''FILE_MANIFEST.txt'')) (\<lambda>manifest.
       let errors = missing_errors R @ walk_errors R @ concat (map (schema_errors loads R) SCHEMAS) @
             manifest_errors manifest
       in Inr (if errors \<noteq> []
               then (1, str ''Repository validation failed:'' # map (\<lambda>e. str ''- '' @ e) errors)
               else (0, [str ''Repository validation passed.''])))"

subsection \<open>What a passed check means\<close>

lemma path_suffix_iff:
  assumes "e \<noteq> []" "46 \<notin> set e"
  shows "path_suffix name = 46 # e \<longleftrightarrow> (\<exists>stem. stem \<noteq> [] \<and> name = stem @ 46 # e)"
proof
  let ?r = "takeWhile (\<lambda>c. c \<noteq> 46) (rev name)"
  assume s: "path_suffix name = 46 # e"
  then have r: "rev ?r = e" "length e + 1 < length name"
    by (auto simp: path_suffix_def Let_def split: if_splits)
  then have "takeWhile (\<lambda>c. c \<noteq> 46) (rev name) \<noteq> rev name" by (metis length_rev less_add_one less_asym)
  then obtain c t where d: "dropWhile (\<lambda>c. c \<noteq> 46) (rev name) = c # t"
    by (cases "dropWhile (\<lambda>c. c \<noteq> 46) (rev name)") (auto simp: takeWhile_eq_all_conv)
  then have "c = 46" using hd_dropWhile [of "\<lambda>c. c \<noteq> 46" "rev name"] by simp
  then have "rev name = ?r @ 46 # t" using d takeWhile_dropWhile_id [of "\<lambda>c. c \<noteq> 46" "rev name"] by simp
  then have "name = rev (?r @ 46 # t)" by (simp only: rev_swap)
  then have "name = rev t @ 46 # e" using r(1) by simp
  moreover from this r(2) have "rev t \<noteq> []" by auto
  ultimately show "\<exists>stem. stem \<noteq> [] \<and> name = stem @ 46 # e" by blast
next
  assume "\<exists>stem. stem \<noteq> [] \<and> name = stem @ 46 # e"
  then obtain stem where n: "stem \<noteq> []" "name = stem @ 46 # e" by blast
  have "takeWhile (\<lambda>c. c \<noteq> 46) (rev e @ 46 # rev stem) = rev e"
    using assms(2) by (simp add: takeWhile_append2 takeWhile_append)
  with n assms(1) show "path_suffix name = 46 # e" by (simp add: path_suffix_def)
qed

lemma generated_suffix_iff:
  "path_suffix name \<in> FORBIDDEN_SUFFIXES \<longleftrightarrow>
     (\<exists>stem. stem \<noteq> [] \<and> (name = stem @ str ''.pyc'' \<or> name = stem @ str ''.pyo''))"
proof -
  have e: "str ''.pyc'' = 46 # str ''pyc''" "str ''.pyo'' = 46 # str ''pyo''" by (simp_all add: str_def)
  have c: "path_suffix name = 46 # str ''pyc'' \<longleftrightarrow> (\<exists>stem. stem \<noteq> [] \<and> name = stem @ 46 # str ''pyc'')"
    by (rule path_suffix_iff) (simp_all add: str_def)
  have o: "path_suffix name = 46 # str ''pyo'' \<longleftrightarrow> (\<exists>stem. stem \<noteq> [] \<and> name = stem @ 46 # str ''pyo'')"
    by (rule path_suffix_iff) (simp_all add: str_def)
  show ?thesis
    unfolding FORBIDDEN_SUFFIXES_def insert_iff empty_iff e c o by blast
qed

lemma candidate_errors_Nil:
  "candidate_errors parts = [] \<longleftrightarrow> last parts \<notin> FORBIDDEN_NAMES \<and> path_suffix (last parts) \<notin> FORBIDDEN_SUFFIXES"
  by (simp add: candidate_errors_def Let_def)

lemma schema_errors_Nil:
  "schema_errors loads R p = [] \<longleftrightarrow>
     (\<exists>text d. rp_read_text R p = Inr text \<and> loads text = Inr (LDict d) \<and>
        dget d (str ''additionalProperties'') = Some (LBool False))"
  by (auto simp: schema_errors_def rbind_def split: sum.split loaded.split)

text \<open>C37. The check is exact. It returns exit status 0 or 1, or raises when the manifest cannot be read;
  it returns 0 exactly when every required file is there, no file outside the ignored
  directories is named like a secret or has a stem followed by .pyc or .pyo, every schema can be
  read and is an object whose additionalProperties is false, and the manifest names no Python
  artefact.\<close>

theorem validation_exact:
  "(case validate_main loads R of
      Inl e \<Rightarrow> rp_read_text R (str ''FILE_MANIFEST.txt'') = Inl e
    | Inr (status, printed) \<Rightarrow> status \<in> {0, 1} \<and> printed \<noteq> [] \<and>
        (status = 0 \<longleftrightarrow>
           (\<forall>p\<in>set REQUIRED. rp_is_file R p) \<and>
           (\<forall>parts. (parts, True) \<in> set (rp_walk R) \<and> set parts \<inter> IGNORED_DIRECTORIES = {} \<longrightarrow>
              last parts \<notin> FORBIDDEN_NAMES \<and>
              \<not> (\<exists>stem. stem \<noteq> [] \<and> (last parts = stem @ str ''.pyc'' \<or> last parts = stem @ str ''.pyo''))) \<and>
           (\<forall>p\<in>set SCHEMAS. \<exists>text d. rp_read_text R p = Inr text \<and> loads text = Inr (LDict d) \<and>
              dget d (str ''additionalProperties'') = Some (LBool False)) \<and>
           (\<exists>manifest. rp_read_text R (str ''FILE_MANIFEST.txt'') = Inr manifest \<and>
              (\<forall>a b. \<forall>w\<in>{''__pycache__'', ''.pyc'', ''.pyo''}. manifest \<noteq> a @ str w @ b))))"
proof (cases "rp_read_text R (str ''FILE_MANIFEST.txt'')")
  case (Inr manifest)
  have m: "missing_errors R = [] \<longleftrightarrow> (\<forall>p\<in>set REQUIRED. rp_is_file R p)"
    by (auto simp: missing_errors_def filter_empty_conv)
  have w: "walk_errors R = [] \<longleftrightarrow>
      (\<forall>parts. (parts, True) \<in> set (rp_walk R) \<and> set parts \<inter> IGNORED_DIRECTORIES = {} \<longrightarrow>
         last parts \<notin> FORBIDDEN_NAMES \<and>
         \<not> (\<exists>stem. stem \<noteq> [] \<and> (last parts = stem @ str ''.pyc'' \<or> last parts = stem @ str ''.pyo'')))"
    unfolding generated_suffix_iff [symmetric] walk_errors_def
    by (force simp: candidate_errors_Nil split: if_splits)
  have c: "concat (map (schema_errors loads R) SCHEMAS) = [] \<longleftrightarrow>
      (\<forall>p\<in>set SCHEMAS. \<exists>text d. rp_read_text R p = Inr text \<and> loads text = Inr (LDict d) \<and>
         dget d (str ''additionalProperties'') = Some (LBool False))"
    by (simp add: schema_errors_Nil)
  have f: "manifest_errors manifest = [] \<longleftrightarrow>
      (\<forall>a b. \<forall>w\<in>{''__pycache__'', ''.pyc'', ''.pyo''}. manifest \<noteq> a @ str w @ b)"
    unfolding manifest_errors_def contains_iff by auto
  show ?thesis
    unfolding m [symmetric] w [symmetric] c [symmetric]
    using Inr f by (simp add: validate_main_def Let_def)
qed (simp add: validate_main_def)

definition clean_repository :: repository where
  "clean_repository =
     \<lparr>rp_is_file = (\<lambda>_. True), rp_walk = [([str ''src'', str ''a.pyc.md''], True), ([str ''.git'', str ''.env''], True)],
      rp_read_text = (\<lambda>_. Inr (str ''README.md''))\<rparr>"

theorem validation_exact_witness:
  "\<exists>printed. validate_main (\<lambda>_. Inr (LDict [(str ''additionalProperties'', LBool False)])) clean_repository =
     Inr (0, printed)"
proof -
  let ?l = "\<lambda>_. Inr (LDict [(str ''additionalProperties'', LBool False)]) :: loaded res"
  have read: "rp_read_text clean_repository p = Inr (str ''README.md'')" "rp_is_file clean_repository p" for p
    by (simp_all add: clean_repository_def)
  have ext: "str ''a.pyc.md'' \<notin> FORBIDDEN_NAMES" "path_suffix (str ''a.pyc.md'') \<notin> FORBIDDEN_SUFFIXES"
    "str ''.git'' \<in> IGNORED_DIRECTORIES"
    by code_simp+
  have walk: "(parts, True) \<in> set (rp_walk clean_repository) \<Longrightarrow> set parts \<inter> IGNORED_DIRECTORIES = {} \<Longrightarrow>
      parts = [str ''src'', str ''a.pyc.md'']" for parts
    using ext(3) by (auto simp: clean_repository_def)
  have names: "\<forall>a b. \<forall>w\<in>{''__pycache__'', ''.pyc'', ''.pyo''}. str ''README.md'' \<noteq> a @ str w @ b"
  proof -
    have "\<not> contains (str ''__pycache__'') (str ''README.md'')" "\<not> contains (str ''.pyc'') (str ''README.md'')"
      "\<not> contains (str ''.pyo'') (str ''README.md'')" by code_simp+
    then show ?thesis unfolding contains_iff by blast
  qed
  have d: "dget [(str ''additionalProperties'', LBool False)] (str ''additionalProperties'') = Some (LBool False)"
    by (simp add: dget_def)
  have "\<exists>x. validate_main ?l clean_repository = Inr x" by (simp add: validate_main_def read Let_def)
  then obtain status printed where v: "validate_main ?l clean_repository = Inr (status, printed)"
    by (metis surj_pair)
  have "status = 0"
    using validation_exact [where loads = ?l and R = clean_repository, unfolded v]
    unfolding generated_suffix_iff [symmetric]
    using walk ext names d by (simp add: read) (metis last.simps list.discI)
  with v show ?thesis by blast
qed

end
