(* ===== verification/Spec2Isabelle.thy ===== *)
theory Spec2Isabelle
  imports ServiceProps NoteLifecycle EndToEnd Threads Validation
begin

text \<open>
  \<^bold>\<open>A verification library for the Nexuss task platform.\<close>

  \<^bold>\<open>The program.\<close> Nexuss turns a sentence of the user into a plan of capabilities, decides by a
  fixed policy whether each step is allowed, needs an explicit approval or is denied, executes
  what may be executed, and records a versioned receipt of everything. Two capabilities have
  effects: a note is created in a managed directory, after an approval on the desktop; a
  program is started by a trusted device node, after an approval on a paired phone. Both can be
  undone, bound to the receipt. The parts, under \<^verbatim>\<open>src/src/nexuss\<close>:

  \<^item> the service (\<^verbatim>\<open>core/service.py\<close>) keeps the tasks, the request index and the ledger. It calls
    \<^verbatim>\<open>core/intents.py\<close> (sentence to intent), \<^verbatim>\<open>core/planner.py\<close> (intent to plan),
    \<^verbatim>\<open>core/policy.py\<close> over \<^verbatim>\<open>core/registry.py\<close> (step to decision), \<^verbatim>\<open>core/executor.py\<close> (step to
    result), \<^verbatim>\<open>core/state_machine.py\<close> (allowed transitions) and \<^verbatim>\<open>core/ledger.py\<close> (receipts);
  \<^item> the executor calls \<^verbatim>\<open>core/simulator.py\<close>, \<^verbatim>\<open>core/local_workspace.py\<close>,
    \<^verbatim>\<open>core/managed_notes.py\<close> and a device client (\<^verbatim>\<open>device/client.py\<close>), which signs its envelopes
    (\<^verbatim>\<open>device/signing.py\<close>) and posts them to the device node (\<^verbatim>\<open>device_node/app.py\<close> and
    \<^verbatim>\<open>device_node/executor.py\<close>), another process on the same machine;
  \<^item> \<^verbatim>\<open>mobile/gateway.py\<close> pairs phones with desktop sessions; \<^verbatim>\<open>api/app.py\<close> is the HTTP surface of
    the service and the gateway.

  \<^bold>\<open>Theories and sources.\<close>

  \<^item> \<open>Prelude\<close>: dictionaries in insertion order with their interface \<open>dictionary\<close>, results of code
    that may raise (\<open>rbind\<close>, \<open>guard\<close>), and the locale \<open>invariant_machine\<close> (a step function, an
    invariant it keeps, an order it respects) with what follows for every run.
  \<^item> \<open>PyText\<close>, \<open>PyJson\<close>, \<open>PyRegex\<close>: what the program uses of Python's strings, UTF-8, JSON with
    sorted keys, and \<open>re\<close>. Strings are lists of code points, identifiers are 128-bit words.
  \<^item> \<open>Domain\<close>: \<^verbatim>\<open>domain/models.py\<close>; an enumeration is a datatype, a model is a record with the
    predicate \<open>valid_\<dots>\<close> of its field constraints, an exception is a value of \<open>exn\<close>.
  \<^item> \<open>Lifecycle\<close>, \<open>Ledger\<close>, \<open>Registry\<close>, \<open>Policy\<close>, \<open>Intents\<close>, \<open>Planner\<close>, \<open>Notes\<close>: the modules of
    \<^verbatim>\<open>core\<close> with those names (\<^verbatim>\<open>state_machine.py\<close> is \<open>Lifecycle\<close>, \<^verbatim>\<open>managed_notes.py\<close> is
    \<open>Notes\<close>), each with its lemmas and properties.
  \<^item> \<open>Device\<close>: \<^verbatim>\<open>device/models.py\<close>, \<^verbatim>\<open>device/signing.py\<close>, \<^verbatim>\<open>device/client.py\<close>. \<open>Executor\<close>:
    \<^verbatim>\<open>core/simulator.py\<close>, \<^verbatim>\<open>core/local_workspace.py\<close>, \<^verbatim>\<open>core/executor.py\<close>.
  \<^item> \<open>Service\<close>: \<^verbatim>\<open>core/service.py\<close>. \<open>create_task\<close>, \<open>approve_task\<close>, \<open>rollback_task\<close> are state
    transformers; \<open>run\<close> folds operations. \<open>ServiceInv\<close> has the invariant \<open>service_inv\<close>,
    \<open>ServiceOps\<close> a case rule and a preservation lemma per operation, \<open>ServiceMoves\<close> the
    simulation by the abstract machine \<open>task_move\<close>, \<open>ServiceEffects\<close> the two places where the
    world changes, \<open>ServiceProgress\<close> what an operation achieves when the step it runs succeeds,
    \<open>ServiceProps\<close> the properties, \<open>NoteLifecycle\<close> the progress of a note from the sentence to
    the file and back. \<open>Runs\<close> and \<open>NoteRuns\<close> hold two concrete scenarios for the witnesses.
  \<^item> \<open>Node\<close>: \<^verbatim>\<open>device_node/executor.py\<close> and \<^verbatim>\<open>device_node/app.py\<close>, with the log of what the node
    asks the operating system to do; \<open>NodeProps\<close> has its properties. \<open>Threads\<close> is the same node
    with the handlers in parallel: its step relation \<open>thread_step\<close> interleaves the two locked
    sections of the requests.
  \<^item> \<open>Gateway\<close>, \<open>GatewayProps\<close>: \<^verbatim>\<open>mobile/gateway.py\<close>, \<^verbatim>\<open>mobile/models.py\<close>. \<open>Api\<close>, \<open>ApiProps\<close>:
    \<^verbatim>\<open>api/app.py\<close>, one definition per handler, over the record of the service, the gateway and
    the rate limiter; \<open>handle\<close> dispatches a request, \<open>http_status\<close> is FastAPI's answer.
  \<^item> \<open>DeviceContract\<close>: what the service relies on in a device client, as a locale.
    \<open>Deployment\<close>: the service with its HTTP client whose transport is the model of the node.
    \<open>EndToEnd\<close>: the API over that service, the whole system.
  \<^item> \<open>Validation\<close>: \<^verbatim>\<open>scripts/validate_repository.py\<close>, the check behind \<^verbatim>\<open>make validate\<close>.
\<close>

text \<open>
  \<^bold>\<open>What is shown.\<close>

  \<^item> The service, over every sequence of operations: effects need an authorised approval of the
    exact payload or the owner's undo (\<open>approval_gate\<close>), a decision is final, an undo is bound to
    the receipt, files outside the managed directory are never touched, the two approval
    channels are separate, receipts are truthful and histories append-only; a pending approval
    can always be closed, and after five minutes every decision on it fails and the task can only
    lapse. The service refines the small machine of task states (\<open>service_refines_lifecycle\<close>): the
    log of every reachable task is a path of the transition table to its state, with the
    attempts that an exception aborted in between. What such an exception leaves behind is stated
    by \<open>approval_survives_exception\<close>: the approval stays pending. When the host cooperates, a
    request for a note is carried out to the approved bytes and undone again (\<open>note_lifecycle\<close>).
  \<^item> The components: the transition table is acyclic with at most eight steps; policy is
    fail-closed and agrees with the executor; every utterance is classified; plans are
    well-formed and fail only on unacceptable notes; titles are safe file names; creating a note
    never overwrites and undoing it restores every file; signatures bind envelopes.
  \<^item> The node: an envelope takes effect at most once; only admitted requests act, on the
    configured program or the recorded process. The gateway: where every phone session comes
    from, and the pairing round trip. The API: control endpoints are local, remote effects need
    a paired phone, pairing attempts are rate-limited.
  \<^item> The node with threads: in every schedule it acts at most once per admission, and a nonce is
    accepted again only after some clock reading past the expiry of its first envelope. The
    last condition is sharp: \<open>delayed_replay\<close> is a schedule in which one envelope is admitted
    twice, because the clock is read before the lock is taken.
  \<^item> Across processes: the client and the node agree end to end (\<open>device_roundtrip\<close>). Over any
    sequence of service operations (\<open>process_needs_phone_consent\<close>) or of HTTP requests
    (\<open>process_needs_paired_phone\<close>) a process starts only with the consent of a phone and stops
    only by the owner's undo; and when host and network cooperate, an approved command does
    complete and its undo does remove the process (\<open>phone_command_lifecycle\<close>).
  \<^item> The repository check returns 0 exactly when its four conditions hold.

  \<^bold>\<open>Interfaces.\<close> Each contract that a part relies on is a locale, interpreted on the model of the
  part that provides it: \<open>dictionary\<close> on the insertion-ordered dictionaries, \<open>invariant_machine\<close> on the
  service (for its invariant, and with the audit of its logs) and on the device node, \<open>receipt_ledger\<close> on the ledger, \<open>ranked_transitions\<close> on the
  lifecycle, \<open>confined_store\<close> on the note store, \<open>device_contract\<close> on the disabled client and on the
  HTTP client over the node.

  \<^bold>\<open>Conventions of the model.\<close>

  \<^item> Parameters. SHA-256, HMAC, UUID version 5, NFKC, the case and alphanumeric tables and the
    text of a time stamp are fields of the record \<open>platform\<close>; \<open>digests_ok\<close> says that digests are
    64 hexadecimal digits. The network is a \<open>transport\<close> argument of the HTTP client. What one
    operation reads from outside (each call site of the clock, random tokens and draws, answers
    and errors of the operating system, of git and of a process handle) is a record given to
    the operation (\<open>os_env\<close>, \<open>workspace_probe\<close>, \<open>exec_env\<close>, \<open>service_env\<close>, \<open>node_env\<close>, \<open>api_env\<close>),
    universally quantified in every property.
  \<^item> Errors. A function that may raise returns \<open>exn + 'a\<close>; a stateful one also returns the state
    it leaves, so partial effects before an exception are visible. The event list of a stored
    task grows in place, as in the source, and a stored task is otherwise replaced on success.
  \<^item> Time is an integer of microseconds; every \<open>datetime\<close> of the program is aware, and a naive
    one sent by a client is not representable. Field constraints are those of the pydantic
    models; parsing a body into a model is the validity check alone. The properties of the API
    hold for every body, valid or not: FastAPI answers an invalid one with 422 before the handler
    runs, so it only removes requests. The fixed confirmation text of a rollback request, which
    the handler does not read, is such a check and is not part of \<open>PostRollback\<close>.
  \<^item> Parameters of plans and device envelopes are strings, integers and truth values, all that
    the planner and the client produce; the other JSON values that \<open>dict[str, object]\<close> admits are not
    representable. \<open>classify_intent\<close> is total on code points; an utterance with a lone surrogate
    is refused with the request and does not reach it.
  \<^item> Bounds. No fuel is used: every recursion of the model is structural or has a proved
    measure, and the twenty draws of a pairing code are the list of the first twenty.

  \<^bold>\<open>Not modelled.\<close> Threads of the core API: an operation of the service or of the gateway holds
  its lock throughout and is one step, so the properties of their runs hold for every order
  in which threads enter them. A request that takes two locks one after the other (rate
  limiter and gateway, gateway and service) is one step of \<open>Api\<close>; what other requests do between
  the two is left out there. For the node, \<open>Threads\<close> has those steps. Deep copies
  of returned models have no counterpart, because values are immutable here. FastAPI and
  pydantic internals, the static assets mount, the browser pages, the package entry points
  (\<^verbatim>\<open>__init__.py\<close>, \<^verbatim>\<open>services/core-api/main.py\<close>, \<^verbatim>\<open>libs/common-python/nexuss_models.py\<close>: a version
  constant, re-exports, and a copy of two contracts that nothing imports).
\<close>

end
